(* ===== verification/Prelude.thy ===== *)
theory Prelude
  imports Complex_Main "HOL-Library.Sublist"
begin

text \<open>
  Shared by every component: database transactions as an exception-and-state monad, tables as
  lists of rows with a key, and the two contracts the components are proved against
  (\<open>tx_rel\<close> for relations every step of a handler keeps, \<open>row_store\<close> for a table of the database).
\<close>

named_theorems tx_inv \<open>what a successful run of a transaction step says\<close>
named_theorems tx_run \<open>running a transaction step\<close>

section \<open>Errors\<close>

text \<open>
  The exception classes of \<^verbatim>\<open>app/core/exceptions.py\<close>; the message strings are not part of the model.
  \<open>IntegrityError\<close> and \<open>DataError\<close> are what the database driver raises at a flush when a constraint
  of the schema is violated or a value does not fit its column.
\<close>

datatype error =
    BadRequestError | UnauthorizedError | ForbiddenError | NotFoundError | ConflictError
  | ValidationError | InsufficientFundsError | BetNotAvailableError | BetExpiredError
  | SelfBetError | PredictionConflictError | MatchNotAvailableError | AccountIneligibleError
  | SettlementIdempotencyError | IntegrityError | DataError

fun status_code :: "error \<Rightarrow> int" where
  "status_code BadRequestError = 400"
| "status_code UnauthorizedError = 401"
| "status_code ForbiddenError = 403"
| "status_code NotFoundError = 404"
| "status_code ConflictError = 409"
| "status_code ValidationError = 422"
| "status_code InsufficientFundsError = 422"
| "status_code BetNotAvailableError = 409"
| "status_code BetExpiredError = 409"
| "status_code SelfBetError = 422"
| "status_code PredictionConflictError = 422"
| "status_code MatchNotAvailableError = 422"
| "status_code AccountIneligibleError = 403"
| "status_code SettlementIdempotencyError = 409"
| "status_code IntegrityError = 500"
| "status_code DataError = 500"

section \<open>Transactions\<close>

text \<open>
  A step of a transaction reads the session's state and returns an error or a value and the new
  state. An error carries no state: whoever catches it rolls the transaction back.
\<close>

type_synonym ('s, 'a) tx = "'s \<Rightarrow> error + 'a \<times> 's"

definition ret :: "'a \<Rightarrow> ('s, 'a) tx" where
  "ret x = (\<lambda>s. Inr (x, s))"

definition throw :: "error \<Rightarrow> ('s, 'a) tx" where
  "throw e = (\<lambda>s. Inl e)"

definition bind_tx :: "('s, 'a) tx \<Rightarrow> ('a \<Rightarrow> ('s, 'b) tx) \<Rightarrow> ('s, 'b) tx" where
  "bind_tx m f = (\<lambda>s. case m s of Inl e \<Rightarrow> Inl e | Inr (x, s') \<Rightarrow> f x s')"

definition seq_tx :: "('s, 'a) tx \<Rightarrow> ('s, 'b) tx \<Rightarrow> ('s, 'b) tx" where
  "seq_tx m n = bind_tx m (\<lambda>_. n)"

definition gets :: "('s \<Rightarrow> 'a) \<Rightarrow> ('s, 'a) tx" where
  "gets f = (\<lambda>s. Inr (f s, s))"

definition modify :: "('s \<Rightarrow> 's) \<Rightarrow> ('s, unit) tx" where
  "modify f = (\<lambda>s. Inr ((), f s))"

definition raise_if :: "bool \<Rightarrow> error \<Rightarrow> ('s, unit) tx" where
  "raise_if b e = (if b then throw e else ret ())"

definition require_some :: "error \<Rightarrow> 'a option \<Rightarrow> ('s, 'a) tx" where
  "require_some e r = (case r of None \<Rightarrow> throw e | Some x \<Rightarrow> ret x)"

fun for_each :: "('a \<Rightarrow> ('s, unit) tx) \<Rightarrow> 'a list \<Rightarrow> ('s, unit) tx" where
  "for_each f [] = ret ()"
| "for_each f (x # xs) = seq_tx (f x) (for_each f xs)"

lemma ret_inv [tx_inv, simp]: "ret x s = Inr (y, s') \<longleftrightarrow> y = x \<and> s' = s"
  by (auto simp: ret_def)

lemma ret_not_error [simp]: "ret x s \<noteq> Inl e"
  by (simp add: ret_def)

lemma throw_inv [tx_inv, simp]: "throw e s = Inr (y, s') \<longleftrightarrow> False"
  by (simp add: throw_def)

lemma bind_tx_inv [tx_inv]:
  "bind_tx m f s = Inr (y, s'') \<longleftrightarrow> (\<exists>x s'. m s = Inr (x, s') \<and> f x s' = Inr (y, s''))"
  by (auto simp: bind_tx_def split: sum.splits)

lemma seq_tx_inv [tx_inv]:
  "seq_tx m n s = Inr (y, s'') \<longleftrightarrow> (\<exists>x s'. m s = Inr (x, s') \<and> n s' = Inr (y, s''))"
  by (auto simp: seq_tx_def bind_tx_inv)

lemma gets_inv [tx_inv, simp]: "gets f s = Inr (y, s') \<longleftrightarrow> y = f s \<and> s' = s"
  by (auto simp: gets_def)

lemma modify_inv [tx_inv, simp]: "modify f s = Inr (y, s') \<longleftrightarrow> s' = f s"
  by (auto simp: modify_def)

lemma raise_if_inv [tx_inv, simp]: "raise_if b e s = Inr (y, s') \<longleftrightarrow> \<not> b \<and> s' = s"
  by (auto simp: raise_if_def)

lemma require_some_inv [tx_inv, simp]:
  "require_some e r s = Inr (y, s') \<longleftrightarrow> r = Some y \<and> s' = s"
  by (auto simp: require_some_def split: option.splits)

lemmas tx_run_basic [tx_run] = ret_def throw_def gets_def modify_def raise_if_def

lemma bind_tx_run [tx_run]:
  "bind_tx m f s = (case m s of Inl e \<Rightarrow> Inl e | Inr (x, s') \<Rightarrow> f x s')"
  by (simp add: bind_tx_def)

lemma seq_tx_run [tx_run]:
  "seq_tx m n s = (case m s of Inl e \<Rightarrow> Inl e | Inr (_, s') \<Rightarrow> n s')"
  by (simp add: seq_tx_def bind_tx_def)

lemma require_some_run [tx_run]:
  "require_some e (Some x) = ret x" "require_some e None = throw e"
  by (simp_all add: require_some_def)

lemma seq_ret_left [simp]: "seq_tx (ret x) m = m"
  by (rule ext) (simp add: tx_run)

lemma raise_if_False [simp]: "raise_if False e = ret ()"
  by (simp add: raise_if_def)

lemma guarded_run: "seq_tx (raise_if b e) m s = Inr r \<longleftrightarrow> \<not> b \<and> m s = Inr r"
  by (cases r) (auto simp: seq_tx_inv)

text \<open>A step that succeeds in every state.\<close>

definition never_fails :: "('s, 'a) tx \<Rightarrow> bool" where
  "never_fails m \<longleftrightarrow> (\<forall>s. \<exists>x s'. m s = Inr (x, s'))"

lemma never_fails_seq: "never_fails m \<Longrightarrow> never_fails n \<Longrightarrow> never_fails (seq_tx m n)"
  unfolding never_fails_def seq_tx_inv by blast

lemma never_failsD: "never_fails m \<Longrightarrow> \<exists>x s'. m s = Inr (x, s')"
  by (simp add: never_fails_def)

text \<open>A committed transaction: the state after a success, the state before it after an error.\<close>

definition commit :: "('s, 'a) tx \<Rightarrow> 's \<Rightarrow> 's" where
  "commit m s = (case m s of Inl e \<Rightarrow> s | Inr (x, s') \<Rightarrow> s')"

lemma commit_cases:
  obtains "commit m s = s" | x s' where "m s = Inr (x, s')" and "commit m s = s'"
  by (cases "m s") (auto simp: commit_def split: prod.splits)

section \<open>Relations kept by every step\<close>

definition keeps :: "('s \<Rightarrow> 's \<Rightarrow> bool) \<Rightarrow> ('s, 'a) tx \<Rightarrow> bool" where
  "keeps R m \<longleftrightarrow> (\<forall>s x s'. m s = Inr (x, s') \<longrightarrow> R s s')"

lemma keepsD: "keeps R m \<Longrightarrow> m s = Inr (x, s') \<Longrightarrow> R s s'"
  by (auto simp: keeps_def)

lemma keepsI: "(\<And>s x s'. m s = Inr (x, s') \<Longrightarrow> R s s') \<Longrightarrow> keeps R m"
  by (auto simp: keeps_def)

text \<open>The contract: a preorder on states. A handler keeps it when each of its steps does.\<close>

locale tx_rel =
  fixes R :: "'s \<Rightarrow> 's \<Rightarrow> bool"
  assumes R_refl: "R s s"
    and R_trans: "R s s' \<Longrightarrow> R s' s'' \<Longrightarrow> R s s''"
begin

lemma keeps_ret: "keeps R (ret x)"
  by (auto simp: keeps_def intro: R_refl)

lemma keeps_throw: "keeps R (throw e)"
  by (auto simp: keeps_def)

lemma keeps_gets: "keeps R (gets f)"
  by (auto simp: keeps_def intro: R_refl)

lemma keeps_raise_if: "keeps R (raise_if b e)"
  by (auto simp: keeps_def intro: R_refl)

lemma keeps_require_some: "keeps R (require_some e r)"
  by (auto simp: keeps_def intro: R_refl)

lemma keeps_bind: "keeps R m \<Longrightarrow> (\<And>x. keeps R (f x)) \<Longrightarrow> keeps R (bind_tx m f)"
  unfolding keeps_def bind_tx_inv by (blast intro: R_trans)

lemma keeps_seq: "keeps R m \<Longrightarrow> keeps R n \<Longrightarrow> keeps R (seq_tx m n)"
  unfolding keeps_def seq_tx_inv by (blast intro: R_trans)

lemma keeps_if: "(b \<Longrightarrow> keeps R m) \<Longrightarrow> (\<not> b \<Longrightarrow> keeps R n) \<Longrightarrow> keeps R (if b then m else n)"
  by simp

lemma keeps_let: "(\<And>x. keeps R (f x)) \<Longrightarrow> keeps R (let x = t in f x)"
  by simp

lemma keeps_option:
  "keeps R m \<Longrightarrow> (\<And>x. keeps R (f x)) \<Longrightarrow> keeps R (case r of None \<Rightarrow> m | Some x \<Rightarrow> f x)"
  by (cases r) auto

lemma keeps_prod: "(\<And>a b. keeps R (f a b)) \<Longrightarrow> keeps R (case p of (a, b) \<Rightarrow> f a b)"
  by (cases p) auto

lemma keeps_for_each: "(\<And>x. x \<in> set xs \<Longrightarrow> keeps R (f x)) \<Longrightarrow> keeps R (for_each f xs)"
  by (induction xs) (auto intro: keeps_ret keeps_seq)

lemma keeps_modify: "(\<And>s. R s (f s)) \<Longrightarrow> keeps R (modify f)"
  by (auto simp: keeps_def)

lemmas keeps_steps =
  keeps_ret keeps_throw keeps_gets keeps_raise_if keeps_require_some keeps_bind keeps_seq
  keeps_let keeps_if keeps_option keeps_prod

lemma commit_rel: "keeps R m \<Longrightarrow> R s (commit m s)"
  by (rule commit_cases [of m s]) (auto dest: keepsD intro: R_refl)

end

section \<open>Tables\<close>

text \<open>
  A table is the list of its rows in insertion order; \<open>key\<close> is its primary (or unique) key.
\<close>

definition row_get :: "('r \<Rightarrow> 'k) \<Rightarrow> 'k \<Rightarrow> 'r list \<Rightarrow> 'r option" where
  "row_get key k t = find (\<lambda>r. key r = k) t"

definition row_upd :: "('r \<Rightarrow> 'k) \<Rightarrow> 'k \<Rightarrow> ('r \<Rightarrow> 'r) \<Rightarrow> 'r list \<Rightarrow> 'r list" where
  "row_upd key k f t = map (\<lambda>r. if key r = k then f r else r) t"

definition keyed :: "('r \<Rightarrow> 'k) \<Rightarrow> 'r list \<Rightarrow> bool" where
  "keyed key t \<longleftrightarrow> distinct (map key t)"

lemma row_get_Nil [simp]: "row_get key k [] = None"
  by (simp add: row_get_def)

lemma row_get_Cons [simp]:
  "row_get key k (r # t) = (if key r = k then Some r else row_get key k t)"
  by (simp add: row_get_def)

lemma row_upd_Nil [simp]: "row_upd key k f [] = []"
  by (simp add: row_upd_def)

lemma row_upd_Cons [simp]:
  "row_upd key k f (r # t) = (if key r = k then f r else r) # row_upd key k f t"
  by (simp add: row_upd_def)

lemma row_get_SomeD: "row_get key k t = Some r \<Longrightarrow> r \<in> set t \<and> key r = k"
  by (induction t) (auto split: if_splits)

lemma row_get_None: "row_get key k t = None \<longleftrightarrow> k \<notin> key ` set t"
  by (induction t) auto

lemma row_get_append:
  "row_get key k (t @ u) = (case row_get key k t of None \<Rightarrow> row_get key k u | Some r \<Rightarrow> Some r)"
  by (induction t) auto

lemma row_get_in: "keyed key t \<Longrightarrow> r \<in> set t \<Longrightarrow> row_get key (key r) t = Some r"
  by (induction t) (auto simp: keyed_def)

lemma row_get_upd:
  assumes "\<And>r. key (f r) = key r"
  shows "row_get key k (row_upd key k' f t) =
    (if k = k' then map_option f (row_get key k t) else row_get key k t)"
  by (induction t) (auto simp: assms)

lemma map_row_upd: "(\<And>r. g (f r) = g r) \<Longrightarrow> map g (row_upd key k f t) = map g t"
  by (induction t) auto

lemma map_key_upd: "(\<And>r. key (f r) = key r) \<Longrightarrow> map key (row_upd key k f t) = map key t"
  by (induction t) auto

lemma keyed_upd: "(\<And>r. key (f r) = key r) \<Longrightarrow> keyed key (row_upd key k f t) = keyed key t"
  by (simp add: keyed_def map_key_upd)

lemma keyed_append_one:
  "keyed key (t @ [r]) \<longleftrightarrow> keyed key t \<and> row_get key (key r) t = None"
  by (auto simp: keyed_def row_get_None)

lemma set_row_upd: "set (row_upd key k f t) = (\<lambda>r. if key r = k then f r else r) ` set t"
  by (auto simp: row_upd_def)

lemma row_upd_absent: "row_get key k t = None \<Longrightarrow> row_upd key k f t = t"
  by (induction t) (auto split: if_splits)

lemma length_row_upd [simp]: "length (row_upd key k f t) = length t"
  by (simp add: row_upd_def)

lemma sum_list_zero: "(\<And>x. x \<in> set xs \<Longrightarrow> x = 0) \<Longrightarrow> sum_list xs = (0 :: 'n :: ab_group_add)"
  by (induction xs) auto

lemma all_row_upd:
  assumes "\<forall>r \<in> set t. P r" and "\<And>r. row_get key k t = Some r \<Longrightarrow> P (f r)" and "keyed key t"
  shows "\<forall>r \<in> set (row_upd key k f t). P r"
proof
  fix r'
  assume "r' \<in> set (row_upd key k f t)"
  then obtain r where r: "r \<in> set t" and r': "r' = (if key r = k then f r else r)"
    by (auto simp: set_row_upd)
  show "P r'"
  proof (cases "key r = k")
    case True
    have "row_get key k t = Some r" using row_get_in [OF assms(3) r] True by simp
    then have "P (f r)" by (rule assms(2))
    with True r' show ?thesis by simp
  qed (use r r' assms(1) in simp)
qed

lemma sum_row_upd:
  fixes g :: "'r \<Rightarrow> 'n :: ab_group_add"
  shows "keyed key t \<Longrightarrow> row_get key k t = Some r \<Longrightarrow>
    sum_list (map g (row_upd key k f t)) = sum_list (map g t) - g r + g (f r)"
proof (induction t)
  case (Cons q t)
  show ?case
  proof (cases "key q = k")
    case True
    with Cons.prems have "row_get key k t = None"
      by (auto simp: keyed_def row_get_None)
    with True Cons.prems show ?thesis by (simp add: row_upd_absent)
  next
    case False
    with Cons show ?thesis by (simp add: keyed_def algebra_simps)
  qed
qed simp

text \<open>
  The interface a repository offers on one table of the state: read by key and change the row
  with a key in place. The laws say that they act as \<open>row_get\<close> and \<open>row_upd\<close> on that table.
\<close>

locale row_store =
  fixes key :: "'r \<Rightarrow> 'k"
    and rows :: "'s \<Rightarrow> 'r list"
    and put :: "'k \<Rightarrow> ('r \<Rightarrow> 'r) \<Rightarrow> 's \<Rightarrow> 's"
  assumes rows_put: "rows (put k f s) = row_upd key k f (rows s)"
begin

lemma get_put:
  "(\<And>r. key (f r) = key r) \<Longrightarrow> row_get key k (rows (put k' f s)) =
    (if k = k' then map_option f (row_get key k (rows s)) else row_get key k (rows s))"
  by (simp add: rows_put row_get_upd)

lemma keyed_put:
  "(\<And>r. key (f r) = key r) \<Longrightarrow> keyed key (rows (put k f s)) = keyed key (rows s)"
  by (simp add: rows_put keyed_upd)

lemma sum_put:
  fixes g :: "'r \<Rightarrow> 'n :: ab_group_add"
  assumes "keyed key (rows s)" and "row_get key k (rows s) = Some r"
  shows "sum_list (map g (rows (put k f s))) = sum_list (map g (rows s)) - g r + g (f r)"
  using assms by (simp add: rows_put sum_row_upd)

lemma all_put:
  assumes "keyed key (rows s)" and "\<forall>r \<in> set (rows s). P r"
    and "\<And>r. row_get key k (rows s) = Some r \<Longrightarrow> P (f r)"
  shows "\<forall>r \<in> set (rows (put k f s)). P r"
  unfolding rows_put using assms(2,3,1) by (rule all_row_upd)

end

section \<open>Lifecycles\<close>

text \<open>
  The contract of a status column: under every step of the system a row stays and its status follows an
  edge or does not change. A status without outgoing edges is then final.
\<close>

definition rows_follow ::
  "('r \<Rightarrow> 'k) \<Rightarrow> ('r \<Rightarrow> 'st) \<Rightarrow> ('st \<Rightarrow> 'st \<Rightarrow> bool) \<Rightarrow> 'r list \<Rightarrow> 'r list \<Rightarrow> bool" where
  "rows_follow key status edge t t' \<longleftrightarrow> (\<forall>k r. row_get key k t = Some r \<longrightarrow>
     (\<exists>r'. row_get key k t' = Some r' \<and> edge\<^sup>*\<^sup>* (status r) (status r')))"

lemma rows_follow_refl [simp]: "rows_follow key status edge t t"
  by (auto simp: rows_follow_def)

lemma rows_follow_trans:
  "rows_follow key status edge t u \<Longrightarrow> rows_follow key status edge u v \<Longrightarrow> rows_follow key status edge t v"
  unfolding rows_follow_def by (meson rtranclp_trans)

lemma rows_follow_append: "rows_follow key status edge t (t @ u)"
  by (auto simp: rows_follow_def row_get_append)

lemma rows_follow_upd:
  assumes "row_get key k t = Some r" and "\<And>r. key (f r) = key r"
    and "edge (status r) (status (f r)) \<or> status (f r) = status r"
  shows "rows_follow key status edge t (row_upd key k f t)"
  using assms by (auto simp: rows_follow_def row_get_upd)

lemma rows_follow_map:
  assumes "\<And>r. key (f r) = key r" and "\<And>r. edge (status r) (status (f r)) \<or> status (f r) = status r"
  shows "rows_follow key status edge t (map f t)"
proof -
  have "row_get key k (map f t) = map_option f (row_get key k t)" for k
    by (induction t) (auto simp: assms(1))
  then show ?thesis using assms(2) unfolding rows_follow_def by (metis option.simps(9) r_into_rtranclp rtranclp.rtrancl_refl)
qed

locale lifecycle =
  fixes key :: "'r \<Rightarrow> 'k"
    and rows :: "'s \<Rightarrow> 'r list"
    and status :: "'r \<Rightarrow> 'st"
    and edge :: "'st \<Rightarrow> 'st \<Rightarrow> bool"
    and step :: "'s \<Rightarrow> 's \<Rightarrow> bool"
  assumes follows: "step s s' \<Longrightarrow> rows_follow key status edge (rows s) (rows s')"
begin

lemma status_path: "step\<^sup>*\<^sup>* s s' \<Longrightarrow> rows_follow key status edge (rows s) (rows s')"
  by (induction rule: rtranclp_induct) (auto dest: follows intro: rows_follow_trans)

lemma final_status:
  assumes "step\<^sup>*\<^sup>* s s'" and "row_get key k (rows s) = Some r" and "\<And>st. \<not> edge (status r) st"
  shows "\<exists>r'. row_get key k (rows s') = Some r' \<and> status r' = status r"
  using status_path [OF assms(1)] assms(2,3) unfolding rows_follow_def by (metis converse_rtranclpE)

end

end
