(* ===== verification/Decimals.thy ===== *)
theory Decimals
  imports Prelude
begin

text \<open>
  \<^verbatim>\<open>app/utils/decimal_utils.py\<close>: money arithmetic. A Python \<open>Decimal\<close> is the rational number it denotes;
  the 28-digit context precision is not modelled (sums and products of stored values need at most
  20 digits). \<open>ROUND_HALF_UP\<close> rounds ties away from zero.
\<close>

type_synonym decimal = rat

definition round_half_away :: "rat \<Rightarrow> int" where
  "round_half_away x = (if 0 \<le> x then \<lfloor>x + 1 / 2\<rfloor> else - \<lfloor>1 / 2 - x\<rfloor>)"

definition round_half_up :: "decimal \<Rightarrow> decimal" where
  "round_half_up v = of_int (round_half_away (v * 100)) / 100"

definition safe_add :: "decimal \<Rightarrow> decimal \<Rightarrow> decimal" where
  "safe_add a b = round_half_up (a + b)"

definition safe_subtract :: "decimal \<Rightarrow> decimal \<Rightarrow> decimal" where
  "safe_subtract a b = round_half_up (a - b)"

definition safe_multiply :: "decimal \<Rightarrow> decimal \<Rightarrow> decimal" where
  "safe_multiply v r = round_half_up (v * r)"

definition verify_non_negative :: "decimal \<Rightarrow> ('s, unit) tx" where
  "verify_non_negative v = raise_if (v < 0) ValidationError"

lemma verify_non_negative_inv [tx_inv, simp]:
  "verify_non_negative v s = Inr (y, s') \<longleftrightarrow> 0 \<le> v \<and> s' = s"
  by (auto simp: verify_non_negative_def)

section \<open>Amounts on the cent\<close>

definition on_cent :: "decimal \<Rightarrow> bool" where
  "on_cent v \<longleftrightarrow> v * 100 \<in> \<int>"

text \<open>An amount exactly half way between two cents: the only values where rounding is biased.\<close>

definition half_cent_tie :: "decimal \<Rightarrow> bool" where
  "half_cent_tie v \<longleftrightarrow> v * 100 + 1 / 2 \<in> \<int>"

lemma on_cent_code [code]: "on_cent v \<longleftrightarrow> of_int \<lfloor>v * 100\<rfloor> = v * 100"
  unfolding on_cent_def by (metis Ints_cases Ints_of_int floor_of_int)

lemma half_cent_tie_code [code]:
  "half_cent_tie v \<longleftrightarrow> of_int \<lfloor>v * 100 + 1 / 2\<rfloor> = v * 100 + 1 / 2"
  unfolding half_cent_tie_def by (metis Ints_cases Ints_of_int floor_of_int)

lemma floor_fraction [simp]:
  "\<lfloor>numeral a / numeral b :: rat\<rfloor> = numeral a div numeral b"
  "\<lfloor>1 / numeral b :: rat\<rfloor> = 1 div numeral b"
  using floor_divide_of_int_eq [of "numeral a" "numeral b", where ?'a = rat]
    floor_divide_of_int_eq [of 1 "numeral b", where ?'a = rat] by simp_all

lemma on_cent_0 [simp]: "on_cent 0"
  by (simp add: on_cent_def)

lemma on_cent_add: "on_cent a \<Longrightarrow> on_cent b \<Longrightarrow> on_cent (a + b)"
  by (auto simp: on_cent_def distrib_right intro: Ints_add)

lemma on_cent_double: "on_cent a \<Longrightarrow> on_cent (2 * a)"
  using on_cent_add [of a a] by simp

lemma on_cent_diff: "on_cent a \<Longrightarrow> on_cent b \<Longrightarrow> on_cent (a - b)"
  by (auto simp: on_cent_def left_diff_distrib intro: Ints_diff)

lemma on_cent_round [simp]: "on_cent (round_half_up v)"
  by (simp add: on_cent_def round_half_up_def)

lemma round_half_away_int: "round_half_away (of_int k) = k"
proof -
  have "\<lfloor>of_int k + 1 / 2 :: rat\<rfloor> = k" by linarith
  moreover have "\<lfloor>1 / 2 - of_int k :: rat\<rfloor> = - k" by linarith
  ultimately show ?thesis by (simp add: round_half_away_def)
qed

lemma round_on_cent: "on_cent v \<Longrightarrow> round_half_up v = v"
  by (auto simp: on_cent_def round_half_up_def round_half_away_int elim!: Ints_cases)

lemma on_cent_no_tie: "on_cent v \<Longrightarrow> \<not> half_cent_tie v"
proof
  assume "on_cent v" and "half_cent_tie v"
  then have "(v * 100 + 1 / 2) - v * 100 \<in> \<int>"
    unfolding on_cent_def half_cent_tie_def by (rule Ints_diff [rotated])
  then have "(1 / 2 :: rat) \<in> \<int>" by simp
  then obtain k :: int where "(1 / 2 :: rat) = of_int k" by (auto elim: Ints_cases)
  then have "(1 :: rat) = of_int (2 * k)" by simp
  then have "1 = 2 * k" by (metis of_int_1 of_int_eq_iff)
  then show False by presburger
qed

lemma round_half_away_nonneg: "0 \<le> x \<Longrightarrow> 0 \<le> round_half_away x"
  by (auto simp: round_half_away_def)

lemma round_half_away_mono: "x \<le> y \<Longrightarrow> round_half_away x \<le> round_half_away y"
  unfolding round_half_away_def by (cases "0 \<le> x"; cases "0 \<le> y") (simp; linarith)+

lemma round_nonneg: "0 \<le> v \<Longrightarrow> 0 \<le> round_half_up v"
  by (simp add: round_half_up_def round_half_away_nonneg)

lemma round_mono: "v \<le> w \<Longrightarrow> round_half_up v \<le> round_half_up w"
  by (simp add: round_half_up_def round_half_away_mono divide_right_mono)

lemma round_0 [simp]: "round_half_up 0 = 0"
  using round_on_cent [of 0] by simp

lemma round_error: "\<bar>round_half_up v - v\<bar> \<le> 1 / 200"
proof -
  have "\<bar>of_int (round_half_away (v * 100)) - v * 100\<bar> \<le> 1 / 2"
    unfolding round_half_away_def abs_le_iff by (simp split: if_splits) linarith
  then show ?thesis by (simp add: round_half_up_def abs_le_iff field_simps)
qed

section \<open>The operations on cents\<close>

lemma safe_add_cents: "on_cent a \<Longrightarrow> on_cent b \<Longrightarrow> safe_add a b = a + b"
  by (simp add: safe_add_def round_on_cent on_cent_add)

lemma safe_subtract_cents: "on_cent a \<Longrightarrow> on_cent b \<Longrightarrow> safe_subtract a b = a - b"
  by (simp add: safe_subtract_def round_on_cent on_cent_diff)

lemma on_cent_safe [simp]:
  "on_cent (safe_add a b)" "on_cent (safe_subtract a b)" "on_cent (safe_multiply a b)"
  by (simp_all add: safe_add_def safe_subtract_def safe_multiply_def)

lemma safe_multiply_bounds:
  assumes "on_cent v" and "0 \<le> v" and "0 \<le> r" and "r \<le> 1"
  shows "0 \<le> safe_multiply v r" and "safe_multiply v r \<le> v"
proof -
  show "0 \<le> safe_multiply v r" using assms by (simp add: safe_multiply_def round_nonneg)
  have "v * r \<le> v" using assms by (simp add: mult_left_le)
  then have "round_half_up (v * r) \<le> round_half_up v" by (rule round_mono)
  with assms(1) show "safe_multiply v r \<le> v" by (simp add: safe_multiply_def round_on_cent)
qed

lemma round_add_cent:
  assumes "on_cent x" and "0 \<le> x" and "0 \<le> a"
  shows "round_half_up (x + a) = x + round_half_up a"
proof -
  obtain k where k: "x * 100 = of_int k" using assms(1) by (auto simp: on_cent_def elim: Ints_cases)
  have "\<lfloor>(x + a) * 100 + 1 / 2\<rfloor> = k + \<lfloor>a * 100 + 1 / 2\<rfloor>"
    using k by (simp add: distrib_right add.assoc)
  then show ?thesis
    using assms k by (simp add: round_half_up_def round_half_away_def field_simps)
qed

lemma floor_reflect: "\<lfloor>1 / 2 - x :: rat\<rfloor> = - \<lfloor>x + 1 / 2\<rfloor> + (if x + 1 / 2 \<in> \<int> then 1 else 0)"
proof (cases "x + 1 / 2 \<in> \<int>")
  case True
  then obtain k where "x + 1 / 2 = of_int k" by (auto elim: Ints_cases)
  then have "x = of_int k - 1 / 2" by simp
  then show ?thesis using True by simp
next
  case False
  have "rat_of_int \<lfloor>x + 1 / 2\<rfloor> \<noteq> x + 1 / 2" using False by (metis Ints_of_int)
  then have "rat_of_int \<lfloor>x + 1 / 2\<rfloor> < x + 1 / 2" by (simp add: order_less_le)
  then show ?thesis using False by simp linarith
qed

text \<open>
  Taking a raw amount \<open>a\<close> from a balance on the cent: the rounded difference is the balance less the
  rounded amount, except that a half-cent tie leaves one cent more.
\<close>

lemma round_diff_cent:
  assumes "on_cent x" and "a \<le> x" and "0 \<le> a"
  shows "round_half_up (x - a) = x - round_half_up a + (if half_cent_tie a then 1 / 100 else 0)"
proof -
  obtain k where "x * 100 = of_int k" using assms(1) by (auto simp: on_cent_def elim: Ints_cases)
  then have x: "x = of_int k / 100" by simp
  have "(x - a) * 100 + 1 / 2 = of_int k + (1 / 2 - a * 100)"
    using x by (simp add: left_diff_distrib)
  then have "\<lfloor>(x - a) * 100 + 1 / 2\<rfloor> = k + \<lfloor>1 / 2 - a * 100\<rfloor>" by linarith
  then have "round_half_up (x - a) = of_int (k + \<lfloor>1 / 2 - a * 100\<rfloor>) / 100"
    using assms(2) by (simp add: round_half_up_def round_half_away_def)
  moreover have "round_half_up a = of_int \<lfloor>a * 100 + 1 / 2\<rfloor> / 100"
    using assms(3) by (simp add: round_half_up_def round_half_away_def)
  ultimately show ?thesis
    by (simp only: floor_reflect half_cent_tie_def x of_int_add of_int_minus) (simp add: diff_divide_distrib add_divide_distrib)
qed

lemma round_diff_below:
  assumes "on_cent x" and "x < a" and "0 \<le> a"
  shows "round_half_up (x - a) = x - round_half_up a"
proof -
  obtain k where "x * 100 = of_int k" using assms(1) by (auto simp: on_cent_def elim: Ints_cases)
  then have x: "x = of_int k / 100" by simp
  have "1 / 2 - (x - a) * 100 = (a * 100 + 1 / 2) - of_int k"
    using x by (simp add: left_diff_distrib)
  then have "\<lfloor>1 / 2 - (x - a) * 100\<rfloor> = \<lfloor>a * 100 + 1 / 2\<rfloor> - k" by linarith
  then show ?thesis
    using assms(2,3) x by (simp add: round_half_up_def round_half_away_def diff_divide_distrib)
qed

lemma safe_subtract_raw:
  assumes "on_cent x" and "0 \<le> a" and "\<not> half_cent_tie a"
  shows "safe_subtract x a = x - round_half_up a"
  using round_diff_cent [OF assms(1) _ assms(2)] round_diff_below [OF assms(1) _ assms(2)] assms(3)
  by (cases "a \<le> x") (auto simp: safe_subtract_def)

lemma safe_add_raw:
  "on_cent x \<Longrightarrow> 0 \<le> x \<Longrightarrow> 0 \<le> a \<Longrightarrow> safe_add x a = x + round_half_up a"
  by (simp add: safe_add_def round_add_cent)

end
