(* ===== verification/Models.thy ===== *)
theory Models
  imports Decimals
begin

text \<open>
  The enumerations of \<^verbatim>\<open>app/models/enums.py\<close>, the rows of \<^verbatim>\<open>app/models/*.py\<close> and the state of the
  database a request works on. A UUID is the number it denotes (the order of its string form is
  the order of the number), a timestamp counts microseconds. A formatted string is kept as the list of
  its literal and interpolated parts. Left out are columns the
  application never reads (row ids of the audit tables), relationships, and the time stamps \<open>created_at\<close> (but that of a bet) and
  \<open>updated_at\<close>, which some responses show.
\<close>

type_synonym uuid = nat
type_synonym datetime = int

definition minutes :: "int \<Rightarrow> datetime" where
  "minutes m = m * 60 * 1000000"

definition seconds :: "int \<Rightarrow> datetime" where
  "seconds k = k * 1000000"

datatype text_part = Lit string | IdPart uuid | MoneyPart decimal | TimePart datetime
type_synonym text_value = "text_part list"

fun empty_part :: "text_part \<Rightarrow> bool" where
  "empty_part (Lit l) = (l = [])"
| "empty_part p = False"

text \<open>Python's \<open>notes or default\<close>: \<open>None\<close> and the empty string are both false.\<close>

definition or_default :: "text_value option \<Rightarrow> text_value \<Rightarrow> text_value" where
  "or_default n d = (case n of None \<Rightarrow> d | Some t \<Rightarrow> if list_all empty_part t then d else t)"

section \<open>Enumerations\<close>

datatype user_status = US_active | US_suspended | US_banned
datatype user_role = role_user | role_admin
datatype football_outcome = home_win | away_win | draw
datatype match_status =
    MS_scheduled | MS_live | MS_completed | MS_postponed | MS_cancelled | MS_abandoned
datatype bet_status =
    OPEN | MATCHED | PENDING_SETTLEMENT | SETTLED | CANCELLED | VOIDED | UNDER_REVIEW
datatype settlement_outcome = creator_wins | opponent_wins | no_winner | voided
datatype ledger_entry_type =
    STAKE_LOCK | STAKE_UNLOCK | VOID_REFUND | SETTLEMENT_DEDUCT | PAYOUT_CREDIT | REFUND_CREDIT
  | FEE_DEDUCT | DEPOSIT | WITHDRAWAL | WITHDRAWAL_HOLD | WITHDRAWAL_RELEASE
datatype balance_field = available | locked
datatype ledger_direction = credit | debit
datatype ledger_reference_type =
    ref_bet | ref_settlement | ref_void | ref_cancellation | ref_deposit | ref_withdrawal
datatype platform_entry_type = FEE_COLLECTION | FEE_COLLECTION_NO_WINNER
datatype settlement_path_type = path_winner | path_no_winner
datatype fee_type = WINNER_FEE | NO_WINNER_FEE
datatype deposit_status = DS_pending | DS_processing | DS_completed | DS_failed | DS_cancelled
datatype withdrawal_status =
    WS_pending | WS_approved | WS_processing | WS_completed | WS_failed | WS_rejected
datatype bet_event_type =
    EV_CREATED | EV_MATCHED | EV_PENDING_SETTLEMENT | EV_SETTLED | EV_CANCELLED | EV_VOIDED
  | EV_UNDER_REVIEW | EV_ADMIN_OVERRIDE

section \<open>Rows\<close>

record user =
  user_id :: uuid
  email :: string
  phone_number :: "string option"
  display_name :: string
  password_hash :: string
  urole :: user_role
  ustatus :: user_status

record wallet =
  wallet_id :: uuid
  wallet_user :: uuid
  available_balance :: decimal
  locked_balance :: decimal
  wallet_currency :: string
  version :: int

record ledger_entry =
  le_user :: uuid
  le_wallet :: uuid
  entry_type :: ledger_entry_type
  le_field :: balance_field
  direction :: ledger_direction
  le_amount :: decimal
  reference_type :: ledger_reference_type
  reference_id :: uuid
  available_balance_after :: decimal
  locked_balance_after :: decimal
  le_notes :: "text_value option"

record match_row =
  match_id :: uuid
  external_id :: string
  provider_name :: "string option"
  home_team :: string
  away_team :: string
  competition :: string
  kickoff_at :: datetime
  mstatus :: match_status
  result_home_score :: "int option"
  result_away_score :: "int option"
  outcome :: "football_outcome option"
  result_confirmed_at :: "datetime option"
  last_synced_at :: "datetime option"

record bet =
  bet_id :: uuid
  bet_match :: uuid
  creator_id :: uuid
  opponent_id :: "uuid option"
  creator_prediction :: football_outcome
  opponent_prediction :: "football_outcome option"
  stake_amount :: decimal
  bet_currency :: string
  bstatus :: bet_status
  settlement_outcome_of :: "settlement_outcome option"
  winner_id :: "uuid option"
  platform_fee :: "decimal option"
  payout_amount :: "decimal option"
  applied_winner_fee_rate :: "decimal option"
  applied_no_winner_fee_rate :: "decimal option"
  expires_at :: datetime
  settled_at :: "datetime option"
  bet_created_at :: datetime

datatype payload_value = JNone | JText text_value | JList "text_value list"

record bet_event =
  ev_bet :: uuid
  event_type :: bet_event_type
  actor_id :: "uuid option"
  actor_label :: string
  payload :: "(string \<times> payload_value) list"

record platform_account =
  pa_id :: uuid
  account_code :: string
  pa_name :: string
  pa_currency :: string
  pa_balance :: decimal
  pa_version :: int

record platform_ledger_entry =
  ple_account :: uuid
  ple_entry_type :: platform_entry_type
  ple_direction :: ledger_direction
  ple_amount :: decimal
  ple_reference_type :: ledger_reference_type
  ple_reference_id :: uuid
  balance_after :: decimal
  settlement_path :: settlement_path_type

record fee_config =
  fc_type :: fee_type
  fc_rate :: decimal
  fc_currency :: string
  effective_from :: datetime

record deposit_request =
  dep_id :: uuid
  dep_user :: uuid
  dep_wallet :: uuid
  dep_amount :: decimal
  dep_currency :: string
  dstatus :: deposit_status
  payment_provider :: "string option"
  provider_reference :: "string option"
  client_reference :: "string option"
  dep_notes :: "text_value option"
  checkout_url :: "string option"
  dep_completed_at :: "datetime option"
  dep_failed_at :: "datetime option"

record withdrawal_request =
  wd_id :: uuid
  wd_user :: uuid
  wd_wallet :: uuid
  wd_amount :: decimal
  wd_currency :: string
  wstatus :: withdrawal_status
  destination_account :: "string option"
  destination_type :: "string option"
  rejection_reason :: "string option"
  approved_at :: "datetime option"
  wd_completed_at :: "datetime option"
  wd_failed_at :: "datetime option"

section \<open>The database\<close>

text \<open>
  \<open>row_locks\<close> lists the rows the running transaction has taken with \<open>SELECT ... FOR UPDATE\<close>, in order.
  \<open>enforce_checks\<close> tells the two ways the repository creates its tables apart: \<^verbatim>\<open>schema.sql\<close> with its CHECK
  constraints, or the ORM metadata (\<^verbatim>\<open>tests/conftest.py\<close>), which has none.
\<close>

datatype row_lock = BetRow uuid | MatchRow uuid | WalletRow uuid | PlatformRow string

record db =
  users :: "user list"
  wallets :: "wallet list"
  ledger :: "ledger_entry list"
  matches :: "match_row list"
  bets :: "bet list"
  bet_events :: "bet_event list"
  platform_accounts :: "platform_account list"
  platform_ledger :: "platform_ledger_entry list"
  fee_configs :: "fee_config list"
  deposits :: "deposit_request list"
  withdrawals :: "withdrawal_request list"
  row_locks :: "row_lock list"
  enforce_checks :: bool

type_synonym 'a dbtx = "(db, 'a) tx"

record settings =
  app_env :: string
  app_debug :: bool
  app_host :: string
  app_port :: int
  platform_account_code :: string
  platform_currency :: string
  min_stake_amount :: decimal
  max_stake_amount :: decimal
  bet_creation_cutoff_minutes :: int
  secret_key :: string
  jwt_algorithm :: string
  access_token_expire_minutes :: int
  password_reset_token_expire_minutes :: int
  payfast_enabled :: bool
  payfast_sandbox :: bool
  payfast_merchant_id :: string
  payfast_merchant_key :: string
  payfast_passphrase :: string
  payfast_return_url :: string
  payfast_cancel_url :: string
  payfast_notify_url :: string
  sports_provider :: string
  sports_provider_enabled :: bool
  sports_provider_api_key :: string
  sports_provider_base_url :: string
  sports_provider_timeout_seconds :: int
  sports_provider_sync_days_ahead :: int
  sports_provider_sync_days_back :: int
  league_ids_raw :: string
  cors_origins_raw :: string
  database_url :: "string option"
  db_ssl :: string
  db_host :: string
  db_port :: int
  db_name :: string
  db_user :: string
  db_password :: string
  db_pool_size :: int
  db_max_overflow :: int
  db_pool_timeout :: int
  db_pool_recycle :: int
  seed_test_user_enabled :: bool
  log_level :: string

text \<open>The values the class declares, used where the environment says nothing.\<close>

definition default_settings :: settings where
  "default_settings = \<lparr>app_env = ''development'', app_debug = True, app_host = ''0.0.0.0'', app_port = 8000,
     platform_account_code = ''PLATFORM_FEES_ZAR'', platform_currency = ''ZAR'', min_stake_amount = 10,
     max_stake_amount = 10000, bet_creation_cutoff_minutes = 15, secret_key = ''INSECURE_CHANGE_ME'',
     jwt_algorithm = ''HS256'', access_token_expire_minutes = 60, password_reset_token_expire_minutes = 15,
     payfast_enabled = False, payfast_sandbox = True, payfast_merchant_id = [], payfast_merchant_key = [],
     payfast_passphrase = [], payfast_return_url = ''http://localhost:3000/wallet/deposit/return'',
     payfast_cancel_url = ''http://localhost:3000/wallet/deposit/cancel'',
     payfast_notify_url = ''http://localhost:8000/api/v1/payments/webhooks/payfast'',
     sports_provider = ''api_football'', sports_provider_enabled = False, sports_provider_api_key = [],
     sports_provider_base_url = ''https://v3.football.api-sports.io'', sports_provider_timeout_seconds = 30,
     sports_provider_sync_days_ahead = 7, sports_provider_sync_days_back = 2, league_ids_raw = ''39,140,78,135,61,2'',
     cors_origins_raw = ''http://localhost:3000,http://localhost:5173'', database_url = None, db_ssl = ''auto'',
     db_host = ''localhost'', db_port = 5432, db_name = ''buddy_bet'', db_user = ''buddy_bet_app'',
     db_password = ''change_me'', db_pool_size = 10, db_max_overflow = 20, db_pool_timeout = 30, db_pool_recycle = 1800,
     seed_test_user_enabled = False, log_level = ''INFO''\<rparr>"

section \<open>Constraints of schema.sql\<close>

definition wallet_row_ok :: "wallet \<Rightarrow> bool" where
  "wallet_row_ok w \<longleftrightarrow> 0 \<le> available_balance w \<and> 0 \<le> locked_balance w"

definition ledger_row_ok :: "ledger_entry \<Rightarrow> bool" where
  "ledger_row_ok e \<longleftrightarrow> 0 < le_amount e \<and> 0 \<le> available_balance_after e \<and> 0 \<le> locked_balance_after e"

definition match_row_ok :: "match_row \<Rightarrow> bool" where
  "match_row_ok m \<longleftrightarrow>
     (result_home_score m = None \<longleftrightarrow> result_away_score m = None) \<and>
     (case result_home_score m of None \<Rightarrow> True | Some h \<Rightarrow> 0 \<le> h) \<and>
     (case result_away_score m of None \<Rightarrow> True | Some a \<Rightarrow> 0 \<le> a) \<and>
     (outcome m = None \<or> result_home_score m \<noteq> None) \<and>
     (result_confirmed_at m = None \<or> outcome m \<noteq> None) \<and>
     (case (outcome m, result_home_score m, result_away_score m) of
        (Some r, Some h, Some a) \<Rightarrow>
          (a < h \<and> r = home_win) \<or> (h < a \<and> r = away_win) \<or> (h = a \<and> r = draw)
      | _ \<Rightarrow> True)"

text \<open>
  The column types of a match, which every database has: \<open>VARCHAR(n)\<close> counts characters of the UTF-8 bytes and holds no
  NUL, \<open>INTEGER\<close> has 32 bits.
\<close>

definition text_fits :: "nat \<Rightarrow> string \<Rightarrow> bool" where
  "text_fits n s \<longleftrightarrow> CHR 0x00 \<notin> set s \<and> length (filter (\<lambda>c. (of_char c :: nat) div 64 \<noteq> 2) s) \<le> n"

definition integer_fits :: "int option \<Rightarrow> bool" where
  "integer_fits v \<longleftrightarrow> (case v of None \<Rightarrow> True | Some x \<Rightarrow> - (2 ^ 31) \<le> x \<and> x < 2 ^ 31)"

definition match_row_fits :: "match_row \<Rightarrow> bool" where
  "match_row_fits m \<longleftrightarrow>
     text_fits 200 (external_id m) \<and> (case provider_name m of None \<Rightarrow> True | Some x \<Rightarrow> text_fits 50 x) \<and>
     text_fits 200 (home_team m) \<and> text_fits 200 (away_team m) \<and> text_fits 200 (competition m) \<and>
     integer_fits (result_home_score m) \<and> integer_fits (result_away_score m)"

lemma short_text_fits: "CHR 0x00 \<notin> set s \<Longrightarrow> length s \<le> n \<Longrightarrow> text_fits n s"
  unfolding text_fits_def by (meson le_trans length_filter_le)

lemma integer_fits_simps [simp]:
  "integer_fits None" "integer_fits (Some x) \<longleftrightarrow> - (2 ^ 31) \<le> x \<and> x < 2 ^ 31"
  by (simp_all add: integer_fits_def)

definition winner_identity_ok :: "bet \<Rightarrow> bool" where
  "winner_identity_ok b \<longleftrightarrow> (case settlement_outcome_of b of
     Some creator_wins \<Rightarrow> winner_id b = Some (creator_id b)
   | Some opponent_wins \<Rightarrow> winner_id b \<noteq> None \<and> winner_id b = opponent_id b
   | Some no_winner \<Rightarrow> winner_id b = None
   | Some voided \<Rightarrow> winner_id b = None
   | None \<Rightarrow> True)"

definition positive_amount :: "decimal option \<Rightarrow> bool" where
  "positive_amount a \<longleftrightarrow> (case a of None \<Rightarrow> False | Some x \<Rightarrow> 0 < x)"

definition payout_presence_ok :: "bet \<Rightarrow> bool" where
  "payout_presence_ok b \<longleftrightarrow> (case settlement_outcome_of b of
     Some creator_wins \<Rightarrow> positive_amount (payout_amount b)
   | Some opponent_wins \<Rightarrow> positive_amount (payout_amount b)
   | Some no_winner \<Rightarrow> payout_amount b = None
   | Some voided \<Rightarrow> payout_amount b = None
   | None \<Rightarrow> True)"

definition platform_fee_ok :: "bet \<Rightarrow> bool" where
  "platform_fee_ok b \<longleftrightarrow> (case settlement_outcome_of b of
     Some voided \<Rightarrow> platform_fee b = None
   | Some _ \<Rightarrow> positive_amount (platform_fee b)
   | None \<Rightarrow> True)"

definition rate_ok :: "decimal option \<Rightarrow> bool" where
  "rate_ok r \<longleftrightarrow> (case r of None \<Rightarrow> True | Some x \<Rightarrow> 0 < x \<and> x < 1)"

definition participants_ok :: "bet \<Rightarrow> bool" where
  "participants_ok b \<longleftrightarrow>
     opponent_id b \<noteq> Some (creator_id b) \<and>
     opponent_prediction b \<noteq> Some (creator_prediction b) \<and>
     (opponent_id b = None \<longleftrightarrow> opponent_prediction b = None) \<and>
     (winner_id b = None \<or> winner_id b = Some (creator_id b) \<or> winner_id b = opponent_id b) \<and>
     (winner_id b = None \<or> opponent_id b \<noteq> None)"

definition bet_row_ok :: "bet \<Rightarrow> bool" where
  "bet_row_ok b \<longleftrightarrow>
     participants_ok b \<and> winner_identity_ok b \<and> payout_presence_ok b \<and> platform_fee_ok b \<and>
     (bstatus b = SETTLED \<longrightarrow> settlement_outcome_of b \<noteq> None \<and> settled_at b \<noteq> None) \<and>
     0 < stake_amount b \<and>
     rate_ok (applied_winner_fee_rate b) \<and> rate_ok (applied_no_winner_fee_rate b) \<and>
     bet_created_at b < expires_at b"

definition platform_row_ok :: "platform_account \<Rightarrow> bool" where
  "platform_row_ok a \<longleftrightarrow> 0 \<le> pa_balance a"

definition platform_entry_ok :: "platform_ledger_entry \<Rightarrow> bool" where
  "platform_entry_ok e \<longleftrightarrow>
     ple_direction e = credit \<and> ple_reference_type e = ref_settlement \<and>
     0 < ple_amount e \<and> 0 \<le> balance_after e"

definition fee_config_row_ok :: "fee_config \<Rightarrow> bool" where
  "fee_config_row_ok c \<longleftrightarrow> 0 < fc_rate c \<and> fc_rate c < 1"

section \<open>Writing values\<close>

text \<open>
  A \<open>NUMERIC(15, 2)\<close> column rounds to two places, ties away from zero, and rejects a value that needs more than
  thirteen digits before the point.
\<close>

definition store_money :: "decimal \<Rightarrow> ('s, decimal) tx" where
  "store_money v = (let x = round_half_up v in
     if \<bar>x\<bar> < 10 ^ 13 then ret x else throw DataError)"

definition check_row :: "bool \<Rightarrow> unit dbtx" where
  "check_row ok = bind_tx (gets enforce_checks) (\<lambda>on. raise_if (on \<and> \<not> ok) IntegrityError)"

definition take_lock :: "row_lock \<Rightarrow> unit dbtx" where
  "take_lock l = modify (\<lambda>s. s\<lparr>row_locks := row_locks s @ [l]\<rparr>)"

lemma store_money_inv [tx_inv]:
  "store_money v s = Inr (x, s') \<longleftrightarrow> x = round_half_up v \<and> \<bar>round_half_up v\<bar> < 10 ^ 13 \<and> s' = s"
  by (auto simp: store_money_def Let_def)

lemma check_row_inv [tx_inv]:
  "check_row ok s = Inr (x, s') \<longleftrightarrow> (enforce_checks s \<longrightarrow> ok) \<and> s' = s"
  by (auto simp: check_row_def tx_inv)

lemma take_lock_inv [tx_inv]:
  "take_lock l s = Inr (x, s') \<longleftrightarrow> s' = s\<lparr>row_locks := row_locks s @ [l]\<rparr>"
  by (auto simp: take_lock_def)

text \<open>
  A transaction of a request: its result goes to the caller, its changes are kept on success only, its
  locks are released at the end.
\<close>

definition transact :: "'a dbtx \<Rightarrow> db \<Rightarrow> (error + 'a) \<times> db" where
  "transact m s = (case m s of
     Inl e \<Rightarrow> (Inl e, s\<lparr>row_locks := []\<rparr>)
   | Inr (x, s') \<Rightarrow> (Inr x, s'\<lparr>row_locks := []\<rparr>))"

definition run_request :: "'a dbtx \<Rightarrow> db \<Rightarrow> db" where
  "run_request m s = snd (transact m s)"

lemma run_request_commit: "run_request m s = (commit m s)\<lparr>row_locks := []\<rparr>"
  by (auto simp: run_request_def transact_def commit_def split: sum.splits prod.splits)

section \<open>Balances\<close>

definition field_of :: "balance_field \<Rightarrow> wallet \<Rightarrow> decimal" where
  "field_of f w = (case f of available \<Rightarrow> available_balance w | locked \<Rightarrow> locked_balance w)"

text \<open>What a user has in a field of their wallet, zero without a wallet.\<close>

definition balance_in :: "wallet list \<Rightarrow> uuid \<Rightarrow> balance_field \<Rightarrow> decimal" where
  "balance_in ws u f = (case row_get wallet_user u ws of None \<Rightarrow> 0 | Some w \<Rightarrow> field_of f w)"

text \<open>The sum a list of ledger entries says was added to a field.\<close>

definition signed_amount :: "ledger_entry \<Rightarrow> decimal" where
  "signed_amount e = (case direction e of credit \<Rightarrow> le_amount e | debit \<Rightarrow> - le_amount e)"

definition net :: "ledger_entry list \<Rightarrow> uuid \<Rightarrow> balance_field \<Rightarrow> decimal" where
  "net es u f = sum_list (map signed_amount (filter (\<lambda>e. le_user e = u \<and> le_field e = f) es))"

lemma net_Nil [simp]: "net [] u f = 0"
  by (simp add: net_def)

lemma net_Cons [simp]:
  "net (e # es) u f = (if le_user e = u \<and> le_field e = f then signed_amount e else 0) + net es u f"
  by (simp add: net_def)

lemma net_append [simp]: "net (es @ fs) u f = net es u f + net fs u f"
  by (simp add: net_def)

end
