(* ===== verification/Repositories.thy ===== *)
theory Repositories
  imports Models
begin

text \<open>
  \<^verbatim>\<open>app/repositories\<close> and \<^verbatim>\<open>app/utils/pagination.py\<close>: the queries and writes the services are built from.
  An ORM object is the row it was loaded from; writing an attribute and flushing changes the columns of
  the row with its key. Every table is shown to be a \<open>row_store\<close>.
\<close>

section \<open>Pagination\<close>

record page_params =
  page :: nat
  page_size :: nat

definition page_offset :: "page_params \<Rightarrow> nat" where
  "page_offset p = (page p - 1) * page_size p"

definition page_limit :: "page_params \<Rightarrow> nat" where
  "page_limit p = page_size p"

definition paginate :: "'a list \<Rightarrow> page_params \<Rightarrow> 'a list \<times> nat" where
  "paginate q p = (take (page_limit p) (drop (page_offset p) q), length q)"

text \<open>\<open>PaginatedResponse.create\<close>: the number of pages.\<close>

definition page_count :: "nat \<Rightarrow> nat \<Rightarrow> nat" where
  "page_count cnt per = (if 0 < cnt then max 1 ((cnt + per - 1) div per) else 0)"

section \<open>Wallets\<close>

definition put_wallet :: "uuid \<Rightarrow> (wallet \<Rightarrow> wallet) \<Rightarrow> db \<Rightarrow> db" where
  "put_wallet u f s = s\<lparr>wallets := row_upd wallet_user u f (wallets s)\<rparr>"

definition get_by_user_id :: "uuid \<Rightarrow> wallet option dbtx" where
  "get_by_user_id u = gets (\<lambda>s. row_get wallet_user u (wallets s))"

definition get_by_user_id_or_404 :: "uuid \<Rightarrow> wallet dbtx" where
  "get_by_user_id_or_404 u = bind_tx (get_by_user_id u) (require_some NotFoundError)"

definition get_by_user_id_for_update :: "uuid \<Rightarrow> wallet dbtx" where
  "get_by_user_id_for_update u =
     bind_tx (get_by_user_id u) (\<lambda>r.
     bind_tx (require_some NotFoundError r) (\<lambda>w.
     seq_tx (take_lock (WalletRow u)) (ret w)))"

definition store_money_opt :: "decimal option \<Rightarrow> ('s, decimal option) tx" where
  "store_money_opt v = (case v of None \<Rightarrow> ret None
     | Some a \<Rightarrow> bind_tx (store_money a) (\<lambda>x. ret (Some x)))"

definition set_balances :: "decimal option \<Rightarrow> decimal option \<Rightarrow> wallet \<Rightarrow> wallet" where
  "set_balances av lk r = r\<lparr>
     available_balance := (case av of None \<Rightarrow> available_balance r | Some x \<Rightarrow> x),
     locked_balance := (case lk of None \<Rightarrow> locked_balance r | Some x \<Rightarrow> x),
     version := version r + 1\<rparr>"

definition update_balances :: "wallet \<Rightarrow> decimal option \<Rightarrow> decimal option \<Rightarrow> wallet dbtx" where
  "update_balances w av lk =
     bind_tx (store_money_opt av) (\<lambda>av'.
     bind_tx (store_money_opt lk) (\<lambda>lk'.
     seq_tx (modify (put_wallet (wallet_user w) (set_balances av' lk')))
     (bind_tx (get_by_user_id (wallet_user w)) (\<lambda>r.
     bind_tx (require_some NotFoundError r) (\<lambda>w'.
     seq_tx (check_row (wallet_row_ok w')) (ret w'))))))"

text \<open>\<open>WalletRepository.create\<close>: a zero-balance wallet; one per user.\<close>

definition create_wallet :: "uuid \<Rightarrow> uuid \<Rightarrow> string \<Rightarrow> wallet dbtx" where
  "create_wallet new_id u cur =
     bind_tx (get_by_user_id u) (\<lambda>r.
     seq_tx (raise_if (r \<noteq> None) IntegrityError)
     (let w = \<lparr>wallet_id = new_id, wallet_user = u, available_balance = 0, locked_balance = 0,
               wallet_currency = cur, version = 0\<rparr> in
      seq_tx (modify (\<lambda>s. s\<lparr>wallets := wallets s @ [w]\<rparr>)) (ret w)))"

section \<open>Ledger entries\<close>

definition create_entry ::
  "uuid \<Rightarrow> uuid \<Rightarrow> ledger_entry_type \<Rightarrow> balance_field \<Rightarrow> ledger_direction \<Rightarrow> decimal \<Rightarrow>
   ledger_reference_type \<Rightarrow> uuid \<Rightarrow> decimal \<Rightarrow> decimal \<Rightarrow> text_value option \<Rightarrow> unit dbtx" where
  "create_entry u wid ty fld dir amount rty rid av lk nts =
     bind_tx (store_money amount) (\<lambda>amount'.
     bind_tx (store_money av) (\<lambda>av'.
     bind_tx (store_money lk) (\<lambda>lk'.
     let e = \<lparr>le_user = u, le_wallet = wid, entry_type = ty, le_field = fld, direction = dir,
              le_amount = amount', reference_type = rty, reference_id = rid,
              available_balance_after = av', locked_balance_after = lk', le_notes = nts\<rparr> in
     seq_tx (check_row (ledger_row_ok e))
       (modify (\<lambda>s. s\<lparr>ledger := ledger s @ [e]\<rparr>)))))"

definition get_user_history :: "uuid \<Rightarrow> page_params \<Rightarrow> (ledger_entry list \<times> nat) dbtx" where
  "get_user_history u p = gets (\<lambda>s. paginate (rev (filter (\<lambda>e. le_user e = u) (ledger s))) p)"

section \<open>Bets\<close>

definition put_bet :: "uuid \<Rightarrow> (bet \<Rightarrow> bet) \<Rightarrow> db \<Rightarrow> db" where
  "put_bet b f s = s\<lparr>bets := row_upd bet_id b f (bets s)\<rparr>"

definition find_bet :: "db \<Rightarrow> uuid \<Rightarrow> bet option" where
  "find_bet s b = row_get bet_id b (bets s)"

definition get_bet_or_404 :: "uuid \<Rightarrow> bet dbtx" where
  "get_bet_or_404 b = bind_tx (gets (\<lambda>s. find_bet s b)) (require_some NotFoundError)"

definition get_bet_for_update :: "uuid \<Rightarrow> bet dbtx" where
  "get_bet_for_update b =
     bind_tx (gets (\<lambda>s. find_bet s b)) (\<lambda>r.
     bind_tx (require_some NotFoundError r) (\<lambda>x.
     seq_tx (take_lock (BetRow b)) (ret x)))"

text \<open>\<open>add\<close>, \<open>flush\<close> and \<open>refresh\<close> of a new bet: the stake is stored in a \<open>NUMERIC(15, 2)\<close> column.\<close>

definition insert_bet :: "bet \<Rightarrow> bet dbtx" where
  "insert_bet b =
     bind_tx (gets (\<lambda>s. find_bet s (bet_id b))) (\<lambda>r.
     seq_tx (raise_if (r \<noteq> None) IntegrityError)
     (bind_tx (store_money (stake_amount b)) (\<lambda>x.
      let b' = b\<lparr>stake_amount := x\<rparr> in
      seq_tx (check_row (bet_row_ok b'))
     (seq_tx (modify (\<lambda>s. s\<lparr>bets := bets s @ [b']\<rparr>)) (ret b')))))"

text \<open>Attribute writes on a loaded bet, \<open>flush\<close> and \<open>refresh\<close>.\<close>

definition flush_bet :: "uuid \<Rightarrow> (bet \<Rightarrow> bet) \<Rightarrow> bet dbtx" where
  "flush_bet b f =
     seq_tx (modify (put_bet b f))
     (bind_tx (gets (\<lambda>s. find_bet s b)) (\<lambda>r.
      bind_tx (require_some NotFoundError r) (\<lambda>x.
      seq_tx (check_row (bet_row_ok x)) (ret x))))"

definition add_event ::
  "uuid \<Rightarrow> bet_event_type \<Rightarrow> uuid option \<Rightarrow> string \<Rightarrow> (string \<times> payload_value) list \<Rightarrow> unit dbtx" where
  "add_event b ty actor label pl =
     modify (\<lambda>s. s\<lparr>bet_events := bet_events s @
       [\<lparr>ev_bet = b, event_type = ty, actor_id = actor, actor_label = label, payload = pl\<rparr>]\<rparr>)"

definition newest_first :: "bet list \<Rightarrow> bet list" where
  "newest_first bs = sort_key (\<lambda>b. - bet_created_at b) bs"

definition get_open_bets :: "datetime \<Rightarrow> page_params \<Rightarrow> (bet list \<times> nat) dbtx" where
  "get_open_bets now p = gets (\<lambda>s.
     paginate (newest_first (filter (\<lambda>b. bstatus b = OPEN \<and> now < expires_at b) (bets s))) p)"

definition get_user_bets ::
  "uuid \<Rightarrow> page_params \<Rightarrow> bet_status option \<Rightarrow> (bet list \<times> nat) dbtx" where
  "get_user_bets u p st = gets (\<lambda>s.
     paginate (newest_first (filter (\<lambda>b. (creator_id b = u \<or> opponent_id b = Some u) \<and>
       (case st of None \<Rightarrow> True | Some x \<Rightarrow> bstatus b = x)) (bets s))) p)"

definition get_by_match_pending_settlement :: "uuid \<Rightarrow> bet list dbtx" where
  "get_by_match_pending_settlement m = gets (\<lambda>s.
     filter (\<lambda>b. bet_match b = m \<and> bstatus b \<in> {MATCHED, PENDING_SETTLEMENT}) (bets s))"

text \<open>Oldest first by the column \<open>updated_at\<close>, given as a function of the row's id.\<close>

definition get_pending_settlement :: "(uuid \<Rightarrow> datetime) \<Rightarrow> uuid option \<Rightarrow> bet list dbtx" where
  "get_pending_settlement updated_at m = gets (\<lambda>s.
     sort_key (\<lambda>b. updated_at (bet_id b)) (filter (\<lambda>b. bstatus b = PENDING_SETTLEMENT \<and>
       (case m of None \<Rightarrow> True | Some x \<Rightarrow> bet_match b = x)) (bets s)))"

text \<open>The loop over the locked rows: each becomes \<open>PENDING_SETTLEMENT\<close>.\<close>

definition matched_bets_of :: "uuid \<Rightarrow> db \<Rightarrow> bet list" where
  "matched_bets_of m s = filter (\<lambda>b. bet_match b = m \<and> bstatus b = MATCHED) (bets s)"

definition transition_matched_to_pending :: "uuid \<Rightarrow> bet list dbtx" where
  "transition_matched_to_pending m =
     bind_tx (gets (matched_bets_of m)) (\<lambda>bs.
     seq_tx (for_each (\<lambda>b. take_lock (BetRow (bet_id b))) bs)
     (seq_tx (for_each (\<lambda>b.
        bind_tx (flush_bet (bet_id b) (\<lambda>r. r\<lparr>bstatus := PENDING_SETTLEMENT\<rparr>)) (\<lambda>_. ret ())) bs)
      (ret (map (\<lambda>b. b\<lparr>bstatus := PENDING_SETTLEMENT\<rparr>) bs))))"

section \<open>Matches\<close>

definition put_match :: "uuid \<Rightarrow> (match_row \<Rightarrow> match_row) \<Rightarrow> db \<Rightarrow> db" where
  "put_match m f s = s\<lparr>matches := row_upd match_id m f (matches s)\<rparr>"

definition find_match :: "db \<Rightarrow> uuid \<Rightarrow> match_row option" where
  "find_match s m = row_get match_id m (matches s)"

definition get_match_or_404 :: "uuid \<Rightarrow> match_row dbtx" where
  "get_match_or_404 m = bind_tx (gets (\<lambda>s. find_match s m)) (require_some NotFoundError)"

definition get_by_external_id :: "string \<Rightarrow> match_row option dbtx" where
  "get_by_external_id x = gets (\<lambda>s. find (\<lambda>m. external_id m = x) (matches s))"

definition get_match_for_update :: "uuid \<Rightarrow> match_row dbtx" where
  "get_match_for_update m =
     bind_tx (gets (\<lambda>s. find_match s m)) (\<lambda>r.
     bind_tx (require_some NotFoundError r) (\<lambda>x.
     seq_tx (take_lock (MatchRow m)) (ret x)))"

text \<open>
  A flush sends the values that were written; those the row had before fit their columns already. The driver and the
  conversion to the column type refuse a value before any constraint is looked at.
\<close>

definition flush_match :: "uuid \<Rightarrow> (match_row \<Rightarrow> match_row) \<Rightarrow> match_row dbtx" where
  "flush_match m f =
     seq_tx (modify (put_match m f))
     (bind_tx (gets (\<lambda>s. find_match s m)) (\<lambda>r.
      bind_tx (require_some NotFoundError r) (\<lambda>x.
      seq_tx (raise_if (\<not> match_row_fits x) DataError)
     (seq_tx (check_row (match_row_ok x)) (ret x)))))"

definition insert_match :: "match_row \<Rightarrow> unit dbtx" where
  "insert_match m =
     bind_tx (gets (\<lambda>s. find_match s (match_id m))) (\<lambda>r.
     bind_tx (get_by_external_id (external_id m)) (\<lambda>x.
     seq_tx (raise_if (\<not> match_row_fits m) DataError)
    (seq_tx (raise_if (r \<noteq> None \<or> x \<noteq> None) IntegrityError)
    (seq_tx (check_row (match_row_ok m))
       (modify (\<lambda>s. s\<lparr>matches := matches s @ [m]\<rparr>))))))"

section \<open>Fee rates and the platform account\<close>

text \<open>The row with the greatest \<open>effective_from\<close>; of rows that tie, the one inserted first.\<close>

fun latest_config :: "fee_config list \<Rightarrow> fee_config option" where
  "latest_config [] = None"
| "latest_config (c # cs) = (case latest_config cs of None \<Rightarrow> Some c
     | Some d \<Rightarrow> Some (if effective_from c < effective_from d then d else c))"

definition get_active_rate :: "fee_type \<Rightarrow> string \<Rightarrow> datetime \<Rightarrow> decimal dbtx" where
  "get_active_rate ft cur as_of =
     bind_tx (gets (\<lambda>s. latest_config (filter (\<lambda>c. fc_type c = ft \<and> fc_currency c = cur \<and>
        effective_from c \<le> as_of) (fee_configs s)))) (\<lambda>r.
     bind_tx (require_some NotFoundError r) (\<lambda>c. ret (fc_rate c)))"

definition put_platform :: "string \<Rightarrow> (platform_account \<Rightarrow> platform_account) \<Rightarrow> db \<Rightarrow> db" where
  "put_platform cur f s = s\<lparr>platform_accounts := row_upd pa_currency cur f (platform_accounts s)\<rparr>"

definition get_for_currency_for_update :: "string \<Rightarrow> platform_account dbtx" where
  "get_for_currency_for_update cur =
     bind_tx (gets (\<lambda>s. row_get pa_currency cur (platform_accounts s))) (\<lambda>r.
     bind_tx (require_some NotFoundError r) (\<lambda>a.
     seq_tx (take_lock (PlatformRow cur)) (ret a)))"

definition credit_fee :: "platform_account \<Rightarrow> decimal \<Rightarrow> platform_account dbtx" where
  "credit_fee a amount =
     bind_tx (store_money (safe_add (pa_balance a) amount)) (\<lambda>x.
     seq_tx (modify (put_platform (pa_currency a)
               (\<lambda>r. r\<lparr>pa_balance := x, pa_version := pa_version r + 1\<rparr>)))
     (bind_tx (gets (\<lambda>s. row_get pa_currency (pa_currency a) (platform_accounts s))) (\<lambda>r.
      bind_tx (require_some NotFoundError r) (\<lambda>a'.
      seq_tx (check_row (platform_row_ok a')) (ret a')))))"

definition write_platform_entry ::
  "platform_account \<Rightarrow> decimal \<Rightarrow> uuid \<Rightarrow> platform_entry_type \<Rightarrow> settlement_path_type \<Rightarrow> unit dbtx" where
  "write_platform_entry a amount b ty path =
     bind_tx (store_money amount) (\<lambda>x.
     bind_tx (store_money (pa_balance a)) (\<lambda>y.
     let e = \<lparr>ple_account = pa_id a, ple_entry_type = ty, ple_direction = credit, ple_amount = x,
              ple_reference_type = ref_settlement, ple_reference_id = b, balance_after = y,
              settlement_path = path\<rparr> in
     seq_tx (check_row (platform_entry_ok e))
       (modify (\<lambda>s. s\<lparr>platform_ledger := platform_ledger s @ [e]\<rparr>))))"

section \<open>Deposits and withdrawals\<close>

definition put_deposit :: "uuid \<Rightarrow> (deposit_request \<Rightarrow> deposit_request) \<Rightarrow> db \<Rightarrow> db" where
  "put_deposit d f s = s\<lparr>deposits := row_upd dep_id d f (deposits s)\<rparr>"

definition find_deposit :: "db \<Rightarrow> uuid \<Rightarrow> deposit_request option" where
  "find_deposit s d = row_get dep_id d (deposits s)"

definition get_deposit_or_404 :: "uuid \<Rightarrow> deposit_request dbtx" where
  "get_deposit_or_404 d = bind_tx (gets (\<lambda>s. find_deposit s d)) (require_some NotFoundError)"

text \<open>The unique columns of the table, NULLs aside.\<close>

definition deposit_unique :: "deposit_request list \<Rightarrow> deposit_request \<Rightarrow> bool" where
  "deposit_unique ds d \<longleftrightarrow> (\<forall>x \<in> set ds. dep_id x \<noteq> dep_id d \<longrightarrow>
     (provider_reference d \<noteq> None \<longrightarrow> provider_reference x \<noteq> provider_reference d) \<and>
     (client_reference d \<noteq> None \<longrightarrow> client_reference x \<noteq> client_reference d))"

definition insert_deposit :: "deposit_request \<Rightarrow> deposit_request dbtx" where
  "insert_deposit d =
     bind_tx (gets deposits) (\<lambda>ds.
     seq_tx (raise_if (row_get dep_id (dep_id d) ds \<noteq> None \<or> \<not> deposit_unique ds d) IntegrityError)
     (bind_tx (store_money (dep_amount d)) (\<lambda>x.
      let d' = d\<lparr>dep_amount := x\<rparr> in
      seq_tx (modify (\<lambda>s. s\<lparr>deposits := deposits s @ [d']\<rparr>)) (ret d'))))"

definition flush_deposit :: "uuid \<Rightarrow> (deposit_request \<Rightarrow> deposit_request) \<Rightarrow> deposit_request dbtx" where
  "flush_deposit d f =
     seq_tx (modify (put_deposit d f))
     (bind_tx (gets (\<lambda>s. find_deposit s d)) (\<lambda>r.
      bind_tx (require_some NotFoundError r) (\<lambda>x.
      bind_tx (gets deposits) (\<lambda>ds.
      seq_tx (raise_if (\<not> deposit_unique ds x) IntegrityError) (ret x)))))"

definition list_deposits_of :: "uuid \<Rightarrow> page_params \<Rightarrow> (deposit_request list \<times> nat) dbtx" where
  "list_deposits_of u p = gets (\<lambda>s. paginate (rev (filter (\<lambda>d. dep_user d = u) (deposits s))) p)"

definition list_all_deposits ::
  "page_params \<Rightarrow> deposit_status option \<Rightarrow> (deposit_request list \<times> nat) dbtx" where
  "list_all_deposits p st = gets (\<lambda>s. paginate (rev (filter (\<lambda>d.
     case st of None \<Rightarrow> True | Some x \<Rightarrow> dstatus d = x) (deposits s))) p)"

definition put_withdrawal :: "uuid \<Rightarrow> (withdrawal_request \<Rightarrow> withdrawal_request) \<Rightarrow> db \<Rightarrow> db" where
  "put_withdrawal w f s = s\<lparr>withdrawals := row_upd wd_id w f (withdrawals s)\<rparr>"

definition find_withdrawal :: "db \<Rightarrow> uuid \<Rightarrow> withdrawal_request option" where
  "find_withdrawal s w = row_get wd_id w (withdrawals s)"

definition get_withdrawal_or_404 :: "uuid \<Rightarrow> withdrawal_request dbtx" where
  "get_withdrawal_or_404 w = bind_tx (gets (\<lambda>s. find_withdrawal s w)) (require_some NotFoundError)"

definition insert_withdrawal :: "withdrawal_request \<Rightarrow> withdrawal_request dbtx" where
  "insert_withdrawal w =
     bind_tx (gets (\<lambda>s. find_withdrawal s (wd_id w))) (\<lambda>r.
     seq_tx (raise_if (r \<noteq> None) IntegrityError)
     (bind_tx (store_money (wd_amount w)) (\<lambda>x.
      let w' = w\<lparr>wd_amount := x\<rparr> in
      seq_tx (modify (\<lambda>s. s\<lparr>withdrawals := withdrawals s @ [w']\<rparr>)) (ret w'))))"

definition flush_withdrawal ::
  "uuid \<Rightarrow> (withdrawal_request \<Rightarrow> withdrawal_request) \<Rightarrow> withdrawal_request dbtx" where
  "flush_withdrawal w f =
     seq_tx (modify (put_withdrawal w f))
     (bind_tx (gets (\<lambda>s. find_withdrawal s w)) (require_some NotFoundError))"

definition list_withdrawals_of :: "uuid \<Rightarrow> page_params \<Rightarrow> (withdrawal_request list \<times> nat) dbtx" where
  "list_withdrawals_of u p = gets (\<lambda>s. paginate (rev (filter (\<lambda>w. wd_user w = u) (withdrawals s))) p)"

definition list_all_withdrawals ::
  "page_params \<Rightarrow> withdrawal_status option \<Rightarrow> (withdrawal_request list \<times> nat) dbtx" where
  "list_all_withdrawals p st = gets (\<lambda>s. paginate (rev (filter (\<lambda>w.
     case st of None \<Rightarrow> True | Some x \<Rightarrow> wstatus w = x) (withdrawals s))) p)"

section \<open>Every table is a row store\<close>

interpretation wallet_tab: row_store wallet_user wallets put_wallet
  by unfold_locales (simp add: put_wallet_def)

interpretation bet_tab: row_store bet_id bets put_bet
  by unfold_locales (simp add: put_bet_def)

interpretation match_tab: row_store match_id matches put_match
  by unfold_locales (simp add: put_match_def)

interpretation platform_tab: row_store pa_currency platform_accounts put_platform
  by unfold_locales (simp add: put_platform_def)

interpretation deposit_tab: row_store dep_id deposits put_deposit
  by unfold_locales (simp add: put_deposit_def)

interpretation withdrawal_tab: row_store wd_id withdrawals put_withdrawal
  by unfold_locales (simp add: put_withdrawal_def)

section \<open>What a successful step says\<close>

lemma get_by_user_id_inv [tx_inv]:
  "get_by_user_id u s = Inr (r, s') \<longleftrightarrow> r = row_get wallet_user u (wallets s) \<and> s' = s"
  by (simp add: get_by_user_id_def)

lemma get_by_user_id_or_404_inv [tx_inv]:
  "get_by_user_id_or_404 u s = Inr (w, s') \<longleftrightarrow> row_get wallet_user u (wallets s) = Some w \<and> s' = s"
  by (auto simp: get_by_user_id_or_404_def tx_inv)

lemma get_by_user_id_for_update_inv [tx_inv]:
  "get_by_user_id_for_update u s = Inr (w, s') \<longleftrightarrow>
     row_get wallet_user u (wallets s) = Some w \<and>
     s' = s\<lparr>row_locks := row_locks s @ [WalletRow u]\<rparr>"
  by (auto simp: get_by_user_id_for_update_def tx_inv)

definition fits :: "decimal option \<Rightarrow> bool" where
  "fits v \<longleftrightarrow> (case v of None \<Rightarrow> True | Some a \<Rightarrow> \<bar>round_half_up a\<bar> < 10 ^ 13)"

lemma store_money_opt_inv [tx_inv]:
  "store_money_opt v s = Inr (x, s') \<longleftrightarrow> x = map_option round_half_up v \<and> fits v \<and> s' = s"
  by (auto simp: store_money_opt_def fits_def tx_inv split: option.splits)

lemma update_balances_inv [tx_inv]:
  "update_balances w av lk s = Inr (w', s') \<longleftrightarrow>
     fits av \<and> fits lk \<and>
     s' = put_wallet (wallet_user w)
            (set_balances (map_option round_half_up av) (map_option round_half_up lk)) s \<and>
     row_get wallet_user (wallet_user w) (wallets s') = Some w' \<and>
     (enforce_checks s \<longrightarrow> wallet_row_ok w')"
  by (auto simp: update_balances_def tx_inv put_wallet_def)

lemma create_entry_inv [tx_inv]:
  "create_entry u wid ty fld dir amount rty rid av lk nts s = Inr (x, s') \<longleftrightarrow>
     (let e = \<lparr>le_user = u, le_wallet = wid, entry_type = ty, le_field = fld, direction = dir,
              le_amount = round_half_up amount, reference_type = rty, reference_id = rid,
              available_balance_after = round_half_up av, locked_balance_after = round_half_up lk,
              le_notes = nts\<rparr> in
      fits (Some amount) \<and> fits (Some av) \<and> fits (Some lk) \<and>
      (enforce_checks s \<longrightarrow> ledger_row_ok e) \<and> s' = s\<lparr>ledger := ledger s @ [e]\<rparr>)"
  by (auto simp: create_entry_def tx_inv Let_def fits_def)

lemma get_bet_or_404_inv [tx_inv]:
  "get_bet_or_404 b s = Inr (x, s') \<longleftrightarrow> find_bet s b = Some x \<and> s' = s"
  by (auto simp: get_bet_or_404_def tx_inv)

lemma get_bet_for_update_inv [tx_inv]:
  "get_bet_for_update b s = Inr (x, s') \<longleftrightarrow>
     find_bet s b = Some x \<and> s' = s\<lparr>row_locks := row_locks s @ [BetRow b]\<rparr>"
  by (auto simp: get_bet_for_update_def tx_inv)

lemma insert_bet_inv [tx_inv]:
  "insert_bet b s = Inr (x, s') \<longleftrightarrow>
     find_bet s (bet_id b) = None \<and> fits (Some (stake_amount b)) \<and>
     x = b\<lparr>stake_amount := round_half_up (stake_amount b)\<rparr> \<and>
     (enforce_checks s \<longrightarrow> bet_row_ok x) \<and> s' = s\<lparr>bets := bets s @ [x]\<rparr>"
  by (auto simp: insert_bet_def tx_inv Let_def fits_def)

lemma flush_bet_inv [tx_inv]:
  "flush_bet b f s = Inr (x, s') \<longleftrightarrow>
     s' = put_bet b f s \<and> find_bet s' b = Some x \<and> (enforce_checks s \<longrightarrow> bet_row_ok x)"
  by (auto simp: flush_bet_def tx_inv put_bet_def)

lemma add_event_inv [tx_inv]:
  "add_event b ty actor label pl s = Inr (x, s') \<longleftrightarrow>
     s' = s\<lparr>bet_events := bet_events s @
       [\<lparr>ev_bet = b, event_type = ty, actor_id = actor, actor_label = label, payload = pl\<rparr>]\<rparr>"
  by (auto simp: add_event_def)

lemma get_match_or_404_inv [tx_inv]:
  "get_match_or_404 m s = Inr (x, s') \<longleftrightarrow> find_match s m = Some x \<and> s' = s"
  by (auto simp: get_match_or_404_def tx_inv)

lemma get_match_for_update_inv [tx_inv]:
  "get_match_for_update m s = Inr (x, s') \<longleftrightarrow>
     find_match s m = Some x \<and> s' = s\<lparr>row_locks := row_locks s @ [MatchRow m]\<rparr>"
  by (auto simp: get_match_for_update_def tx_inv)

lemma flush_match_inv [tx_inv]:
  "flush_match m f s = Inr (x, s') \<longleftrightarrow>
     s' = put_match m f s \<and> find_match s' m = Some x \<and> match_row_fits x \<and> (enforce_checks s \<longrightarrow> match_row_ok x)"
  by (auto simp: flush_match_def tx_inv put_match_def)

lemma get_active_rate_inv [tx_inv]:
  "get_active_rate ft cur t s = Inr (r, s') \<longleftrightarrow>
     (\<exists>c. latest_config (filter (\<lambda>c. fc_type c = ft \<and> fc_currency c = cur \<and> effective_from c \<le> t)
        (fee_configs s)) = Some c \<and> r = fc_rate c) \<and> s' = s"
  by (auto simp: get_active_rate_def tx_inv)

lemma get_for_currency_for_update_inv [tx_inv]:
  "get_for_currency_for_update cur s = Inr (a, s') \<longleftrightarrow>
     row_get pa_currency cur (platform_accounts s) = Some a \<and>
     s' = s\<lparr>row_locks := row_locks s @ [PlatformRow cur]\<rparr>"
  by (auto simp: get_for_currency_for_update_def tx_inv)

lemma credit_fee_inv [tx_inv]:
  "credit_fee a amount s = Inr (a', s') \<longleftrightarrow>
     fits (Some (safe_add (pa_balance a) amount)) \<and>
     s' = put_platform (pa_currency a) (\<lambda>r. r\<lparr>
            pa_balance := round_half_up (safe_add (pa_balance a) amount),
            pa_version := pa_version r + 1\<rparr>) s \<and>
     row_get pa_currency (pa_currency a) (platform_accounts s') = Some a' \<and>
     (enforce_checks s \<longrightarrow> platform_row_ok a')"
  by (auto simp: credit_fee_def tx_inv fits_def put_platform_def)

lemma write_platform_entry_inv [tx_inv]:
  "write_platform_entry a amount b ty path s = Inr (x, s') \<longleftrightarrow>
     (let e = \<lparr>ple_account = pa_id a, ple_entry_type = ty, ple_direction = credit,
              ple_amount = round_half_up amount, ple_reference_type = ref_settlement,
              ple_reference_id = b, balance_after = round_half_up (pa_balance a),
              settlement_path = path\<rparr> in
      fits (Some amount) \<and> fits (Some (pa_balance a)) \<and>
      (enforce_checks s \<longrightarrow> platform_entry_ok e) \<and>
      s' = s\<lparr>platform_ledger := platform_ledger s @ [e]\<rparr>)"
  by (auto simp: write_platform_entry_def tx_inv Let_def fits_def)

lemma get_deposit_or_404_inv [tx_inv]:
  "get_deposit_or_404 d s = Inr (x, s') \<longleftrightarrow> find_deposit s d = Some x \<and> s' = s"
  by (auto simp: get_deposit_or_404_def tx_inv)

lemma insert_deposit_inv [tx_inv]:
  "insert_deposit d s = Inr (x, s') \<longleftrightarrow>
     find_deposit s (dep_id d) = None \<and> deposit_unique (deposits s) d \<and>
     fits (Some (dep_amount d)) \<and> x = d\<lparr>dep_amount := round_half_up (dep_amount d)\<rparr> \<and>
     s' = s\<lparr>deposits := deposits s @ [x]\<rparr>"
  by (auto simp: insert_deposit_def tx_inv Let_def fits_def find_deposit_def)

lemma flush_deposit_inv [tx_inv]:
  "flush_deposit d f s = Inr (x, s') \<longleftrightarrow>
     s' = put_deposit d f s \<and> find_deposit s' d = Some x \<and> deposit_unique (deposits s') x"
  by (auto simp: flush_deposit_def tx_inv put_deposit_def)

lemma get_withdrawal_or_404_inv [tx_inv]:
  "get_withdrawal_or_404 w s = Inr (x, s') \<longleftrightarrow> find_withdrawal s w = Some x \<and> s' = s"
  by (auto simp: get_withdrawal_or_404_def tx_inv)

lemma insert_withdrawal_inv [tx_inv]:
  "insert_withdrawal w s = Inr (x, s') \<longleftrightarrow>
     find_withdrawal s (wd_id w) = None \<and> fits (Some (wd_amount w)) \<and>
     x = w\<lparr>wd_amount := round_half_up (wd_amount w)\<rparr> \<and>
     s' = s\<lparr>withdrawals := withdrawals s @ [x]\<rparr>"
  by (auto simp: insert_withdrawal_def tx_inv Let_def fits_def)

lemma flush_withdrawal_inv [tx_inv]:
  "flush_withdrawal w f s = Inr (x, s') \<longleftrightarrow> s' = put_withdrawal w f s \<and> find_withdrawal s' w = Some x"
  by (auto simp: flush_withdrawal_def tx_inv)

end
