(* ===== verification/Ledger.thy ===== *)
theory Ledger
  imports Repositories
begin

text \<open>
  \<^verbatim>\<open>app/services/ledger_service.py\<close>: the entries written for each wallet operation, in the order they are
  written. The lemmas reduce each writer to what it posts: it appends entries and changes nothing
  else, and the entries add up to a given change per user and balance field.
\<close>

definition write_stake_lock :: "wallet \<Rightarrow> decimal \<Rightarrow> uuid \<Rightarrow> text_value option \<Rightarrow> unit dbtx" where
  "write_stake_lock w amount bid nts =
     seq_tx (create_entry (wallet_user w) (wallet_id w) STAKE_LOCK available debit amount
               ref_bet bid (available_balance w) (locked_balance w) nts)
            (create_entry (wallet_user w) (wallet_id w) STAKE_LOCK locked credit amount
               ref_bet bid (available_balance w) (locked_balance w) nts)"

definition write_stake_unlock :: "wallet \<Rightarrow> decimal \<Rightarrow> uuid \<Rightarrow> text_value option \<Rightarrow> unit dbtx" where
  "write_stake_unlock w amount bid nts =
     seq_tx (create_entry (wallet_user w) (wallet_id w) STAKE_UNLOCK locked debit amount
               ref_cancellation bid (available_balance w) (locked_balance w) nts)
            (create_entry (wallet_user w) (wallet_id w) STAKE_UNLOCK available credit amount
               ref_cancellation bid (available_balance w) (locked_balance w) nts)"

definition write_void_refund :: "wallet \<Rightarrow> decimal \<Rightarrow> uuid \<Rightarrow> text_value option \<Rightarrow> unit dbtx" where
  "write_void_refund w amount bid nts =
     seq_tx (create_entry (wallet_user w) (wallet_id w) VOID_REFUND locked debit amount
               ref_void bid (available_balance w) (locked_balance w) nts)
            (create_entry (wallet_user w) (wallet_id w) VOID_REFUND available credit amount
               ref_void bid (available_balance w) (locked_balance w) nts)"

definition write_settlement_winner ::
  "wallet \<Rightarrow> wallet \<Rightarrow> decimal \<Rightarrow> decimal \<Rightarrow> uuid \<Rightarrow> text_value option \<Rightarrow> unit dbtx" where
  "write_settlement_winner ww lw stake winner_payout bid nts =
     seq_tx (create_entry (wallet_user ww) (wallet_id ww) SETTLEMENT_DEDUCT locked debit stake
               ref_settlement bid (available_balance ww) (locked_balance ww)
               (Some (or_default nts [Lit ''Winner: locked stake consumed at settlement''])))
    (seq_tx (create_entry (wallet_user lw) (wallet_id lw) SETTLEMENT_DEDUCT locked debit stake
               ref_settlement bid (available_balance lw) (locked_balance lw)
               (Some (or_default nts [Lit ''Loser: locked stake consumed at settlement''])))
            (create_entry (wallet_user ww) (wallet_id ww) PAYOUT_CREDIT available credit winner_payout
               ref_settlement bid (available_balance ww) (locked_balance ww)
               (Some (or_default nts [Lit ''Winner payout (90% of pool) credited to available'']))))"

definition write_deposit_credit :: "wallet \<Rightarrow> decimal \<Rightarrow> uuid \<Rightarrow> text_value option \<Rightarrow> unit dbtx" where
  "write_deposit_credit w amount did nts =
     create_entry (wallet_user w) (wallet_id w) DEPOSIT available credit amount
       ref_deposit did (available_balance w) (locked_balance w)
       (Some (or_default nts [Lit ''Deposit completed -- funds credited to available balance'']))"

definition write_withdrawal_hold :: "wallet \<Rightarrow> decimal \<Rightarrow> uuid \<Rightarrow> text_value option \<Rightarrow> unit dbtx" where
  "write_withdrawal_hold w amount wid nts =
     (let n = Some (or_default nts [Lit ''Withdrawal hold -- funds moved from available to locked'']) in
      seq_tx (create_entry (wallet_user w) (wallet_id w) WITHDRAWAL_HOLD available debit amount
                ref_withdrawal wid (available_balance w) (locked_balance w) n)
             (create_entry (wallet_user w) (wallet_id w) WITHDRAWAL_HOLD locked credit amount
                ref_withdrawal wid (available_balance w) (locked_balance w) n))"

definition write_withdrawal_release :: "wallet \<Rightarrow> decimal \<Rightarrow> uuid \<Rightarrow> text_value option \<Rightarrow> unit dbtx" where
  "write_withdrawal_release w amount wid nts =
     (let n = Some (or_default nts [Lit ''Withdrawal released -- held funds returned to available'']) in
      seq_tx (create_entry (wallet_user w) (wallet_id w) WITHDRAWAL_RELEASE locked debit amount
                ref_withdrawal wid (available_balance w) (locked_balance w) n)
             (create_entry (wallet_user w) (wallet_id w) WITHDRAWAL_RELEASE available credit amount
                ref_withdrawal wid (available_balance w) (locked_balance w) n))"

definition write_withdrawal_debit :: "wallet \<Rightarrow> decimal \<Rightarrow> uuid \<Rightarrow> text_value option \<Rightarrow> unit dbtx" where
  "write_withdrawal_debit w amount wid nts =
     create_entry (wallet_user w) (wallet_id w) WITHDRAWAL locked debit amount
       ref_withdrawal wid (available_balance w) (locked_balance w)
       (Some (or_default nts [Lit ''Withdrawal completed -- funds debited from locked balance'']))"

text \<open>The body of the loop over the two wallets; the parameter \<open>notes\<close> of the method is not used.\<close>

definition write_no_winner_share :: "text_part \<Rightarrow> wallet \<Rightarrow> decimal \<Rightarrow> decimal \<Rightarrow> uuid \<Rightarrow> unit dbtx" where
  "write_no_winner_share label w fee_per_user refund_per_user bid =
     seq_tx (create_entry (wallet_user w) (wallet_id w) FEE_DEDUCT locked debit fee_per_user
               ref_settlement bid (available_balance w) (locked_balance w)
               (Some [label, Lit '': platform fee (5%) deducted from locked stake'']))
    (seq_tx (create_entry (wallet_user w) (wallet_id w) SETTLEMENT_DEDUCT locked debit refund_per_user
               ref_settlement bid (available_balance w) (locked_balance w)
               (Some [label, Lit '': refund portion consumed from locked'']))
            (create_entry (wallet_user w) (wallet_id w) REFUND_CREDIT available credit refund_per_user
               ref_settlement bid (available_balance w) (locked_balance w)
               (Some [label, Lit '': 95% refund credited to available balance''])))"

definition write_settlement_no_winner ::
  "wallet \<Rightarrow> wallet \<Rightarrow> decimal \<Rightarrow> decimal \<Rightarrow> uuid \<Rightarrow> text_value option \<Rightarrow> unit dbtx" where
  "write_settlement_no_winner cw ow fee_per_user refund_per_user bid nts =
     for_each (\<lambda>w. write_no_winner_share
         (if wallet_user w = wallet_user cw then Lit ''Creator'' else Lit ''Opponent'')
         w fee_per_user refund_per_user bid)
       [cw, ow]"

section \<open>Posting\<close>

text \<open>A change per user and balance field; \<open>only u f x\<close> is \<open>x\<close> in one place.\<close>

type_synonym delta = "uuid \<Rightarrow> balance_field \<Rightarrow> decimal"

definition only :: "uuid \<Rightarrow> balance_field \<Rightarrow> decimal \<Rightarrow> delta" where
  "only u f x = (\<lambda>v g. if v = u \<and> g = f then x else 0)"

definition both :: "delta \<Rightarrow> delta \<Rightarrow> delta" where
  "both d e = (\<lambda>v g. d v g + e v g)"

definition posts :: "delta \<Rightarrow> db \<Rightarrow> db \<Rightarrow> bool" where
  "posts d s s' \<longleftrightarrow> (\<exists>es. s' = s\<lparr>ledger := ledger s @ es\<rparr> \<and> (\<forall>u f. net es u f = d u f) \<and>
     (enforce_checks s \<longrightarrow> (\<forall>e \<in> set es. ledger_row_ok e)))"

definition signed :: "ledger_direction \<Rightarrow> decimal \<Rightarrow> decimal" where
  "signed dir x = (case dir of credit \<Rightarrow> x | debit \<Rightarrow> - x)"

lemma posts_entry:
  "create_entry u wid ty f dir a rty rid av lk n s = Inr (x, s') \<Longrightarrow>
     posts (only u f (signed dir (round_half_up a))) s s'"
  by (auto simp: create_entry_inv Let_def posts_def only_def signed_def signed_amount_def
      intro!: exI [of _ "[_]"] split: ledger_direction.splits)

lemma posts_trans: "posts d s s' \<Longrightarrow> posts e s' s'' \<Longrightarrow> posts (both d e) s s''"
  unfolding posts_def both_def
  by (elim exE conjE, rule_tac x = "es @ esa" in exI) auto

lemma posts_seq:
  assumes "seq_tx m n s = Inr (x, s')"
    and "\<And>y s1. m s = Inr (y, s1) \<Longrightarrow> posts d s s1"
    and "\<And>y s1. n s1 = Inr (y, s') \<Longrightarrow> posts e s1 s'"
  shows "posts (both d e) s s'"
  using assms by (auto simp: seq_tx_inv intro: posts_trans)

lemma posts_cong: "posts d s s' \<Longrightarrow> (\<And>u f. d u f = e u f) \<Longrightarrow> posts e s s'"
  by (simp add: posts_def)

lemma posts_two:
  "seq_tx (create_entry u wid ty f dir a rty rid av lk n)
          (create_entry u' wid' ty' f' dir' a' rty' rid' av' lk' n') s = Inr (x, s') \<Longrightarrow>
   posts (both (only u f (signed dir (round_half_up a)))
               (only u' f' (signed dir' (round_half_up a')))) s s'"
  by (erule posts_seq) (auto dest: posts_entry)

text \<open>Moving an amount between the two fields of one wallet.\<close>

definition shift :: "uuid \<Rightarrow> balance_field \<Rightarrow> balance_field \<Rightarrow> decimal \<Rightarrow> delta" where
  "shift u f g x = both (only u f (- x)) (only u g x)"

lemma write_stake_lock_posts:
  "write_stake_lock w a bid n s = Inr (x, s') \<Longrightarrow>
     posts (shift (wallet_user w) available locked (round_half_up a)) s s'"
  unfolding write_stake_lock_def shift_def by (drule posts_two) (simp add: signed_def)

lemma write_stake_unlock_posts:
  "write_stake_unlock w a bid n s = Inr (x, s') \<Longrightarrow>
     posts (shift (wallet_user w) locked available (round_half_up a)) s s'"
  unfolding write_stake_unlock_def shift_def by (drule posts_two) (simp add: signed_def)

lemma write_void_refund_posts:
  "write_void_refund w a bid n s = Inr (x, s') \<Longrightarrow>
     posts (shift (wallet_user w) locked available (round_half_up a)) s s'"
  unfolding write_void_refund_def shift_def by (drule posts_two) (simp add: signed_def)

lemma write_withdrawal_hold_posts:
  "write_withdrawal_hold w a bid n s = Inr (x, s') \<Longrightarrow>
     posts (shift (wallet_user w) available locked (round_half_up a)) s s'"
  unfolding write_withdrawal_hold_def shift_def Let_def by (drule posts_two) (simp add: signed_def)

lemma write_withdrawal_release_posts:
  "write_withdrawal_release w a bid n s = Inr (x, s') \<Longrightarrow>
     posts (shift (wallet_user w) locked available (round_half_up a)) s s'"
  unfolding write_withdrawal_release_def shift_def Let_def by (drule posts_two) (simp add: signed_def)

lemma write_deposit_credit_posts:
  "write_deposit_credit w a bid n s = Inr (x, s') \<Longrightarrow>
     posts (only (wallet_user w) available (round_half_up a)) s s'"
  unfolding write_deposit_credit_def by (drule posts_entry) (simp add: signed_def)

lemma write_withdrawal_debit_posts:
  "write_withdrawal_debit w a bid n s = Inr (x, s') \<Longrightarrow>
     posts (only (wallet_user w) locked (- round_half_up a)) s s'"
  unfolding write_withdrawal_debit_def by (drule posts_entry) (simp add: signed_def)

lemma write_settlement_winner_posts:
  assumes "write_settlement_winner ww lw stake payout bid n s = Inr (x, s')"
  shows "posts (both (only (wallet_user ww) locked (- round_half_up stake))
                (both (only (wallet_user lw) locked (- round_half_up stake))
                      (only (wallet_user ww) available (round_half_up payout)))) s s'"
  using assms unfolding write_settlement_winner_def
  by (elim posts_seq) (auto dest!: posts_entry posts_two simp: signed_def)

definition no_winner_share :: "uuid \<Rightarrow> decimal \<Rightarrow> decimal \<Rightarrow> delta" where
  "no_winner_share u fee refund =
     both (only u locked (- round_half_up fee)) (shift u locked available (round_half_up refund))"

lemma write_no_winner_share_posts:
  "write_no_winner_share l w fee refund bid s = Inr (x, s') \<Longrightarrow>
     posts (no_winner_share (wallet_user w) fee refund) s s'"
  unfolding write_no_winner_share_def no_winner_share_def shift_def
  by (elim posts_seq) (auto dest!: posts_entry posts_two simp: signed_def)

lemma write_settlement_no_winner_posts:
  "write_settlement_no_winner cw ow fee refund bid n s = Inr (x, s') \<Longrightarrow>
     posts (both (no_winner_share (wallet_user cw) fee refund)
                 (no_winner_share (wallet_user ow) fee refund)) s s'"
  unfolding write_settlement_no_winner_def
  by (auto simp: seq_tx_inv dest!: write_no_winner_share_posts intro: posts_trans)

section \<open>Posting never fails\<close>

text \<open>Amounts and snapshots that fit their columns and satisfy the CHECK constraints.\<close>

definition postable :: "wallet \<Rightarrow> decimal \<Rightarrow> bool" where
  "postable w a \<longleftrightarrow> on_cent a \<and> 0 < a \<and> a < 10 ^ 13 \<and> wallet_row_ok w \<and>
     on_cent (available_balance w) \<and> available_balance w < 10 ^ 13 \<and>
     on_cent (locked_balance w) \<and> locked_balance w < 10 ^ 13"

lemma create_entry_never_fails:
  "postable w a \<Longrightarrow> never_fails (create_entry (wallet_user w) (wallet_id w) ty f dir a rty rid
     (available_balance w) (locked_balance w) n)"
  by (simp add: never_fails_def create_entry_inv fits_def postable_def round_on_cent
      ledger_row_ok_def wallet_row_ok_def)

lemmas entries_never_fail = never_fails_seq create_entry_never_fails

lemma writers_never_fail:
  assumes "postable w a"
  shows "never_fails (write_stake_lock w a r n)" "never_fails (write_stake_unlock w a r n)"
    "never_fails (write_void_refund w a r n)" "never_fails (write_deposit_credit w a r n)"
    "never_fails (write_withdrawal_hold w a r n)" "never_fails (write_withdrawal_release w a r n)"
    "never_fails (write_withdrawal_debit w a r n)"
  unfolding write_stake_lock_def write_stake_unlock_def write_void_refund_def
    write_deposit_credit_def write_withdrawal_hold_def write_withdrawal_release_def
    write_withdrawal_debit_def Let_def
  by (intro entries_never_fail assms)+

lemma write_settlement_winner_never_fails:
  "postable ww stake \<Longrightarrow> postable lw stake \<Longrightarrow> postable ww payout \<Longrightarrow>
     never_fails (write_settlement_winner ww lw stake payout bid n)"
  unfolding write_settlement_winner_def by (intro entries_never_fail)

lemma write_no_winner_share_never_fails:
  "postable w fee \<Longrightarrow> postable w refund \<Longrightarrow> never_fails (write_no_winner_share l w fee refund bid)"
  unfolding write_no_winner_share_def by (intro entries_never_fail)

end
