(* ===== verification/Wallets.thy ===== *)
theory Wallets
  imports Ledger
begin

text \<open>
  \<^verbatim>\<open>app/services/wallet_service.py\<close>: the balance operations. The contract \<open>wallet_mover\<close> says what an
  operation on one wallet promises the services that call it: a success moves a given change
  through the balances and posts the same change in the ledger, and touches nothing else;
  and it succeeds whenever the balances can bear the change.
\<close>

definition get_wallet :: "uuid \<Rightarrow> wallet dbtx" where
  "get_wallet u = bind_tx (get_by_user_id u) (require_some NotFoundError)"

definition lock_stake :: "uuid \<Rightarrow> decimal \<Rightarrow> uuid \<Rightarrow> text_value option \<Rightarrow> wallet dbtx" where
  "lock_stake u amount bid nts =
     bind_tx (get_by_user_id_for_update u) (\<lambda>w.
     seq_tx (raise_if (available_balance w < amount) InsufficientFundsError)
     (let na = safe_subtract (available_balance w) amount;
          nl = safe_add (locked_balance w) amount in
      seq_tx (verify_non_negative na)
     (seq_tx (verify_non_negative nl)
     (bind_tx (update_balances w (Some na) (Some nl)) (\<lambda>w'.
      seq_tx (write_stake_lock w' amount bid nts) (ret w'))))))"

definition unlock_stake :: "uuid \<Rightarrow> decimal \<Rightarrow> uuid \<Rightarrow> text_value option \<Rightarrow> wallet dbtx" where
  "unlock_stake u amount bid nts =
     bind_tx (get_by_user_id_for_update u) (\<lambda>w.
     let nl = safe_subtract (locked_balance w) amount;
         na = safe_add (available_balance w) amount in
     seq_tx (verify_non_negative nl)
    (seq_tx (verify_non_negative na)
    (bind_tx (update_balances w (Some na) (Some nl)) (\<lambda>w'.
     seq_tx (write_stake_unlock w' amount bid nts) (ret w')))))"

definition void_refund :: "uuid \<Rightarrow> decimal \<Rightarrow> uuid \<Rightarrow> text_value option \<Rightarrow> wallet dbtx" where
  "void_refund u amount bid nts =
     bind_tx (get_by_user_id_for_update u) (\<lambda>w.
     let nl = safe_subtract (locked_balance w) amount;
         na = safe_add (available_balance w) amount in
     seq_tx (verify_non_negative nl)
    (seq_tx (verify_non_negative na)
    (bind_tx (update_balances w (Some na) (Some nl)) (\<lambda>w'.
     seq_tx (write_void_refund w' amount bid nts) (ret w')))))"

definition credit_available :: "uuid \<Rightarrow> decimal \<Rightarrow> uuid \<Rightarrow> text_value option \<Rightarrow> wallet dbtx" where
  "credit_available u amount bid nts =
     bind_tx (get_by_user_id_for_update u) (\<lambda>w.
     let na = safe_add (available_balance w) amount in
     seq_tx (verify_non_negative na) (update_balances w (Some na) None))"

definition apply_balance_update :: "wallet \<Rightarrow> decimal option \<Rightarrow> decimal option \<Rightarrow> wallet dbtx" where
  "apply_balance_update w av lk =
     seq_tx (case av of None \<Rightarrow> ret () | Some a \<Rightarrow> verify_non_negative a)
    (seq_tx (case lk of None \<Rightarrow> ret () | Some l \<Rightarrow> verify_non_negative l)
            (update_balances w av lk))"

definition lock_funds :: "uuid \<Rightarrow> decimal \<Rightarrow> uuid \<Rightarrow> text_value option \<Rightarrow> wallet dbtx" where
  "lock_funds u amount rid nts =
     seq_tx (raise_if (amount \<le> 0) ValidationError)
     (bind_tx (get_by_user_id_for_update u) (\<lambda>w.
      seq_tx (raise_if (available_balance w < amount) InsufficientFundsError)
      (let na = safe_subtract (available_balance w) amount;
           nl = safe_add (locked_balance w) amount in
       seq_tx (verify_non_negative na)
      (seq_tx (verify_non_negative nl)
      (bind_tx (update_balances w (Some na) (Some nl)) (\<lambda>w'.
       seq_tx (write_stake_lock w' amount rid nts) (ret w')))))))"

definition unlock_funds :: "uuid \<Rightarrow> decimal \<Rightarrow> uuid \<Rightarrow> text_value option \<Rightarrow> wallet dbtx" where
  "unlock_funds u amount rid nts =
     seq_tx (raise_if (amount \<le> 0) ValidationError)
     (bind_tx (get_by_user_id_for_update u) (\<lambda>w.
      seq_tx (raise_if (locked_balance w < amount) InsufficientFundsError)
      (let nl = safe_subtract (locked_balance w) amount;
           na = safe_add (available_balance w) amount in
       seq_tx (verify_non_negative nl)
      (seq_tx (verify_non_negative na)
      (bind_tx (update_balances w (Some na) (Some nl)) (\<lambda>w'.
       seq_tx (write_stake_unlock w' amount rid nts) (ret w')))))))"

definition credit_deposit :: "uuid \<Rightarrow> decimal \<Rightarrow> uuid \<Rightarrow> text_value option \<Rightarrow> wallet dbtx" where
  "credit_deposit u amount did nts =
     seq_tx (raise_if (amount \<le> 0) ValidationError)
     (bind_tx (get_by_user_id_for_update u) (\<lambda>w.
      let na = safe_add (available_balance w) amount in
      seq_tx (verify_non_negative na)
     (bind_tx (update_balances w (Some na) None) (\<lambda>w'.
      seq_tx (write_deposit_credit w' amount did nts) (ret w')))))"

definition hold_withdrawal :: "uuid \<Rightarrow> decimal \<Rightarrow> uuid \<Rightarrow> text_value option \<Rightarrow> wallet dbtx" where
  "hold_withdrawal u amount wid nts =
     seq_tx (raise_if (amount \<le> 0) ValidationError)
     (bind_tx (get_by_user_id_for_update u) (\<lambda>w.
      seq_tx (raise_if (available_balance w < amount) InsufficientFundsError)
      (let na = safe_subtract (available_balance w) amount;
           nl = safe_add (locked_balance w) amount in
       seq_tx (verify_non_negative na)
      (seq_tx (verify_non_negative nl)
      (bind_tx (update_balances w (Some na) (Some nl)) (\<lambda>w'.
       seq_tx (write_withdrawal_hold w' amount wid nts) (ret w')))))))"

definition release_withdrawal_hold :: "uuid \<Rightarrow> decimal \<Rightarrow> uuid \<Rightarrow> text_value option \<Rightarrow> wallet dbtx" where
  "release_withdrawal_hold u amount wid nts =
     seq_tx (raise_if (amount \<le> 0) ValidationError)
     (bind_tx (get_by_user_id_for_update u) (\<lambda>w.
      seq_tx (raise_if (locked_balance w < amount) InsufficientFundsError)
      (let nl = safe_subtract (locked_balance w) amount;
           na = safe_add (available_balance w) amount in
       seq_tx (verify_non_negative nl)
      (seq_tx (verify_non_negative na)
      (bind_tx (update_balances w (Some na) (Some nl)) (\<lambda>w'.
       seq_tx (write_withdrawal_release w' amount wid nts) (ret w')))))))"

definition finalize_withdrawal_debit :: "uuid \<Rightarrow> decimal \<Rightarrow> uuid \<Rightarrow> text_value option \<Rightarrow> wallet dbtx" where
  "finalize_withdrawal_debit u amount wid nts =
     seq_tx (raise_if (amount \<le> 0) ValidationError)
     (bind_tx (get_by_user_id_for_update u) (\<lambda>w.
      seq_tx (raise_if (locked_balance w < amount) InsufficientFundsError)
      (let nl = safe_subtract (locked_balance w) amount in
       seq_tx (verify_non_negative nl)
      (bind_tx (update_balances w None (Some nl)) (\<lambda>w'.
       seq_tx (write_withdrawal_debit w' amount wid nts) (ret w'))))))"

text \<open>
  The dictionary \<open>wallets\<close> filled by the loop over the sorted ids: the two rows are locked in
  ascending order and returned in the order of the arguments (the same row twice when they are equal).
\<close>

definition lock_pair :: "uuid \<Rightarrow> uuid \<Rightarrow> (wallet \<times> wallet) dbtx" where
  "lock_pair a b =
     bind_tx (get_by_user_id_for_update (min a b)) (\<lambda>x.
     bind_tx (get_by_user_id_for_update (max a b)) (\<lambda>y.
     ret (if a \<le> b then (x, y) else (y, x))))"

definition transfer_locked_funds ::
  "uuid \<Rightarrow> uuid \<Rightarrow> decimal \<Rightarrow> decimal \<Rightarrow> uuid \<Rightarrow> text_value option \<Rightarrow> (wallet \<times> wallet) dbtx" where
  "transfer_locked_funds winner loser amount fee bid nts =
     seq_tx (raise_if (amount \<le> 0) ValidationError)
    (seq_tx (raise_if (fee < 0) ValidationError)
    (let total_pool = safe_add amount amount;
         winner_payout = safe_subtract total_pool fee in
     seq_tx (raise_if (winner_payout \<le> 0) ValidationError)
    (bind_tx (lock_pair winner loser) (\<lambda>(ww, lw).
     seq_tx (raise_if (locked_balance ww < amount) InsufficientFundsError)
    (seq_tx (raise_if (locked_balance lw < amount) InsufficientFundsError)
    (let wl = safe_subtract (locked_balance ww) amount;
         wa = safe_add (available_balance ww) winner_payout;
         ll = safe_subtract (locked_balance lw) amount in
     seq_tx (verify_non_negative wl)
    (seq_tx (verify_non_negative wa)
    (seq_tx (verify_non_negative ll)
    (bind_tx (update_balances ww (Some wa) (Some wl)) (\<lambda>ww'.
     bind_tx (update_balances lw None (Some ll)) (\<lambda>lw'.
     let fee_note = (if 0 < fee then [Lit ''platform fee='', MoneyPart fee] else [Lit ''zero fee'']);
         entry_notes = (case nts of None \<Rightarrow> fee_note
            | Some t \<Rightarrow> if list_all empty_part t then fee_note else t @ Lit ''; '' # fee_note) in
     seq_tx (write_settlement_winner ww' lw' amount winner_payout bid (Some entry_notes))
            (ret (ww', lw')))))))))))))"

section \<open>Sound wallets\<close>

definition sound_wallet :: "wallet \<Rightarrow> bool" where
  "sound_wallet w \<longleftrightarrow> on_cent (available_balance w) \<and> on_cent (locked_balance w) \<and>
     0 \<le> available_balance w \<and> 0 \<le> locked_balance w"

definition wallet_books :: "db \<Rightarrow> bool" where
  "wallet_books s \<longleftrightarrow> keyed wallet_user (wallets s) \<and> (\<forall>w \<in> set (wallets s). sound_wallet w)"

lemma wallet_booksD:
  assumes "wallet_books s" and "row_get wallet_user u (wallets s) = Some w"
  shows "sound_wallet w" and "wallet_user w = u" and "keyed wallet_user (wallets s)"
  using assms row_get_SomeD [of wallet_user u "wallets s" w] by (auto simp: wallet_books_def)

lemma wallet_books_cong: "wallets s' = wallets s \<Longrightarrow> wallet_books s' = wallet_books s"
  by (simp add: wallet_books_def)

lemma field_of_nonneg: "sound_wallet w \<Longrightarrow> 0 \<le> field_of f w"
  by (cases f) (auto simp: sound_wallet_def field_of_def)

lemma field_of_cent: "sound_wallet w \<Longrightarrow> on_cent (field_of f w)"
  by (cases f) (auto simp: sound_wallet_def field_of_def)

lemma balance_nonneg: "wallet_books s \<Longrightarrow> 0 \<le> balance_in (wallets s) u f"
  by (auto simp: balance_in_def field_of_nonneg wallet_booksD split: option.splits)

section \<open>Moving money\<close>

text \<open>The tables that hold no user money, and the setting of the CHECK constraints, are the same.\<close>

definition same_config :: "db \<Rightarrow> db \<Rightarrow> bool" where
  "same_config s s' \<longleftrightarrow> users s' = users s \<and> matches s' = matches s \<and> fee_configs s' = fee_configs s \<and>
     enforce_checks s' = enforce_checks s"

definition same_platform :: "db \<Rightarrow> db \<Rightarrow> bool" where
  "same_platform s s' \<longleftrightarrow>
     platform_accounts s' = platform_accounts s \<and> platform_ledger s' = platform_ledger s"

definition same_requests :: "db \<Rightarrow> db \<Rightarrow> bool" where
  "same_requests s s' \<longleftrightarrow> deposits s' = deposits s \<and> withdrawals s' = withdrawals s"

definition same_bets :: "db \<Rightarrow> db \<Rightarrow> bool" where
  "same_bets s s' \<longleftrightarrow> bets s' = bets s \<and> bet_events s' = bet_events s"

lemmas same_defs = same_config_def same_platform_def same_requests_def same_bets_def

definition frame :: "db \<Rightarrow> db \<Rightarrow> bool" where
  "frame s s' \<longleftrightarrow> same_config s s' \<and> same_platform s s' \<and> same_requests s s' \<and> same_bets s s'"

text \<open>The balances moved by \<open>d\<close>: no wallet appears or disappears, all stay sound.\<close>

definition rebalanced :: "delta \<Rightarrow> db \<Rightarrow> db \<Rightarrow> bool" where
  "rebalanced d s s' \<longleftrightarrow> frame s s' \<and> ledger s' = ledger s \<and>
     map wallet_user (wallets s') = map wallet_user (wallets s) \<and>
     (\<forall>w \<in> set (wallets s'). sound_wallet w) \<and>
     (\<forall>u f. balance_in (wallets s') u f = balance_in (wallets s) u f + d u f) \<and>
     prefix (row_locks s) (row_locks s')"

text \<open>
  The users' money moved by \<open>d\<close>: the balances and the ledger change together, entries are only
  appended, no wallet appears or disappears. \<open>moved\<close> adds that nothing else was touched.
\<close>

definition money :: "delta \<Rightarrow> db \<Rightarrow> db \<Rightarrow> bool" where
  "money d s s' \<longleftrightarrow>
     prefix (ledger s) (ledger s') \<and>
     (\<forall>u f. net (ledger s') u f = net (ledger s) u f + d u f) \<and>
     map wallet_user (wallets s') = map wallet_user (wallets s) \<and>
     (\<forall>w \<in> set (wallets s'). sound_wallet w) \<and>
     (\<forall>u f. balance_in (wallets s') u f = balance_in (wallets s) u f + d u f)"

definition moved :: "delta \<Rightarrow> db \<Rightarrow> db \<Rightarrow> bool" where
  "moved d s s' \<longleftrightarrow> frame s s' \<and> money d s s' \<and> prefix (row_locks s) (row_locks s')"

lemma rebalanced_posts: "rebalanced d s s1 \<Longrightarrow> posts d s1 s' \<Longrightarrow> moved d s s'"
  by (auto simp: rebalanced_def posts_def moved_def money_def frame_def same_defs)

lemma rebalanced_trans: "rebalanced d s s1 \<Longrightarrow> rebalanced e s1 s' \<Longrightarrow> rebalanced (both d e) s s'"
  by (auto simp: rebalanced_def both_def frame_def same_defs elim: prefix_order.order_trans)

lemma rebalanced_cong: "rebalanced d s s' \<Longrightarrow> (\<And>u f. d u f = e u f) \<Longrightarrow> rebalanced e s s'"
  by (simp add: rebalanced_def)

lemma moved_trans: "moved d s s1 \<Longrightarrow> moved e s1 s' \<Longrightarrow> moved (both d e) s s'"
  by (auto simp: moved_def money_def both_def frame_def same_defs elim: prefix_order.order_trans)

lemma moved_cong: "moved d s s' \<Longrightarrow> (\<And>u f. d u f = e u f) \<Longrightarrow> moved e s s'"
  by (simp add: moved_def money_def)

lemma money_books: "money d s s' \<Longrightarrow> wallet_books s \<Longrightarrow> wallet_books s'"
  by (auto simp: money_def wallet_books_def keyed_def)

lemma moved_money: "moved d s s' \<Longrightarrow> money d s s'"
  by (simp add: moved_def)

lemma moved_books: "moved d s s' \<Longrightarrow> wallet_books s \<Longrightarrow> wallet_books s'"
  using moved_money money_books by blast

lemma money_trans: "money d s s1 \<Longrightarrow> money e s1 s' \<Longrightarrow> money (both d e) s s'"
  by (auto simp: money_def both_def elim: prefix_order.order_trans)

text \<open>\<open>money\<close> looks at two tables only.\<close>

lemma money_tables:
  "wallets s = wallets t \<Longrightarrow> ledger s = ledger t \<Longrightarrow> wallets s' = wallets t' \<Longrightarrow> ledger s' = ledger t' \<Longrightarrow>
     money d s s' = money d t t'"
  by (simp add: money_def)

lemma money_refl: "wallet_books s \<Longrightarrow> ledger s' = ledger s \<Longrightarrow> wallets s' = wallets s \<Longrightarrow> money (\<lambda>u f. 0) s s'"
  by (simp add: money_def wallet_books_def)

lemma rebalanced_books: "rebalanced d s s' \<Longrightarrow> wallet_books s \<Longrightarrow> wallet_books s'"
  by (auto simp: rebalanced_def wallet_books_def keyed_def)

text \<open>Updating a wallet that was read as \<open>w\<close>.\<close>

definition change_to :: "decimal option \<Rightarrow> decimal \<Rightarrow> decimal" where
  "change_to v old = (case v of None \<Rightarrow> 0 | Some x \<Rightarrow> round_half_up x - old)"

lemma set_balances_user [simp]: "wallet_user (set_balances av lk r) = wallet_user r"
  by (simp add: set_balances_def)

lemma balance_in_put:
  "row_get wallet_user u (wallets s) = Some w \<Longrightarrow>
   balance_in (wallets (put_wallet u (set_balances av lk) s)) v f =
     (if v = u then field_of f (set_balances av lk w) else balance_in (wallets s) v f)"
  by (simp add: balance_in_def wallet_tab.get_put)

lemma update_rebalanced:
  assumes "wallet_books s" and w: "row_get wallet_user u (wallets s) = Some w"
    and upd: "update_balances w av lk s = Inr (w', s')"
    and "\<And>a. av = Some a \<Longrightarrow> 0 \<le> a" and "\<And>l. lk = Some l \<Longrightarrow> 0 \<le> l"
  shows "rebalanced (both (only u available (change_to av (available_balance w)))
                          (only u locked (change_to lk (locked_balance w)))) s s'"
    and "wallet_user w' = u"
proof -
  let ?f = "set_balances (map_option round_half_up av) (map_option round_half_up lk)"
  note books = wallet_booksD [OF assms(1) w]
  have s': "s' = put_wallet u ?f s"
    using upd books by (simp add: update_balances_inv)
  have "sound_wallet (?f w)"
    using books(1) assms(4,5)
    by (auto simp: sound_wallet_def set_balances_def round_nonneg split: option.splits)
  then have "\<forall>x \<in> set (wallets s'). sound_wallet x"
    unfolding s' using assms(1) w books(3)
    by (intro wallet_tab.all_put) (auto simp: wallet_books_def)
  moreover have "balance_in (wallets s') v f = balance_in (wallets s) v f +
      both (only u available (change_to av (available_balance w)))
           (only u locked (change_to lk (locked_balance w))) v f" for v f
    unfolding s' balance_in_put [OF w]
    by (cases f) (auto simp: both_def only_def change_to_def field_of_def set_balances_def
        balance_in_def w split: option.splits)
  ultimately show "rebalanced (both (only u available (change_to av (available_balance w)))
                          (only u locked (change_to lk (locked_balance w)))) s s'"
    by (simp add: rebalanced_def s' frame_def same_defs put_wallet_def map_key_upd)
  show "wallet_user w' = u"
    using upd books s' row_get_SomeD [of wallet_user u "wallets s'" w']
    by (simp add: update_balances_inv)
qed

lemma change_to_sub:
  "on_cent x \<Longrightarrow> 0 \<le> a \<Longrightarrow> \<not> half_cent_tie a \<Longrightarrow>
     change_to (Some (safe_subtract x a)) x = - round_half_up a"
  by (simp add: change_to_def safe_subtract_raw round_on_cent on_cent_diff)

lemma change_to_add:
  "on_cent x \<Longrightarrow> 0 \<le> x \<Longrightarrow> 0 \<le> a \<Longrightarrow> change_to (Some (safe_add x a)) x = round_half_up a"
  by (simp add: change_to_def safe_add_raw round_on_cent on_cent_add)

lemma change_to_None [simp]: "change_to None x = 0"
  by (simp add: change_to_def)

lemma update_moved:
  assumes "wallet_books s" and w: "row_get wallet_user u (wallets s) = Some w"
    and upd: "update_balances w av lk (s\<lparr>row_locks := row_locks s @ ls\<rparr>) = Inr (w', s1)"
    and post: "wallet_user w' = u \<Longrightarrow> posts d s1 s'"
    and "\<And>a. av = Some a \<Longrightarrow> 0 \<le> a" and "\<And>l. lk = Some l \<Longrightarrow> 0 \<le> l"
    and "\<And>v f. both (only u available (change_to av (available_balance w)))
                      (only u locked (change_to lk (locked_balance w))) v f = d v f"
  shows "moved d s s'"
proof -
  let ?s = "s\<lparr>row_locks := row_locks s @ ls\<rparr>"
  have "wallet_books ?s" and "row_get wallet_user u (wallets ?s) = Some w"
    using assms(1) w by (simp_all add: wallet_books_def)
  note upd' = update_rebalanced [OF this upd assms(5,6)]
  have "rebalanced d ?s s1" using upd'(1) assms(7) by (rule rebalanced_cong)
  then have "rebalanced d s s1"
    by (auto simp: rebalanced_def frame_def same_defs dest: append_prefixD)
  with post [OF upd'(2)] show ?thesis by (rule rebalanced_posts [rotated])
qed

section \<open>The contract of a wallet operation\<close>

text \<open>What is left in the wallet after a change is neither negative nor too large for the column.\<close>

definition bearable :: "delta \<Rightarrow> db \<Rightarrow> uuid \<Rightarrow> bool" where
  "bearable d s u \<longleftrightarrow> (\<forall>f. 0 \<le> balance_in (wallets s) u f + d u f \<and>
     balance_in (wallets s) u f + d u f < 10 ^ 13)"

locale wallet_mover =
  fixes move :: "uuid \<Rightarrow> decimal \<Rightarrow> uuid \<Rightarrow> text_value option \<Rightarrow> wallet dbtx"
    and effect :: "uuid \<Rightarrow> decimal \<Rightarrow> delta"
  assumes moves: "wallet_books s \<Longrightarrow> 0 < a \<Longrightarrow> \<not> half_cent_tie a \<Longrightarrow>
      move u a r n s = Inr (w, s') \<Longrightarrow> moved (effect u (round_half_up a)) s s'"
    and move_succeeds: "wallet_books s \<Longrightarrow> row_get wallet_user u (wallets s) = Some w \<Longrightarrow>
      0 < a \<Longrightarrow> a < 10 ^ 13 \<Longrightarrow> on_cent a \<Longrightarrow> bearable (effect u a) s u \<Longrightarrow>
      \<exists>w' s'. move u a r n s = Inr (w', s')"
    and effect_local: "v \<noteq> u \<Longrightarrow> effect u x v f = 0"
begin

lemma move_cents:
  assumes "wallet_books s" and "0 < a" and "on_cent a" and "move u a r n s = Inr (w, s')"
  shows "moved (effect u a) s s'"
  using moves [OF assms(1,2) on_cent_no_tie assms(4)] assms(3) by (simp add: round_on_cent)

lemma move_keeps_books:
  "wallet_books s \<Longrightarrow> 0 < a \<Longrightarrow> \<not> half_cent_tie a \<Longrightarrow> move u a r n s = Inr (w, s') \<Longrightarrow>
     wallet_books s'"
  using moves moved_books by blast

lemma move_others:
  assumes "wallet_books s" and "0 < a" and "\<not> half_cent_tie a" and "move u a r n s = Inr (w, s')"
    and "v \<noteq> u"
  shows "balance_in (wallets s') v f = balance_in (wallets s) v f"
  using moves [OF assms(1-4)] effect_local [OF assms(5)] by (simp add: moved_def money_def)

end

lemma locked_row_sound:
  "wallet_books s \<Longrightarrow> row_get wallet_user u (wallets s) = Some w \<Longrightarrow>
     on_cent (available_balance w) \<and> on_cent (locked_balance w) \<and>
     0 \<le> available_balance w \<and> 0 \<le> locked_balance w"
  using wallet_booksD by (fastforce simp: sound_wallet_def)

section \<open>One shape for all operations\<close>

text \<open>
  The operations on one wallet differ in a guard, the two new balances and the entries they write:
  each is an instance of \<open>change_one\<close>, for which the contract is proved once.
\<close>

definition below_zero :: "decimal option \<Rightarrow> bool" where
  "below_zero v \<longleftrightarrow> (case v of None \<Rightarrow> False | Some x \<Rightarrow> x < 0)"

definition change_one ::
  "(wallet \<Rightarrow> bool) \<Rightarrow> (wallet \<Rightarrow> decimal option) \<Rightarrow> (wallet \<Rightarrow> decimal option) \<Rightarrow>
   (wallet \<Rightarrow> unit dbtx) \<Rightarrow> uuid \<Rightarrow> wallet dbtx" where
  "change_one short av lk wr u =
     bind_tx (get_by_user_id_for_update u) (\<lambda>w.
     seq_tx (raise_if (short w) InsufficientFundsError)
    (seq_tx (raise_if (below_zero (av w) \<or> below_zero (lk w)) ValidationError)
    (bind_tx (update_balances w (av w) (lk w)) (\<lambda>w'. seq_tx (wr w') (ret w')))))"

lemma verify_both:
  "seq_tx (verify_non_negative x) (seq_tx (verify_non_negative y) m) =
     seq_tx (raise_if (x < 0 \<or> y < 0) ValidationError) m"
  by (rule ext) (simp add: tx_run verify_non_negative_def)

lemma verify_one: "verify_non_negative x = raise_if (x < 0) ValidationError"
  by (simp add: verify_non_negative_def)

lemmas one_shape = change_one_def Let_def verify_both below_zero_def disj_commute

lemma lock_stake_shape: "lock_stake u a r n =
    change_one (\<lambda>w. available_balance w < a) (\<lambda>w. Some (safe_subtract (available_balance w) a))
      (\<lambda>w. Some (safe_add (locked_balance w) a)) (\<lambda>w. write_stake_lock w a r n) u"
  by (simp add: lock_stake_def one_shape)

lemma unlock_stake_shape: "unlock_stake u a r n =
    change_one (\<lambda>w. False) (\<lambda>w. Some (safe_add (available_balance w) a))
      (\<lambda>w. Some (safe_subtract (locked_balance w) a)) (\<lambda>w. write_stake_unlock w a r n) u"
  by (simp add: unlock_stake_def one_shape)

lemma void_refund_shape: "void_refund u a r n =
    change_one (\<lambda>w. False) (\<lambda>w. Some (safe_add (available_balance w) a))
      (\<lambda>w. Some (safe_subtract (locked_balance w) a)) (\<lambda>w. write_void_refund w a r n) u"
  by (simp add: void_refund_def one_shape)

lemma lock_funds_shape: "lock_funds u a r n =
    seq_tx (raise_if (a \<le> 0) ValidationError) (lock_stake u a r n)"
  by (simp add: lock_funds_def lock_stake_def)

lemma unlock_funds_shape: "unlock_funds u a r n =
    seq_tx (raise_if (a \<le> 0) ValidationError)
     (change_one (\<lambda>w. locked_balance w < a) (\<lambda>w. Some (safe_add (available_balance w) a))
      (\<lambda>w. Some (safe_subtract (locked_balance w) a)) (\<lambda>w. write_stake_unlock w a r n) u)"
  by (simp add: unlock_funds_def one_shape)

lemma credit_deposit_shape: "credit_deposit u a r n =
    seq_tx (raise_if (a \<le> 0) ValidationError)
     (change_one (\<lambda>w. False) (\<lambda>w. Some (safe_add (available_balance w) a))
      (\<lambda>w. None) (\<lambda>w. write_deposit_credit w a r n) u)"
  by (simp add: credit_deposit_def one_shape verify_one)

lemma hold_withdrawal_shape: "hold_withdrawal u a r n =
    seq_tx (raise_if (a \<le> 0) ValidationError)
     (change_one (\<lambda>w. available_balance w < a) (\<lambda>w. Some (safe_subtract (available_balance w) a))
      (\<lambda>w. Some (safe_add (locked_balance w) a)) (\<lambda>w. write_withdrawal_hold w a r n) u)"
  by (simp add: hold_withdrawal_def one_shape)

lemma release_withdrawal_hold_shape: "release_withdrawal_hold u a r n =
    seq_tx (raise_if (a \<le> 0) ValidationError)
     (change_one (\<lambda>w. locked_balance w < a) (\<lambda>w. Some (safe_add (available_balance w) a))
      (\<lambda>w. Some (safe_subtract (locked_balance w) a)) (\<lambda>w. write_withdrawal_release w a r n) u)"
  by (simp add: release_withdrawal_hold_def one_shape)

lemma finalize_withdrawal_debit_shape: "finalize_withdrawal_debit u a r n =
    seq_tx (raise_if (a \<le> 0) ValidationError)
     (change_one (\<lambda>w. locked_balance w < a) (\<lambda>w. None)
      (\<lambda>w. Some (safe_subtract (locked_balance w) a)) (\<lambda>w. write_withdrawal_debit w a r n) u)"
  by (simp add: finalize_withdrawal_debit_def one_shape verify_one)

lemmas op_shapes = unlock_stake_shape void_refund_shape unlock_funds_shape credit_deposit_shape
  hold_withdrawal_shape release_withdrawal_hold_shape finalize_withdrawal_debit_shape
  lock_funds_shape lock_stake_shape

lemma change_one_moved:
  assumes books: "wallet_books s" and run: "change_one short av lk wr u s = Inr (w, s')"
    and post: "\<And>w' s1 x s'. wr w' s1 = Inr (x, s') \<Longrightarrow> wallet_user w' = u \<Longrightarrow> posts d s1 s'"
    and change: "\<And>w v f. on_cent (available_balance w) \<Longrightarrow> on_cent (locked_balance w) \<Longrightarrow>
      0 \<le> available_balance w \<Longrightarrow> 0 \<le> locked_balance w \<Longrightarrow>
      both (only u available (change_to (av w) (available_balance w)))
           (only u locked (change_to (lk w) (locked_balance w))) v f = d v f"
  shows "moved d s s'"
proof -
  obtain w0 s1 x where w0: "row_get wallet_user u (wallets s) = Some w0"
    and upd: "update_balances w0 (av w0) (lk w0) (s\<lparr>row_locks := row_locks s @ [WalletRow u]\<rparr>) = Inr (w, s1)"
    and "\<not> below_zero (av w0)" "\<not> below_zero (lk w0)" and wr: "wr w s1 = Inr (x, s')"
    using run by (auto simp: change_one_def bind_tx_inv seq_tx_inv get_by_user_id_for_update_inv)
  then show ?thesis
    using locked_row_sound [OF books w0]
    by (intro update_moved [OF books w0 upd post [OF wr]] change) (auto simp: below_zero_def)
qed

definition fits_cents :: "decimal option \<Rightarrow> bool" where
  "fits_cents v \<longleftrightarrow> (case v of None \<Rightarrow> True | Some x \<Rightarrow> on_cent x \<and> 0 \<le> x \<and> x < 10 ^ 13)"

lemma change_one_succeeds:
  assumes books: "wallet_books s" and w: "row_get wallet_user u (wallets s) = Some w"
    and "\<not> short w" and fit: "fits_cents (av w)" "fits_cents (lk w)"
    and wr: "wallet_row_ok (set_balances (av w) (lk w) w) \<Longrightarrow> never_fails (wr (set_balances (av w) (lk w) w))"
  shows "\<exists>w' s'. change_one short av lk wr u s = Inr (w', s')"
proof -
  let ?w = "set_balances (av w) (lk w) w"
  have round: "map_option round_half_up (av w) = av w" "map_option round_half_up (lk w) = lk w"
    using fit by (auto simp: fits_cents_def round_on_cent split: option.splits)
  have ok: "wallet_row_ok ?w"
    using locked_row_sound [OF books w] fit
    by (auto simp: wallet_row_ok_def set_balances_def fits_cents_def split: option.splits)
  have "fits (av w)" "fits (lk w)" "\<not> below_zero (av w)" "\<not> below_zero (lk w)"
    using fit by (auto simp: fits_def fits_cents_def below_zero_def round_on_cent split: option.splits)
  moreover have "\<exists>x s'. wr ?w s1 = Inr (x, s')" for s1
    using wr [OF ok] by (rule never_failsD)
  moreover have "wallet_user w = u" using wallet_booksD(2) [OF books w] .
  ultimately show ?thesis
    using assms(3) w ok
    by (auto simp: change_one_def bind_tx_inv seq_tx_inv get_by_user_id_for_update_inv
        update_balances_inv round wallet_tab.get_put put_wallet_def row_get_upd)
qed

section \<open>The operations keep the contract\<close>

lemmas change_simps = both_def only_def shift_def change_to_sub change_to_add

lemma on_cent_lt_fits:
  "on_cent x \<Longrightarrow> on_cent a \<Longrightarrow> 0 \<le> x + a \<Longrightarrow> x + a < 10 ^ 13 \<Longrightarrow> fits_cents (Some (safe_add x a))"
  "on_cent x \<Longrightarrow> on_cent a \<Longrightarrow> 0 \<le> x - a \<Longrightarrow> x - a < 10 ^ 13 \<Longrightarrow> fits_cents (Some (safe_subtract x a))"
  by (simp_all add: fits_cents_def safe_add_cents safe_subtract_cents on_cent_add on_cent_diff)

lemma bearableD:
  assumes "bearable d s u" and "row_get wallet_user u (wallets s) = Some w"
  shows "0 \<le> available_balance w + d u available" "available_balance w + d u available < 10 ^ 13"
    "0 \<le> locked_balance w + d u locked" "locked_balance w + d u locked < 10 ^ 13"
  using assms by (auto simp: bearable_def balance_in_def field_of_def split: balance_field.splits
      dest: spec [of _ available] spec [of _ locked])

lemma postable_after:
  assumes "fits_cents (Some (available_balance w'))" and "fits_cents (Some (locked_balance w'))"
    and "wallet_row_ok w'" and "on_cent a" "0 < a" "a < 10 ^ 13"
  shows "postable w' a"
  using assms by (simp add: postable_def fits_cents_def)

text \<open>From available to locked: the stake lock and the withdrawal hold.\<close>

lemma to_locked_moved:
  assumes "wallet_books s" and a: "0 < a" "\<not> half_cent_tie a"
    and "change_one short (\<lambda>w. Some (safe_subtract (available_balance w) a))
      (\<lambda>w. Some (safe_add (locked_balance w) a)) wr u s = Inr (w, s')"
    and "\<And>w' s1 x s'. wr w' s1 = Inr (x, s') \<Longrightarrow>
      posts (shift (wallet_user w') available locked (round_half_up a)) s1 s'"
  shows "moved (shift u available locked (round_half_up a)) s s'"
  using assms(1,4) by (rule change_one_moved) (use a assms(5) in \<open>auto simp: change_simps\<close>)

lemma to_available_moved:
  assumes "wallet_books s" and a: "0 < a" "\<not> half_cent_tie a"
    and "change_one short (\<lambda>w. Some (safe_add (available_balance w) a))
      (\<lambda>w. Some (safe_subtract (locked_balance w) a)) wr u s = Inr (w, s')"
    and "\<And>w' s1 x s'. wr w' s1 = Inr (x, s') \<Longrightarrow>
      posts (shift (wallet_user w') locked available (round_half_up a)) s1 s'"
  shows "moved (shift u locked available (round_half_up a)) s s'"
  using assms(1,4) by (rule change_one_moved) (use a assms(5) in \<open>auto simp: change_simps\<close>)

lemma to_locked_succeeds:
  assumes books: "wallet_books s" and w: "row_get wallet_user u (wallets s) = Some w"
    and a: "0 < a" "a < 10 ^ 13" "on_cent a" and b: "bearable (shift u available locked a) s u"
    and wr: "\<And>w'. postable w' a \<Longrightarrow> never_fails (wr w')"
  shows "\<exists>w' s'. change_one (\<lambda>w. available_balance w < a)
      (\<lambda>w. Some (safe_subtract (available_balance w) a))
      (\<lambda>w. Some (safe_add (locked_balance w) a)) wr u s = Inr (w', s')"
  using books w
proof (rule change_one_succeeds)
  note sound = locked_row_sound [OF books w] and bear = bearableD [OF b w, unfolded change_simps]
  show fit: "fits_cents (Some (safe_subtract (available_balance w) a))"
    "fits_cents (Some (safe_add (locked_balance w) a))"
    using sound a bear by (auto intro!: on_cent_lt_fits)
  show "\<not> available_balance w < a" using bear by simp
  show "never_fails (wr (set_balances (Some (safe_subtract (available_balance w) a))
      (Some (safe_add (locked_balance w) a)) w))"
    if "wallet_row_ok (set_balances (Some (safe_subtract (available_balance w) a))
      (Some (safe_add (locked_balance w) a)) w)"
    using that fit a by (intro wr postable_after) (simp_all add: set_balances_def)
qed

lemma to_available_succeeds:
  assumes books: "wallet_books s" and w: "row_get wallet_user u (wallets s) = Some w"
    and a: "0 < a" "a < 10 ^ 13" "on_cent a" and b: "bearable (shift u locked available a) s u"
    and wr: "\<And>w'. postable w' a \<Longrightarrow> never_fails (wr w')"
    and short: "a \<le> locked_balance w \<Longrightarrow> \<not> short w"
  shows "\<exists>w' s'. change_one short (\<lambda>w. Some (safe_add (available_balance w) a))
      (\<lambda>w. Some (safe_subtract (locked_balance w) a)) wr u s = Inr (w', s')"
  using books w
proof (rule change_one_succeeds)
  note sound = locked_row_sound [OF books w] and bear = bearableD [OF b w, unfolded change_simps]
  show fit: "fits_cents (Some (safe_add (available_balance w) a))"
    "fits_cents (Some (safe_subtract (locked_balance w) a))"
    using sound a bear by (auto intro!: on_cent_lt_fits)
  show "\<not> short w" using bear by (intro short) simp
  show "never_fails (wr (set_balances (Some (safe_add (available_balance w) a))
      (Some (safe_subtract (locked_balance w) a)) w))"
    if "wallet_row_ok (set_balances (Some (safe_add (available_balance w) a))
      (Some (safe_subtract (locked_balance w) a)) w)"
    using that fit a by (intro wr postable_after) (simp_all add: set_balances_def)
qed

lemma shift_local: "v \<noteq> u \<Longrightarrow> shift u f g x v h = 0"
  by (simp add: change_simps)

interpretation lock_op: wallet_mover lock_stake "\<lambda>u. shift u available locked"
  by unfold_locales (auto simp: lock_stake_shape intro: to_locked_moved write_stake_lock_posts
      to_locked_succeeds writers_never_fail shift_local)

interpretation unlock_op: wallet_mover unlock_stake "\<lambda>u. shift u locked available"
  by unfold_locales (auto simp: unlock_stake_shape intro: to_available_moved write_stake_unlock_posts
      to_available_succeeds writers_never_fail shift_local)

interpretation refund_op: wallet_mover void_refund "\<lambda>u. shift u locked available"
  by unfold_locales (auto simp: void_refund_shape intro: to_available_moved write_void_refund_posts
      to_available_succeeds writers_never_fail shift_local)

interpretation lock_funds_op: wallet_mover lock_funds "\<lambda>u. shift u available locked"
  by unfold_locales (auto simp: lock_funds_shape guarded_run
      intro: lock_op.moves lock_op.move_succeeds shift_local)

interpretation unlock_funds_op: wallet_mover unlock_funds "\<lambda>u. shift u locked available"
  by unfold_locales (auto simp: unlock_funds_shape guarded_run intro: to_available_moved
      write_stake_unlock_posts to_available_succeeds writers_never_fail shift_local)

interpretation hold_op: wallet_mover hold_withdrawal "\<lambda>u. shift u available locked"
  by unfold_locales (auto simp: hold_withdrawal_shape guarded_run intro: to_locked_moved
      write_withdrawal_hold_posts to_locked_succeeds writers_never_fail shift_local)

interpretation release_op: wallet_mover release_withdrawal_hold "\<lambda>u. shift u locked available"
  by unfold_locales (auto simp: release_withdrawal_hold_shape guarded_run intro: to_available_moved
      write_withdrawal_release_posts to_available_succeeds writers_never_fail shift_local)

text \<open>Money enters by a deposit and leaves by a withdrawal: one field of one wallet.\<close>

lemma credit_deposit_moved:
  assumes "wallet_books s" and "0 < a" and "credit_deposit u a r n s = Inr (w, s')"
  shows "moved (only u available (round_half_up a)) s s'"
proof -
  have run: "change_one (\<lambda>w. False) (\<lambda>w. Some (safe_add (available_balance w) a))
      (\<lambda>w. None) (\<lambda>w. write_deposit_credit w a r n) u s = Inr (w, s')"
    using assms(3) by (simp add: credit_deposit_shape guarded_run)
  show ?thesis
    using assms(1) run
    by (rule change_one_moved) (use assms(2) write_deposit_credit_posts in \<open>auto simp: change_simps\<close>)
qed

lemma finalize_withdrawal_debit_moved:
  assumes "wallet_books s" and "0 < a" and "\<not> half_cent_tie a"
    and "finalize_withdrawal_debit u a r n s = Inr (w, s')"
  shows "moved (only u locked (- round_half_up a)) s s'"
proof -
  have run: "change_one (\<lambda>w. locked_balance w < a) (\<lambda>w. None)
      (\<lambda>w. Some (safe_subtract (locked_balance w) a)) (\<lambda>w. write_withdrawal_debit w a r n) u s
      = Inr (w, s')"
    using assms(4) by (simp add: finalize_withdrawal_debit_shape guarded_run)
  show ?thesis
    using assms(1) run
    by (rule change_one_moved) (use assms(2,3) write_withdrawal_debit_posts in \<open>auto simp: change_simps\<close>)
qed

lemma credit_deposit_succeeds:
  assumes books: "wallet_books s" and w: "row_get wallet_user u (wallets s) = Some w"
    and a: "0 < a" "a < 10 ^ 13" "on_cent a" and b: "bearable (only u available a) s u"
  shows "\<exists>w' s'. credit_deposit u a r n s = Inr (w', s')"
proof -
  note sound = locked_row_sound [OF books w] and bear = bearableD [OF b w, unfolded change_simps]
  have fit: "fits_cents (Some (safe_add (available_balance w) a))" "fits_cents (Some (locked_balance w))"
    using sound a bear by (auto intro!: on_cent_lt_fits) (simp add: fits_cents_def)
  have "\<exists>w' s'. change_one (\<lambda>w. False) (\<lambda>w. Some (safe_add (available_balance w) a))
      (\<lambda>w. None) (\<lambda>w. write_deposit_credit w a r n) u s = Inr (w', s')"
    using books w
    by (rule change_one_succeeds)
       (use fit a in \<open>auto simp: set_balances_def fits_cents_def [of None] intro!: writers_never_fail postable_after\<close>)
  then show ?thesis using a by (simp add: credit_deposit_shape guarded_run)
qed

lemma finalize_withdrawal_debit_succeeds:
  assumes books: "wallet_books s" and w: "row_get wallet_user u (wallets s) = Some w"
    and a: "0 < a" "a < 10 ^ 13" "on_cent a" and b: "bearable (only u locked (- a)) s u"
  shows "\<exists>w' s'. finalize_withdrawal_debit u a r n s = Inr (w', s')"
proof -
  note sound = locked_row_sound [OF books w] and bear = bearableD [OF b w, unfolded change_simps]
  have fit: "fits_cents (Some (safe_subtract (locked_balance w) a))" "fits_cents (Some (available_balance w))"
    using sound a bear by (auto intro!: on_cent_lt_fits) (simp add: fits_cents_def)
  have "\<exists>w' s'. change_one (\<lambda>w. locked_balance w < a) (\<lambda>w. None)
      (\<lambda>w. Some (safe_subtract (locked_balance w) a)) (\<lambda>w. write_withdrawal_debit w a r n) u s
      = Inr (w', s')"
    using books w
    by (rule change_one_succeeds)
       (use fit a bear in \<open>auto simp: set_balances_def fits_cents_def [of None] intro!: writers_never_fail postable_after\<close>)
  then show ?thesis using a by (simp add: finalize_withdrawal_debit_shape guarded_run)
qed

lemma only_local: "v \<noteq> u \<Longrightarrow> only u f x v g = 0"
  by (simp add: only_def)

interpretation credit_op: wallet_mover credit_deposit "\<lambda>u. only u available"
  by unfold_locales (auto intro: credit_deposit_moved credit_deposit_succeeds only_local)

interpretation debit_op: wallet_mover finalize_withdrawal_debit "\<lambda>u x. only u locked (- x)"
  by unfold_locales
     (auto intro: finalize_withdrawal_debit_moved finalize_withdrawal_debit_succeeds only_local)

section \<open>Two wallets at once\<close>

lemma lock_pair_inv [tx_inv]:
  "lock_pair a b s = Inr ((x, y), s') \<longleftrightarrow>
     row_get wallet_user a (wallets s) = Some x \<and> row_get wallet_user b (wallets s) = Some y \<and>
     s' = s\<lparr>row_locks := row_locks s @ [WalletRow (min a b), WalletRow (max a b)]\<rparr>"
  by (auto simp: lock_pair_def bind_tx_inv get_by_user_id_for_update_inv min_def max_def)

text \<open>The change a winner settlement makes: the stakes of both are consumed, the winner is paid.\<close>

definition winner_change :: "uuid \<Rightarrow> uuid \<Rightarrow> decimal \<Rightarrow> decimal \<Rightarrow> delta" where
  "winner_change winner loser stake fee =
     both (only winner locked (- stake))
    (both (only loser locked (- stake)) (only winner available (2 * stake - fee)))"

lemma update_two_rebalanced:
  assumes books: "wallet_books s" and "a \<noteq> b"
    and x: "row_get wallet_user a (wallets s) = Some x" and y: "row_get wallet_user b (wallets s) = Some y"
    and u1: "update_balances x av lk (s\<lparr>row_locks := row_locks s @ ls\<rparr>) = Inr (x', s1)"
    and u2: "update_balances y av' lk' s1 = Inr (y', s2)"
    and nonneg: "list_all (\<lambda>v. \<not> below_zero v) [av, lk, av', lk']"
  shows "rebalanced
      (both (both (only a available (change_to av (available_balance x)))
                  (only a locked (change_to lk (locked_balance x))))
            (both (only b available (change_to av' (available_balance y)))
                  (only b locked (change_to lk' (locked_balance y))))) s s2"
    and "wallet_user x' = a" and "wallet_user y' = b"
proof -
  let ?s = "s\<lparr>row_locks := row_locks s @ ls\<rparr>"
  have s: "wallet_books ?s" "row_get wallet_user a (wallets ?s) = Some x"
    using books x by (simp_all add: wallet_books_def)
  have nn: "av = Some r \<Longrightarrow> 0 \<le> r" "lk = Some r \<Longrightarrow> 0 \<le> r"
    "av' = Some r \<Longrightarrow> 0 \<le> r" "lk' = Some r \<Longrightarrow> 0 \<le> r" for r
    using nonneg by (auto simp: below_zero_def)
  note r1 = update_rebalanced [OF s u1 nn(1,2)]
  have "wallet_books s1" using rebalanced_books [OF r1(1) s(1)] .
  moreover have "row_get wallet_user b (wallets s1) = Some y"
    using u1 y assms(2) wallet_booksD(2) [OF s]
    by (auto simp: update_balances_inv wallet_tab.get_put)
  ultimately have r2: "rebalanced (both (only b available (change_to av' (available_balance y)))
      (only b locked (change_to lk' (locked_balance y)))) s1 s2" "wallet_user y' = b"
    using update_rebalanced [OF _ _ u2 nn(3,4)] by simp_all
  have "rebalanced (both (both (only a available (change_to av (available_balance x)))
                  (only a locked (change_to lk (locked_balance x))))
            (both (only b available (change_to av' (available_balance y)))
                  (only b locked (change_to lk' (locked_balance y))))) ?s s2"
    using r1(1) r2(1) by (rule rebalanced_trans)
  then show "rebalanced (both (both (only a available (change_to av (available_balance x)))
                  (only a locked (change_to lk (locked_balance x))))
            (both (only b available (change_to av' (available_balance y)))
                  (only b locked (change_to lk' (locked_balance y))))) s s2"
    by (auto simp: rebalanced_def frame_def same_defs dest: append_prefixD)
  show "wallet_user x' = a" "wallet_user y' = b" using r1(2) r2(2) by auto
qed

text \<open>The parts of a successful transfer.\<close>

lemma transfer_locked_funds_inv:
  assumes "transfer_locked_funds winner loser amount fee bid n s = Inr (r, s')"
  obtains x y x' y' s1 s2 nts z where
    "0 < amount" "0 \<le> fee" "0 < safe_subtract (safe_add amount amount) fee"
    "row_get wallet_user winner (wallets s) = Some x" "row_get wallet_user loser (wallets s) = Some y"
    "amount \<le> locked_balance x" "amount \<le> locked_balance y"
    "0 \<le> safe_subtract (locked_balance x) amount"
    "0 \<le> safe_add (available_balance x) (safe_subtract (safe_add amount amount) fee)"
    "0 \<le> safe_subtract (locked_balance y) amount"
    "update_balances x (Some (safe_add (available_balance x) (safe_subtract (safe_add amount amount) fee)))
       (Some (safe_subtract (locked_balance x) amount))
       (s\<lparr>row_locks := row_locks s @ [WalletRow (min winner loser), WalletRow (max winner loser)]\<rparr>)
       = Inr (x', s1)"
    "update_balances y None (Some (safe_subtract (locked_balance y) amount)) s1 = Inr (y', s2)"
    "write_settlement_winner x' y' amount (safe_subtract (safe_add amount amount) fee) bid nts s2 = Inr (z, s')"
  using assms unfolding transfer_locked_funds_def Let_def
  by (auto simp only: bind_tx_inv seq_tx_inv raise_if_inv verify_non_negative_inv ret_inv
      lock_pair_inv split_paired_Ex prod.case not_le not_less)

lemma transfer_locked_funds_moved:
  assumes books: "wallet_books s" and "winner \<noteq> loser" and c: "on_cent amount" "on_cent fee"
    and run: "transfer_locked_funds winner loser amount fee bid n s = Inr (r, s')"
  shows "moved (winner_change winner loser amount fee) s s'"
    and "0 < amount" and "0 \<le> fee" and "fee < 2 * amount"
proof -
  let ?pay = "safe_subtract (safe_add amount amount) fee"
  obtain x y x' y' s1 s2 nts z where
    g: "0 < amount" "0 \<le> fee" "0 < ?pay"
    and x: "row_get wallet_user winner (wallets s) = Some x"
    and y: "row_get wallet_user loser (wallets s) = Some y"
    and nn: "0 \<le> safe_subtract (locked_balance x) amount"
      "0 \<le> safe_add (available_balance x) ?pay" "0 \<le> safe_subtract (locked_balance y) amount"
    and u1: "update_balances x (Some (safe_add (available_balance x) ?pay))
        (Some (safe_subtract (locked_balance x) amount))
        (s\<lparr>row_locks := row_locks s @ [WalletRow (min winner loser), WalletRow (max winner loser)]\<rparr>)
        = Inr (x', s1)"
    and u2: "update_balances y None (Some (safe_subtract (locked_balance y) amount)) s1 = Inr (y', s2)"
    and wr: "write_settlement_winner x' y' amount ?pay bid nts s2 = Inr (z, s')"
    by (rule transfer_locked_funds_inv [OF run])
  have pay: "?pay = 2 * amount - fee" "on_cent (2 * amount - fee)"
    using on_cent_diff [OF on_cent_add [OF c(1) c(1)] c(2)]
      safe_subtract_cents [OF on_cent_add [OF c(1) c(1)] c(2)]
    by (simp_all add: safe_add_cents c)
  show "0 < amount" "0 \<le> fee" "fee < 2 * amount" using g pay by simp_all
  have nb: "list_all (\<lambda>v. \<not> below_zero v) [Some (safe_add (available_balance x) ?pay),
      Some (safe_subtract (locked_balance x) amount), None,
      Some (safe_subtract (locked_balance y) amount)]"
    using nn by (simp add: below_zero_def)
  note two = update_two_rebalanced [OF books assms(2) x y u1 u2 nb]
  have "posts (winner_change winner loser amount fee) s2 s'"
    using write_settlement_winner_posts [OF wr] two(2,3) pay c
    by (simp add: winner_change_def round_on_cent)
  moreover have "rebalanced (winner_change winner loser amount fee) s s2"
    using two(1)
  proof (rule rebalanced_cong)
    note tie = on_cent_no_tie [OF c(1)] on_cent_no_tie [OF pay(2)]
    show "both (both (only winner available (change_to (Some (safe_add (available_balance x) ?pay)) (available_balance x)))
        (only winner locked (change_to (Some (safe_subtract (locked_balance x) amount)) (locked_balance x))))
      (both (only loser available (change_to None (available_balance y)))
        (only loser locked (change_to (Some (safe_subtract (locked_balance y) amount)) (locked_balance y)))) v f
      = winner_change winner loser amount fee v f" for v f
      using g pay c tie locked_row_sound [OF books x] locked_row_sound [OF books y]
      by (auto simp: winner_change_def change_simps round_on_cent)
  qed
  ultimately show "moved (winner_change winner loser amount fee) s s'" by (rule rebalanced_posts [rotated])
qed

section \<open>The total\<close>

definition total_money :: "wallet list \<Rightarrow> decimal" where
  "total_money ws = sum_list (map (\<lambda>w. available_balance w + locked_balance w) ws)"

definition worth :: "uuid list \<Rightarrow> delta \<Rightarrow> decimal" where
  "worth us d = sum_list (map (\<lambda>u. d u available + d u locked) us)"

lemma total_by_users:
  assumes "keyed wallet_user ws"
  shows "total_money ws = worth (map wallet_user ws) (balance_in ws)"
proof -
  have "available_balance w + locked_balance w =
      balance_in ws (wallet_user w) available + balance_in ws (wallet_user w) locked"
    if "w \<in> set ws" for w
    using row_get_in [OF assms that] by (simp add: balance_in_def field_of_def)
  then show ?thesis by (simp add: total_money_def worth_def comp_def cong: map_cong)
qed

lemma worth_both: "worth us (both d e) = worth us d + worth us e"
  by (simp add: worth_def both_def sum_list_addf [symmetric] algebra_simps)

lemma worth_only: "distinct us \<Longrightarrow> worth us (only u f x) = (if u \<in> set us then x else 0)"
  by (cases f; induction us) (auto simp: worth_def only_def)

lemma worth_shift: "distinct us \<Longrightarrow> f \<noteq> g \<Longrightarrow> worth us (shift u f g x) = 0"
  by (simp add: shift_def worth_both worth_only)

lemma money_total:
  assumes "wallet_books s" and "money d s s'"
  shows "total_money (wallets s') = total_money (wallets s) + worth (map wallet_user (wallets s)) d"
proof -
  have "keyed wallet_user (wallets s)" "keyed wallet_user (wallets s')"
    and u: "map wallet_user (wallets s') = map wallet_user (wallets s)"
    and b: "balance_in (wallets s') = both (balance_in (wallets s)) d"
    using assms by (auto simp: wallet_books_def money_def keyed_def both_def fun_eq_iff)
  then show ?thesis by (simp add: total_by_users u b worth_both)
qed

lemma money_absent:
  assumes "money d s s'" and "u \<notin> set (map wallet_user (wallets s))"
  shows "d u f = 0"
proof -
  have "u \<notin> set (map wallet_user (wallets s'))" using assms by (simp add: money_def)
  then have "balance_in (wallets s') u f = 0" "balance_in (wallets s) u f = 0"
    using assms(2) by (auto simp: balance_in_def row_get_None [THEN iffD2])
  then show ?thesis using assms(1) by (auto simp: money_def dest!: spec [of _ u] spec [of _ f])
qed

lemma money_only_total:
  assumes "wallet_books s" and m: "money (only u f x) s s'"
  shows "total_money (wallets s') = total_money (wallets s) + x"
proof -
  have "u \<notin> set (map wallet_user (wallets s)) \<Longrightarrow> x = 0"
    using money_absent [OF m, of u f] by (simp add: only_def)
  moreover have "distinct (map wallet_user (wallets s))"
    using assms(1) by (simp add: wallet_books_def keyed_def)
  ultimately show ?thesis
    unfolding money_total [OF assms] worth_only [OF \<open>distinct _\<close>] by simp
qed

lemma money_shift_total:
  "wallet_books s \<Longrightarrow> money (shift u f g x) s s' \<Longrightarrow> f \<noteq> g \<Longrightarrow>
     total_money (wallets s') = total_money (wallets s)"
  using money_total [of s "shift u f g x" s'] by (simp add: worth_shift wallet_books_def keyed_def)

lemma money_winner_total:
  assumes "wallet_books s" and m: "money (winner_change w l stake fee) s s'" and "w \<noteq> l" and "0 < stake"
  shows "total_money (wallets s') = total_money (wallets s) - fee"
proof -
  have "winner_change w l stake fee w locked \<noteq> 0" "winner_change w l stake fee l locked \<noteq> 0"
    using assms(3,4) by (auto simp: winner_change_def change_simps)
  then have "w \<in> set (map wallet_user (wallets s))" "l \<in> set (map wallet_user (wallets s))"
    using money_absent [OF m] by blast+
  then show ?thesis
    using money_total [OF assms(1) m] assms(1)
    by (simp add: winner_change_def worth_both worth_only wallet_books_def keyed_def)
qed

end
