(* ===== verification/Bets.thy ===== *)
theory Bets
  imports Wallets
begin

text \<open>
  \<^verbatim>\<open>app/services/bet_service.py\<close>: creating, accepting, cancelling and listing bets. The settings, the
  current time and the id the database gives a new row are arguments. The lemmas describe each
  handler by the money it moves and the bet row it leaves.
\<close>

fun outcome_value :: "football_outcome \<Rightarrow> string" where
  "outcome_value home_win = ''home_win''"
| "outcome_value away_win = ''away_win''"
| "outcome_value draw = ''draw''"

definition new_bet ::
  "settings \<Rightarrow> datetime \<Rightarrow> uuid \<Rightarrow> uuid \<Rightarrow> uuid \<Rightarrow> football_outcome \<Rightarrow> decimal \<Rightarrow> datetime \<Rightarrow> bet" where
  "new_bet cfg now new_id creator m_id prediction stake kickoff =
     \<lparr>bet_id = new_id, bet_match = m_id, creator_id = creator, opponent_id = None,
      creator_prediction = prediction, opponent_prediction = None, stake_amount = stake,
      bet_currency = platform_currency cfg, bstatus = OPEN, settlement_outcome_of = None,
      winner_id = None, platform_fee = None, payout_amount = None,
      applied_winner_fee_rate = None, applied_no_winner_fee_rate = None,
      expires_at = kickoff, settled_at = None, bet_created_at = now\<rparr>"

definition create_bet ::
  "settings \<Rightarrow> datetime \<Rightarrow> uuid \<Rightarrow> user \<Rightarrow> uuid \<Rightarrow> football_outcome \<Rightarrow> decimal \<Rightarrow> bet dbtx" where
  "create_bet cfg now new_id creator m_id prediction stake =
     seq_tx (raise_if (ustatus creator \<noteq> US_active) AccountIneligibleError)
    (bind_tx (get_match_or_404 m_id) (\<lambda>m.
     seq_tx (raise_if (mstatus m \<noteq> MS_scheduled) MatchNotAvailableError)
    (seq_tx (raise_if (kickoff_at m - minutes (bet_creation_cutoff_minutes cfg) \<le> now)
               MatchNotAvailableError)
    (seq_tx (raise_if (stake \<le> 0) ValidationError)
    (seq_tx (raise_if (stake < min_stake_amount cfg) ValidationError)
    (seq_tx (raise_if (max_stake_amount cfg < stake) ValidationError)
    (bind_tx (insert_bet (new_bet cfg now new_id (user_id creator) m_id prediction stake
                 (kickoff_at m))) (\<lambda>b.
     seq_tx (lock_stake (user_id creator) stake (bet_id b)
               (Some [Lit ''Stake locked at bet creation (bet_id='', IdPart (bet_id b), Lit '')'']))
    (seq_tx (add_event (bet_id b) EV_CREATED (Some (user_id creator)) ''USER''
               [(''match_id'', JText [IdPart m_id]),
                (''creator_prediction'', JText [Lit (outcome_value prediction)]),
                (''stake_amount'', JText [MoneyPart stake]),
                (''expires_at'', JText [TimePart (kickoff_at m)])])
     (ret b))))))))))"

definition accept_bet :: "datetime \<Rightarrow> user \<Rightarrow> uuid \<Rightarrow> football_outcome \<Rightarrow> bet dbtx" where
  "accept_bet now opponent b_id prediction =
     seq_tx (raise_if (ustatus opponent \<noteq> US_active) AccountIneligibleError)
    (bind_tx (get_bet_for_update b_id) (\<lambda>b.
     seq_tx (raise_if (bstatus b \<noteq> OPEN) BetNotAvailableError)
    (seq_tx (raise_if (expires_at b \<le> now) BetExpiredError)
    (seq_tx (raise_if (user_id opponent = creator_id b) SelfBetError)
    (seq_tx (raise_if (prediction = creator_prediction b) PredictionConflictError)
    (seq_tx (lock_stake (user_id opponent) (stake_amount b) (bet_id b)
               (Some [Lit ''Stake locked at bet acceptance (bet_id='', IdPart (bet_id b), Lit '')'']))
    (bind_tx (flush_bet (bet_id b) (\<lambda>r. r\<lparr>opponent_id := Some (user_id opponent),
                opponent_prediction := Some prediction, bstatus := MATCHED\<rparr>)) (\<lambda>b'.
     seq_tx (add_event (bet_id b') EV_MATCHED (Some (user_id opponent)) ''USER''
               [(''opponent_id'', JText [IdPart (user_id opponent)]),
                (''opponent_prediction'', JText [Lit (outcome_value prediction)]),
                (''stake_amount'', JText [MoneyPart (stake_amount b')])])
     (ret b')))))))))"

text \<open>
  Cancelling starts with a plain read; what follows works on the row as it was read then
  (\<open>cancel_with\<close>), which is what a second transaction may invalidate in between.
\<close>

definition cancel_with :: "user \<Rightarrow> bet \<Rightarrow> bet dbtx" where
  "cancel_with requester b =
     seq_tx (raise_if (creator_id b \<noteq> user_id requester) ForbiddenError)
    (seq_tx (raise_if (bstatus b \<noteq> OPEN) BetNotAvailableError)
    (seq_tx (unlock_stake (creator_id b) (stake_amount b) (bet_id b)
               (Some [Lit ''Stake unlocked at cancellation (bet_id='', IdPart (bet_id b), Lit '')'']))
    (bind_tx (flush_bet (bet_id b) (\<lambda>r. r\<lparr>bstatus := CANCELLED\<rparr>)) (\<lambda>b'.
     seq_tx (add_event (bet_id b') EV_CANCELLED (Some (user_id requester)) ''USER''
               [(''cancelled_by'', JText [IdPart (user_id requester)])])
     (ret b')))))"

definition cancel_bet :: "user \<Rightarrow> uuid \<Rightarrow> bet dbtx" where
  "cancel_bet requester b_id = bind_tx (get_bet_or_404 b_id) (cancel_with requester)"

definition list_open_bets :: "datetime \<Rightarrow> page_params \<Rightarrow> (bet list \<times> nat \<times> nat) dbtx" where
  "list_open_bets now p =
     bind_tx (get_open_bets now p) (\<lambda>(bs, n). ret (bs, n, page_count n (page_size p)))"

definition list_user_bets ::
  "uuid \<Rightarrow> page_params \<Rightarrow> bet_status option \<Rightarrow> (bet list \<times> nat \<times> nat) dbtx" where
  "list_user_bets u p st =
     bind_tx (get_user_bets u p st) (\<lambda>(bs, n). ret (bs, n, page_count n (page_size p)))"

definition get_bet_by_id :: "uuid \<Rightarrow> bet dbtx" where
  "get_bet_by_id b_id = get_bet_or_404 b_id"

section \<open>What the handlers do\<close>

text \<open>A bet step: money moves, one table of bets is replaced by another, all else stays.\<close>

definition bet_step :: "delta \<Rightarrow> bet list \<Rightarrow> db \<Rightarrow> db \<Rightarrow> bool" where
  "bet_step d bs s s' \<longleftrightarrow> money d s s' \<and> bets s' = bs \<and> same_config s s' \<and> same_platform s s' \<and>
     same_requests s s'"

lemma bet_step_start: "wallet_books s \<Longrightarrow> bet_step (\<lambda>u f. 0) (bets s) s s"
  by (simp add: bet_step_def money_refl same_defs)

lemma bet_step_lock:
  "bet_step d bs s s1 \<Longrightarrow> bet_step d bs s (s1\<lparr>row_locks := ls\<rparr>)"
  by (simp add: bet_step_def money_def same_defs)

lemma bet_step_insert:
  "bet_step d bs s s1 \<Longrightarrow> insert_bet b s1 = Inr (x, s2) \<Longrightarrow> bet_step d (bs @ [x]) s s2"
  by (auto simp: bet_step_def money_def same_defs insert_bet_inv)

lemma bet_step_flush:
  "bet_step d bs s s1 \<Longrightarrow> flush_bet b f s1 = Inr (x, s2) \<Longrightarrow> bet_step d (row_upd bet_id b f bs) s s2"
  by (auto simp: bet_step_def money_def same_defs flush_bet_inv put_bet_def)

lemma bet_step_event:
  "bet_step d bs s s1 \<Longrightarrow> add_event b ty a l p s1 = Inr (x, s2) \<Longrightarrow> bet_step d bs s s2"
  by (auto simp: bet_step_def money_def same_defs add_event_inv)

lemma bet_step_moved:
  "bet_step d bs s s1 \<Longrightarrow> moved e s1 s2 \<Longrightarrow> bet_step (both d e) bs s s2"
  by (auto simp: bet_step_def moved_def frame_def same_defs intro: money_trans)

lemma bet_step_books: "bet_step d bs s s1 \<Longrightarrow> wallet_books s \<Longrightarrow> wallet_books s1"
  by (auto simp: bet_step_def intro: money_books)

lemma bet_step_cong: "bet_step d bs s s1 \<Longrightarrow> (\<And>u f. d u f = e u f) \<Longrightarrow> bet_step e bs s s1"
  by (simp add: bet_step_def money_def)

lemma both_zero [simp]: "both (\<lambda>u f. 0) d = d"
  by (simp add: both_def)

text \<open>A created bet: an open row, and the rounded stake locked.\<close>

lemma create_bet_step:
  assumes books: "wallet_books s" and tie: "\<not> half_cent_tie stake"
    and run: "create_bet cfg now new_id creator m_id prediction stake s = Inr (b, s')"
  shows "bet_step (shift (user_id creator) available locked (round_half_up stake)) (bets s @ [b]) s s'"
    and "\<exists>m. find_match s m_id = Some m \<and> mstatus m = MS_scheduled \<and>
      now < kickoff_at m - minutes (bet_creation_cutoff_minutes cfg) \<and>
      b = new_bet cfg now new_id (user_id creator) m_id prediction (round_half_up stake) (kickoff_at m)"
    and "0 < stake" and "min_stake_amount cfg \<le> stake" and "stake \<le> max_stake_amount cfg"
    and "find_bet s new_id = None" and "ustatus creator = US_active"
    and "enforce_checks s \<longrightarrow> bet_row_ok b"
proof -
  obtain m w s1 s2 n ty a l p z where m: "find_match s m_id = Some m" "mstatus m = MS_scheduled"
      "now < kickoff_at m - minutes (bet_creation_cutoff_minutes cfg)"
    and g: "ustatus creator = US_active" "0 < stake" "min_stake_amount cfg \<le> stake" "stake \<le> max_stake_amount cfg"
    and ins: "insert_bet (new_bet cfg now new_id (user_id creator) m_id prediction stake (kickoff_at m)) s
        = Inr (b, s1)"
    and lock: "lock_stake (user_id creator) stake (bet_id b) n s1 = Inr (w, s2)"
    and ev: "add_event (bet_id b) ty a l p s2 = Inr (z, s')"
    using run unfolding create_bet_def
    by (auto simp only: bind_tx_inv seq_tx_inv get_match_or_404_inv raise_if_inv ret_inv not_le not_less
        simp_thms)
  show "0 < stake" "min_stake_amount cfg \<le> stake" "stake \<le> max_stake_amount cfg" "ustatus creator = US_active" by fact+
  have b: "b = new_bet cfg now new_id (user_id creator) m_id prediction (round_half_up stake) (kickoff_at m)"
    and "find_bet s new_id = None" and "enforce_checks s \<longrightarrow> bet_row_ok b"
    using ins by (auto simp: insert_bet_inv new_bet_def)
  then show "find_bet s new_id = None" "enforce_checks s \<longrightarrow> bet_row_ok b" by simp_all
  have step1: "bet_step (\<lambda>u f. 0) (bets s @ [b]) s s1"
    using bet_step_start [OF books] ins by (rule bet_step_insert)
  have "moved (shift (user_id creator) available locked (round_half_up stake)) s1 s2"
    using bet_step_books [OF step1 books] g(2) tie lock by (rule lock_op.moves)
  from bet_step_event [OF bet_step_moved [OF step1 this] ev]
  show "bet_step (shift (user_id creator) available locked (round_half_up stake)) (bets s @ [b]) s s'" by simp
  show "\<exists>m. find_match s m_id = Some m \<and> mstatus m = MS_scheduled \<and>
      now < kickoff_at m - minutes (bet_creation_cutoff_minutes cfg) \<and>
      b = new_bet cfg now new_id (user_id creator) m_id prediction (round_half_up stake) (kickoff_at m)"
    using m b by blast
qed

text \<open>An accepted bet: the open row becomes matched, the opponent's equal stake is locked.\<close>

definition matched_by :: "uuid \<Rightarrow> football_outcome \<Rightarrow> bet \<Rightarrow> bet" where
  "matched_by u prediction b =
     b\<lparr>opponent_id := Some u, opponent_prediction := Some prediction, bstatus := MATCHED\<rparr>"

lemma accept_bet_step:
  assumes books: "wallet_books s" and run: "accept_bet now opponent b_id prediction s = Inr (b', s')"
    and sound: "\<And>b. find_bet s b_id = Some b \<Longrightarrow> on_cent (stake_amount b) \<and> 0 < stake_amount b"
  obtains b where "find_bet s b_id = Some b" and "bstatus b = OPEN" and "now < expires_at b"
    and "user_id opponent \<noteq> creator_id b" and "prediction \<noteq> creator_prediction b"
    and "ustatus opponent = US_active"
    and "bet_step (shift (user_id opponent) available locked (stake_amount b))
           (row_upd bet_id b_id (matched_by (user_id opponent) prediction) (bets s)) s s'"
proof -
  obtain b w s2 s3 n ty a l p z where b: "find_bet s b_id = Some b" "bstatus b = OPEN" "now < expires_at b"
      "user_id opponent \<noteq> creator_id b" "prediction \<noteq> creator_prediction b" "ustatus opponent = US_active"
    and lock: "lock_stake (user_id opponent) (stake_amount b) (bet_id b) n
        (s\<lparr>row_locks := row_locks s @ [BetRow b_id]\<rparr>) = Inr (w, s2)"
    and fl: "flush_bet (bet_id b) (matched_by (user_id opponent) prediction) s2 = Inr (b', s3)"
    and ev: "add_event (bet_id b') ty a l p s3 = Inr (z, s')"
    using run unfolding accept_bet_def matched_by_def [abs_def]
    by (auto simp only: bind_tx_inv seq_tx_inv get_bet_for_update_inv raise_if_inv ret_inv not_le not_less
        simp_thms)
  have id: "bet_id b = b_id" using b(1) row_get_SomeD unfolding find_bet_def by fastforce
  note step1 = bet_step_lock [OF bet_step_start [OF books]]
  have "moved (shift (user_id opponent) available locked (stake_amount b))
      (s\<lparr>row_locks := row_locks s @ [BetRow b_id]\<rparr>) s2"
    using lock_op.move_cents [OF bet_step_books [OF step1 books] _ _ lock] sound [OF b(1)] by simp
  from bet_step_event [OF bet_step_flush [OF bet_step_moved [OF step1 this] fl] ev]
  show thesis using that b by (simp add: id)
qed

text \<open>A cancelled bet: the creator's open bet is closed and the stake returned.\<close>

lemma cancel_with_step:
  assumes books: "wallet_books s" and run: "cancel_with requester b s = Inr (b', s')"
    and sound: "on_cent (stake_amount b)" "0 < stake_amount b"
  shows "creator_id b = user_id requester" and "bstatus b = OPEN"
    and "bet_step (shift (creator_id b) locked available (stake_amount b))
           (row_upd bet_id (bet_id b) (\<lambda>r. r\<lparr>bstatus := CANCELLED\<rparr>) (bets s)) s s'"
proof -
  obtain w s2 s3 n ty a l p z where b: "bstatus b = OPEN" "creator_id b = user_id requester"
    and unlock: "unlock_stake (creator_id b) (stake_amount b) (bet_id b) n s = Inr (w, s2)"
    and fl: "flush_bet (bet_id b) (\<lambda>r. r\<lparr>bstatus := CANCELLED\<rparr>) s2 = Inr (b', s3)"
    and ev: "add_event (bet_id b') ty a l p s3 = Inr (z, s')"
    using run unfolding cancel_with_def
    by (auto simp only: bind_tx_inv seq_tx_inv raise_if_inv ret_inv simp_thms)
  show "creator_id b = user_id requester" "bstatus b = OPEN" using b by simp_all
  note step1 = bet_step_start [OF books]
  have "moved (shift (creator_id b) locked available (stake_amount b)) s s2"
    using unlock_op.move_cents [OF books sound(2,1) unlock] .
  from bet_step_event [OF bet_step_flush [OF bet_step_moved [OF step1 this] fl] ev]
  show "bet_step (shift (creator_id b) locked available (stake_amount b))
           (row_upd bet_id (bet_id b) (\<lambda>r. r\<lparr>bstatus := CANCELLED\<rparr>) (bets s)) s s'" by simp
qed

end
