(* ===== verification/Settlement.thy ===== *)
theory Settlement
  imports Bets
begin

text \<open>
  \<^verbatim>\<open>app/services/settlement_service.py\<close>: settling one bet. \<open>settle_bet\<close> is composed of the parts the code
  marks with step comments: the checks and rates (steps 1 to 6), the wallet movements of the chosen path
  (7 to 9), the platform fee (10), the guarded status update (11) and the audit event (12).
\<close>

definition determine_path ::
  "football_outcome \<Rightarrow> football_outcome \<Rightarrow> football_outcome \<Rightarrow> settlement_outcome" where
  "determine_path match_outcome creator_pred opponent_pred =
     (if creator_pred = match_outcome then creator_wins
      else if opponent_pred = match_outcome then opponent_wins
      else no_winner)"

definition compute_winner_amounts :: "decimal \<Rightarrow> decimal \<Rightarrow> decimal \<times> decimal" where
  "compute_winner_amounts stake rate =
     (let total_pool = safe_add stake stake;
          fee = safe_multiply total_pool rate;
          winner_payout = safe_subtract total_pool fee in
      (winner_payout, fee))"

definition compute_no_winner_amounts :: "decimal \<Rightarrow> decimal \<Rightarrow> decimal \<times> decimal" where
  "compute_no_winner_amounts stake rate =
     (let fee_per_user = safe_multiply stake rate;
          refund_per_user = safe_subtract stake fee_per_user in
      (refund_per_user, fee_per_user))"

definition settle_no_winner ::
  "uuid \<Rightarrow> uuid \<Rightarrow> decimal \<Rightarrow> decimal \<Rightarrow> decimal \<Rightarrow> uuid \<Rightarrow> unit dbtx" where
  "settle_no_winner creator opponent stake fee_per_user refund_per_user bid =
     bind_tx (lock_pair creator opponent) (\<lambda>(cw, ow).
     seq_tx (raise_if (locked_balance cw < stake) InsufficientFundsError)
    (seq_tx (raise_if (locked_balance ow < stake) InsufficientFundsError)
    (let cl = safe_subtract (locked_balance cw) stake;
         ca = safe_add (available_balance cw) refund_per_user;
         ol = safe_subtract (locked_balance ow) stake;
         oa = safe_add (available_balance ow) refund_per_user in
     seq_tx (verify_non_negative cl)
    (seq_tx (verify_non_negative ca)
    (seq_tx (verify_non_negative ol)
    (seq_tx (verify_non_negative oa)
    (bind_tx (update_balances cw (Some ca) (Some cl)) (\<lambda>cw'.
     bind_tx (update_balances ow (Some oa) (Some ol)) (\<lambda>ow'.
     write_settlement_no_winner cw' ow' fee_per_user refund_per_user bid
       (Some [Lit ''No-winner settlement: fee deducted, remainder refunded'']))))))))))"

text \<open>The local variables the two paths leave for the steps after them.\<close>

record settlement_plan =
  sp_outcome :: settlement_outcome
  sp_winner :: "uuid option"
  sp_payout :: decimal
  sp_fee :: decimal
  sp_winner_rate :: "decimal option"
  sp_no_winner_rate :: "decimal option"

fun settlement_value :: "settlement_outcome \<Rightarrow> string" where
  "settlement_value creator_wins = ''creator_wins''"
| "settlement_value opponent_wins = ''opponent_wins''"
| "settlement_value no_winner = ''no_winner''"
| "settlement_value voided = ''voided''"

text \<open>Steps 1 to 6: the locked bet, its opponent, the path and the two rates.\<close>

definition settlement_checks ::
  "datetime \<Rightarrow> uuid \<Rightarrow> (bet \<times> uuid \<times> settlement_outcome \<times> decimal \<times> decimal) dbtx" where
  "settlement_checks now b_id =
     bind_tx (get_bet_for_update b_id) (\<lambda>b.
     seq_tx (raise_if (bstatus b \<noteq> PENDING_SETTLEMENT) SettlementIdempotencyError)
    (bind_tx (require_some ValidationError (opponent_id b)) (\<lambda>opponent.
     bind_tx (require_some ValidationError (opponent_prediction b)) (\<lambda>opponent_pred.
     bind_tx (get_match_or_404 (bet_match b)) (\<lambda>m.
     bind_tx (require_some ValidationError (outcome m)) (\<lambda>result.
     bind_tx (get_active_rate WINNER_FEE (bet_currency b) now) (\<lambda>winner_fee_rate.
     bind_tx (get_active_rate NO_WINNER_FEE (bet_currency b) now) (\<lambda>no_winner_fee_rate.
     ret (b, opponent, determine_path result (creator_prediction b) opponent_pred,
          winner_fee_rate, no_winner_fee_rate)))))))))"

text \<open>Steps 7 to 9.\<close>

definition settle_wallets ::
  "bet \<Rightarrow> uuid \<Rightarrow> settlement_outcome \<Rightarrow> decimal \<Rightarrow> decimal \<Rightarrow> settlement_plan dbtx" where
  "settle_wallets b opponent result winner_fee_rate no_winner_fee_rate =
     (if result = creator_wins \<or> result = opponent_wins then
        let (winner_payout, fee) = compute_winner_amounts (stake_amount b) winner_fee_rate;
            winner = (if result = creator_wins then creator_id b else opponent);
            loser = (if result = creator_wins then opponent else creator_id b) in
        seq_tx (transfer_locked_funds winner loser (stake_amount b) fee (bet_id b)
                  (Some [Lit ''Settlement: '', Lit (settlement_value result)]))
          (ret \<lparr>sp_outcome = result, sp_winner = Some winner, sp_payout = winner_payout, sp_fee = fee,
                sp_winner_rate = Some winner_fee_rate, sp_no_winner_rate = None\<rparr>)
      else
        let (refund_per_user, fee_per_user) =
              compute_no_winner_amounts (stake_amount b) no_winner_fee_rate;
            total_platform_fee = safe_add fee_per_user fee_per_user in
        seq_tx (settle_no_winner (creator_id b) opponent (stake_amount b) fee_per_user
                  refund_per_user (bet_id b))
          (ret \<lparr>sp_outcome = result, sp_winner = None, sp_payout = refund_per_user,
                sp_fee = total_platform_fee, sp_winner_rate = None,
                sp_no_winner_rate = Some no_winner_fee_rate\<rparr>))"

text \<open>Step 10.\<close>

definition collect_fee :: "bet \<Rightarrow> settlement_plan \<Rightarrow> unit dbtx" where
  "collect_fee b p =
     bind_tx (get_for_currency_for_update (bet_currency b)) (\<lambda>a.
     bind_tx (credit_fee a (sp_fee p)) (\<lambda>a'.
     write_platform_entry a' (sp_fee p) (bet_id b)
       (if sp_outcome p \<noteq> no_winner then FEE_COLLECTION else FEE_COLLECTION_NO_WINNER)
       (if sp_outcome p \<noteq> no_winner then path_winner else path_no_winner)))"

text \<open>Step 11: the UPDATE with its WHERE clause, then the refresh.\<close>

definition settled_row :: "datetime \<Rightarrow> settlement_plan \<Rightarrow> decimal \<Rightarrow> decimal \<Rightarrow> bet \<Rightarrow> bet" where
  "settled_row now p payout fee r = r\<lparr>bstatus := SETTLED, settlement_outcome_of := Some (sp_outcome p),
     winner_id := sp_winner p, payout_amount := Some payout, platform_fee := Some fee,
     applied_winner_fee_rate := sp_winner_rate p, applied_no_winner_fee_rate := sp_no_winner_rate p,
     settled_at := Some now\<rparr>"

definition mark_settled :: "datetime \<Rightarrow> bet \<Rightarrow> settlement_plan \<Rightarrow> bet dbtx" where
  "mark_settled now b p =
     bind_tx (gets (\<lambda>s. length (filter (\<lambda>r. bet_id r = bet_id b \<and> bstatus r = PENDING_SETTLEMENT)
                (bets s)))) (\<lambda>rowcount.
     seq_tx (raise_if (rowcount = 0) SettlementIdempotencyError)
    (bind_tx (store_money (sp_payout p)) (\<lambda>payout.
     bind_tx (store_money (sp_fee p)) (\<lambda>fee.
     flush_bet (bet_id b) (\<lambda>r. if bstatus r = PENDING_SETTLEMENT then settled_row now p payout fee r else r)))))"

fun rate_text :: "decimal option \<Rightarrow> payload_value" where
  "rate_text None = JNone"
| "rate_text (Some r) = (if r = 0 then JNone else JText [MoneyPart r])"

definition settlement_payload :: "settlement_plan \<Rightarrow> (string \<times> payload_value) list" where
  "settlement_payload p =
     [(''settlement_outcome'', JText [Lit (settlement_value (sp_outcome p))]),
      (''winner_id'', case sp_winner p of None \<Rightarrow> JNone | Some w \<Rightarrow> JText [IdPart w]),
      (''payout_amount'', JText [MoneyPart (sp_payout p)]),
      (''platform_fee'', JText [MoneyPart (sp_fee p)]),
      (''applied_winner_fee_rate'', rate_text (sp_winner_rate p)),
      (''applied_no_winner_fee_rate'', rate_text (sp_no_winner_rate p))]"

definition settle_bet :: "datetime \<Rightarrow> uuid \<Rightarrow> bet dbtx" where
  "settle_bet now b_id =
     bind_tx (settlement_checks now b_id) (\<lambda>(b, opponent, result, winner_fee_rate, no_winner_fee_rate).
     bind_tx (settle_wallets b opponent result winner_fee_rate no_winner_fee_rate) (\<lambda>p.
     seq_tx (collect_fee b p)
    (bind_tx (mark_settled now b p) (\<lambda>b'.
     seq_tx (add_event (bet_id b') EV_SETTLED None ''SETTLEMENT_ENGINE'' (settlement_payload p))
       (ret b')))))"

section \<open>Paths and amounts\<close>

lemma determine_path_cases:
  assumes "cp \<noteq> op"
  shows "determine_path r cp op = creator_wins \<longleftrightarrow> r = cp"
    and "determine_path r cp op = opponent_wins \<longleftrightarrow> r = op"
    and "determine_path r cp op = no_winner \<longleftrightarrow> r \<noteq> cp \<and> r \<noteq> op"
    and "determine_path r cp op \<noteq> voided"
  using assms by (auto simp: determine_path_def)

lemma winner_amounts:
  assumes "on_cent stake" and "0 \<le> stake" and "0 \<le> rate" and "rate \<le> 1"
    and "compute_winner_amounts stake rate = (payout, fee)"
  shows "payout + fee = 2 * stake" and "0 \<le> fee" and "fee \<le> 2 * stake" and "on_cent fee" and "on_cent payout"
proof -
  have c: "on_cent (stake + stake)" using assms(1) by (intro on_cent_add)
  have f: "fee = safe_multiply (stake + stake) rate" "on_cent fee" and "payout = safe_subtract (stake + stake) fee"
    using assms(1,5) by (auto simp: compute_winner_amounts_def safe_add_cents Let_def)
  then have p: "payout = (stake + stake) - fee" using safe_subtract_cents [OF c f(2)] by simp
  show "payout + fee = 2 * stake" using p by simp
  show "0 \<le> fee" "fee \<le> 2 * stake" using safe_multiply_bounds [OF c _ assms(3,4)] assms(2) f by simp_all
  show "on_cent fee" by fact
  then show "on_cent payout" unfolding p using c by (intro on_cent_diff)
qed

lemma no_winner_amounts:
  assumes "on_cent stake" and "0 \<le> stake" and "0 \<le> rate" and "rate \<le> 1"
    and "compute_no_winner_amounts stake rate = (refund, fee)"
  shows "refund + fee = stake" and "0 \<le> fee" and "0 \<le> refund" and "on_cent fee" and "on_cent refund"
proof -
  have f: "fee = safe_multiply stake rate" and "refund = safe_subtract stake fee"
    using assms(5) by (auto simp: compute_no_winner_amounts_def Let_def)
  then have r: "refund = stake - fee" by (simp add: safe_subtract_cents assms(1))
  show "refund + fee = stake" using r by simp
  show "0 \<le> fee" "0 \<le> refund" using safe_multiply_bounds [OF assms(1-4)] f r by simp_all
  show "on_cent fee" using f by simp
  then show "on_cent refund" using r assms(1) by (simp add: on_cent_diff)
qed

section \<open>The no-winner movement\<close>

definition no_winner_change :: "uuid \<Rightarrow> uuid \<Rightarrow> decimal \<Rightarrow> decimal \<Rightarrow> delta" where
  "no_winner_change c o' stake refund =
     both (both (only c locked (- stake)) (only c available refund))
          (both (only o' locked (- stake)) (only o' available refund))"

lemma settle_no_winner_inv:
  assumes "settle_no_winner c o' stake fee refund bid s = Inr (r, s')"
  obtains x y x' y' s1 s2 nts where
    "row_get wallet_user c (wallets s) = Some x" "row_get wallet_user o' (wallets s) = Some y"
    "0 \<le> safe_subtract (locked_balance x) stake" "0 \<le> safe_add (available_balance x) refund"
    "0 \<le> safe_subtract (locked_balance y) stake" "0 \<le> safe_add (available_balance y) refund"
    "update_balances x (Some (safe_add (available_balance x) refund))
       (Some (safe_subtract (locked_balance x) stake))
       (s\<lparr>row_locks := row_locks s @ [WalletRow (min c o'), WalletRow (max c o')]\<rparr>) = Inr (x', s1)"
    "update_balances y (Some (safe_add (available_balance y) refund))
       (Some (safe_subtract (locked_balance y) stake)) s1 = Inr (y', s2)"
    "write_settlement_no_winner x' y' fee refund bid nts s2 = Inr (r, s')"
  using assms unfolding settle_no_winner_def Let_def
  by (auto simp only: bind_tx_inv seq_tx_inv raise_if_inv verify_non_negative_inv ret_inv
      lock_pair_inv split_paired_Ex prod.case not_le not_less)

lemma settle_no_winner_moved:
  assumes books: "wallet_books s" and "c \<noteq> o'" and cents: "on_cent stake" "on_cent fee" "on_cent refund"
    and pos: "0 < stake" "0 \<le> refund" "refund + fee = stake"
    and run: "settle_no_winner c o' stake fee refund bid s = Inr (r, s')"
  shows "moved (no_winner_change c o' stake refund) s s'"
proof -
  obtain x y x' y' s1 s2 nts where
    x: "row_get wallet_user c (wallets s) = Some x"
    and y: "row_get wallet_user o' (wallets s) = Some y"
    and nn: "0 \<le> safe_subtract (locked_balance x) stake" "0 \<le> safe_add (available_balance x) refund"
      "0 \<le> safe_subtract (locked_balance y) stake" "0 \<le> safe_add (available_balance y) refund"
    and u1: "update_balances x (Some (safe_add (available_balance x) refund))
        (Some (safe_subtract (locked_balance x) stake))
        (s\<lparr>row_locks := row_locks s @ [WalletRow (min c o'), WalletRow (max c o')]\<rparr>) = Inr (x', s1)"
    and u2: "update_balances y (Some (safe_add (available_balance y) refund))
        (Some (safe_subtract (locked_balance y) stake)) s1 = Inr (y', s2)"
    and wr: "write_settlement_no_winner x' y' fee refund bid nts s2 = Inr (r, s')"
    by (rule settle_no_winner_inv [OF run])
  have nb: "list_all (\<lambda>v. \<not> below_zero v) [Some (safe_add (available_balance x) refund),
      Some (safe_subtract (locked_balance x) stake), Some (safe_add (available_balance y) refund),
      Some (safe_subtract (locked_balance y) stake)]"
    using nn by (simp add: below_zero_def)
  note two = update_two_rebalanced [OF books assms(2) x y u1 u2 nb]
  have "posts (no_winner_change c o' stake refund) s2 s'"
    using write_settlement_no_winner_posts [OF wr] two(2,3) cents pos
    by (elim posts_cong) (auto simp: no_winner_change_def no_winner_share_def change_simps round_on_cent)
  moreover have "rebalanced (no_winner_change c o' stake refund) s s2"
    using two(1)
    by (rule rebalanced_cong)
       (use cents pos on_cent_no_tie [OF cents(1)] locked_row_sound [OF books x] locked_row_sound [OF books y]
        in \<open>auto simp: no_winner_change_def change_simps round_on_cent\<close>)
  ultimately show ?thesis by (rule rebalanced_posts [rotated])
qed

lemma money_no_winner_total:
  assumes "wallet_books s" and m: "money (no_winner_change c o' stake refund) s s'" and "c \<noteq> o'" and "0 < stake"
  shows "total_money (wallets s') = total_money (wallets s) - 2 * (stake - refund)"
proof -
  have "no_winner_change c o' stake refund c locked \<noteq> 0" "no_winner_change c o' stake refund o' locked \<noteq> 0"
    using assms(3,4) by (auto simp: no_winner_change_def change_simps)
  then have "c \<in> set (map wallet_user (wallets s))" "o' \<in> set (map wallet_user (wallets s))"
    using money_absent [OF m] by blast+
  then show ?thesis
    using money_total [OF assms(1) m] assms(1)
    by (simp add: no_winner_change_def worth_both worth_only wallet_books_def keyed_def)
qed

section \<open>The whole settlement\<close>

definition rates_ok :: "db \<Rightarrow> bool" where
  "rates_ok s \<longleftrightarrow> (\<forall>c \<in> set (fee_configs s). 0 \<le> fc_rate c \<and> fc_rate c \<le> 1)"

lemma latest_config_in: "latest_config cs = Some c \<Longrightarrow> c \<in> set cs"
  by (induction cs arbitrary: c) (auto split: option.splits if_splits)

lemma active_rate_ok:
  "rates_ok s \<Longrightarrow> get_active_rate ft cur t s = Inr (r, s') \<Longrightarrow> 0 \<le> r \<and> r \<le> 1 \<and> s' = s"
  by (auto simp: rates_ok_def get_active_rate_inv dest!: latest_config_in)

text \<open>A bet whose stake can be settled: on the cent, positive, between two users.\<close>

definition settleable :: "bet \<Rightarrow> bool" where
  "settleable b \<longleftrightarrow> on_cent (stake_amount b) \<and> 0 < stake_amount b \<and> opponent_id b \<noteq> Some (creator_id b)"

text \<open>What the chosen path does to the balances.\<close>

definition settlement_change :: "bet \<Rightarrow> uuid \<Rightarrow> settlement_plan \<Rightarrow> delta" where
  "settlement_change b opponent p = (case sp_outcome p of
     creator_wins \<Rightarrow> winner_change (creator_id b) opponent (stake_amount b) (sp_fee p)
   | opponent_wins \<Rightarrow> winner_change opponent (creator_id b) (stake_amount b) (sp_fee p)
   | _ \<Rightarrow> no_winner_change (creator_id b) opponent (stake_amount b) (sp_payout p))"

definition plan_ok :: "bet \<Rightarrow> uuid \<Rightarrow> settlement_plan \<Rightarrow> bool" where
  "plan_ok b opponent p \<longleftrightarrow>
     on_cent (sp_fee p) \<and> on_cent (sp_payout p) \<and> 0 \<le> sp_fee p \<and> 0 \<le> sp_payout p \<and>
     (case sp_outcome p of
        creator_wins \<Rightarrow> sp_winner p = Some (creator_id b) \<and> sp_payout p + sp_fee p = 2 * stake_amount b
      | opponent_wins \<Rightarrow> sp_winner p = Some opponent \<and> sp_payout p + sp_fee p = 2 * stake_amount b
      | no_winner \<Rightarrow> sp_winner p = None \<and> 2 * sp_payout p + sp_fee p = 2 * stake_amount b
      | voided \<Rightarrow> False)"

text \<open>The fee of each path, from the rate that applies to it.\<close>

definition fee_charged :: "bet \<Rightarrow> settlement_plan \<Rightarrow> decimal \<Rightarrow> decimal \<Rightarrow> bool" where
  "fee_charged b p wr nr \<longleftrightarrow>
     (if sp_outcome p = no_winner
      then sp_fee p = 2 * safe_multiply (stake_amount b) nr \<and>
           sp_winner_rate p = None \<and> sp_no_winner_rate p = Some nr
      else sp_fee p = safe_multiply (2 * stake_amount b) wr \<and>
           sp_winner_rate p = Some wr \<and> sp_no_winner_rate p = None)"

lemma settle_wallets_moved:
  assumes books: "wallet_books s" and b: "on_cent (stake_amount b)" "0 < stake_amount b" "opponent \<noteq> creator_id b"
    and rates: "0 \<le> wr" "wr \<le> 1" "0 \<le> nr" "nr \<le> 1" and res: "result \<noteq> voided"
    and run: "settle_wallets b opponent result wr nr s = Inr (p, s')"
  shows "moved (settlement_change b opponent p) s s' \<and> plan_ok b opponent p \<and> sp_outcome p = result \<and>
    fee_charged b p wr nr"
proof (cases "result = creator_wins \<or> result = opponent_wins")
  case True
  obtain payout fee where a: "compute_winner_amounts (stake_amount b) wr = (payout, fee)" by force
  note am = winner_amounts [OF b(1) _ rates(1,2) a]
  obtain x n where t: "transfer_locked_funds (if result = creator_wins then creator_id b else opponent)
        (if result = creator_wins then opponent else creator_id b) (stake_amount b) fee (bet_id b) n s = Inr (x, s')"
    and p: "sp_outcome p = result" "sp_fee p = fee" "sp_payout p = payout"
      "sp_winner p = Some (if result = creator_wins then creator_id b else opponent)"
      "sp_winner_rate p = Some wr" "sp_no_winner_rate p = None"
    using run True a by (auto simp: settle_wallets_def Let_def seq_tx_inv)
  have "(if result = creator_wins then creator_id b else opponent)
      \<noteq> (if result = creator_wins then opponent else creator_id b)" using b(3) by simp
  note m = transfer_locked_funds_moved [OF books this b(1) am(4) t]
  have "fee = safe_multiply (2 * stake_amount b) wr"
    using a b(1) by (auto simp: compute_winner_amounts_def Let_def safe_add_cents)
  then have "fee_charged b p wr nr" using p True by (auto simp: fee_charged_def)
  then show ?thesis
    using True m b am p by (auto simp: settlement_change_def plan_ok_def)
next
  case False
  then have n: "result = no_winner" using res by (cases result) auto
  obtain refund fee where a: "compute_no_winner_amounts (stake_amount b) nr = (refund, fee)" by force
  note am = no_winner_amounts [OF b(1) _ rates(3,4) a]
  obtain x where t: "settle_no_winner (creator_id b) opponent (stake_amount b) fee refund (bet_id b) s = Inr (x, s')"
    and p: "sp_outcome p = no_winner" "sp_fee p = safe_add fee fee" "sp_payout p = refund" "sp_winner p = None"
      "sp_winner_rate p = None" "sp_no_winner_rate p = Some nr"
    using run False a n by (auto simp: settle_wallets_def Let_def seq_tx_inv)
  have "moved (no_winner_change (creator_id b) opponent (stake_amount b) refund) s s'"
    using settle_no_winner_moved [OF books _ b(1) am(4,5) b(2) am(3) am(1) t] b by auto
  moreover have "fee_charged b p wr nr"
    using p a am by (auto simp: fee_charged_def compute_no_winner_amounts_def Let_def safe_add_cents)
  ultimately show ?thesis
    using b am p n by (auto simp: settlement_change_def plan_ok_def safe_add_cents on_cent_double)
qed

lemma settlement_change_locked:
  assumes "opponent \<noteq> creator_id b" and "plan_ok b opponent p"
  shows "settlement_change b opponent p u locked =
    (if u = creator_id b \<or> u = opponent then - stake_amount b else 0)"
  using assms
  by (cases "sp_outcome p")
     (auto simp: settlement_change_def plan_ok_def winner_change_def no_winner_change_def change_simps)

lemma settlement_change_total:
  assumes "wallet_books s" and m: "money (settlement_change b opponent p) s s'"
    and "plan_ok b opponent p" and "opponent \<noteq> creator_id b" and "0 < stake_amount b"
  shows "total_money (wallets s') = total_money (wallets s) - sp_fee p"
  using assms money_winner_total [OF assms(1)] money_no_winner_total [OF assms(1)]
  by (cases "sp_outcome p") (fastforce simp: settlement_change_def plan_ok_def)+

section \<open>The platform's share\<close>

definition platform_sound :: "db \<Rightarrow> bool" where
  "platform_sound s \<longleftrightarrow> keyed pa_currency (platform_accounts s) \<and> distinct (map pa_id (platform_accounts s)) \<and>
     (\<forall>a \<in> set (platform_accounts s). on_cent (pa_balance a) \<and> 0 \<le> pa_balance a)"

definition add_fee :: "decimal \<Rightarrow> platform_account \<Rightarrow> platform_account" where
  "add_fee x r = r\<lparr>pa_balance := pa_balance r + x, pa_version := pa_version r + 1\<rparr>"

definition platform_entry_for :: "platform_account \<Rightarrow> bet \<Rightarrow> settlement_plan \<Rightarrow> platform_ledger_entry" where
  "platform_entry_for a b p =
     \<lparr>ple_account = pa_id a,
      ple_entry_type = (if sp_outcome p \<noteq> no_winner then FEE_COLLECTION else FEE_COLLECTION_NO_WINNER),
      ple_direction = credit, ple_amount = sp_fee p, ple_reference_type = ref_settlement,
      ple_reference_id = bet_id b, balance_after = pa_balance a + sp_fee p,
      settlement_path = (if sp_outcome p \<noteq> no_winner then path_winner else path_no_winner)\<rparr>"

lemma row_upd_cong:
  assumes "\<And>r. r \<in> set t \<Longrightarrow> key r = k \<Longrightarrow> f r = g r"
  shows "row_upd key k f t = row_upd key k g t"
  using assms by (induction t) auto

lemma collect_fee_inv:
  assumes "platform_sound s" and fee: "on_cent (sp_fee p)" "0 \<le> sp_fee p"
    and run: "collect_fee b p s = Inr (x, s')"
  obtains a where "row_get pa_currency (bet_currency b) (platform_accounts s) = Some a"
    and "s' = s\<lparr>row_locks := row_locks s @ [PlatformRow (bet_currency b)],
                platform_accounts := row_upd pa_currency (bet_currency b) (add_fee (sp_fee p)) (platform_accounts s),
                platform_ledger := platform_ledger s @ [platform_entry_for a b p]\<rparr>"
proof -
  let ?l = "s\<lparr>row_locks := row_locks s @ [PlatformRow (bet_currency b)]\<rparr>"
  obtain a a' s1 where a: "row_get pa_currency (bet_currency b) (platform_accounts s) = Some a"
    and cf: "credit_fee a (sp_fee p) ?l = Inr (a', s1)"
    and w: "write_platform_entry a' (sp_fee p) (bet_id b)
       (if sp_outcome p \<noteq> no_winner then FEE_COLLECTION else FEE_COLLECTION_NO_WINNER)
       (if sp_outcome p \<noteq> no_winner then path_winner else path_no_winner) s1 = Inr (x, s')"
    using run by (auto simp: collect_fee_def bind_tx_inv get_for_currency_for_update_inv)
  have k: "keyed pa_currency (platform_accounts s)" "pa_currency a = bet_currency b" "on_cent (pa_balance a)"
    using assms(1) row_get_SomeD [OF a] by (auto simp: platform_sound_def)
  have r: "round_half_up (safe_add (pa_balance a) (sp_fee p)) = pa_balance a + sp_fee p"
    using k fee by (simp add: safe_add_cents round_on_cent on_cent_add)
  have "row_upd pa_currency (bet_currency b)
        (\<lambda>r. r\<lparr>pa_balance := pa_balance a + sp_fee p, pa_version := pa_version r + 1\<rparr>) (platform_accounts s)
      = row_upd pa_currency (bet_currency b) (add_fee (sp_fee p)) (platform_accounts s)"
    using row_get_in [OF k(1)] a by (intro row_upd_cong) (force simp: add_fee_def)
  then have s1: "s1 = ?l\<lparr>platform_accounts :=
        row_upd pa_currency (bet_currency b) (add_fee (sp_fee p)) (platform_accounts s)\<rparr>"
    and a': "row_get pa_currency (bet_currency b) (platform_accounts s1) = Some a'"
    using cf by (auto simp: credit_fee_inv put_platform_def k r)
  have "a' = add_fee (sp_fee p) a"
    using a' a by (simp add: s1 row_get_upd add_fee_def)
  then have "s' = s1\<lparr>platform_ledger := platform_ledger s1 @ [platform_entry_for a b p]\<rparr>"
    using w k fee by (auto simp: write_platform_entry_inv Let_def platform_entry_for_def add_fee_def
        round_on_cent on_cent_add)
  with a s1 show thesis by (intro that) auto
qed

definition settled_event :: "bet \<Rightarrow> settlement_plan \<Rightarrow> bet_event" where
  "settled_event b p = \<lparr>ev_bet = bet_id b, event_type = EV_SETTLED, actor_id = None,
     actor_label = ''SETTLEMENT_ENGINE'', payload = settlement_payload p\<rparr>"

text \<open>The part of a settlement every proof about it starts from.\<close>

definition settles :: "datetime \<Rightarrow> uuid \<Rightarrow> bet \<Rightarrow> uuid \<Rightarrow> settlement_plan \<Rightarrow> platform_account \<Rightarrow> db \<Rightarrow> db \<Rightarrow> bool" where
  "settles now b_id b opponent p a s s' \<longleftrightarrow>
     find_bet s b_id = Some b \<and> bstatus b = PENDING_SETTLEMENT \<and> opponent_id b = Some opponent \<and>
     (\<exists>m r cp. find_match s (bet_match b) = Some m \<and> outcome m = Some r \<and> opponent_prediction b = Some cp \<and>
        sp_outcome p = determine_path r (creator_prediction b) cp) \<and>
     (\<exists>wr nr. get_active_rate WINNER_FEE (bet_currency b) now s = Inr (wr, s) \<and>
        get_active_rate NO_WINNER_FEE (bet_currency b) now s = Inr (nr, s) \<and> fee_charged b p wr nr) \<and>
     plan_ok b opponent p \<and>
     money (settlement_change b opponent p) s s' \<and>
     bets s' = row_upd bet_id b_id (settled_row now p (sp_payout p) (sp_fee p)) (bets s) \<and>
     row_get pa_currency (bet_currency b) (platform_accounts s) = Some a \<and>
     platform_accounts s' = row_upd pa_currency (bet_currency b) (add_fee (sp_fee p)) (platform_accounts s) \<and>
     platform_ledger s' = platform_ledger s @ [platform_entry_for a b p] \<and>
     bet_events s' = bet_events s @ [settled_event b p] \<and>
     same_config s s' \<and> same_requests s s'"

lemma mark_settled_inv:
  assumes "mark_settled now b p s = Inr (b', s')" and "on_cent (sp_payout p)" "on_cent (sp_fee p)"
    and "find_bet s (bet_id b) = Some r" "bstatus r = PENDING_SETTLEMENT" "keyed bet_id (bets s)"
  shows "s' = put_bet (bet_id b) (settled_row now p (sp_payout p) (sp_fee p)) s"
    and "b' = settled_row now p (sp_payout p) (sp_fee p) r"
    and "enforce_checks s \<longrightarrow> bet_row_ok b'"
proof -
  let ?f = "\<lambda>r. if bstatus r = PENDING_SETTLEMENT then settled_row now p (sp_payout p) (sp_fee p) r else r"
  have k: "bet_id (?f x) = bet_id x" "bet_id (settled_row now p (sp_payout p) (sp_fee p) x) = bet_id x" for x
    by (simp_all add: settled_row_def)
  have f: "flush_bet (bet_id b) ?f s = Inr (b', s')"
    using assms(1-3) by (auto simp: mark_settled_def bind_tx_inv seq_tx_inv store_money_inv round_on_cent)
  have "row_upd bet_id (bet_id b) ?f (bets s)
      = row_upd bet_id (bet_id b) (settled_row now p (sp_payout p) (sp_fee p)) (bets s)"
    using row_get_in [OF assms(6)] assms(4,5) by (intro row_upd_cong) (force simp: find_bet_def)
  then show s': "s' = put_bet (bet_id b) (settled_row now p (sp_payout p) (sp_fee p)) s"
    using f by (simp add: flush_bet_inv put_bet_def)
  show "b' = settled_row now p (sp_payout p) (sp_fee p) r"
    using f assms(4) unfolding flush_bet_inv s' by (simp add: find_bet_def bet_tab.get_put k)
  show "enforce_checks s \<longrightarrow> bet_row_ok b'" using f by (simp add: flush_bet_inv)
qed

lemma settlement_checks_inv:
  "settlement_checks now b_id s = Inr ((b, opponent, result, wr, nr), s') \<longleftrightarrow>
     find_bet s b_id = Some b \<and> bstatus b = PENDING_SETTLEMENT \<and> opponent_id b = Some opponent \<and>
     (\<exists>m r cp. find_match s (bet_match b) = Some m \<and> outcome m = Some r \<and> opponent_prediction b = Some cp \<and>
        result = determine_path r (creator_prediction b) cp) \<and>
     get_active_rate WINNER_FEE (bet_currency b) now s = Inr (wr, s) \<and>
     get_active_rate NO_WINNER_FEE (bet_currency b) now s = Inr (nr, s) \<and>
     s' = s\<lparr>row_locks := row_locks s @ [BetRow b_id]\<rparr>"
  by (auto simp: settlement_checks_def bind_tx_inv seq_tx_inv get_bet_for_update_inv find_match_def
      get_match_or_404_inv get_active_rate_inv)

theorem settle_bet_settles:
  assumes books: "wallet_books s" and plat: "platform_sound s" and rates: "rates_ok s"
    and keyed: "keyed bet_id (bets s)"
    and ok: "\<And>b. find_bet s b_id = Some b \<Longrightarrow> settleable b"
    and run: "settle_bet now b_id s = Inr (b', s')"
  obtains b opponent p a where "settles now b_id b opponent p a s s'"
    and "b' = settled_row now p (sp_payout p) (sp_fee p) b" and "enforce_checks s \<longrightarrow> bet_row_ok b'"
proof -
  obtain b opponent result wr nr s1 p s2 x s3 s4 y where
    c: "settlement_checks now b_id s = Inr ((b, opponent, result, wr, nr), s1)"
    and w: "settle_wallets b opponent result wr nr s1 = Inr (p, s2)"
    and f: "collect_fee b p s2 = Inr (x, s3)"
    and u: "mark_settled now b p s3 = Inr (b', s4)"
    and e: "add_event (bet_id b') EV_SETTLED None ''SETTLEMENT_ENGINE'' (settlement_payload p) s4 = Inr (y, s')"
    using run unfolding settle_bet_def
    by (auto simp only: bind_tx_inv seq_tx_inv ret_inv split_paired_Ex prod.case)
  note chk = c [unfolded settlement_checks_inv]
  have b: "find_bet s b_id = Some b" and s1: "s1 = s\<lparr>row_locks := row_locks s @ [BetRow b_id]\<rparr>"
    using chk by auto
  have id: "bet_id b = b_id" using b row_get_SomeD by (fastforce simp: find_bet_def)
  have st: "on_cent (stake_amount b)" "0 < stake_amount b" "opponent \<noteq> creator_id b"
    using ok [OF b] chk by (auto simp: settleable_def)
  have r: "0 \<le> wr" "wr \<le> 1" "0 \<le> nr" "nr \<le> 1"
    using chk active_rate_ok [OF rates] by blast+
  have res: "result \<noteq> voided" using chk by (auto simp: determine_path_def split: if_splits)
  have "wallet_books s1" using books by (simp add: s1 wallet_books_def)
  from settle_wallets_moved [OF this st r res w]
  have m: "moved (settlement_change b opponent p) s1 s2" and plan: "plan_ok b opponent p"
    and out: "sp_outcome p = result" and fee: "fee_charged b p wr nr" by auto
  have fr: "frame s1 s2" using m by (simp add: moved_def)
  then have "platform_sound s2" using plat by (simp add: platform_sound_def frame_def same_defs s1)
  then obtain a where a: "row_get pa_currency (bet_currency b) (platform_accounts s2) = Some a"
    and s3: "s3 = s2\<lparr>row_locks := row_locks s2 @ [PlatformRow (bet_currency b)],
      platform_accounts := row_upd pa_currency (bet_currency b) (add_fee (sp_fee p)) (platform_accounts s2),
      platform_ledger := platform_ledger s2 @ [platform_entry_for a b p]\<rparr>"
    using plan f by (elim collect_fee_inv) (auto simp: plan_ok_def)
  have "bets s3 = bets s" using fr by (simp add: s3 s1 frame_def same_defs)
  then have u': "s4 = put_bet b_id (settled_row now p (sp_payout p) (sp_fee p)) s3"
    "b' = settled_row now p (sp_payout p) (sp_fee p) b" "enforce_checks s3 \<longrightarrow> bet_row_ok b'"
    using mark_settled_inv [OF u, of b] plan b chk keyed
    by (auto simp: plan_ok_def id find_bet_def)
  have "money (settlement_change b opponent p) s s'"
    using m e by (auto simp: moved_def money_def s1 s3 u' put_bet_def add_event_inv)
  moreover have "bet_id (settled_row now p (sp_payout p) (sp_fee p) b) = bet_id b" by (simp add: settled_row_def)
  ultimately have "settles now b_id b opponent p a s s'"
    using chk fr e a out plan fee
    by (auto simp: settles_def s1 s3 u' put_bet_def add_event_inv frame_def same_defs settled_event_def)
  moreover have "enforce_checks s3 = enforce_checks s" using fr by (simp add: s3 s1 frame_def same_defs)
  ultimately show thesis using u' by (intro that) auto
qed

text \<open>Settling again fails, whatever else happened.\<close>

lemma settle_not_pending:
  "find_bet s b_id = Some b \<Longrightarrow> bstatus b \<noteq> PENDING_SETTLEMENT \<Longrightarrow>
     settle_bet now b_id s = Inl SettlementIdempotencyError"
  by (simp add: settle_bet_def settlement_checks_def get_bet_for_update_def take_lock_def tx_run)

end
