(* ===== verification/Match_Settlement.thy ===== *)
theory Match_Settlement
  imports Settlement
begin

text \<open>
  \<^verbatim>\<open>app/services/match_settlement_service.py\<close>: confirming a match result and settling its bets, one
  transaction for the confirmation and one for each bet. \<^verbatim>\<open>app/services/admin_service.py\<close>: voiding a bet.
  The time a settlement reads is a function of the bet.
\<close>

record settlement_result =
  sr_match :: uuid
  sr_outcome :: string
  bets_found :: nat
  bets_settled :: nat
  bets_already_settled :: nat
  bets_failed :: nat
  failed_bet_ids :: "uuid list"
  failure_reasons :: "(uuid \<times> error) list"

text \<open>Transaction A.\<close>

definition confirm_match ::
  "datetime \<Rightarrow> uuid \<Rightarrow> football_outcome \<Rightarrow> int \<Rightarrow> int \<Rightarrow> uuid \<Rightarrow> bet list dbtx" where
  "confirm_match now m_id result home away confirmed_by =
     bind_tx (get_match_for_update m_id) (\<lambda>m.
     seq_tx (raise_if (result_confirmed_at m \<noteq> None) ValidationError)
    (seq_tx (flush_match m_id (\<lambda>r. r\<lparr>outcome := Some result, result_home_score := Some home,
               result_away_score := Some away, mstatus := MS_completed,
               result_confirmed_at := Some now\<rparr>))
    (bind_tx (transition_matched_to_pending m_id) (\<lambda>pending_bets.
     seq_tx (for_each (\<lambda>b. add_event (bet_id b) EV_PENDING_SETTLEMENT (Some confirmed_by) ''SETTLEMENT_ENGINE''
               [(''match_outcome'', JText [Lit (outcome_value result)]),
                (''triggered_by'', JText [IdPart confirmed_by])]) pending_bets)
       (ret pending_bets)))))"

text \<open>Transactions B to N: the loop with its counters; an error rolls its own transaction back.\<close>

fun settle_each ::
  "(uuid \<Rightarrow> datetime) \<Rightarrow> uuid list \<Rightarrow> nat \<Rightarrow> nat \<Rightarrow> (uuid \<times> error) list \<Rightarrow> db \<Rightarrow>
   (nat \<times> nat \<times> (uuid \<times> error) list) \<times> db" where
  "settle_each clock [] settled already failed s = ((settled, already, failed), s)"
| "settle_each clock (b # bs) settled already failed s =
     (case transact (settle_bet (clock b) b) s of
        (Inr x, s') \<Rightarrow> settle_each clock bs (settled + 1) already failed s'
      | (Inl SettlementIdempotencyError, s') \<Rightarrow> settle_each clock bs settled (already + 1) failed s'
      | (Inl e, s') \<Rightarrow> settle_each clock bs settled already (failed @ [(b, e)]) s')"

definition confirm_and_settle ::
  "datetime \<Rightarrow> (uuid \<Rightarrow> datetime) \<Rightarrow> uuid \<Rightarrow> football_outcome \<Rightarrow> int \<Rightarrow> int \<Rightarrow> uuid \<Rightarrow> db \<Rightarrow>
   (error + settlement_result) \<times> db" where
  "confirm_and_settle now clock m_id result home away confirmed_by s =
     (case transact (confirm_match now m_id result home away confirmed_by) s of
        (Inl e, s') \<Rightarrow> (Inl e, s')
      | (Inr pending_bets, s') \<Rightarrow>
          (let ids = map bet_id pending_bets;
               ((settled, already, failed), s'') = settle_each clock ids 0 0 [] s' in
           (Inr \<lparr>sr_match = m_id, sr_outcome = outcome_value result, bets_found = length ids,
                 bets_settled = settled, bets_already_settled = already, bets_failed = length failed,
                 failed_bet_ids = map fst failed, failure_reasons = failed\<rparr>, s'')))"

definition settle_single_bet :: "datetime \<Rightarrow> uuid \<Rightarrow> db \<Rightarrow> (error + bet) \<times> db" where
  "settle_single_bet now b_id s = transact (settle_bet now b_id) s"

definition get_pending_settlement_bets :: "(uuid \<Rightarrow> datetime) \<Rightarrow> uuid option \<Rightarrow> bet list dbtx" where
  "get_pending_settlement_bets updated_at m = get_pending_settlement updated_at m"

section \<open>Voiding\<close>

definition void_bet :: "uuid \<Rightarrow> uuid \<Rightarrow> text_value option \<Rightarrow> uuid list dbtx" where
  "void_bet b_id admin reason =
     bind_tx (get_bet_for_update b_id) (\<lambda>b.
     seq_tx (raise_if (bstatus b \<noteq> OPEN \<and> bstatus b \<noteq> MATCHED) BetNotAvailableError)
    (let nts = Some (or_default reason [Lit ''Admin void'']) in
     seq_tx (void_refund (creator_id b) (stake_amount b) (bet_id b) nts)
    (bind_tx (case (bstatus b, opponent_id b) of
        (MATCHED, Some opponent) \<Rightarrow>
           seq_tx (void_refund opponent (stake_amount b) (bet_id b) nts) (ret [creator_id b, opponent])
      | _ \<Rightarrow> ret [creator_id b]) (\<lambda>refunded_users.
     bind_tx (flush_bet (bet_id b) (\<lambda>r. r\<lparr>bstatus := VOIDED, settlement_outcome_of := Some voided\<rparr>)) (\<lambda>b'.
     seq_tx (add_event (bet_id b') EV_VOIDED (Some admin) ''ADMIN''
               [(''voided_by'', JText [IdPart admin]),
                (''reason'', case reason of None \<Rightarrow> JNone | Some r \<Rightarrow> JText r),
                (''refunded_user_ids'', JList (map (\<lambda>u. [IdPart u]) refunded_users))])
       (ret refunded_users))))))"

definition void_row :: "bet \<Rightarrow> bet" where
  "void_row r = r\<lparr>bstatus := VOIDED, settlement_outcome_of := Some voided\<rparr>"

definition void_change :: "bet \<Rightarrow> delta" where
  "void_change b = both (shift (creator_id b) locked available (stake_amount b))
     (case (bstatus b, opponent_id b) of
        (MATCHED, Some opponent) \<Rightarrow> shift opponent locked available (stake_amount b)
      | _ \<Rightarrow> (\<lambda>u f. 0))"

text \<open>A voided bet: every locked stake is returned in full.\<close>

lemma void_bet_step:
  assumes books: "wallet_books s" and run: "void_bet b_id admin reason s = Inr (us, s')"
    and sound: "\<And>b. find_bet s b_id = Some b \<Longrightarrow> on_cent (stake_amount b) \<and> 0 < stake_amount b"
  obtains b where "find_bet s b_id = Some b" and "bstatus b = OPEN \<or> bstatus b = MATCHED"
    and "bet_step (void_change b) (row_upd bet_id b_id void_row (bets s)) s s'"
proof -
  let ?l = "s\<lparr>row_locks := row_locks s @ [BetRow b_id]\<rparr>"
  obtain b w s1 s2 b' s3 nts z ty a l p us' where
    b: "find_bet s b_id = Some b" "bstatus b = OPEN \<or> bstatus b = MATCHED"
    and c: "void_refund (creator_id b) (stake_amount b) (bet_id b) nts ?l = Inr (w, s1)"
    and o': "(case (bstatus b, opponent_id b) of
        (MATCHED, Some opponent) \<Rightarrow>
           seq_tx (void_refund opponent (stake_amount b) (bet_id b) nts) (ret [creator_id b, opponent])
      | _ \<Rightarrow> ret [creator_id b]) s1 = Inr (us', s2)"
    and fl: "flush_bet (bet_id b) void_row s2 = Inr (b', s3)"
    and ev: "add_event (bet_id b') ty a l p s3 = Inr (z, s')"
    using run unfolding void_bet_def Let_def void_row_def [abs_def]
    by (auto simp only: bind_tx_inv seq_tx_inv get_bet_for_update_inv raise_if_inv ret_inv de_Morgan_conj
        not_not simp_thms)
  note st = sound [OF b(1)]
  have id: "bet_id b = b_id" using b(1) row_get_SomeD by (fastforce simp: find_bet_def)
  note step0 = bet_step_lock [OF bet_step_start [OF books]]
  have "moved (shift (creator_id b) locked available (stake_amount b)) ?l s1"
    using refund_op.move_cents [OF bet_step_books [OF step0 books] _ _ c] st by simp
  note step1 = bet_step_moved [OF step0 this, unfolded both_zero]
  have "bet_step (void_change b) (bets s) s s2"
  proof (cases "bstatus b = MATCHED \<and> opponent_id b \<noteq> None")
    case True
    then obtain o2 x where o2: "opponent_id b = Some o2" "bstatus b = MATCHED"
      and r: "void_refund o2 (stake_amount b) (bet_id b) nts s1 = Inr (x, s2)"
      using o' by (auto simp: seq_tx_inv)
    have "moved (shift o2 locked available (stake_amount b)) s1 s2"
      using refund_op.move_cents [OF bet_step_books [OF step1 books] _ _ r] st by simp
    from bet_step_moved [OF step1 this] show ?thesis by (simp add: void_change_def o2)
  next
    case False
    then have "s2 = s1" using o' b(2) by (auto split: option.splits)
    moreover have "void_change b = shift (creator_id b) locked available (stake_amount b)"
      using False b(2) by (auto simp: void_change_def both_def split: option.splits)
    ultimately show ?thesis using step1 by simp
  qed
  from bet_step_event [OF bet_step_flush [OF this fl] ev]
  show thesis using that b by (simp add: id)
qed

section \<open>Confirming a match\<close>

definition to_pending :: "bet \<Rightarrow> bet" where
  "to_pending b = b\<lparr>bstatus := PENDING_SETTLEMENT\<rparr>"

text \<open>Steps that touch the row locks, or the audit events, only.\<close>

definition only_locks :: "db \<Rightarrow> db \<Rightarrow> bool" where
  "only_locks s s' \<longleftrightarrow> (\<exists>ls. s' = s\<lparr>row_locks := ls\<rparr>)"

definition only_events :: "db \<Rightarrow> db \<Rightarrow> bool" where
  "only_events s s' \<longleftrightarrow> (\<exists>evs. s' = s\<lparr>bet_events := evs\<rparr>)"

interpretation locking: tx_rel only_locks
proof unfold_locales
  show "only_locks s s" for s unfolding only_locks_def by (rule exI [of _ "row_locks s"]) simp
qed (auto simp: only_locks_def)

interpretation auditing: tx_rel only_events
proof unfold_locales
  show "only_events s s" for s unfolding only_events_def by (rule exI [of _ "bet_events s"]) simp
qed (auto simp: only_events_def)

lemma for_each_locks: "keeps only_locks (for_each (\<lambda>b. take_lock (g b)) bs)"
  by (rule locking.keeps_for_each) (auto simp: keeps_def take_lock_inv only_locks_def)

lemma for_each_events: "keeps only_events (for_each (\<lambda>b. add_event (g b) ty a l p) bs)"
  by (rule auditing.keeps_for_each) (auto simp: keeps_def add_event_inv only_events_def)

lemma for_each_flush:
  assumes "for_each (\<lambda>b. bind_tx (flush_bet (bet_id b) to_pending) (\<lambda>_. ret ())) bs s = Inr (x, s')"
  shows "s' = s\<lparr>bets := map (\<lambda>r. if bet_id r \<in> bet_id ` set bs then to_pending r else r) (bets s)\<rparr>"
  using assms
proof (induction bs arbitrary: s)
  case (Cons b bs)
  then have "for_each (\<lambda>b. bind_tx (flush_bet (bet_id b) to_pending) (\<lambda>_. ret ())) bs
      (put_bet (bet_id b) to_pending s) = Inr (x, s')"
    by (auto simp: seq_tx_inv bind_tx_inv flush_bet_inv)
  from Cons.IH [OF this] show ?case
    by (auto simp: put_bet_def row_upd_def to_pending_def)
qed simp

definition pending_table :: "uuid \<Rightarrow> bet list \<Rightarrow> bet list" where
  "pending_table m bs = map (\<lambda>b. if bet_match b = m \<and> bstatus b = MATCHED then to_pending b else b) bs"

lemma transition_inv:
  assumes "transition_matched_to_pending m s = Inr (bs, s')" and "keyed bet_id (bets s)"
  shows "\<exists>ls. s' = s\<lparr>row_locks := ls, bets := pending_table m (bets s)\<rparr>"
    and "bs = map to_pending (matched_bets_of m s)"
proof -
  obtain ls x where "for_each (\<lambda>b. bind_tx (flush_bet (bet_id b) to_pending) (\<lambda>_. ret ()))
      (matched_bets_of m s) (s\<lparr>row_locks := ls\<rparr>) = Inr (x, s')"
    and bs: "bs = map to_pending (matched_bets_of m s)"
    using assms(1) by (auto simp: transition_matched_to_pending_def bind_tx_inv seq_tx_inv to_pending_def [abs_def]
        only_locks_def
        dest!: keepsD [OF for_each_locks])
  note s' = for_each_flush [OF this(1)]
  have "(if bet_id r \<in> bet_id ` set (matched_bets_of m s) then to_pending r else r)
      = (if bet_match r = m \<and> bstatus r = MATCHED then to_pending r else r)" if "r \<in> set (bets s)" for r
  proof -
    have "bet_id r \<in> bet_id ` set (matched_bets_of m s) \<longleftrightarrow> r \<in> set (matched_bets_of m s)"
      using that assms(2) by (auto simp: matched_bets_of_def keyed_def distinct_map dest: inj_onD)
    then show ?thesis using that by (simp add: matched_bets_of_def)
  qed
  then have "bets s' = pending_table m (bets s)" using s' by (simp add: pending_table_def cong: map_cong)
  then show "\<exists>ls. s' = s\<lparr>row_locks := ls, bets := pending_table m (bets s)\<rparr>" using s' by auto
  show "bs = map to_pending (matched_bets_of m s)" by (rule bs)
qed

definition confirm_row :: "datetime \<Rightarrow> football_outcome \<Rightarrow> int \<Rightarrow> int \<Rightarrow> match_row \<Rightarrow> match_row" where
  "confirm_row now result home away r = r\<lparr>outcome := Some result, result_home_score := Some home,
     result_away_score := Some away, mstatus := MS_completed, result_confirmed_at := Some now\<rparr>"

lemma confirm_match_inv:
  assumes run: "confirm_match now m_id result home away adm s = Inr (bs, s')" and "keyed bet_id (bets s)"
  obtains m evs ls where "find_match s m_id = Some m" and "result_confirmed_at m = None"
    and "bs = map to_pending (matched_bets_of m_id s)"
    and "enforce_checks s \<longrightarrow> match_row_ok (confirm_row now result home away m)"
    and "s' = s\<lparr>matches := row_upd match_id m_id (confirm_row now result home away) (matches s),
           bets := pending_table m_id (bets s), bet_events := evs, row_locks := ls\<rparr>"
proof -
  obtain m m' s1 s2 x where m: "find_match s m_id = Some m" "result_confirmed_at m = None"
    and f: "flush_match m_id (confirm_row now result home away)
        (s\<lparr>row_locks := row_locks s @ [MatchRow m_id]\<rparr>) = Inr (m', s1)"
    and t: "transition_matched_to_pending m_id s1 = Inr (bs, s2)"
    and e: "for_each (\<lambda>b. add_event (bet_id b) EV_PENDING_SETTLEMENT (Some adm) ''SETTLEMENT_ENGINE''
               [(''match_outcome'', JText [Lit (outcome_value result)]),
                (''triggered_by'', JText [IdPart adm])]) bs s2 = Inr (x, s')"
    using run unfolding confirm_match_def confirm_row_def [abs_def]
    by (auto simp only: bind_tx_inv seq_tx_inv get_match_for_update_inv raise_if_inv ret_inv not_not simp_thms)
  have s1: "s1 = s\<lparr>row_locks := row_locks s @ [MatchRow m_id],
      matches := row_upd match_id m_id (confirm_row now result home away) (matches s)\<rparr>"
    and m': "find_match s1 m_id = Some m'" "enforce_checks s \<longrightarrow> match_row_ok m'"
    using f by (auto simp: flush_match_inv put_match_def)
  have "m' = confirm_row now result home away m"
    using m' m by (simp add: s1 find_match_def row_get_upd confirm_row_def)
  moreover obtain ls where "s2 = s1\<lparr>row_locks := ls, bets := pending_table m_id (bets s)\<rparr>"
    and "bs = map to_pending (matched_bets_of m_id s)"
    using transition_inv [OF t] assms(2) by (auto simp: s1 matched_bets_of_def)
  moreover obtain evs where "s' = s2\<lparr>bet_events := evs\<rparr>" using keepsD [OF for_each_events e] by (auto simp: only_events_def)
  ultimately have "s' = s\<lparr>matches := row_upd match_id m_id (confirm_row now result home away) (matches s),
      bets := pending_table m_id (bets s), bet_events := evs, row_locks := ls\<rparr>"
    by (simp add: s1)
  with m m' \<open>m' = _\<close> \<open>bs = _\<close> show thesis by (intro that) simp_all
qed

end
