(* ===== verification/PayFast.thy ===== *)
theory PayFast
  imports Models "HOL-Library.AList"
begin

text \<open>
  \<^verbatim>\<open>app/payments/payfast.py\<close>: the signed checkout parameters and the checks on a payment notification. A
  \<open>dict[str, str]\<close> is an association list in insertion order with distinct keys, a string the list of its
  UTF-8 bytes. Of the standard library, URL quoting and the two-place number format are
  defined here; MD5 and the parsers of UUIDs, decimals and dates are fields of \<open>stdlib\<close>.
\<close>

record stdlib =
  md5_hex :: "string \<Rightarrow> string"
  uuid_text :: "uuid \<Rightarrow> string"
  uuid_parse :: "string \<Rightarrow> uuid option"
  decimal_parse :: "string \<Rightarrow> decimal option"
  parse_sast :: "string \<Rightarrow> datetime option"

type_synonym str_dict = "(string \<times> string) list"

definition dict_get :: "str_dict \<Rightarrow> string \<Rightarrow> string \<Rightarrow> string" where
  "dict_get d k dflt = (case map_of d k of None \<Rightarrow> dflt | Some v \<Rightarrow> v)"

section \<open>Quoting and number format\<close>

definition unreserved :: "char \<Rightarrow> bool" where
  "unreserved c \<longleftrightarrow> (let n = (of_char c :: nat) in
     (48 \<le> n \<and> n \<le> 57) \<or> (65 \<le> n \<and> n \<le> 90) \<or> (97 \<le> n \<and> n \<le> 122) \<or> n \<in> {45, 46, 95, 126})"

definition hex_digit :: "nat \<Rightarrow> char" where
  "hex_digit n = char_of (if n < 10 then 48 + n else 55 + n)"

definition quote_char :: "char \<Rightarrow> string" where
  "quote_char c =
     (if unreserved c then [c]
      else if c = CHR '' '' then ''+''
      else let n = (of_char c :: nat) in [CHR ''%'', hex_digit (n div 16), hex_digit (n mod 16)])"

definition quote_plus :: "string \<Rightarrow> string" where
  "quote_plus s = concat (map quote_char s)"

definition percent_encode :: "string \<Rightarrow> string" where
  "percent_encode s = quote_plus s"

fun join_with :: "string \<Rightarrow> string list \<Rightarrow> string" where
  "join_with sep [] = []"
| "join_with sep [x] = x"
| "join_with sep (x # y # zs) = x @ sep @ join_with sep (y # zs)"

definition urlencode :: "str_dict \<Rightarrow> string" where
  "urlencode d = join_with ''&'' (map (\<lambda>(k, v). quote_plus k @ ''='' @ quote_plus v) d)"

definition digit :: "nat \<Rightarrow> char" where
  "digit n = char_of (48 + n)"

fun nat_text :: "nat \<Rightarrow> string" where
  "nat_text n = (if n < 10 then [digit n] else nat_text (n div 10) @ [digit (n mod 10)])"

declare nat_text.simps [simp del]

definition int_text :: "int \<Rightarrow> string" where
  "int_text n = (if n < 0 then ''-'' @ nat_text (nat (- n)) else nat_text (nat n))"

text \<open>The format \<open>.2f\<close> of a \<open>Decimal\<close> rounds half to even.\<close>

definition round_half_even :: "rat \<Rightarrow> int" where
  "round_half_even x = (let f = \<lfloor>x\<rfloor>; r = x - of_int f in
     if r < 1 / 2 then f else if 1 / 2 < r then f + 1 else if even f then f else f + 1)"

definition format_2f :: "decimal \<Rightarrow> string" where
  "format_2f v = (let a = nat \<bar>round_half_even (v * 100)\<bar> in
     (if v < 0 then ''-'' else []) @ nat_text (a div 100) @ ''.'' @ [digit (a div 10 mod 10), digit (a mod 10)])"

section \<open>Signatures\<close>

definition build_signature_string :: "str_dict \<Rightarrow> string option \<Rightarrow> string" where
  "build_signature_string params passphrase =
     join_with ''&'' (map (\<lambda>(k, v). k @ ''='' @ percent_encode v)
       (filter (\<lambda>(k, v). k \<noteq> ''signature'') params)) @
     (case passphrase of None \<Rightarrow> []
      | Some p \<Rightarrow> if p = [] then [] else ''&passphrase='' @ percent_encode p)"

definition passphrase_of :: "settings \<Rightarrow> string option" where
  "passphrase_of cfg = (if payfast_passphrase cfg = [] then None else Some (payfast_passphrase cfg))"

definition optional_param :: "string \<Rightarrow> string option \<Rightarrow> str_dict" where
  "optional_param k v = (case v of None \<Rightarrow> [] | Some x \<Rightarrow> if x = [] then [] else [(k, x)])"

definition unsigned_checkout_params ::
  "settings \<Rightarrow> string \<Rightarrow> decimal \<Rightarrow> string option \<Rightarrow> string option \<Rightarrow> string option \<Rightarrow> str_dict" where
  "unsigned_checkout_params cfg deposit_id amount email_address name_first name_last =
     [(''merchant_id'', payfast_merchant_id cfg),
      (''merchant_key'', payfast_merchant_key cfg),
      (''return_url'', payfast_return_url cfg @ ''?deposit_id='' @ deposit_id),
      (''cancel_url'', payfast_cancel_url cfg @ ''?deposit_id='' @ deposit_id),
      (''notify_url'', payfast_notify_url cfg)] @
     optional_param ''name_first'' name_first @
     optional_param ''name_last'' name_last @
     optional_param ''email_address'' email_address @
     [(''m_payment_id'', deposit_id),
      (''amount'', format_2f amount),
      (''item_name'', ''Buddy Bet Wallet Deposit'')]"

definition build_checkout_params ::
  "stdlib \<Rightarrow> settings \<Rightarrow> string \<Rightarrow> decimal \<Rightarrow> string option \<Rightarrow> string option \<Rightarrow> string option \<Rightarrow> str_dict" where
  "build_checkout_params std cfg deposit_id amount email_address name_first name_last =
     (let params = unsigned_checkout_params cfg deposit_id amount email_address name_first name_last in
      params @ [(''signature'', md5_hex std (build_signature_string params (passphrase_of cfg)))])"

definition payfast_checkout_url :: "settings \<Rightarrow> string" where
  "payfast_checkout_url cfg =
     (if payfast_sandbox cfg then ''https://sandbox.payfast.co.za/eng/process''
      else ''https://www.payfast.co.za/eng/process'')"

definition build_checkout_url :: "settings \<Rightarrow> str_dict \<Rightarrow> string" where
  "build_checkout_url cfg params = payfast_checkout_url cfg @ ''?'' @ urlencode params"

definition verify_itn_signature :: "stdlib \<Rightarrow> str_dict \<Rightarrow> string option \<Rightarrow> bool" where
  "verify_itn_signature std itn passphrase =
     (dict_get itn ''signature'' [] =
      md5_hex std (build_signature_string (filter (\<lambda>(k, v). k \<noteq> ''signature'') itn) passphrase))"

datatype itn_result =
    itn_ok | signature_mismatch | merchant_id_mismatch | invalid_amount_gross
  | amount_mismatch decimal decimal | payment_status_not_complete string

definition verify_itn :: "stdlib \<Rightarrow> settings \<Rightarrow> str_dict \<Rightarrow> decimal \<Rightarrow> itn_result" where
  "verify_itn std cfg itn expected_amount =
     (if \<not> verify_itn_signature std itn (passphrase_of cfg) then signature_mismatch
      else if map_of itn ''merchant_id'' \<noteq> Some (payfast_merchant_id cfg) then merchant_id_mismatch
      else case decimal_parse std (dict_get itn ''amount_gross'' ''0'') of
        None \<Rightarrow> invalid_amount_gross
      | Some gross \<Rightarrow>
          if gross \<noteq> expected_amount then amount_mismatch gross expected_amount
          else let payment_status = dict_get itn ''payment_status'' [] in
               if payment_status \<noteq> ''COMPLETE'' then payment_status_not_complete payment_status
               else itn_ok)"

definition verify_itn_timestamp :: "stdlib \<Rightarrow> datetime \<Rightarrow> str_dict \<Rightarrow> bool" where
  "verify_itn_timestamp std now itn =
     (let d = dict_get itn ''payment_date'' [] in
      d = [] \<or>
      (case parse_sast std d of None \<Rightarrow> True | Some dt \<Rightarrow> \<bar>now - dt\<bar> \<le> seconds 86400))"

section \<open>Signed parameters verify\<close>

lemma no_signature_key:
  "(k, v) \<in> set (unsigned_checkout_params cfg d a e f l) \<Longrightarrow> k \<noteq> ''signature''"
  by (auto simp: unsigned_checkout_params_def optional_param_def split: option.splits if_splits)

lemma unsigned_filter:
  "filter (\<lambda>(k, v). k \<noteq> ''signature'') (unsigned_checkout_params cfg d a e f l) =
     unsigned_checkout_params cfg d a e f l"
  by (rule filter_True) (use no_signature_key in fastforce)

lemma checkout_params_verify:
  "verify_itn_signature std (build_checkout_params std cfg d a e f l) (passphrase_of cfg)"
proof -
  let ?p = "unsigned_checkout_params cfg d a e f l"
  have "map_of ?p ''signature'' = None"
    using no_signature_key by (fastforce simp: map_of_eq_None_iff)
  then show ?thesis
    by (simp add: verify_itn_signature_def build_checkout_params_def Let_def dict_get_def unsigned_filter
        map_add_def)
qed

section \<open>Quoting loses nothing\<close>

fun hex_value :: "char \<Rightarrow> nat" where
  "hex_value c = (let n = (of_char c :: nat) in if n < 58 then n - 48 else n - 55)"

fun unquote_plus :: "string \<Rightarrow> string" where
  "unquote_plus (c # s) =
     (if c = CHR ''+'' then CHR '' '' # unquote_plus s
      else if c = CHR ''%'' then
        (case s of a # b # t \<Rightarrow> char_of (hex_value a * 16 + hex_value b) # unquote_plus t
         | _ \<Rightarrow> c # unquote_plus s)
      else c # unquote_plus s)"
| "unquote_plus [] = []"

lemma of_char_less: "(of_char c :: nat) < 256"
  using of_char_mod_256 [of c] by (metis mod_less_divisor zero_less_numeral)

lemma hex_value_digit: "n < 16 \<Longrightarrow> hex_value (hex_digit n) = n"
  by (simp add: hex_digit_def Let_def)

lemma hex_pair: "char_of (hex_value (hex_digit (of_char c div 16)) * 16 + hex_value (hex_digit (of_char c mod 16))) = c"
proof -
  have "(of_char c :: nat) div 16 < 16"
    using of_char_less [of c] by (intro less_mult_imp_div_less) linarith
  then show ?thesis by (simp add: hex_value_digit del: hex_value.simps)
qed

lemma unquote_quote_char: "unquote_plus (quote_char c @ s) = c # unquote_plus s"
proof (cases "unreserved c")
  case True
  then have "c \<noteq> CHR ''+''" "c \<noteq> CHR ''%''" by (auto simp: unreserved_def Let_def)
  with True show ?thesis by (simp add: quote_char_def)
next
  case False
  then show ?thesis by (simp add: quote_char_def Let_def hex_pair del: hex_value.simps)
qed

lemma unquote_quote: "unquote_plus (quote_plus s) = s"
  by (induction s) (simp_all add: quote_plus_def unquote_quote_char)

lemma quote_plus_inj: "quote_plus s = quote_plus t \<longleftrightarrow> s = t"
  using unquote_quote by metis

end
