(* ===== verification/Funding.thy ===== *)
theory Funding
  imports Wallets PayFast
begin

text \<open>
  \<^verbatim>\<open>app/services/deposit_service.py\<close> and \<^verbatim>\<open>app/services/withdrawal_service.py\<close>: the two kinds of requests
  that bring money in and take it out. Each operation that changes a request first reads the row
  without a lock; the part after the read is a definition of its own (\<open>..._with\<close>), on the row as it was read.
  Both lifecycles keep the contract \<open>lifecycle\<close>: a status changes along listed edges
  only, and a terminal one never.
\<close>

section \<open>Deposits\<close>

definition deposit_terminal :: "deposit_status \<Rightarrow> bool" where
  "deposit_terminal st \<longleftrightarrow> st \<in> {DS_completed, DS_failed, DS_cancelled}"

definition deposit_completable :: "deposit_status \<Rightarrow> bool" where
  "deposit_completable st \<longleftrightarrow> st \<in> {DS_pending, DS_processing}"

definition create_deposit ::
  "uuid \<Rightarrow> uuid \<Rightarrow> decimal \<Rightarrow> string \<Rightarrow> string option \<Rightarrow> string option \<Rightarrow> text_value option \<Rightarrow>
   deposit_request dbtx" where
  "create_deposit new_id u amount cur provider client_ref nts =
     seq_tx (raise_if (amount \<le> 0) ValidationError)
    (bind_tx (get_by_user_id_or_404 u) (\<lambda>w.
     insert_deposit
       \<lparr>dep_id = new_id, dep_user = u, dep_wallet = wallet_id w, dep_amount = amount,
        dep_currency = cur, dstatus = DS_pending, payment_provider = provider,
        provider_reference = None, client_reference = client_ref, dep_notes = nts,
        checkout_url = None, dep_completed_at = None, dep_failed_at = None\<rparr>))"

definition initiate_payfast_deposit ::
  "stdlib \<Rightarrow> settings \<Rightarrow> uuid \<Rightarrow> uuid \<Rightarrow> decimal \<Rightarrow> string option \<Rightarrow> string option \<Rightarrow> string option \<Rightarrow>
   deposit_request dbtx" where
  "initiate_payfast_deposit std cfg new_id u amount email_address name_first name_last =
     seq_tx (raise_if (\<not> payfast_enabled cfg) ValidationError)
    (seq_tx (raise_if (amount < min_stake_amount cfg) ValidationError)
    (seq_tx (raise_if (max_stake_amount cfg < amount) ValidationError)
    (bind_tx (create_deposit new_id u amount (platform_currency cfg) (Some ''payfast'') None None) (\<lambda>d.
     let params = build_checkout_params std cfg (uuid_text std (dep_id d)) amount
                    email_address name_first name_last in
     flush_deposit (dep_id d) (\<lambda>r. r\<lparr>checkout_url := Some (build_checkout_url cfg params),
                                      dstatus := DS_processing\<rparr>)))))"

definition completed_row ::
  "datetime \<Rightarrow> string option \<Rightarrow> text_value option \<Rightarrow> deposit_request \<Rightarrow> deposit_request" where
  "completed_row now provider_ref nts r = r\<lparr>dstatus := DS_completed, dep_completed_at := Some now,
     provider_reference := (case provider_ref of None \<Rightarrow> provider_reference r | Some x \<Rightarrow> Some x),
     dep_notes := (case nts of None \<Rightarrow> dep_notes r | Some n \<Rightarrow> Some n)\<rparr>"

definition complete_with ::
  "datetime \<Rightarrow> string option \<Rightarrow> text_value option \<Rightarrow> deposit_request \<Rightarrow> deposit_request dbtx" where
  "complete_with now provider_ref nts d =
     seq_tx (raise_if (deposit_terminal (dstatus d)) ConflictError)
    (seq_tx (raise_if (\<not> deposit_completable (dstatus d)) ConflictError)
    (seq_tx (credit_deposit (dep_user d) (dep_amount d) (dep_id d)
               (Some (or_default nts [Lit ''Deposit '', IdPart (dep_id d), Lit '' completed''])))
       (flush_deposit (dep_id d) (completed_row now provider_ref nts))))"

definition complete_deposit ::
  "datetime \<Rightarrow> uuid \<Rightarrow> string option \<Rightarrow> text_value option \<Rightarrow> deposit_request dbtx" where
  "complete_deposit now d_id provider_ref nts =
     bind_tx (get_deposit_or_404 d_id) (complete_with now provider_ref nts)"

definition failed_row :: "datetime \<Rightarrow> text_value option \<Rightarrow> deposit_request \<Rightarrow> deposit_request" where
  "failed_row now reason r = r\<lparr>dstatus := DS_failed, dep_failed_at := Some now,
     dep_notes := (case reason of None \<Rightarrow> dep_notes r
       | Some n \<Rightarrow> if list_all empty_part n then dep_notes r else Some n)\<rparr>"

definition fail_deposit :: "datetime \<Rightarrow> uuid \<Rightarrow> text_value option \<Rightarrow> deposit_request dbtx" where
  "fail_deposit now d_id reason =
     bind_tx (get_deposit_or_404 d_id) (\<lambda>d.
     seq_tx (raise_if (deposit_terminal (dstatus d)) ConflictError)
       (flush_deposit (dep_id d) (failed_row now reason)))"

definition get_deposit :: "uuid \<Rightarrow> uuid option \<Rightarrow> deposit_request dbtx" where
  "get_deposit d_id requester =
     bind_tx (get_deposit_or_404 d_id) (\<lambda>d.
     seq_tx (raise_if (requester \<noteq> None \<and> requester \<noteq> Some (dep_user d)) ForbiddenError) (ret d))"

definition list_deposits :: "uuid \<Rightarrow> page_params \<Rightarrow> (deposit_request list \<times> nat) dbtx" where
  "list_deposits u p = list_deposits_of u p"

section \<open>Withdrawals\<close>

definition withdrawal_terminal :: "withdrawal_status \<Rightarrow> bool" where
  "withdrawal_terminal st \<longleftrightarrow> st \<in> {WS_completed, WS_failed, WS_rejected}"

definition assert_transition :: "withdrawal_request \<Rightarrow> withdrawal_status set \<Rightarrow> unit dbtx" where
  "assert_transition w valid_from =
     seq_tx (raise_if (withdrawal_terminal (wstatus w)) ConflictError)
       (raise_if (wstatus w \<notin> valid_from) ConflictError)"

definition create_withdrawal ::
  "uuid \<Rightarrow> uuid \<Rightarrow> decimal \<Rightarrow> string \<Rightarrow> string \<Rightarrow> string option \<Rightarrow> withdrawal_request dbtx" where
  "create_withdrawal new_id u amount account cur dest =
     seq_tx (raise_if (amount \<le> 0) ValidationError)
    (bind_tx (get_by_user_id_or_404 u) (\<lambda>w.
     bind_tx (insert_withdrawal
       \<lparr>wd_id = new_id, wd_user = u, wd_wallet = wallet_id w, wd_amount = amount, wd_currency = cur,
        wstatus = WS_pending, destination_account = Some account, destination_type = dest,
        rejection_reason = None, approved_at = None, wd_completed_at = None, wd_failed_at = None\<rparr>) (\<lambda>x.
     seq_tx (hold_withdrawal u amount (wd_id x)
               (Some [Lit ''Withdrawal '', IdPart (wd_id x), Lit '' hold on request creation'']))
       (ret x))))"

definition approve_withdrawal :: "datetime \<Rightarrow> uuid \<Rightarrow> withdrawal_request dbtx" where
  "approve_withdrawal now w_id =
     bind_tx (get_withdrawal_or_404 w_id) (\<lambda>x.
     seq_tx (assert_transition x {WS_pending})
       (flush_withdrawal (wd_id x) (\<lambda>r. r\<lparr>wstatus := WS_approved, approved_at := Some now\<rparr>)))"

definition complete_withdrawal_with :: "datetime \<Rightarrow> withdrawal_request \<Rightarrow> withdrawal_request dbtx" where
  "complete_withdrawal_with now x =
     seq_tx (assert_transition x {WS_approved, WS_processing})
    (seq_tx (finalize_withdrawal_debit (wd_user x) (wd_amount x) (wd_id x)
               (Some [Lit ''Withdrawal '', IdPart (wd_id x), Lit '' completed -- funds debited'']))
       (flush_withdrawal (wd_id x) (\<lambda>r. r\<lparr>wstatus := WS_completed, wd_completed_at := Some now\<rparr>)))"

definition complete_withdrawal :: "datetime \<Rightarrow> uuid \<Rightarrow> withdrawal_request dbtx" where
  "complete_withdrawal now w_id = bind_tx (get_withdrawal_or_404 w_id) (complete_withdrawal_with now)"

definition reject_withdrawal_with :: "string option \<Rightarrow> withdrawal_request \<Rightarrow> withdrawal_request dbtx" where
  "reject_withdrawal_with reason x =
     seq_tx (assert_transition x {WS_pending, WS_approved})
    (seq_tx (release_withdrawal_hold (wd_user x) (wd_amount x) (wd_id x)
               (Some [Lit ''Withdrawal '', IdPart (wd_id x), Lit '' rejected -- funds released'']))
       (flush_withdrawal (wd_id x) (\<lambda>r. r\<lparr>wstatus := WS_rejected, rejection_reason := reason\<rparr>)))"

definition reject_withdrawal :: "uuid \<Rightarrow> string option \<Rightarrow> withdrawal_request dbtx" where
  "reject_withdrawal w_id reason = bind_tx (get_withdrawal_or_404 w_id) (reject_withdrawal_with reason)"

definition holds_funds :: "withdrawal_status \<Rightarrow> bool" where
  "holds_funds st \<longleftrightarrow> st \<in> {WS_pending, WS_approved, WS_processing}"

definition fail_withdrawal_with ::
  "datetime \<Rightarrow> string option \<Rightarrow> withdrawal_request \<Rightarrow> withdrawal_request dbtx" where
  "fail_withdrawal_with now reason x =
     seq_tx (assert_transition x {WS_pending, WS_approved, WS_processing})
    (seq_tx (if holds_funds (wstatus x)
             then bind_tx (release_withdrawal_hold (wd_user x) (wd_amount x) (wd_id x)
               (Some [Lit ''Withdrawal '', IdPart (wd_id x), Lit '' failed -- funds released''])) (\<lambda>_. ret ())
             else ret ())
       (flush_withdrawal (wd_id x) (\<lambda>r. r\<lparr>wstatus := WS_failed, wd_failed_at := Some now,
          rejection_reason := reason\<rparr>)))"

definition fail_withdrawal :: "datetime \<Rightarrow> uuid \<Rightarrow> string option \<Rightarrow> withdrawal_request dbtx" where
  "fail_withdrawal now w_id reason = bind_tx (get_withdrawal_or_404 w_id) (fail_withdrawal_with now reason)"

definition get_withdrawal :: "uuid \<Rightarrow> uuid option \<Rightarrow> withdrawal_request dbtx" where
  "get_withdrawal w_id requester =
     bind_tx (get_withdrawal_or_404 w_id) (\<lambda>x.
     seq_tx (raise_if (requester \<noteq> None \<and> requester \<noteq> Some (wd_user x)) ForbiddenError) (ret x))"

definition list_withdrawals :: "uuid \<Rightarrow> page_params \<Rightarrow> (withdrawal_request list \<times> nat) dbtx" where
  "list_withdrawals u p = list_withdrawals_of u p"

section \<open>What the operations do\<close>

text \<open>A funding step: money moves, the two request tables are replaced, all else stays.\<close>

definition fund_step :: "delta \<Rightarrow> deposit_request list \<Rightarrow> withdrawal_request list \<Rightarrow> db \<Rightarrow> db \<Rightarrow> bool" where
  "fund_step d ds ws s s' \<longleftrightarrow> money d s s' \<and> deposits s' = ds \<and> withdrawals s' = ws \<and>
     same_config s s' \<and> same_platform s s' \<and> same_bets s s'"

lemma fund_step_start: "wallet_books s \<Longrightarrow> fund_step (\<lambda>u f. 0) (deposits s) (withdrawals s) s s"
  by (simp add: fund_step_def money_refl same_defs)

lemma fund_step_moved:
  "fund_step d ds ws s s1 \<Longrightarrow> moved e s1 s2 \<Longrightarrow> fund_step (both d e) ds ws s s2"
  by (auto simp: fund_step_def moved_def frame_def same_defs intro: money_trans)

lemma fund_step_deposit:
  "fund_step d ds ws s s1 \<Longrightarrow> flush_deposit k f s1 = Inr (x, s2) \<Longrightarrow>
     fund_step d (row_upd dep_id k f ds) ws s s2"
  by (auto simp: fund_step_def money_def same_defs flush_deposit_inv put_deposit_def)

lemma fund_step_withdrawal:
  "fund_step d ds ws s s1 \<Longrightarrow> flush_withdrawal k f s1 = Inr (x, s2) \<Longrightarrow>
     fund_step d ds (row_upd wd_id k f ws) s s2"
  by (auto simp: fund_step_def money_def same_defs flush_withdrawal_inv put_withdrawal_def)

lemma fund_step_books: "fund_step d ds ws s s1 \<Longrightarrow> wallet_books s \<Longrightarrow> wallet_books s1"
  by (auto simp: fund_step_def intro: money_books)

lemma both_zero_left: "both (\<lambda>u f. 0) d = d"
  by (simp add: both_def)

lemma create_deposit_step:
  assumes "wallet_books s" and "create_deposit new_id u amount cur provider client_ref nts s = Inr (x, s')"
  shows "0 < amount" and "find_deposit s new_id = None" and "dstatus x = DS_pending"
    and "dep_amount x = round_half_up amount" and "dep_user x = u" and "dep_id x = new_id"
    and "s' = s\<lparr>deposits := deposits s @ [x]\<rparr>"
    and "fund_step (\<lambda>u f. 0) (deposits s @ [x]) (withdrawals s) s s'"
  using assms by (auto simp: create_deposit_def bind_tx_inv seq_tx_inv get_by_user_id_or_404_inv
      insert_deposit_inv fund_step_def money_def same_defs wallet_books_def)

definition processing_row :: "string \<Rightarrow> deposit_request \<Rightarrow> deposit_request" where
  "processing_row url r = r\<lparr>checkout_url := Some url, dstatus := DS_processing\<rparr>"

lemma initiate_payfast_step:
  assumes "wallet_books s"
    and "initiate_payfast_deposit std cfg new_id u amount e f l s = Inr (x, s')"
  shows "0 < amount" and "find_deposit s new_id = None" and "dstatus x = DS_processing"
    and "dep_amount x = round_half_up amount" and "dep_user x = u" and "dep_id x = new_id"
    and "checkout_url x = Some (build_checkout_url cfg
           (build_checkout_params std cfg (uuid_text std new_id) amount e f l))"
    and "fund_step (\<lambda>u f. 0) (deposits s @ [x]) (withdrawals s) s s'"
proof -
  let ?url = "build_checkout_url cfg (build_checkout_params std cfg (uuid_text std new_id) amount e f l)"
  obtain d s1 where c: "create_deposit new_id u amount (platform_currency cfg) (Some ''payfast'') None None s
      = Inr (d, s1)"
    and fl0: "flush_deposit (dep_id d) (processing_row (build_checkout_url cfg
        (build_checkout_params std cfg (uuid_text std (dep_id d)) amount e f l))) s1 = Inr (x, s')"
    using assms(2)
    unfolding initiate_payfast_deposit_def processing_row_def [abs_def] Let_def
    by (auto simp only: bind_tx_inv seq_tx_inv raise_if_inv)
  note cr = create_deposit_step [OF assms(1) c]
  have fl: "flush_deposit new_id (processing_row ?url) s1 = Inr (x, s')" using fl0 by (simp add: cr(6))
  show "0 < amount" "find_deposit s new_id = None" using cr by auto
  have new: "row_upd dep_id new_id g (deposits s) = deposits s" for g
    using cr(2) by (simp add: find_deposit_def row_upd_absent)
  have up: "row_upd dep_id new_id (processing_row ?url) (deposits s @ [d]) = deposits s @ [processing_row ?url d]"
    using new cr(6) by (simp add: row_upd_def)
  have fs: "fund_step (\<lambda>u f. 0) (deposits s @ [processing_row ?url d]) (withdrawals s) s s'"
    using fund_step_deposit [OF cr(8) fl] by (simp only: up)
  have "row_get dep_id new_id (deposits s') = Some x"
    using fl unfolding flush_deposit_inv find_deposit_def by blast
  then have x: "x = processing_row ?url d"
    using fs cr(2,6) by (simp add: fund_step_def find_deposit_def row_get_append processing_row_def)
  show "dstatus x = DS_processing" "dep_amount x = round_half_up amount" "dep_user x = u"
    "dep_id x = new_id" "checkout_url x = Some ?url"
    using cr by (simp_all add: x processing_row_def)
  show "fund_step (\<lambda>u f. 0) (deposits s @ [x]) (withdrawals s) s s'" using fs x by simp
qed

text \<open>Completing credits the stored amount once and marks the row.\<close>

lemma complete_with_step:
  assumes books: "wallet_books s" and cents: "on_cent (dep_amount d)"
    and run: "complete_with now ref nts d s = Inr (x, s')"
  shows "deposit_completable (dstatus d)" and "0 < dep_amount d"
    and "fund_step (only (dep_user d) available (dep_amount d))
           (row_upd dep_id (dep_id d) (completed_row now ref nts) (deposits s)) (withdrawals s) s s'"
proof -
  obtain w n s1 where d: "deposit_completable (dstatus d)"
    and c: "credit_deposit (dep_user d) (dep_amount d) (dep_id d) n s = Inr (w, s1)"
    and f: "flush_deposit (dep_id d) (completed_row now ref nts) s1 = Inr (x, s')"
    using run unfolding complete_with_def by (auto simp only: bind_tx_inv seq_tx_inv raise_if_inv not_not)
  show "deposit_completable (dstatus d)" by (rule d)
  show pos: "0 < dep_amount d" using c by (simp add: credit_deposit_shape guarded_run)
  have "moved (only (dep_user d) available (dep_amount d)) s s1"
    using credit_op.move_cents [OF books pos cents c] .
  from fund_step_deposit [OF fund_step_moved [OF fund_step_start [OF books] this] f]
  show "fund_step (only (dep_user d) available (dep_amount d))
           (row_upd dep_id (dep_id d) (completed_row now ref nts) (deposits s)) (withdrawals s) s s'"
    by (simp add: both_zero_left)
qed

lemma fail_deposit_step:
  assumes books: "wallet_books s" and run: "fail_deposit now d_id reason s = Inr (x, s')"
  obtains d where "find_deposit s d_id = Some d" and "\<not> deposit_terminal (dstatus d)"
    and "fund_step (\<lambda>u f. 0) (row_upd dep_id d_id (failed_row now reason) (deposits s)) (withdrawals s) s s'"
proof -
  obtain d where d: "find_deposit s d_id = Some d" "\<not> deposit_terminal (dstatus d)"
    and f: "flush_deposit (dep_id d) (failed_row now reason) s = Inr (x, s')"
    using run unfolding fail_deposit_def
    by (auto simp only: bind_tx_inv seq_tx_inv raise_if_inv get_deposit_or_404_inv)
  have "dep_id d = d_id" using d(1) row_get_SomeD by (fastforce simp: find_deposit_def)
  with d fund_step_deposit [OF fund_step_start [OF books] f] show thesis by (auto intro: that)
qed

text \<open>The four transitions of a withdrawal.\<close>

lemma assert_transition_inv [tx_inv]:
  "assert_transition w from s = Inr (x, s') \<longleftrightarrow>
     \<not> withdrawal_terminal (wstatus w) \<and> wstatus w \<in> from \<and> s' = s"
  by (auto simp: assert_transition_def seq_tx_inv)

lemma create_withdrawal_step:
  assumes books: "wallet_books s" and tie: "\<not> half_cent_tie amount"
    and run: "create_withdrawal new_id u amount account cur dest s = Inr (x, s')"
  shows "0 < amount" and "find_withdrawal s new_id = None" and "wstatus x = WS_pending"
    and "wd_amount x = round_half_up amount" and "wd_user x = u" and "wd_id x = new_id"
    and "fund_step (shift u available locked (round_half_up amount)) (deposits s) (withdrawals s @ [x]) s s'"
proof -
  obtain y n s1 where x: "find_withdrawal s new_id = None" "wstatus x = WS_pending"
      "wd_amount x = round_half_up amount" "wd_user x = u" "wd_id x = new_id"
    and s1: "s1 = s\<lparr>withdrawals := withdrawals s @ [x]\<rparr>"
    and h: "hold_withdrawal u amount new_id n s1 = Inr (y, s')" and pos: "0 < amount"
    using run by (auto simp: create_withdrawal_def bind_tx_inv seq_tx_inv get_by_user_id_or_404_inv
        insert_withdrawal_inv)
  show "0 < amount" "find_withdrawal s new_id = None" "wstatus x = WS_pending"
    "wd_amount x = round_half_up amount" "wd_user x = u" "wd_id x = new_id" by fact+
  have step: "fund_step (\<lambda>u f. 0) (deposits s) (withdrawals s @ [x]) s s1"
    using books by (simp add: fund_step_def s1 money_def same_defs wallet_books_def)
  have "moved (shift u available locked (round_half_up amount)) s1 s'"
    using fund_step_books [OF step books] pos tie h by (rule hold_op.moves)
  from fund_step_moved [OF step this]
  show "fund_step (shift u available locked (round_half_up amount)) (deposits s) (withdrawals s @ [x]) s s'"
    by (simp add: both_zero_left)
qed

definition approved_row :: "datetime \<Rightarrow> withdrawal_request \<Rightarrow> withdrawal_request" where
  "approved_row now r = r\<lparr>wstatus := WS_approved, approved_at := Some now\<rparr>"

definition paid_row :: "datetime \<Rightarrow> withdrawal_request \<Rightarrow> withdrawal_request" where
  "paid_row now r = r\<lparr>wstatus := WS_completed, wd_completed_at := Some now\<rparr>"

definition rejected_row :: "string option \<Rightarrow> withdrawal_request \<Rightarrow> withdrawal_request" where
  "rejected_row reason r = r\<lparr>wstatus := WS_rejected, rejection_reason := reason\<rparr>"

definition failed_withdrawal_row ::
  "datetime \<Rightarrow> string option \<Rightarrow> withdrawal_request \<Rightarrow> withdrawal_request" where
  "failed_withdrawal_row now reason r =
     r\<lparr>wstatus := WS_failed, wd_failed_at := Some now, rejection_reason := reason\<rparr>"

lemma approve_withdrawal_step:
  assumes books: "wallet_books s" and run: "approve_withdrawal now w_id s = Inr (x, s')"
  obtains w where "find_withdrawal s w_id = Some w" and "wstatus w = WS_pending"
    and "fund_step (\<lambda>u f. 0) (deposits s) (row_upd wd_id w_id (approved_row now) (withdrawals s)) s s'"
proof -
  obtain w where w: "find_withdrawal s w_id = Some w" "wstatus w = WS_pending"
    and f: "flush_withdrawal (wd_id w) (approved_row now) s = Inr (x, s')"
    using run unfolding approve_withdrawal_def approved_row_def [abs_def]
    by (auto simp only: bind_tx_inv seq_tx_inv get_withdrawal_or_404_inv assert_transition_inv
        singleton_iff simp_thms)
  have "wd_id w = w_id" using w(1) row_get_SomeD by (fastforce simp: find_withdrawal_def)
  with w fund_step_withdrawal [OF fund_step_start [OF books] f] show thesis by (auto intro: that)
qed

lemma complete_withdrawal_with_step:
  assumes books: "wallet_books s" and cents: "on_cent (wd_amount w)"
    and run: "complete_withdrawal_with now w s = Inr (x, s')"
  shows "wstatus w \<in> {WS_approved, WS_processing}" and "0 < wd_amount w"
    and "fund_step (only (wd_user w) locked (- wd_amount w)) (deposits s)
           (row_upd wd_id (wd_id w) (paid_row now) (withdrawals s)) s s'"
proof -
  obtain y n s1 where w: "wstatus w \<in> {WS_approved, WS_processing}"
    and c: "finalize_withdrawal_debit (wd_user w) (wd_amount w) (wd_id w) n s = Inr (y, s1)"
    and f: "flush_withdrawal (wd_id w) (paid_row now) s1 = Inr (x, s')"
    using run unfolding complete_withdrawal_with_def paid_row_def [abs_def]
    by (auto simp only: bind_tx_inv seq_tx_inv assert_transition_inv)
  show "wstatus w \<in> {WS_approved, WS_processing}" by (rule w)
  show pos: "0 < wd_amount w" using c by (simp add: finalize_withdrawal_debit_shape guarded_run)
  from fund_step_withdrawal [OF fund_step_moved [OF fund_step_start [OF books]
      debit_op.move_cents [OF books pos cents c]] f]
  show "fund_step (only (wd_user w) locked (- wd_amount w)) (deposits s)
           (row_upd wd_id (wd_id w) (paid_row now) (withdrawals s)) s s'"
    by (simp add: both_zero_left)
qed

lemma released_step:
  assumes books: "wallet_books s" and cents: "on_cent (wd_amount w)"
    and c: "release_withdrawal_hold (wd_user w) (wd_amount w) (wd_id w) n s = Inr (y, s1)"
    and f: "flush_withdrawal (wd_id w) g s1 = Inr (x, s')"
  shows "0 < wd_amount w"
    and "fund_step (shift (wd_user w) locked available (wd_amount w)) (deposits s)
           (row_upd wd_id (wd_id w) g (withdrawals s)) s s'"
proof -
  show pos: "0 < wd_amount w" using c by (simp add: release_withdrawal_hold_shape guarded_run)
  from fund_step_withdrawal [OF fund_step_moved [OF fund_step_start [OF books]
      release_op.move_cents [OF books pos cents c]] f]
  show "fund_step (shift (wd_user w) locked available (wd_amount w)) (deposits s)
           (row_upd wd_id (wd_id w) g (withdrawals s)) s s'"
    by (simp add: both_zero_left)
qed

lemma reject_withdrawal_with_step:
  assumes books: "wallet_books s" and cents: "on_cent (wd_amount w)"
    and run: "reject_withdrawal_with reason w s = Inr (x, s')"
  shows "wstatus w \<in> {WS_pending, WS_approved}" and "0 < wd_amount w"
    and "fund_step (shift (wd_user w) locked available (wd_amount w)) (deposits s)
           (row_upd wd_id (wd_id w) (rejected_row reason) (withdrawals s)) s s'"
proof -
  obtain y n s1 where w: "wstatus w \<in> {WS_pending, WS_approved}"
    and c: "release_withdrawal_hold (wd_user w) (wd_amount w) (wd_id w) n s = Inr (y, s1)"
    and f: "flush_withdrawal (wd_id w) (rejected_row reason) s1 = Inr (x, s')"
    using run unfolding reject_withdrawal_with_def rejected_row_def [abs_def]
    by (auto simp only: bind_tx_inv seq_tx_inv assert_transition_inv)
  show "wstatus w \<in> {WS_pending, WS_approved}" by (rule w)
  show "0 < wd_amount w" "fund_step (shift (wd_user w) locked available (wd_amount w)) (deposits s)
           (row_upd wd_id (wd_id w) (rejected_row reason) (withdrawals s)) s s'"
    using released_step [OF books cents c f] by simp_all
qed

lemma fail_withdrawal_with_step:
  assumes books: "wallet_books s" and cents: "on_cent (wd_amount w)"
    and run: "fail_withdrawal_with now reason w s = Inr (x, s')"
  shows "holds_funds (wstatus w)" and "0 < wd_amount w"
    and "fund_step (shift (wd_user w) locked available (wd_amount w)) (deposits s)
           (row_upd wd_id (wd_id w) (failed_withdrawal_row now reason) (withdrawals s)) s s'"
proof -
  obtain y n s1 where w: "holds_funds (wstatus w)"
    and c: "release_withdrawal_hold (wd_user w) (wd_amount w) (wd_id w) n s = Inr (y, s1)"
    and f: "flush_withdrawal (wd_id w) (failed_withdrawal_row now reason) s1 = Inr (x, s')"
    using run unfolding fail_withdrawal_with_def failed_withdrawal_row_def [abs_def]
    by (auto simp: bind_tx_inv seq_tx_inv assert_transition_inv holds_funds_def)
  show "holds_funds (wstatus w)" by (rule w)
  show "0 < wd_amount w" "fund_step (shift (wd_user w) locked available (wd_amount w)) (deposits s)
           (row_upd wd_id (wd_id w) (failed_withdrawal_row now reason) (withdrawals s)) s s'"
    using released_step [OF books cents c f] by simp_all
qed

end
