(* ===== verification/Webhooks.thy ===== *)
theory Webhooks
  imports Funding
begin

text \<open>
  \<^verbatim>\<open>app/api/v1/endpoints/webhooks.py\<close>: the endpoint PayFast posts its notifications to. It answers \<open>OK\<close>
  whatever happens, and an exception raised while completing or failing the deposit is swallowed: the
  failed flush leaves nothing of that attempt behind.
\<close>

definition dict_of_items :: "(string \<times> string) list \<Rightarrow> str_dict" where
  "dict_of_items items = fold (\<lambda>(k, v) d. AList.update k v d) items []"

text \<open>Steps 3a and 3b.\<close>

definition itn_verified :: "stdlib \<Rightarrow> settings \<Rightarrow> str_dict \<Rightarrow> deposit_request \<Rightarrow> bool" where
  "itn_verified std cfg itn d =
     (if dict_get itn ''payment_status'' [] = ''COMPLETE''
      then verify_itn std cfg itn (dep_amount d) = itn_ok
      else verify_itn_signature std itn (passphrase_of cfg) \<and>
           map_of itn ''merchant_id'' = Some (payfast_merchant_id cfg))"

text \<open>Step 4.\<close>

definition process_itn :: "datetime \<Rightarrow> str_dict \<Rightarrow> deposit_request \<Rightarrow> db \<Rightarrow> db" where
  "process_itn now itn d s =
     (let payment_status = dict_get itn ''payment_status'' [];
          pf_payment_id = dict_get itn ''pf_payment_id'' [] in
      if payment_status = ''COMPLETE'' then
        if deposit_terminal (dstatus d) then s
        else run_request (complete_deposit now (dep_id d)
               (if pf_payment_id = [] then None else Some pf_payment_id)
               (Some [Lit ''PayFast ITN -- COMPLETE''])) s
      else if payment_status \<in> {''CANCELLED'', ''FAILED'', ''ERROR''} then
        if deposit_terminal (dstatus d) then s
        else run_request (fail_deposit now (dep_id d)
               (Some [Lit ''PayFast ITN -- '', Lit payment_status])) s
      else s)"

definition payfast_itn ::
  "stdlib \<Rightarrow> settings \<Rightarrow> datetime \<Rightarrow> (string \<times> string) list option \<Rightarrow> db \<Rightarrow> string \<times> db" where
  "payfast_itn std cfg now form s =
     (''OK'', case form of None \<Rightarrow> s | Some items \<Rightarrow>
        let itn = dict_of_items items;
            m_payment_id = dict_get itn ''m_payment_id'' [] in
        if m_payment_id = [] then s
        else case uuid_parse std m_payment_id of None \<Rightarrow> s | Some deposit_id \<Rightarrow>
          (case find_deposit s deposit_id of None \<Rightarrow> s | Some d \<Rightarrow>
             if \<not> verify_itn_timestamp std now itn then s
             else if \<not> itn_verified std cfg itn d then s
             else process_itn now itn d s))"

text \<open>The only two things a notification can do, and what it must have shown before.\<close>

lemma payfast_itn_cases:
  obtains (nothing) "snd (payfast_itn std cfg now form s) = s"
  | (complete) items d ref where "form = Some items"
      "find_deposit s (dep_id d) = Some d" "\<not> deposit_terminal (dstatus d)"
      "uuid_parse std (dict_get (dict_of_items items) ''m_payment_id'' []) = Some (dep_id d)"
      "verify_itn std cfg (dict_of_items items) (dep_amount d) = itn_ok"
      "snd (payfast_itn std cfg now form s) = run_request (complete_deposit now (dep_id d) ref
         (Some [Lit ''PayFast ITN -- COMPLETE''])) s"
  | (fail) items d why where "form = Some items"
      "find_deposit s (dep_id d) = Some d" "\<not> deposit_terminal (dstatus d)"
      "uuid_parse std (dict_get (dict_of_items items) ''m_payment_id'' []) = Some (dep_id d)"
      "verify_itn_signature std (dict_of_items items) (passphrase_of cfg)"
      "snd (payfast_itn std cfg now form s) = run_request (fail_deposit now (dep_id d) why) s"
proof (cases form)
  case (Some items)
  let ?itn = "dict_of_items items"
  let ?status = "dict_get ?itn ''payment_status'' []"
  show thesis
  proof (cases "uuid_parse std (dict_get ?itn ''m_payment_id'' [])")
    case k: (Some k)
    show thesis
    proof (cases "find_deposit s k")
      case (Some d)
      have id: "dep_id d = k" using Some row_get_SomeD by (fastforce simp: find_deposit_def)
      have itn: "snd (payfast_itn std cfg now form s) = s \<or>
          (itn_verified std cfg ?itn d \<and> snd (payfast_itn std cfg now form s) = process_itn now ?itn d s)"
        using \<open>form = Some items\<close> k Some by (simp add: payfast_itn_def Let_def)
      then consider "snd (payfast_itn std cfg now form s) = s"
        | "itn_verified std cfg ?itn d" "\<not> deposit_terminal (dstatus d)" "?status = ''COMPLETE''"
          "snd (payfast_itn std cfg now form s) = process_itn now ?itn d s"
        | "itn_verified std cfg ?itn d" "\<not> deposit_terminal (dstatus d)"
          "?status \<in> {''CANCELLED'', ''FAILED'', ''ERROR''}"
          "snd (payfast_itn std cfg now form s) = process_itn now ?itn d s"
        unfolding process_itn_def Let_def by (auto split: if_splits)
      then show thesis
      proof cases
        case 2
        then show thesis
          using Some id \<open>form = Some items\<close> k
          by (intro complete [of items d]) (auto simp: process_itn_def Let_def itn_verified_def)
      next
        case 3
        then show thesis
          using Some id \<open>form = Some items\<close> k
          by (intro fail [of items d]) (auto simp: process_itn_def Let_def itn_verified_def)
      qed (rule nothing)
    next
      case None
      then have "snd (payfast_itn std cfg now form s) = s"
        using \<open>form = Some items\<close> k by (simp add: payfast_itn_def Let_def)
      then show thesis by (rule nothing)
    qed
  next
    case None
    then have "snd (payfast_itn std cfg now form s) = s"
        using \<open>form = Some items\<close> by (simp add: payfast_itn_def Let_def)
      then show thesis by (rule nothing)
  qed
next
  case None
  then have "snd (payfast_itn std cfg now form s) = s"
        by (simp add: payfast_itn_def)
      then show thesis by (rule nothing)
qed

end
