(* ===== verification/Auth.thy ===== *)
theory Auth
  imports PayFast Repositories Texts
begin

text \<open>
  \<^verbatim>\<open>app/core/security.py\<close>, \<^verbatim>\<open>app/services/auth_service.py\<close>, \<^verbatim>\<open>app/repositories/user_repository.py\<close> and the
  user dependencies of \<^verbatim>\<open>app/core/dependencies.py\<close>: passwords, tokens, the login lockout, registration, login,
  password reset and the resolution of the current user. bcrypt and the JWT library are the fields of \<open>auth_lib\<close>; the
  salt a hash is made with is an argument.
\<close>

section \<open>Libraries\<close>

text \<open>The claims of a token; \<open>iat\<close> and \<open>exp\<close> are passed beside them.\<close>

record claims =
  sub_claim :: "string option"
  role_claim :: "string option"
  type_claim :: "string option"

record auth_lib =
  pwd_hash :: "string \<Rightarrow> string \<Rightarrow> string"
  pwd_verify :: "string \<Rightarrow> string \<Rightarrow> bool"
  jwt_encode :: "claims \<Rightarrow> datetime \<Rightarrow> datetime \<Rightarrow> string \<Rightarrow> string \<Rightarrow> string"
  jwt_decode :: "datetime \<Rightarrow> string \<Rightarrow> string \<Rightarrow> string \<Rightarrow> claims option"

definition hash_password :: "auth_lib \<Rightarrow> string \<Rightarrow> string \<Rightarrow> string" where
  "hash_password lib salt plain = pwd_hash lib salt plain"

definition verify_password :: "auth_lib \<Rightarrow> string \<Rightarrow> string \<Rightarrow> bool" where
  "verify_password lib plain hashed = pwd_verify lib plain hashed"

section \<open>Login attempts\<close>

text \<open>The dictionary of the process; times are those of its monotonic clock.\<close>

type_synonym tracker = "string \<Rightarrow> datetime list option"

definition max_attempts :: nat where
  "max_attempts = 5"

definition window_length :: datetime where
  "window_length = seconds 900"

definition prune :: "string \<Rightarrow> datetime \<Rightarrow> tracker \<Rightarrow> datetime list \<times> tracker" where
  "prune email_address now tr =
     (let recent = filter (\<lambda>t. now - t < window_length) (case tr email_address of None \<Rightarrow> [] | Some ts \<Rightarrow> ts) in
      (recent, tr(email_address \<mapsto> recent)))"

definition is_locked :: "string \<Rightarrow> datetime \<Rightarrow> tracker \<Rightarrow> bool \<times> tracker" where
  "is_locked email_address now tr =
     (let (recent, tr') = prune email_address now tr in (max_attempts \<le> length recent, tr'))"

definition record_failure :: "string \<Rightarrow> datetime \<Rightarrow> tracker \<Rightarrow> tracker" where
  "record_failure email_address now tr =
     (let (recent, tr') = prune email_address now tr in tr'(email_address \<mapsto> recent @ [now]))"

definition clear_attempts :: "string \<Rightarrow> tracker \<Rightarrow> tracker" where
  "clear_attempts email_address tr = tr(email_address := None)"

section \<open>Tokens\<close>

definition role_value :: "user_role \<Rightarrow> string" where
  "role_value r = (case r of role_user \<Rightarrow> ''user'' | role_admin \<Rightarrow> ''admin'')"

definition create_access_token :: "stdlib \<Rightarrow> auth_lib \<Rightarrow> settings \<Rightarrow> datetime \<Rightarrow> uuid \<Rightarrow> string \<Rightarrow> string" where
  "create_access_token std lib cfg now u role =
     jwt_encode lib \<lparr>sub_claim = Some (uuid_text std u), role_claim = Some role, type_claim = None\<rparr>
       now (now + minutes (access_token_expire_minutes cfg)) (secret_key cfg) (jwt_algorithm cfg)"

definition create_password_reset_token :: "stdlib \<Rightarrow> auth_lib \<Rightarrow> settings \<Rightarrow> datetime \<Rightarrow> uuid \<Rightarrow> string" where
  "create_password_reset_token std lib cfg now u =
     jwt_encode lib \<lparr>sub_claim = Some (uuid_text std u), role_claim = None, type_claim = Some ''password_reset''\<rparr>
       now (now + minutes (password_reset_token_expire_minutes cfg)) (secret_key cfg) (jwt_algorithm cfg)"

definition decode_access_token :: "auth_lib \<Rightarrow> settings \<Rightarrow> datetime \<Rightarrow> string \<Rightarrow> error + claims" where
  "decode_access_token lib cfg now token =
     (case jwt_decode lib now token (secret_key cfg) (jwt_algorithm cfg) of
        None \<Rightarrow> Inl UnauthorizedError
      | Some c \<Rightarrow> Inr c)"

definition extract_user_id :: "stdlib \<Rightarrow> claims \<Rightarrow> error + uuid" where
  "extract_user_id std c =
     (case sub_claim c of None \<Rightarrow> Inl UnauthorizedError
      | Some sub \<Rightarrow> if sub = [] then Inl UnauthorizedError
          else case uuid_parse std sub of None \<Rightarrow> Inl UnauthorizedError | Some u \<Rightarrow> Inr u)"

definition extract_role :: "claims \<Rightarrow> error + string" where
  "extract_role c =
     (case role_claim c of None \<Rightarrow> Inl UnauthorizedError
      | Some r \<Rightarrow> if r = [] then Inl UnauthorizedError else Inr r)"

definition verify_password_reset_token :: "stdlib \<Rightarrow> auth_lib \<Rightarrow> settings \<Rightarrow> datetime \<Rightarrow> string \<Rightarrow> error + uuid" where
  "verify_password_reset_token std lib cfg now token =
     (case decode_access_token lib cfg now token of Inl e \<Rightarrow> Inl e
      | Inr c \<Rightarrow> if type_claim c \<noteq> Some ''password_reset'' then Inl UnauthorizedError else extract_user_id std c)"

section \<open>Users\<close>

definition find_user :: "db \<Rightarrow> uuid \<Rightarrow> user option" where
  "find_user s u = row_get user_id u (users s)"

definition get_user_or_404 :: "uuid \<Rightarrow> user dbtx" where
  "get_user_or_404 u = bind_tx (gets (\<lambda>s. find_user s u)) (require_some NotFoundError)"

definition find_by_email :: "db \<Rightarrow> string \<Rightarrow> user option" where
  "find_by_email s e = find (\<lambda>u. email u = e) (users s)"

definition get_by_email :: "string \<Rightarrow> user option dbtx" where
  "get_by_email e = gets (\<lambda>s. find_by_email s (str_strip (str_lower e)))"

definition insert_user :: "user \<Rightarrow> user dbtx" where
  "insert_user u =
     bind_tx (gets (\<lambda>s. find_user s (user_id u))) (\<lambda>r.
     bind_tx (gets (\<lambda>s. find_by_email s (email u))) (\<lambda>x.
     seq_tx (raise_if (r \<noteq> None \<or> x \<noteq> None) IntegrityError)
     (seq_tx (modify (\<lambda>s. s\<lparr>users := users s @ [u]\<rparr>)) (ret u))))"

definition create_user :: "uuid \<Rightarrow> string \<Rightarrow> string \<Rightarrow> string \<Rightarrow> string option \<Rightarrow> user dbtx" where
  "create_user new_id email_address name hashed phone =
     insert_user \<lparr>user_id = new_id, email = str_strip (str_lower email_address), phone_number = phone,
       display_name = str_strip name, password_hash = hashed, urole = role_user, ustatus = US_active\<rparr>"

definition flush_user :: "uuid \<Rightarrow> (user \<Rightarrow> user) \<Rightarrow> unit dbtx" where
  "flush_user u f = modify (\<lambda>s. s\<lparr>users := row_upd user_id u f (users s)\<rparr>)"

section \<open>The service\<close>

text \<open>The profile in a response: the row without the password hash.\<close>

record user_response =
  ur_id :: uuid
  ur_email :: string
  ur_display_name :: string
  ur_phone_number :: "string option"
  ur_role :: user_role
  ur_status :: user_status

definition user_response_of :: "user \<Rightarrow> user_response" where
  "user_response_of u = \<lparr>ur_id = user_id u, ur_email = email u, ur_display_name = display_name u,
     ur_phone_number = phone_number u, ur_role = urole u, ur_status = ustatus u\<rparr>"

record token_response =
  access_token :: string
  token_type :: string
  expires_in :: int
  token_user :: user_response

definition token_for :: "stdlib \<Rightarrow> auth_lib \<Rightarrow> settings \<Rightarrow> datetime \<Rightarrow> user \<Rightarrow> token_response" where
  "token_for std lib cfg now u =
     \<lparr>access_token = create_access_token std lib cfg now (user_id u) (role_value (urole u)),
      token_type = ''bearer'', expires_in = access_token_expire_minutes cfg * 60,
      token_user = user_response_of u\<rparr>"

record register_request =
  reg_email :: string
  reg_display_name :: string
  reg_password :: string
  reg_phone_number :: "string option"

definition register ::
  "stdlib \<Rightarrow> auth_lib \<Rightarrow> settings \<Rightarrow> datetime \<Rightarrow> uuid \<Rightarrow> uuid \<Rightarrow> string \<Rightarrow> register_request \<Rightarrow> token_response dbtx" where
  "register std lib cfg now new_user_id new_wallet_id salt req =
     (let normalised_email = str_strip (str_lower (reg_email req)) in
      bind_tx (get_by_email normalised_email) (\<lambda>existing.
      seq_tx (raise_if (existing \<noteq> None) ConflictError)
     (bind_tx (create_user new_user_id normalised_email (reg_display_name req)
                (hash_password lib salt (reg_password req)) (reg_phone_number req)) (\<lambda>u.
      bind_tx (create_wallet new_wallet_id (user_id u) (platform_currency cfg)) (\<lambda>_.
      ret (token_for std lib cfg now u))))))"

text \<open>The token, when the response carries it.\<close>

definition forgot_password :: "stdlib \<Rightarrow> auth_lib \<Rightarrow> settings \<Rightarrow> datetime \<Rightarrow> string \<Rightarrow> string option dbtx" where
  "forgot_password std lib cfg now email_address =
     bind_tx (get_by_email (str_strip (str_lower email_address))) (\<lambda>r.
     case r of None \<Rightarrow> ret None
     | Some u \<Rightarrow>
         ret (if app_env cfg = ''development''
              then Some (create_password_reset_token std lib cfg now (user_id u)) else None))"

definition reset_password ::
  "stdlib \<Rightarrow> auth_lib \<Rightarrow> settings \<Rightarrow> datetime \<Rightarrow> string \<Rightarrow> string \<Rightarrow> string \<Rightarrow> unit dbtx" where
  "reset_password std lib cfg now salt token new_password =
     (case verify_password_reset_token std lib cfg now token of
        Inl e \<Rightarrow> throw e
      | Inr u \<Rightarrow>
          bind_tx (get_user_or_404 u) (\<lambda>x.
          flush_user (user_id x) (\<lambda>r. r\<lparr>password_hash := hash_password lib salt new_password\<rparr>)))"

text \<open>
  The attempts tracker belongs to the process and is not rolled back with the transaction. \<open>checked\<close> and \<open>decided\<close> are the
  readings of the monotonic clock by \<open>is_locked\<close> and \<open>record_failure\<close>. The login reads the database only.
\<close>

definition login ::
  "stdlib \<Rightarrow> auth_lib \<Rightarrow> settings \<Rightarrow> datetime \<Rightarrow> datetime \<Rightarrow> datetime \<Rightarrow> string \<Rightarrow> string \<Rightarrow> db \<Rightarrow> tracker \<Rightarrow>
   (error + token_response) \<times> tracker" where
  "login std lib cfg now checked decided email_address pass s tr =
     (let normalised_email = str_strip (str_lower email_address);
          (lckd, tr1) = is_locked normalised_email checked tr in
      if lckd then (Inl UnauthorizedError, tr1)
      else case find_by_email s (str_strip (str_lower normalised_email)) of
        None \<Rightarrow> (Inl UnauthorizedError, record_failure normalised_email decided tr1)
      | Some u \<Rightarrow>
          if \<not> verify_password lib pass (password_hash u)
          then (Inl UnauthorizedError, record_failure normalised_email decided tr1)
          else (Inr (token_for std lib cfg now u), clear_attempts normalised_email tr1))"

section \<open>The current user\<close>

record credentials =
  scheme :: string
  bearer :: string

definition extract_token :: "credentials option \<Rightarrow> string option" where
  "extract_token c = (case c of None \<Rightarrow> None
     | Some x \<Rightarrow> if str_lower (scheme x) \<noteq> ''bearer'' then None else Some (bearer x))"

definition load_user :: "uuid \<Rightarrow> user dbtx" where
  "load_user u = bind_tx (gets (\<lambda>s. find_user s u)) (require_some UnauthorizedError)"

definition user_of_token :: "stdlib \<Rightarrow> auth_lib \<Rightarrow> settings \<Rightarrow> datetime \<Rightarrow> string \<Rightarrow> user dbtx" where
  "user_of_token std lib cfg now token =
     (case decode_access_token lib cfg now token of Inl e \<Rightarrow> throw e
      | Inr c \<Rightarrow> (case extract_user_id std c of Inl e \<Rightarrow> throw e | Inr u \<Rightarrow> load_user u))"

definition get_current_user :: "stdlib \<Rightarrow> auth_lib \<Rightarrow> settings \<Rightarrow> datetime \<Rightarrow> credentials option \<Rightarrow> user dbtx" where
  "get_current_user std lib cfg now c =
     (case extract_token c of None \<Rightarrow> throw UnauthorizedError
      | Some token \<Rightarrow> if token = [] then throw UnauthorizedError else user_of_token std lib cfg now token)"

definition optional_current_user ::
  "stdlib \<Rightarrow> auth_lib \<Rightarrow> settings \<Rightarrow> datetime \<Rightarrow> credentials option \<Rightarrow> user option dbtx" where
  "optional_current_user std lib cfg now c =
     (case extract_token c of None \<Rightarrow> ret None
      | Some token \<Rightarrow> if token = [] then ret None
          else (\<lambda>s. case user_of_token std lib cfg now token s of
                  Inr (u, s') \<Rightarrow> Inr (Some u, s')
                | Inl UnauthorizedError \<Rightarrow> Inr (None, s)
                | Inl e \<Rightarrow> Inl e))"

definition get_current_admin :: "stdlib \<Rightarrow> auth_lib \<Rightarrow> settings \<Rightarrow> datetime \<Rightarrow> credentials option \<Rightarrow> user dbtx" where
  "get_current_admin std lib cfg now c =
     bind_tx (get_current_user std lib cfg now c) (\<lambda>u.
     seq_tx (raise_if (role_value (urole u) \<noteq> ''admin'') ForbiddenError) (ret u))"

section \<open>What a successful request did\<close>

lemma get_by_email_inv [tx_inv]:
  "get_by_email e s = Inr (r, s') \<longleftrightarrow> r = find_by_email s (str_strip (str_lower e)) \<and> s' = s"
  by (simp add: get_by_email_def)

lemma insert_user_inv [tx_inv]:
  "insert_user u s = Inr (x, s') \<longleftrightarrow> find_user s (user_id u) = None \<and> find_by_email s (email u) = None \<and>
     x = u \<and> s' = s\<lparr>users := users s @ [u]\<rparr>"
  by (auto simp: insert_user_def bind_tx_inv seq_tx_inv)

definition registered_user :: "auth_lib \<Rightarrow> uuid \<Rightarrow> string \<Rightarrow> register_request \<Rightarrow> user" where
  "registered_user lib u salt req = \<lparr>user_id = u, email = str_strip (str_lower (reg_email req)),
     phone_number = reg_phone_number req, display_name = str_strip (reg_display_name req),
     password_hash = hash_password lib salt (reg_password req), urole = role_user, ustatus = US_active\<rparr>"

lemma register_inv:
  assumes "register std lib cfg now u i salt req s = Inr (t, s')"
  obtains w where "find_user s u = None" and "find_by_email s (str_strip (str_lower (reg_email req))) = None"
    and "create_wallet i u (platform_currency cfg) (s\<lparr>users := users s @ [registered_user lib u salt req]\<rparr>) = Inr (w, s')"
    and "t = token_for std lib cfg now (registered_user lib u salt req)"
  using assms
  by (auto simp: register_def create_user_def Let_def bind_tx_inv seq_tx_inv get_by_email_inv insert_user_inv
      registered_user_def str_lower_strip)

lemma reset_password_inv:
  assumes "reset_password std lib cfg now salt token pass s = Inr (x, s')"
  obtains u v where "verify_password_reset_token std lib cfg now token = Inr u" and "find_user s u = Some v"
    and "s' = s\<lparr>users := row_upd user_id u (\<lambda>r. r\<lparr>password_hash := hash_password lib salt pass\<rparr>) (users s)\<rparr>"
proof -
  obtain u where u: "verify_password_reset_token std lib cfg now token = Inr u"
    and run: "bind_tx (get_user_or_404 u) (\<lambda>x.
          flush_user (user_id x) (\<lambda>r. r\<lparr>password_hash := hash_password lib salt pass\<rparr>)) s = Inr (x, s')"
    using assms by (auto simp: reset_password_def split: sum.splits)
  obtain v where v: "find_user s u = Some v"
    and s': "s' = s\<lparr>users := row_upd user_id (user_id v) (\<lambda>r. r\<lparr>password_hash := hash_password lib salt pass\<rparr>) (users s)\<rparr>"
    using run by (auto simp: bind_tx_inv get_user_or_404_def flush_user_def)
  have "user_id v = u" using v row_get_SomeD by (fastforce simp: find_user_def)
  with u v s' show thesis by (intro that) simp_all
qed

end
