(* ===== verification/Json.thy ===== *)
theory Json
  imports Complex_Main
begin

text \<open>
  JSON values as \<open>json.loads\<close> builds them. A dict is an association list with distinct keys, a float the number its
  shortest representation denotes, a string the list of its UTF-8 bytes.
\<close>

datatype json =
    json_null | json_bool bool | json_int int | json_float rat | json_str string | json_list "json list"
  | json_obj "(string \<times> json) list"

text \<open>\<open>j.get(k, d)\<close>, which only a dict has.\<close>

definition json_get :: "json \<Rightarrow> string \<Rightarrow> json \<Rightarrow> json option" where
  "json_get j k d = (case j of json_obj kvs \<Rightarrow> Some (case map_of kvs k of None \<Rightarrow> d | Some v \<Rightarrow> v) | _ \<Rightarrow> None)"

fun truthy :: "json \<Rightarrow> bool" where
  "truthy json_null = False"
| "truthy (json_bool b) = b"
| "truthy (json_int n) = (n \<noteq> 0)"
| "truthy (json_float q) = (q \<noteq> 0)"
| "truthy (json_str s) = (s \<noteq> [])"
| "truthy (json_list xs) = (xs \<noteq> [])"
| "truthy (json_obj kvs) = (kvs \<noteq> [])"

definition json_text :: "json \<Rightarrow> string option" where
  "json_text j = (case j of json_str s \<Rightarrow> Some s | _ \<Rightarrow> None)"

end
