(* ===== verification/Sync.thy ===== *)
theory Sync
  imports Repositories Texts Json
begin

text \<open>
  \<^verbatim>\<open>app/integrations/status_mapper.py\<close>, \<^verbatim>\<open>app/integrations/providers/base.py\<close> and
  \<^verbatim>\<open>app/integrations/sync_service.py\<close>: fixtures of a sports provider are upserted into the matches table. A failed
  flush rolls the session's transaction back and leaves the session unusable until the caller
  rolls it back: what the run wrote before is gone, every later payload fails, and so does the commit.
\<close>

section \<open>Status codes\<close>

definition api_football_status_map :: "(string \<times> match_status) list" where
  "api_football_status_map =
     [(''NS'', MS_scheduled), (''TBD'', MS_scheduled),
      (''1H'', MS_live), (''HT'', MS_live), (''2H'', MS_live), (''ET'', MS_live), (''BT'', MS_live), (''P'', MS_live),
      (''SUSP'', MS_live), (''INT'', MS_live), (''LIVE'', MS_live),
      (''FT'', MS_completed), (''AET'', MS_completed), (''PEN'', MS_completed), (''AWD'', MS_completed),
      (''WO'', MS_completed),
      (''PST'', MS_postponed), (''CANC'', MS_cancelled), (''ABD'', MS_abandoned)]"

definition api_football_completed_statuses :: "string list" where
  "api_football_completed_statuses = [''FT'', ''AET'', ''PEN'', ''AWD'', ''WO'']"

definition map_api_football_status :: "string \<Rightarrow> match_status" where
  "map_api_football_status raw =
     (case map_of api_football_status_map (str_upper (str_strip raw)) of None \<Rightarrow> MS_scheduled | Some st \<Rightarrow> st)"

definition derive_outcome :: "int option \<Rightarrow> int option \<Rightarrow> football_outcome option" where
  "derive_outcome home away = (case (home, away) of
     (Some h, Some a) \<Rightarrow> Some (if a < h then home_win else if h < a then away_win else draw)
   | _ \<Rightarrow> None)"

definition is_completed_api_football_status :: "string \<Rightarrow> bool" where
  "is_completed_api_football_status raw \<longleftrightarrow>
     str_upper (str_strip raw) \<in> set api_football_completed_statuses"

definition football_data_org_status_map :: "(string \<times> match_status) list" where
  "football_data_org_status_map =
     [(''SCHEDULED'', MS_scheduled), (''TIMED'', MS_scheduled), (''IN_PLAY'', MS_live), (''PAUSED'', MS_live),
      (''FINISHED'', MS_completed), (''POSTPONED'', MS_postponed), (''SUSPENDED'', MS_abandoned),
      (''CANCELLED'', MS_cancelled)]"

definition map_football_data_org_status :: "string \<Rightarrow> match_status" where
  "map_football_data_org_status raw =
     (case map_of football_data_org_status_map (str_upper (str_strip raw)) of None \<Rightarrow> MS_scheduled | Some st \<Rightarrow> st)"

definition is_completed_football_data_org_status :: "string \<Rightarrow> bool" where
  "is_completed_football_data_org_status raw \<longleftrightarrow> str_upper (str_strip raw) = ''FINISHED''"

section \<open>Payloads and providers\<close>

text \<open>The names are passed on as the provider sends them, whatever their JSON type.\<close>

record match_payload =
  p_external_id :: string
  p_provider_name :: string
  p_home_team :: json
  p_away_team :: json
  p_competition :: json
  p_kickoff_at :: datetime
  raw_status :: string
  internal_status :: match_status
  home_score :: "int option"
  away_score :: "int option"
  internal_outcome :: "football_outcome option"

text \<open>A provider client: \<open>None\<close> when the call raises.\<close>

record provider =
  provider_label :: string
  fetch_upcoming_fixtures :: "int \<Rightarrow> int list option \<Rightarrow> match_payload list option"
  fetch_results :: "int \<Rightarrow> int list option \<Rightarrow> match_payload list option"
  fetch_live_fixtures :: "int list option \<Rightarrow> match_payload list option"

section \<open>One fixture\<close>

definition allowed_transitions :: "match_status \<Rightarrow> match_status list" where
  "allowed_transitions st = (case st of
     MS_scheduled \<Rightarrow> [MS_live, MS_completed, MS_postponed, MS_cancelled, MS_abandoned]
   | MS_live \<Rightarrow> [MS_completed, MS_postponed, MS_cancelled, MS_abandoned]
   | MS_postponed \<Rightarrow> [MS_scheduled]
   | MS_completed \<Rightarrow> []
   | MS_cancelled \<Rightarrow> []
   | MS_abandoned \<Rightarrow> [])"

datatype sync_action = sync_created | sync_updated | sync_skipped

text \<open>
  An ORM object takes a name of any type. The flush then fails where it is no string (the driver refuses it) or null (the
  columns are NOT NULL), so that only strings are ever stored; \<open>name_text\<close> is the string. The refusals come in
  the order in which the driver and the database look: parameters, column types, constraints.
\<close>

definition name_text :: "json \<Rightarrow> string" where
  "name_text j = (case j of json_str x \<Rightarrow> x | _ \<Rightarrow> [])"

definition payload_names :: "match_payload \<Rightarrow> json list" where
  "payload_names p = [p_home_team p, p_away_team p, p_competition p]"

definition text_or_null :: "json \<Rightarrow> bool" where
  "text_or_null j = (case j of json_null \<Rightarrow> True | json_str x \<Rightarrow> True | _ \<Rightarrow> False)"

definition bind_names :: "match_payload \<Rightarrow> match_row \<Rightarrow> unit dbtx" where
  "bind_names p m =
     seq_tx (raise_if (\<not> list_all text_or_null (payload_names p) \<or> \<not> match_row_fits m) DataError)
       (raise_if (json_null \<in> set (payload_names p)) IntegrityError)"

text \<open>\<open>_create_fixture\<close>: the columns it does not set are NULL.\<close>

definition new_match :: "uuid \<Rightarrow> datetime \<Rightarrow> match_payload \<Rightarrow> match_row" where
  "new_match new_id now p =
     (let m = \<lparr>match_id = new_id, external_id = p_external_id p, provider_name = Some (p_provider_name p),
               home_team = name_text (p_home_team p), away_team = name_text (p_away_team p),
               competition = name_text (p_competition p),
               kickoff_at = p_kickoff_at p, mstatus = internal_status p, result_home_score = None,
               result_away_score = None, outcome = None, result_confirmed_at = None,
               last_synced_at = Some now\<rparr> in
      if internal_outcome p \<noteq> None
      then m\<lparr>outcome := internal_outcome p, result_home_score := home_score p, result_away_score := away_score p\<rparr>
      else m)"

definition create_fixture :: "uuid \<Rightarrow> datetime \<Rightarrow> match_payload \<Rightarrow> sync_action dbtx" where
  "create_fixture new_id now p =
     (let m = new_match new_id now p in
      seq_tx (bind_names p m) (seq_tx (insert_match m) (ret sync_created)))"

text \<open>An attribute that is written when it differs, with the flag \<open>changed\<close>.\<close>

definition assign :: "('m \<Rightarrow> 'v) \<Rightarrow> (('v \<Rightarrow> 'v) \<Rightarrow> 'm \<Rightarrow> 'm) \<Rightarrow> 'v \<Rightarrow> 'm \<times> bool \<Rightarrow> 'm \<times> bool" where
  "assign get upd v r = (case r of (m, changed) \<Rightarrow>
     if get m \<noteq> v then (upd (\<lambda>_. v) m, True) else (m, changed))"

definition assign_name ::
  "(match_row \<Rightarrow> string) \<Rightarrow> ((string \<Rightarrow> string) \<Rightarrow> match_row \<Rightarrow> match_row) \<Rightarrow> json \<Rightarrow> match_row \<times> bool \<Rightarrow> match_row \<times> bool" where
  "assign_name get upd v r = (case r of (m, changed) \<Rightarrow>
     if json_str (get m) \<noteq> v then (upd (\<lambda>_. name_text v) m, True) else (m, changed))"

definition assign_names :: "match_payload \<Rightarrow> match_row \<times> bool \<Rightarrow> match_row \<times> bool" where
  "assign_names p r =
     assign_name competition competition_update (p_competition p)
       (assign_name away_team away_team_update (p_away_team p)
         (assign_name home_team home_team_update (p_home_team p) r))"

definition assign_kickoff :: "match_payload \<Rightarrow> match_row \<times> bool \<Rightarrow> match_row \<times> bool" where
  "assign_kickoff p r = (case r of (m, changed) \<Rightarrow>
     if seconds 60 < \<bar>kickoff_at m - p_kickoff_at p\<bar> then (m\<lparr>kickoff_at := p_kickoff_at p\<rparr>, True)
     else (m, changed))"

definition assign_status :: "match_payload \<Rightarrow> match_row \<times> bool \<Rightarrow> match_row \<times> bool" where
  "assign_status p r = (case r of (m, changed) \<Rightarrow>
     if mstatus m \<noteq> internal_status p \<and> internal_status p \<in> set (allowed_transitions (mstatus m))
     then (m\<lparr>mstatus := internal_status p\<rparr>, True)
     else (m, changed))"

definition assign_result :: "match_payload \<Rightarrow> match_row \<times> bool \<Rightarrow> match_row \<times> bool" where
  "assign_result p r =
     (if internal_outcome p \<noteq> None \<and> result_confirmed_at (fst r) = None
      then assign result_away_score result_away_score_update (away_score p)
             (assign result_home_score result_home_score_update (home_score p)
               (assign outcome outcome_update (internal_outcome p) r))
      else r)"

definition fixture_changes :: "match_payload \<Rightarrow> match_row \<Rightarrow> match_row \<times> bool" where
  "fixture_changes p existing =
     assign_result p (assign_status p (assign_kickoff p (assign_names p (existing, False))))"

definition update_fixture :: "match_row \<Rightarrow> match_payload \<Rightarrow> datetime \<Rightarrow> sync_action dbtx" where
  "update_fixture existing p now =
     seq_tx (bind_names p (fst (fixture_changes p existing)))
    (bind_tx (flush_match (match_id existing) (\<lambda>r. (fst (fixture_changes p r))\<lparr>last_synced_at := Some now\<rparr>)) (\<lambda>_.
     ret (if snd (fixture_changes p existing) then sync_updated else sync_skipped)))"

definition upsert_fixture :: "uuid \<Rightarrow> datetime \<Rightarrow> match_payload \<Rightarrow> sync_action dbtx" where
  "upsert_fixture new_id now p =
     bind_tx (get_by_external_id (p_external_id p)) (\<lambda>r.
     case r of None \<Rightarrow> create_fixture new_id now p | Some existing \<Rightarrow> update_fixture existing p now)"

section \<open>A run\<close>

datatype sync_error = fetch_failed | upsert_failed string error | session_inactive string

record sync_result =
  sync_provider :: string
  run_at :: datetime
  fixtures_fetched :: nat
  n_created :: nat
  n_updated :: nat
  n_skipped :: nat
  n_failed :: nat
  sync_errors :: "sync_error list"

definition new_result :: "provider \<Rightarrow> datetime \<Rightarrow> sync_result" where
  "new_result pr now = \<lparr>sync_provider = provider_label pr, run_at = now, fixtures_fetched = 0, n_created = 0,
     n_updated = 0, n_skipped = 0, n_failed = 0, sync_errors = []\<rparr>"

definition count_action :: "sync_action \<Rightarrow> sync_result \<Rightarrow> sync_result" where
  "count_action a r = (case a of
     sync_created \<Rightarrow> r\<lparr>n_created := n_created r + 1\<rparr>
   | sync_updated \<Rightarrow> r\<lparr>n_updated := n_updated r + 1\<rparr>
   | sync_skipped \<Rightarrow> r\<lparr>n_skipped := n_skipped r + 1\<rparr>)"

definition count_failure :: "sync_error \<Rightarrow> sync_result \<Rightarrow> sync_result" where
  "count_failure e r = r\<lparr>n_failed := n_failed r + 1, sync_errors := sync_errors r @ [e]\<rparr>"

text \<open>
  The loop over the payloads. The \<open>n\<close>-th upsert reads the clock and draws the id of a new row; the session is \<open>None\<close>
  once a flush has failed.
\<close>

fun process_payloads ::
  "(nat \<Rightarrow> uuid \<times> datetime) \<Rightarrow> nat \<Rightarrow> match_payload list \<Rightarrow> sync_result \<Rightarrow> db option \<Rightarrow> sync_result \<times> db option" where
  "process_payloads clock n [] r session = (r, session)"
| "process_payloads clock n (p # ps) r None =
     process_payloads clock (n + 1) ps (count_failure (session_inactive (p_external_id p)) r) None"
| "process_payloads clock n (p # ps) r (Some s) =
     (case upsert_fixture (fst (clock n)) (snd (clock n)) p s of
        Inr (a, s') \<Rightarrow> process_payloads clock (n + 1) ps (count_action a r) (Some s')
      | Inl e \<Rightarrow> process_payloads clock (n + 1) ps (count_failure (upsert_failed (p_external_id p) e) r) None)"

definition sync_fetched ::
  "(nat \<Rightarrow> uuid \<times> datetime) \<Rightarrow> match_payload list option \<Rightarrow> sync_result \<Rightarrow> db \<Rightarrow> sync_result \<times> db option" where
  "sync_fetched clock fetched r s = (case fetched of
     None \<Rightarrow> (r\<lparr>sync_errors := sync_errors r @ [fetch_failed]\<rparr>, Some s)
   | Some ps \<Rightarrow> process_payloads clock 0 ps (r\<lparr>fixtures_fetched := length ps\<rparr>) (Some s))"

definition sync_upcoming ::
  "provider \<Rightarrow> (nat \<Rightarrow> uuid \<times> datetime) \<Rightarrow> datetime \<Rightarrow> int \<Rightarrow> int list option \<Rightarrow> db \<Rightarrow> sync_result \<times> db option" where
  "sync_upcoming pr clock now days_ahead league_ids s =
     sync_fetched clock (fetch_upcoming_fixtures pr days_ahead league_ids) (new_result pr now) s"

definition sync_results ::
  "provider \<Rightarrow> (nat \<Rightarrow> uuid \<times> datetime) \<Rightarrow> datetime \<Rightarrow> int \<Rightarrow> int list option \<Rightarrow> db \<Rightarrow> sync_result \<times> db option" where
  "sync_results pr clock now days_back league_ids s =
     sync_fetched clock (fetch_results pr days_back league_ids) (new_result pr now) s"

definition sync_live ::
  "provider \<Rightarrow> (nat \<Rightarrow> uuid \<times> datetime) \<Rightarrow> datetime \<Rightarrow> int list option \<Rightarrow> db \<Rightarrow> sync_result \<times> db option" where
  "sync_live pr clock now league_ids s =
     sync_fetched clock (fetch_live_fixtures pr league_ids) (new_result pr now) s"

text \<open>The request: \<open>get_db\<close> commits, or fails to and rolls back. With the pinned FastAPI the code after the \<open>yield\<close> of
  a dependency runs when the response is out, so the counters are answered in both cases.\<close>

datatype sync_job = Upcoming int "int list option" | Results int "int list option" | Live "int list option"

definition sync_job_run ::
  "provider \<Rightarrow> (nat \<Rightarrow> uuid \<times> datetime) \<Rightarrow> datetime \<Rightarrow> sync_job \<Rightarrow> db \<Rightarrow> sync_result \<times> db option" where
  "sync_job_run pr clock now job = (case job of
     Upcoming d ids \<Rightarrow> sync_upcoming pr clock now d ids
   | Results d ids \<Rightarrow> sync_results pr clock now d ids
   | Live ids \<Rightarrow> sync_live pr clock now ids)"

definition sync_request ::
  "provider \<Rightarrow> (nat \<Rightarrow> uuid \<times> datetime) \<Rightarrow> datetime \<Rightarrow> sync_job \<Rightarrow> db \<Rightarrow> sync_result \<times> db" where
  "sync_request pr clock now job s = (case sync_job_run pr clock now job s of
     (r, Some s') \<Rightarrow> (r, s')
   | (r, None) \<Rightarrow> (r, s))"

section \<open>What a synchronisation can change\<close>

text \<open>
  The part of a match that decides bets, and how it may move: a synchronisation takes an unconfirmed match along the
  allowed transitions and leaves it unconfirmed; a confirmation may do anything to an unconfirmed match; of a
  confirmed match at most the status moves, along the allowed transitions.
\<close>

type_synonym match_view = "datetime option \<times> match_status \<times> football_outcome option \<times> int option \<times> int option"

definition result_view :: "match_row \<Rightarrow> match_view" where
  "result_view m = (result_confirmed_at m, mstatus m, outcome m, result_home_score m, result_away_score m)"

definition status_moves :: "match_status \<Rightarrow> match_status \<Rightarrow> bool" where
  "status_moves a b \<longleftrightarrow> a = b \<or> b \<in> set (allowed_transitions a)"

fun match_edge :: "match_view \<Rightarrow> match_view \<Rightarrow> bool" where
  "match_edge (None, st, r) (None, st', r') = status_moves st st'"
| "match_edge (None, st, r) (Some t, st', r') = True"
| "match_edge (Some t, st, r) (c, st', r') = (c = Some t \<and> r' = r \<and> st' \<in> set (allowed_transitions st))"

lemma fixture_changes_keys [simp]:
  "match_id (fst (fixture_changes p m)) = match_id m" "external_id (fst (fixture_changes p m)) = external_id m"
  "result_confirmed_at (fst (fixture_changes p m)) = result_confirmed_at m"
  by (simp_all add: fixture_changes_def assign_result_def assign_status_def assign_kickoff_def assign_names_def
      assign_name_def assign_def split: prod.splits)

lemma names_view: "result_view (fst (assign_kickoff p (assign_names p r))) = result_view (fst r)"
  by (cases r) (simp add: result_view_def assign_kickoff_def assign_names_def assign_name_def)

definition named :: "match_payload \<Rightarrow> bool" where
  "named p \<longleftrightarrow> (\<forall>j \<in> set (payload_names p). \<exists>x. j = json_str x)"

lemma bind_names_inv [tx_inv]: "bind_names p m s = Inr (x, s') \<longleftrightarrow> s' = s \<and> match_row_fits m \<and> named p"
proof -
  have "(text_or_null j \<and> j \<noteq> json_null) = (\<exists>x. j = json_str x)" for j
    by (cases j) (simp_all add: text_or_null_def)
  then have "(list_all text_or_null (payload_names p) \<and> json_null \<notin> set (payload_names p)) = named p"
    unfolding named_def list_all_iff by metis
  then show ?thesis by (auto simp: bind_names_def tx_inv)
qed

lemma fixture_changes_edge:
  "match_edge (result_view m) (result_view (fst (fixture_changes p m))) \<or>
     result_view (fst (fixture_changes p m)) = result_view m"
proof -
  obtain m1 c where m1: "assign_kickoff p (assign_names p (m, False)) = (m1, c)" by force
  have v: "result_view m1 = result_view m" using names_view [of p "(m, False)"] by (simp add: m1)
  show ?thesis
    unfolding fixture_changes_def m1 v [symmetric]
    by (cases "result_confirmed_at m1")
       (auto simp: result_view_def assign_status_def assign_result_def assign_def status_moves_def)
qed

definition matches_follow :: "match_row list \<Rightarrow> match_row list \<Rightarrow> bool" where
  "matches_follow = rows_follow match_id result_view match_edge"

lemma matches_follow_refl: "matches_follow t t"
  by (simp add: matches_follow_def)

lemma matches_follow_trans: "matches_follow t u \<Longrightarrow> matches_follow u v \<Longrightarrow> matches_follow t v"
  unfolding matches_follow_def by (rule rows_follow_trans)

definition synced :: "db \<Rightarrow> db \<Rightarrow> bool" where
  "synced s s' \<longleftrightarrow> s' = s\<lparr>matches := matches s'\<rparr> \<and> matches_follow (matches s) (matches s')"

lemma synced_refl: "synced s s"
  by (simp add: synced_def matches_follow_refl)

lemma synced_trans: "synced s s1 \<Longrightarrow> synced s1 s2 \<Longrightarrow> synced s s2"
  unfolding synced_def by (metis matches_follow_trans db.surjective db.update_convs(4))

lemma upsert_synced: "upsert_fixture i now p s = Inr (a, s') \<Longrightarrow> synced s s'"
proof -
  assume run: "upsert_fixture i now p s = Inr (a, s')"
  have upd: "matches_follow t (row_upd match_id k (\<lambda>r. (fst (fixture_changes p r))\<lparr>last_synced_at := Some now\<rparr>) t)" for t k
    unfolding matches_follow_def row_upd_def
    by (rule rows_follow_map) (use fixture_changes_edge in \<open>auto simp: result_view_def\<close>)
  have ins: "matches_follow t (t @ u)" for t u
    unfolding matches_follow_def by (rule rows_follow_append)
  show ?thesis
    using run
    by (auto simp: ins upsert_fixture_def create_fixture_def update_fixture_def insert_match_def get_by_external_id_def
        bind_tx_inv seq_tx_inv bind_names_inv raise_if_inv flush_match_inv check_row_inv put_match_def synced_def
        find_match_def Let_def
        intro: upd split: option.splits)
qed

text \<open>Whatever one upsert keeps, a whole job keeps.\<close>

lemma process_payloads_rel:
  assumes "\<And>s. R s s" and "\<And>s t u. R s t \<Longrightarrow> R t u \<Longrightarrow> R s u"
    and "\<And>i now p s a s'. upsert_fixture i now p s = Inr (a, s') \<Longrightarrow> R s s'"
  shows "process_payloads clock n ps r (Some s) = (r', Some s') \<Longrightarrow> R s s'"
proof (induction ps arbitrary: n r s)
  case (Cons p ps)
  have dead: "snd (process_payloads clock n' ps' q None) = None" for n' ps' q
    by (induction ps' arbitrary: n' q) simp_all
  obtain a s1 where up: "upsert_fixture (fst (clock n)) (snd (clock n)) p s = Inr (a, s1)"
    using Cons.prems dead by (auto split: sum.splits) (metis option.distinct(1) snd_conv)
  then have "R s s1" by (rule assms(3))
  moreover have "R s1 s'" using Cons up by simp
  ultimately show ?case by (rule assms(2))
qed (simp add: assms(1))

lemma sync_request_rel:
  assumes "\<And>s. R s s" and "\<And>s t u. R s t \<Longrightarrow> R t u \<Longrightarrow> R s u"
    and "\<And>i now p s a s'. upsert_fixture i now p s = Inr (a, s') \<Longrightarrow> R s s'"
  shows "R s (snd (sync_request pr clock now job s))"
  by (cases job) (auto simp: sync_request_def sync_job_run_def sync_upcoming_def sync_results_def sync_live_def
      sync_fetched_def assms(1) intro: process_payloads_rel [of R, OF assms] split: option.splits prod.splits)

lemma sync_request_synced: "synced s (snd (sync_request pr clock now job s))"
  by (rule sync_request_rel) (rule synced_refl, erule (1) synced_trans, rule upsert_synced)

section \<open>Lost sessions\<close>

text \<open>A session once lost stays lost, and an upsert that fails loses it.\<close>

lemma payloads_lost: "snd (process_payloads clock n ps r None) = None"
  by (induction ps arbitrary: n r) simp_all

lemma lost_failures: "n_failed r \<le> n_failed (fst (process_payloads clock n ps r None))"
proof (induction ps arbitrary: n r)
  case (Cons p ps)
  from Cons.IH [of "count_failure (session_inactive (p_external_id p)) r" "n + 1"] show ?case by (simp add: count_failure_def)
qed simp

lemma payloads_failures:
  "process_payloads clock n ps r (Some s) = (r', session) \<Longrightarrow>
     (session = None \<longrightarrow> n_failed r < n_failed r') \<and> (session \<noteq> None \<longrightarrow> n_failed r' = n_failed r)"
proof (induction ps arbitrary: n r s)
  case (Cons p ps)
  have keep: "n_failed (count_action a r) = n_failed r" for a
    by (cases a) (simp_all add: count_action_def)
  have lose: "n_failed r < n_failed (fst (process_payloads clock k xs (count_failure e r) None))" for k xs e
    using lost_failures [of "count_failure e r" clock k xs] by (simp add: count_failure_def)
  show ?case
  proof (cases "upsert_fixture (fst (clock n)) (snd (clock n)) p s")
    case (Inl e)
    with Cons.prems have *: "process_payloads clock (n + 1) ps (count_failure (upsert_failed (p_external_id p) e) r) None = (r', session)"
      by simp
    have "session = None" using payloads_lost * by (metis snd_conv)
    with lose [of "n + 1" ps] * show ?thesis by (metis fst_conv)
  next
    case (Inr q)
    with Cons.prems Cons.IH [of "n + 1" "count_action (fst q) r" "snd q"] show ?thesis
      by (auto simp: keep split: prod.splits)
  qed
qed auto

end
