(* ===== verification/Books.thy ===== *)
theory Books
  imports Match_Settlement Webhooks Auth Sync
begin

text \<open>
  The accounts of the whole system. \<open>books\<close> says that every balance is explained: the locked
  balance of a user by open stakes and pending withdrawals, both balances by the ledger, the total
  by completed deposits and withdrawals, the platform's balance by its ledger. Each kind of step is
  shown to keep it.
\<close>

section \<open>What explains the balances\<close>

definition stake_held :: "uuid \<Rightarrow> bet \<Rightarrow> decimal" where
  "stake_held u b =
     (if bstatus b \<in> {OPEN, MATCHED, PENDING_SETTLEMENT, UNDER_REVIEW}
      then (if creator_id b = u then stake_amount b else 0) +
           (if opponent_id b = Some u then stake_amount b else 0)
      else 0)"

definition stakes :: "uuid \<Rightarrow> bet list \<Rightarrow> decimal" where
  "stakes u bs = sum_list (map (stake_held u) bs)"

definition withdrawal_held :: "uuid \<Rightarrow> withdrawal_request \<Rightarrow> decimal" where
  "withdrawal_held u w = (if wd_user w = u \<and> holds_funds (wstatus w) then wd_amount w else 0)"

definition withdrawal_holds :: "uuid \<Rightarrow> withdrawal_request list \<Rightarrow> decimal" where
  "withdrawal_holds u ws = sum_list (map (withdrawal_held u) ws)"

definition deposited :: "deposit_request list \<Rightarrow> decimal" where
  "deposited ds = sum_list (map (\<lambda>d. if dstatus d = DS_completed then dep_amount d else 0) ds)"

definition withdrawn :: "withdrawal_request list \<Rightarrow> decimal" where
  "withdrawn ws = sum_list (map (\<lambda>w. if wstatus w = WS_completed then wd_amount w else 0) ws)"

definition platform_total :: "platform_account list \<Rightarrow> decimal" where
  "platform_total pas = sum_list (map pa_balance pas)"

definition fees_of :: "uuid \<Rightarrow> platform_ledger_entry list \<Rightarrow> decimal" where
  "fees_of k es = sum_list (map ple_amount (filter (\<lambda>e. ple_account e = k) es))"

definition bet_sound :: "bet \<Rightarrow> bool" where
  "bet_sound b \<longleftrightarrow> on_cent (stake_amount b) \<and> 0 < stake_amount b \<and>
     opponent_id b \<noteq> Some (creator_id b) \<and>
     (bstatus b = OPEN \<longrightarrow> opponent_id b = None) \<and>
     (bstatus b \<in> {MATCHED, PENDING_SETTLEMENT, SETTLED} \<longrightarrow> opponent_id b \<noteq> None)"

definition bets_ok :: "bet list \<Rightarrow> bool" where
  "bets_ok bs \<longleftrightarrow> keyed bet_id bs \<and> (\<forall>b \<in> set bs. bet_sound b)"

definition requests_ok :: "deposit_request list \<Rightarrow> withdrawal_request list \<Rightarrow> bool" where
  "requests_ok ds ws \<longleftrightarrow> keyed dep_id ds \<and> keyed wd_id ws \<and>
     (\<forall>d \<in> set ds. on_cent (dep_amount d) \<and> 0 \<le> dep_amount d) \<and>
     (\<forall>w \<in> set ws. on_cent (wd_amount w) \<and> 0 \<le> wd_amount w)"

definition locked_explained :: "db \<Rightarrow> bool" where
  "locked_explained s \<longleftrightarrow> (\<forall>u. balance_in (wallets s) u locked =
     stakes u (bets s) + withdrawal_holds u (withdrawals s))"

definition ledger_explains :: "db \<Rightarrow> bool" where
  "ledger_explains s \<longleftrightarrow> (\<forall>u f. net (ledger s) u f = balance_in (wallets s) u f)"

definition conserved :: "db \<Rightarrow> bool" where
  "conserved s \<longleftrightarrow> total_money (wallets s) + platform_total (platform_accounts s) =
     deposited (deposits s) - withdrawn (withdrawals s)"

definition platform_explained :: "db \<Rightarrow> bool" where
  "platform_explained s \<longleftrightarrow>
     (\<forall>a \<in> set (platform_accounts s). pa_balance a = fees_of (pa_id a) (platform_ledger s))"

definition books :: "db \<Rightarrow> bool" where
  "books s \<longleftrightarrow> wallet_books s \<and> platform_sound s \<and> rates_ok s \<and>
     bets_ok (bets s) \<and> requests_ok (deposits s) (withdrawals s) \<and>
     locked_explained s \<and> ledger_explains s \<and> conserved s \<and> platform_explained s"

lemma booksD:
  assumes "books s"
  shows "wallet_books s" "platform_sound s" "rates_ok s" "bets_ok (bets s)" "keyed bet_id (bets s)"
    "requests_ok (deposits s) (withdrawals s)" "locked_explained s" "ledger_explains s" "conserved s"
    "platform_explained s"
  using assms by (auto simp: books_def bets_ok_def)

lemma books_bet: "books s \<Longrightarrow> find_bet s b = Some r \<Longrightarrow> bet_sound r"
  by (auto simp: books_def bets_ok_def find_bet_def dest!: row_get_SomeD)

lemma books_deposit: "books s \<Longrightarrow> find_deposit s d = Some r \<Longrightarrow> on_cent (dep_amount r) \<and> 0 \<le> dep_amount r"
  by (auto simp: books_def requests_ok_def find_deposit_def dest!: row_get_SomeD)

lemma books_withdrawal:
  "books s \<Longrightarrow> find_withdrawal s w = Some r \<Longrightarrow> on_cent (wd_amount r) \<and> 0 \<le> wd_amount r"
  by (auto simp: books_def requests_ok_def find_withdrawal_def dest!: row_get_SomeD)

text \<open>The tables the books do not look at.\<close>

lemma books_others [simp]:
  "books (s\<lparr>row_locks := ls\<rparr>) = books s" "books (s\<lparr>bet_events := evs\<rparr>) = books s"
  "books (s\<lparr>matches := ms\<rparr>) = books s" "books (s\<lparr>users := us\<rparr>) = books s" "books (s\<lparr>enforce_checks := e\<rparr>) = books s"
  by (simp_all add: books_def wallet_books_def platform_sound_def rates_ok_def locked_explained_def
      ledger_explains_def conserved_def platform_explained_def)

lemma bets_ok_upd:
  assumes "bets_ok bs" and "row_get bet_id k bs = Some b" and "bet_sound (f b)"
    and "\<And>r. bet_id (f r) = bet_id r"
  shows "bets_ok (row_upd bet_id k f bs)"
proof -
  have k: "keyed bet_id bs" and a: "\<forall>r \<in> set bs. bet_sound r" using assms(1) by (auto simp: bets_ok_def)
  have "\<forall>r \<in> set (row_upd bet_id k f bs). bet_sound r"
    using a _ k by (rule all_row_upd) (use assms(2,3) in simp)
  with k assms(4) show ?thesis by (simp add: bets_ok_def keyed_upd)
qed

lemma stakes_upd:
  "bets_ok bs \<Longrightarrow> row_get bet_id k bs = Some b \<Longrightarrow>
     stakes u (row_upd bet_id k f bs) = stakes u bs - stake_held u b + stake_held u (f b)"
  by (simp add: stakes_def sum_row_upd bets_ok_def)

lemma ledger_explains_money: "ledger_explains s \<Longrightarrow> money d s s' \<Longrightarrow> ledger_explains s'"
  by (simp add: ledger_explains_def money_def)

section \<open>Steps that keep the books\<close>

text \<open>A change that moves money around without changing the total.\<close>

definition neutral :: "delta \<Rightarrow> bool" where
  "neutral d \<longleftrightarrow> (\<forall>us. distinct us \<longrightarrow> worth us d = 0)"

lemma neutral_shift: "f \<noteq> g \<Longrightarrow> neutral (shift u f g x)"
  by (simp add: neutral_def worth_shift)

lemma neutral_both: "neutral d \<Longrightarrow> neutral e \<Longrightarrow> neutral (both d e)"
  by (simp add: neutral_def worth_both)

lemma neutral_zero: "neutral (\<lambda>u f. 0)"
  by (simp add: neutral_def worth_def)

lemma neutral_total:
  "neutral d \<Longrightarrow> wallet_books s \<Longrightarrow> money d s s' \<Longrightarrow> total_money (wallets s') = total_money (wallets s)"
  by (simp add: money_total neutral_def wallet_books_def keyed_def)

lemma rates_ok_config: "same_config s s' \<Longrightarrow> rates_ok s \<Longrightarrow> rates_ok s'"
  by (simp add: rates_ok_def same_config_def)

lemma books_bet_step:
  assumes b: "books s" and st: "bet_step d bs s s'" and ok: "bets_ok bs" and "neutral d"
    and locked: "\<And>u. stakes u bs = stakes u (bets s) + d u locked"
  shows "books s'"
proof -
  note B = booksD [OF b]
  have m: "money d s s'" and eq: "bets s' = bs" "platform_accounts s' = platform_accounts s"
      "platform_ledger s' = platform_ledger s" "deposits s' = deposits s" "withdrawals s' = withdrawals s"
    and conf: "same_config s s'"
    using st by (auto simp: bet_step_def same_defs)
  show ?thesis
    unfolding books_def
    using B m ok locked neutral_total [OF assms(4) B(1) m] rates_ok_config [OF conf B(3)]
      money_books [OF m B(1)] ledger_explains_money [OF B(8) m]
    by (simp add: platform_sound_def locked_explained_def conserved_def platform_explained_def eq money_def)
qed

lemma books_fund_step:
  assumes b: "books s" and st: "fund_step d ds ws s s'" and ok: "requests_ok ds ws"
    and total: "total_money (wallets s') - total_money (wallets s) =
      (deposited ds - deposited (deposits s)) - (withdrawn ws - withdrawn (withdrawals s))"
    and locked: "\<And>u. withdrawal_holds u ws = withdrawal_holds u (withdrawals s) + d u locked"
  shows "books s'"
proof -
  note B = booksD [OF b]
  have m: "money d s s'" and eq: "bets s' = bets s" "platform_accounts s' = platform_accounts s"
      "platform_ledger s' = platform_ledger s" "deposits s' = ds" "withdrawals s' = ws"
    and conf: "same_config s s'"
    using st by (auto simp: fund_step_def same_defs)
  show ?thesis
    unfolding books_def
    using B m ok locked total rates_ok_config [OF conf B(3)]
      money_books [OF m B(1)] ledger_explains_money [OF B(8) m]
    by (simp add: platform_sound_def locked_explained_def conserved_def platform_explained_def eq money_def)
qed

text \<open>Collecting a fee.\<close>

lemma fee_collected:
  assumes P: "platform_sound s" and X: "platform_explained s"
    and a: "row_get pa_currency c (platform_accounts s) = Some a"
    and eq: "platform_accounts s' = row_upd pa_currency c (add_fee fee) (platform_accounts s)"
      "platform_ledger s' = platform_ledger s @ [e]"
    and new: "\<And>k. fees_of k (platform_ledger s @ [e]) = fees_of k (platform_ledger s) + (if pa_id a = k then fee else 0)"
    and fee: "on_cent fee" "0 \<le> fee"
  shows "platform_sound s'" and "platform_explained s'"
    and "platform_total (platform_accounts s') = platform_total (platform_accounts s) + fee"
proof -
  have kpa: "pa_currency (add_fee x r) = pa_currency r" "pa_id (add_fee x r) = pa_id r" for x r
    by (simp_all add: add_fee_def)
  have pk: "keyed pa_currency (platform_accounts s)" using P by (simp add: platform_sound_def)
  show "platform_sound s'"
    using P fee unfolding platform_sound_def eq
    by (auto simp: keyed_upd kpa map_row_upd set_row_upd) (auto simp: add_fee_def on_cent_add)
  show "platform_total (platform_accounts s') = platform_total (platform_accounts s) + fee"
    unfolding platform_total_def eq sum_row_upd [OF pk a] by (simp add: add_fee_def)
  have ain: "a \<in> set (platform_accounts s)" "pa_currency a = c" using row_get_SomeD [OF a] by auto
  have same: "pa_currency x = c \<longleftrightarrow> pa_id a = pa_id x" if "x \<in> set (platform_accounts s)" for x
  proof -
    have "inj_on pa_currency (set (platform_accounts s))" "inj_on pa_id (set (platform_accounts s))"
      using P by (auto simp: platform_sound_def keyed_def distinct_map)
    from inj_on_eq_iff [OF this(1) that ain(1)] inj_on_eq_iff [OF this(2) ain(1) that]
    show ?thesis using ain(2) by auto
  qed
  show "platform_explained s'"
    unfolding platform_explained_def eq(2) new
  proof
    fix y
    assume "y \<in> set (platform_accounts s')"
    then obtain x where x: "x \<in> set (platform_accounts s)" and y: "y = (if pa_currency x = c then add_fee fee x else x)"
      by (auto simp: eq set_row_upd)
    have "pa_balance x = fees_of (pa_id x) (platform_ledger s)" using X x by (simp add: platform_explained_def)
    then show "pa_balance y = fees_of (pa_id y) (platform_ledger s) + (if pa_id a = pa_id y then fee else 0)"
      using same [OF x] by (simp add: y add_fee_def)
  qed
qed

lemma books_settles:
  assumes b: "books s" and st: "settles now b_id b opponent p a s s'"
  shows "books s'"
proof -
  note B = booksD [OF b]
  let ?r = "settled_row now p (sp_payout p) (sp_fee p)"
  have fb: "find_bet s b_id = Some b" and pend: "bstatus b = PENDING_SETTLEMENT"
    and opp: "opponent_id b = Some opponent" and plan: "plan_ok b opponent p"
    and m: "money (settlement_change b opponent p) s s'"
    and a: "row_get pa_currency (bet_currency b) (platform_accounts s) = Some a"
    and eq: "bets s' = row_upd bet_id b_id ?r (bets s)"
      "platform_accounts s' = row_upd pa_currency (bet_currency b) (add_fee (sp_fee p)) (platform_accounts s)"
      "platform_ledger s' = platform_ledger s @ [platform_entry_for a b p]"
      "deposits s' = deposits s" "withdrawals s' = withdrawals s" and conf: "same_config s s'"
    using st by (auto simp: settles_def same_defs)
  have snd: "bet_sound b" using books_bet [OF b fb] .
  then have ne: "opponent \<noteq> creator_id b" "0 < stake_amount b" using opp by (auto simp: bet_sound_def)
  have row: "row_get bet_id b_id (bets s) = Some b" using fb by (simp add: find_bet_def)
  have key: "bet_id (?r x) = bet_id x" for x by (simp add: settled_row_def)
  have "bets_ok (bets s')"
    unfolding eq using B(4) row
    by (rule bets_ok_upd) (use snd opp in \<open>auto simp: key bet_sound_def settled_row_def\<close>)
  moreover have "stakes u (bets s') = stakes u (bets s) + settlement_change b opponent p u locked" for u
    unfolding eq stakes_upd [OF B(4) row] settlement_change_locked [OF ne(1) plan]
    using ne(1) by (auto simp: stake_held_def settled_row_def pend opp)
  moreover have fee: "on_cent (sp_fee p)" "0 \<le> sp_fee p" using plan by (auto simp: plan_ok_def)
  have "fees_of k (platform_ledger s @ [platform_entry_for a b p]) = fees_of k (platform_ledger s) + (if pa_id a = k then sp_fee p else 0)"
    for k by (simp add: fees_of_def platform_entry_for_def)
  note fee_collected [OF B(2) B(10) a eq(2,3) this fee]
  moreover have "total_money (wallets s') = total_money (wallets s) - sp_fee p"
    using settlement_change_total [OF B(1) m plan ne] .
  ultimately show ?thesis
    unfolding books_def
    using B m rates_ok_config [OF conf B(3)] money_books [OF m B(1)] ledger_explains_money [OF B(8) m]
    by (simp add: locked_explained_def conserved_def eq(4,5) money_def)
qed

section \<open>The handlers keep the books\<close>

lemma stakes_append: "stakes u (bs @ [b]) = stakes u bs + stake_held u b"
  by (simp add: stakes_def)

lemma stake_sound: "books s \<Longrightarrow> find_bet s b_id = Some b \<Longrightarrow> on_cent (stake_amount b) \<and> 0 < stake_amount b"
  using books_bet by (simp add: bet_sound_def)

lemma round_pos_or_zero: "0 < a \<Longrightarrow> 0 \<le> round_half_up a"
  by (simp add: round_nonneg)

lemma create_bet_books:
  assumes b: "books s" and tie: "\<not> half_cent_tie stake" and pos: "0 < round_half_up stake"
    and run: "create_bet cfg now new_id creator m_id prediction stake s = Inr (x, s')"
  shows "books s'"
proof -
  note st = create_bet_step [OF booksD(1) [OF b] tie run]
  obtain k where x: "x = new_bet cfg now new_id (user_id creator) m_id prediction (round_half_up stake) k"
    using st(2) by blast
  show ?thesis
  proof (rule books_bet_step [OF b st(1)])
    show "bets_ok (bets s @ [x])"
      using booksD(4) [OF b] st(6) pos
      by (auto simp: bets_ok_def keyed_append_one x new_bet_def bet_sound_def find_bet_def)
    show "stakes u (bets s @ [x]) = stakes u (bets s) +
        shift (user_id creator) available locked (round_half_up stake) u locked" for u
      by (simp add: stakes_append stake_held_def x new_bet_def change_simps)
  qed (simp add: neutral_shift)
qed

lemma accept_bet_books:
  assumes b: "books s" and run: "accept_bet now opponent b_id prediction s = Inr (x, s')"
  shows "books s'"
proof -
  obtain r where fb: "find_bet s b_id = Some r" and op: "bstatus r = OPEN" "user_id opponent \<noteq> creator_id r"
    and st: "bet_step (shift (user_id opponent) available locked (stake_amount r))
           (row_upd bet_id b_id (matched_by (user_id opponent) prediction) (bets s)) s s'"
    by (rule accept_bet_step [OF booksD(1) [OF b] run]) (auto dest: stake_sound [OF b])
  have row: "row_get bet_id b_id (bets s) = Some r" using fb by (simp add: find_bet_def)
  have snd: "bet_sound r" using books_bet [OF b fb] .
  show ?thesis
  proof (rule books_bet_step [OF b st])
    show "bets_ok (row_upd bet_id b_id (matched_by (user_id opponent) prediction) (bets s))"
      using booksD(4) [OF b] row
      by (rule bets_ok_upd) (use snd op in \<open>auto simp: bet_sound_def matched_by_def\<close>)
    show "stakes u (row_upd bet_id b_id (matched_by (user_id opponent) prediction) (bets s)) =
        stakes u (bets s) + shift (user_id opponent) available locked (stake_amount r) u locked" for u
      unfolding stakes_upd [OF booksD(4) [OF b] row]
      using op snd by (auto simp: stake_held_def matched_by_def change_simps bet_sound_def)
  qed (simp add: neutral_shift)
qed

lemma cancel_bet_books:
  assumes b: "books s" and run: "cancel_bet requester b_id s = Inr (x, s')"
  shows "books s'"
proof -
  obtain r where fb: "find_bet s b_id = Some r" and c: "cancel_with requester r s = Inr (x, s')"
    using run by (auto simp: cancel_bet_def bind_tx_inv get_bet_or_404_inv)
  have row: "row_get bet_id b_id (bets s) = Some r" and id: "bet_id r = b_id"
    using fb row_get_SomeD by (fastforce simp: find_bet_def)+
  have snd: "bet_sound r" using books_bet [OF b fb] .
  note st = cancel_with_step [OF booksD(1) [OF b] c] stake_sound [OF b fb]
  show ?thesis
  proof (rule books_bet_step [OF b st(3)])
    show "bets_ok (row_upd bet_id (bet_id r) (\<lambda>r. r\<lparr>bstatus := CANCELLED\<rparr>) (bets s))"
      unfolding id using booksD(4) [OF b] row
      by (rule bets_ok_upd) (use snd in \<open>auto simp: bet_sound_def\<close>)
    show "stakes u (row_upd bet_id (bet_id r) (\<lambda>r. r\<lparr>bstatus := CANCELLED\<rparr>) (bets s)) =
        stakes u (bets s) + shift (creator_id r) locked available (stake_amount r) u locked" for u
      unfolding id stakes_upd [OF booksD(4) [OF b] row]
      using st snd by (auto simp: stake_held_def change_simps bet_sound_def)
  qed (use st in \<open>simp_all add: neutral_shift\<close>)
qed

lemma void_bet_books:
  assumes b: "books s" and run: "void_bet b_id admin reason s = Inr (x, s')"
  shows "books s'"
proof -
  obtain r where fb: "find_bet s b_id = Some r" and op: "bstatus r = OPEN \<or> bstatus r = MATCHED"
    and st: "bet_step (void_change r) (row_upd bet_id b_id void_row (bets s)) s s'"
    by (rule void_bet_step [OF booksD(1) [OF b] run]) (auto dest: stake_sound [OF b])
  have row: "row_get bet_id b_id (bets s) = Some r" using fb by (simp add: find_bet_def)
  have snd: "bet_sound r" using books_bet [OF b fb] .
  show ?thesis
  proof (rule books_bet_step [OF b st])
    show "bets_ok (row_upd bet_id b_id void_row (bets s))"
      using booksD(4) [OF b] row
      by (rule bets_ok_upd) (use snd in \<open>auto simp: bet_sound_def void_row_def\<close>)
    show "stakes u (row_upd bet_id b_id void_row (bets s)) = stakes u (bets s) + void_change r u locked" for u
      unfolding stakes_upd [OF booksD(4) [OF b] row]
      using op snd
      by (auto simp: stake_held_def void_row_def void_change_def change_simps bet_sound_def)
    show "neutral (void_change r)"
      by (auto simp: void_change_def intro!: neutral_both neutral_shift neutral_zero
          split: bet_status.splits option.splits)
  qed
qed

lemma settle_bet_books:
  assumes b: "books s" and run: "settle_bet now b_id s = Inr (x, s')"
  shows "books s'"
proof -
  have ok: "settleable r" if "find_bet s b_id = Some r" for r
    using books_bet [OF b that] by (simp add: settleable_def bet_sound_def)
  from settle_bet_settles [OF booksD(1-3,5) [OF b] ok run] show ?thesis
    using books_settles [OF b] by metis
qed

lemma confirm_match_books:
  assumes b: "books s" and run: "confirm_match now m_id result home away adm s = Inr (x, s')"
  shows "books s'"
proof -
  have "stake_held u (if bet_match r = m_id \<and> bstatus r = MATCHED then to_pending r else r) = stake_held u r" for u r
    by (simp add: stake_held_def to_pending_def)
  then have st: "stakes u (pending_table m_id (bets s)) = stakes u (bets s)" for u
    by (simp add: stakes_def pending_table_def comp_def)
  have "map bet_id (pending_table m_id (bets s)) = map bet_id (bets s)"
    by (simp add: pending_table_def to_pending_def)
  then have "keyed bet_id (pending_table m_id (bets s))" using booksD(5) [OF b] by (simp add: keyed_def)
  then have ok: "bets_ok (pending_table m_id (bets s))"
    using booksD(4) [OF b]
    by (auto simp: bets_ok_def pending_table_def bet_sound_def to_pending_def)
  have "books (s\<lparr>bets := pending_table m_id (bets s)\<rparr>)"
    using b by (rule books_bet_step [where d = "\<lambda>u f. 0" and bs = "pending_table m_id (bets s)"])
       (use booksD(1) [OF b] ok st in \<open>simp_all add: bet_step_def money_def wallet_books_def same_defs neutral_zero\<close>)
  moreover obtain ms evs ls where "s' = s\<lparr>bets := pending_table m_id (bets s)\<rparr>
      \<lparr>matches := ms, bet_events := evs, row_locks := ls\<rparr>"
    by (rule confirm_match_inv [OF run booksD(5) [OF b]], rule that, rule db.equality) simp_all
  ultimately show ?thesis by simp
qed

section \<open>The funding operations keep the books\<close>

lemma deposited_upd:
  "keyed dep_id ds \<Longrightarrow> row_get dep_id k ds = Some d \<Longrightarrow>
     deposited (row_upd dep_id k f ds) = deposited ds
       - (if dstatus d = DS_completed then dep_amount d else 0)
       + (if dstatus (f d) = DS_completed then dep_amount (f d) else 0)"
  by (simp add: deposited_def sum_row_upd)

lemma withdrawn_upd:
  "keyed wd_id ws \<Longrightarrow> row_get wd_id k ws = Some w \<Longrightarrow>
     withdrawn (row_upd wd_id k f ws) = withdrawn ws
       - (if wstatus w = WS_completed then wd_amount w else 0)
       + (if wstatus (f w) = WS_completed then wd_amount (f w) else 0)"
  by (simp add: withdrawn_def sum_row_upd)

lemma holds_upd:
  "keyed wd_id ws \<Longrightarrow> row_get wd_id k ws = Some w \<Longrightarrow>
     withdrawal_holds u (row_upd wd_id k f ws) =
       withdrawal_holds u ws - withdrawal_held u w + withdrawal_held u (f w)"
  by (simp add: withdrawal_holds_def sum_row_upd)

lemma requests_ok_upd_deposit:
  assumes "requests_ok ds ws" and "row_get dep_id k ds = Some d"
    and "\<And>r. dep_id (f r) = dep_id r" and "\<And>r. dep_amount (f r) = dep_amount r"
  shows "requests_ok (row_upd dep_id k f ds) ws"
  using assms by (auto simp: requests_ok_def keyed_upd set_row_upd)

lemma requests_ok_upd_withdrawal:
  assumes "requests_ok ds ws" and "row_get wd_id k ws = Some w"
    and "\<And>r. wd_id (f r) = wd_id r" and "\<And>r. wd_amount (f r) = wd_amount r"
  shows "requests_ok ds (row_upd wd_id k f ws)"
  using assms by (auto simp: requests_ok_def keyed_upd set_row_upd)

lemma new_deposit_books:
  assumes b: "books s" and "fund_step (\<lambda>u f. 0) (deposits s @ [x]) (withdrawals s) s s'"
    and "find_deposit s (dep_id x) = None" and "dstatus x \<noteq> DS_completed"
    and "dep_amount x = round_half_up amount" and "0 < amount"
  shows "books s'"
  using b assms(2)
proof (rule books_fund_step)
  have m: "money (\<lambda>u f. 0) s s'" using assms(2) by (simp add: fund_step_def)
  show "requests_ok (deposits s @ [x]) (withdrawals s)"
    using booksD(6) [OF b] assms by (auto simp: requests_ok_def keyed_append_one find_deposit_def round_nonneg)
  show "total_money (wallets s') - total_money (wallets s) =
      (deposited (deposits s @ [x]) - deposited (deposits s)) - (withdrawn (withdrawals s) - withdrawn (withdrawals s))"
    using neutral_total [OF neutral_zero booksD(1) [OF b] m] assms(4) by (simp add: deposited_def)
qed simp

lemma complete_deposit_books:
  assumes b: "books s" and run: "complete_deposit now d_id ref nts s = Inr (x, s')"
  shows "books s'"
proof -
  obtain d where fd: "find_deposit s d_id = Some d" and c: "complete_with now ref nts d s = Inr (x, s')"
    using run by (auto simp: complete_deposit_def bind_tx_inv get_deposit_or_404_inv)
  have row: "row_get dep_id d_id (deposits s) = Some d" and id: "dep_id d = d_id"
    using fd row_get_SomeD by (fastforce simp: find_deposit_def)+
  have k: "keyed dep_id (deposits s)" using booksD(6) [OF b] by (simp add: requests_ok_def)
  note st = complete_with_step [OF booksD(1) [OF b] _ c, unfolded id]
  have "on_cent (dep_amount d)" using books_deposit [OF b fd] by simp
  note st = st [OF this]
  show ?thesis
    using b st(3)
  proof (rule books_fund_step)
    have m: "money (only (dep_user d) available (dep_amount d)) s s'" using st(3) by (simp add: fund_step_def)
    show "requests_ok (row_upd dep_id d_id (completed_row now ref nts) (deposits s)) (withdrawals s)"
      using booksD(6) [OF b] row by (rule requests_ok_upd_deposit) (simp_all add: completed_row_def)
    show "total_money (wallets s') - total_money (wallets s) =
      (deposited (row_upd dep_id d_id (completed_row now ref nts) (deposits s)) - deposited (deposits s)) -
      (withdrawn (withdrawals s) - withdrawn (withdrawals s))"
      using money_only_total [OF booksD(1) [OF b] m] st(1)
      by (auto simp: deposited_upd [OF k row] completed_row_def deposit_completable_def)
  qed (simp add: only_def)
qed

lemma fail_deposit_books:
  assumes b: "books s" and run: "fail_deposit now d_id reason s = Inr (x, s')"
  shows "books s'"
proof -
  obtain d where fd: "find_deposit s d_id = Some d" and nt: "\<not> deposit_terminal (dstatus d)"
    and st: "fund_step (\<lambda>u f. 0) (row_upd dep_id d_id (failed_row now reason) (deposits s)) (withdrawals s) s s'"
    by (rule fail_deposit_step [OF booksD(1) [OF b] run])
  have row: "row_get dep_id d_id (deposits s) = Some d" using fd by (simp add: find_deposit_def)
  have k: "keyed dep_id (deposits s)" using booksD(6) [OF b] by (simp add: requests_ok_def)
  show ?thesis
    using b st
  proof (rule books_fund_step)
    have m: "money (\<lambda>u f. 0) s s'" using st by (simp add: fund_step_def)
    show "requests_ok (row_upd dep_id d_id (failed_row now reason) (deposits s)) (withdrawals s)"
      using booksD(6) [OF b] row by (rule requests_ok_upd_deposit) (simp_all add: failed_row_def)
    show "total_money (wallets s') - total_money (wallets s) =
      (deposited (row_upd dep_id d_id (failed_row now reason) (deposits s)) - deposited (deposits s)) -
      (withdrawn (withdrawals s) - withdrawn (withdrawals s))"
      using neutral_total [OF neutral_zero booksD(1) [OF b] m] nt
      by (auto simp: deposited_upd [OF k row] failed_row_def deposit_terminal_def)
  qed simp
qed

lemma create_withdrawal_books:
  assumes b: "books s" and tie: "\<not> half_cent_tie amount"
    and run: "create_withdrawal new_id u amount account cur dest s = Inr (x, s')"
  shows "books s'"
proof -
  note st = create_withdrawal_step [OF booksD(1) [OF b] tie run]
  show ?thesis
    using b st(7)
  proof (rule books_fund_step)
    have m: "money (shift u available locked (round_half_up amount)) s s'" using st(7) by (simp add: fund_step_def)
    show "requests_ok (deposits s) (withdrawals s @ [x])"
      using booksD(6) [OF b] st
      by (auto simp: requests_ok_def keyed_append_one find_withdrawal_def round_nonneg)
    show "total_money (wallets s') - total_money (wallets s) =
        (deposited (deposits s) - deposited (deposits s)) -
        (withdrawn (withdrawals s @ [x]) - withdrawn (withdrawals s))"
      using money_shift_total [OF booksD(1) [OF b] m] st(3) by (simp add: withdrawn_def)
    show "withdrawal_holds v (withdrawals s @ [x]) = withdrawal_holds v (withdrawals s) +
        shift u available locked (round_half_up amount) v locked" for v
      using st by (auto simp: withdrawal_holds_def withdrawal_held_def holds_funds_def change_simps)
  qed
qed

text \<open>A withdrawal that leaves its hold: released to the user, paid out, or only approved.\<close>

lemma withdrawal_books:
  assumes b: "books s" and fw: "find_withdrawal s w_id = Some w"
    and st: "fund_step d (deposits s) (row_upd wd_id w_id f (withdrawals s)) s s'"
    and f: "\<And>r. wd_id (f r) = wd_id r" "\<And>r. wd_amount (f r) = wd_amount r" "\<And>r. wd_user (f r) = wd_user r"
    and held: "holds_funds (wstatus w)"
    and d: "(holds_funds (wstatus (f w)) \<and> (\<forall>u g. d u g = 0)) \<or>
            (wstatus (f w) = WS_completed \<and> d = only (wd_user w) locked (- wd_amount w)) \<or>
            (wstatus (f w) \<in> {WS_failed, WS_rejected} \<and> d = shift (wd_user w) locked available (wd_amount w))"
  shows "books s'"
  using b st
proof (rule books_fund_step)
  have row: "row_get wd_id w_id (withdrawals s) = Some w" using fw by (simp add: find_withdrawal_def)
  have k: "keyed wd_id (withdrawals s)" using booksD(6) [OF b] by (simp add: requests_ok_def)
  have m: "money d s s'" using st by (simp add: fund_step_def)
  have z: "(\<forall>u g. d u g = 0) \<Longrightarrow> neutral d" by (simp add: neutral_def worth_def)
  show "requests_ok (deposits s) (row_upd wd_id w_id f (withdrawals s))"
    using booksD(6) [OF b] row f(1,2) by (rule requests_ok_upd_withdrawal)
  show "total_money (wallets s') - total_money (wallets s) =
      (deposited (deposits s) - deposited (deposits s)) -
      (withdrawn (row_upd wd_id w_id f (withdrawals s)) - withdrawn (withdrawals s))"
    using d held f(2) [of w] neutral_total [OF z booksD(1) [OF b] m]
      money_only_total [OF booksD(1) [OF b]] money_shift_total [OF booksD(1) [OF b]] m
    by (auto simp: withdrawn_upd [OF k row] holds_funds_def)
  show "withdrawal_holds u (row_upd wd_id w_id f (withdrawals s)) =
      withdrawal_holds u (withdrawals s) + d u locked" for u
    using d held f(2,3) [of w] by (auto simp: holds_upd [OF k row] withdrawal_held_def holds_funds_def change_simps)
qed

lemma withdrawal_lookup: "find_withdrawal s w_id = Some w \<Longrightarrow> wd_id w = w_id"
  using row_get_SomeD by (fastforce simp: find_withdrawal_def)

lemma approve_withdrawal_books:
  assumes b: "books s" and run: "approve_withdrawal now w_id s = Inr (x, s')"
  shows "books s'"
proof -
  obtain w where fw: "find_withdrawal s w_id = Some w" and "wstatus w = WS_pending"
    and st: "fund_step (\<lambda>u f. 0) (deposits s) (row_upd wd_id w_id (approved_row now) (withdrawals s)) s s'"
    by (rule approve_withdrawal_step [OF booksD(1) [OF b] run])
  then show ?thesis by (intro withdrawal_books [OF b fw st]) (simp_all add: approved_row_def holds_funds_def)
qed

lemma complete_withdrawal_books:
  assumes b: "books s" and run: "complete_withdrawal now w_id s = Inr (x, s')"
  shows "books s'"
proof -
  obtain w where fw: "find_withdrawal s w_id = Some w" and c: "complete_withdrawal_with now w s = Inr (x, s')"
    using run by (auto simp: complete_withdrawal_def bind_tx_inv get_withdrawal_or_404_inv)
  have "on_cent (wd_amount w)" using books_withdrawal [OF b fw] by simp
  note st = complete_withdrawal_with_step [OF booksD(1) [OF b] this c, unfolded withdrawal_lookup [OF fw]]
  show ?thesis
    using st(1) by (intro withdrawal_books [OF b fw st(3)]) (auto simp: paid_row_def holds_funds_def)
qed

lemma reject_withdrawal_books:
  assumes b: "books s" and run: "reject_withdrawal w_id reason s = Inr (x, s')"
  shows "books s'"
proof -
  obtain w where fw: "find_withdrawal s w_id = Some w" and c: "reject_withdrawal_with reason w s = Inr (x, s')"
    using run by (auto simp: reject_withdrawal_def bind_tx_inv get_withdrawal_or_404_inv)
  have "on_cent (wd_amount w)" using books_withdrawal [OF b fw] by simp
  note st = reject_withdrawal_with_step [OF booksD(1) [OF b] this c, unfolded withdrawal_lookup [OF fw]]
  show ?thesis
    using st(1) by (intro withdrawal_books [OF b fw st(3)]) (auto simp: rejected_row_def holds_funds_def)
qed

lemma fail_withdrawal_books:
  assumes b: "books s" and run: "fail_withdrawal now w_id reason s = Inr (x, s')"
  shows "books s'"
proof -
  obtain w where fw: "find_withdrawal s w_id = Some w" and c: "fail_withdrawal_with now reason w s = Inr (x, s')"
    using run by (auto simp: fail_withdrawal_def bind_tx_inv get_withdrawal_or_404_inv)
  have "on_cent (wd_amount w)" using books_withdrawal [OF b fw] by simp
  note st = fail_withdrawal_with_step [OF booksD(1) [OF b] this c, unfolded withdrawal_lookup [OF fw]]
  show ?thesis
    using st(1) by (intro withdrawal_books [OF b fw st(3)]) (auto simp: failed_withdrawal_row_def holds_funds_def)
qed

section \<open>New wallets\<close>

lemma create_wallet_balances:
  assumes "create_wallet new_id u cur s = Inr (w, s')"
  shows "balance_in (wallets s') v f = balance_in (wallets s) v f"
  using assms
  by (cases f) (auto simp: create_wallet_def bind_tx_inv seq_tx_inv get_by_user_id_inv Let_def balance_in_def
      row_get_append field_of_def split: option.splits)

lemma create_wallet_books:
  assumes b: "books s" and run: "create_wallet new_id u cur s = Inr (w, s')"
  shows "books s'"
proof -
  have new: "row_get wallet_user u (wallets s) = None"
    and w: "wallet_user w = u" "available_balance w = 0" "locked_balance w = 0"
    and s': "s' = s\<lparr>wallets := wallets s @ [w]\<rparr>"
    using run by (auto simp: create_wallet_def bind_tx_inv seq_tx_inv get_by_user_id_inv Let_def)
  note bal = create_wallet_balances [OF run]
  have "wallet_books s'"
    using booksD(1) [OF b] new w by (simp add: s' wallet_books_def keyed_append_one sound_wallet_def)
  moreover have "total_money (wallets s') = total_money (wallets s)" using w by (simp add: s' total_money_def)
  ultimately show ?thesis
    using b bal
    by (auto simp: books_def locked_explained_def ledger_explains_def conserved_def platform_explained_def
        platform_sound_def rates_ok_def s')
qed

section \<open>Users and matches\<close>

lemma register_books: "books s \<Longrightarrow> register std lib cfg now u i salt req s = Inr (t, s') \<Longrightarrow> books s'"
  by (erule register_inv) (rule create_wallet_books, simp_all)

lemma reset_password_books: "books s \<Longrightarrow> reset_password std lib cfg now salt token pass s = Inr (x, s') \<Longrightarrow> books s'"
  by (erule reset_password_inv) simp

lemma synced_books: "synced s s' \<Longrightarrow> books s \<Longrightarrow> books s'"
  unfolding synced_def using books_others(3) by metis

section \<open>Requests\<close>

lemma books_transact:
  assumes "books s" and "\<And>x s'. m s = Inr (x, s') \<Longrightarrow> books s'"
  shows "books (snd (transact m s))"
  using assms by (auto simp: transact_def split: sum.splits prod.splits)

lemma books_run_request:
  "books s \<Longrightarrow> (\<And>x s'. m s = Inr (x, s') \<Longrightarrow> books s') \<Longrightarrow> books (run_request m s)"
  unfolding run_request_def by (rule books_transact)

lemma settle_each_books: "books s \<Longrightarrow> books (snd (settle_each clock bs n m fs s))"
proof (induction bs arbitrary: n m fs s)
  case (Cons b bs)
  obtain r s1 where t: "transact (settle_bet (clock b) b) s = (r, s1)" by force
  have "books (snd (transact (settle_bet (clock b) b) s))"
    using Cons.prems by (rule books_transact) (rule settle_bet_books [OF Cons.prems])
  then have "books s1" by (simp add: t)
  from Cons.IH [OF this] show ?case
    by (cases r) (auto simp: t split: error.splits)
qed simp

lemma confirm_and_settle_books:
  assumes b: "books s"
  shows "books (snd (confirm_and_settle now clock m_id result home away adm s))"
proof -
  have "books (snd (transact (confirm_match now m_id result home away adm) s))"
    using b by (rule books_transact) (rule confirm_match_books [OF b])
  then show ?thesis
    using settle_each_books
    by (auto simp: confirm_and_settle_def Let_def split: sum.splits prod.splits) (metis snd_conv)
qed

lemma payfast_itn_books:
  assumes b: "books s"
  shows "books (snd (payfast_itn std cfg now form s))"
proof (rule payfast_itn_cases [of std cfg now form s])
  assume "snd (payfast_itn std cfg now form s) = s"
  with b show ?thesis by simp
next
  fix d ref
  assume "snd (payfast_itn std cfg now form s) = run_request (complete_deposit now (dep_id d) ref
         (Some [Lit ''PayFast ITN -- COMPLETE''])) s"
  with books_run_request [OF b complete_deposit_books [OF b]] show ?thesis by simp
next
  fix d why
  assume "snd (payfast_itn std cfg now form s) = run_request (fail_deposit now (dep_id d) why) s"
  with books_run_request [OF b fail_deposit_books [OF b]] show ?thesis by simp
qed

end
