(* ===== verification/System.thy ===== *)
theory System
  imports Books
begin

text \<open>
  The requests the API serves, each run as its own transaction (\<^verbatim>\<open>get_db\<close> in
  \<^verbatim>\<open>app/core/dependencies.py\<close> commits on success and rolls back on an error), and what holds along every
  sequence of them: the books and the lifecycles of bets, deposits, withdrawals and match results.
\<close>

datatype request =
    Register auth_lib datetime uuid uuid string register_request
  | ResetPassword auth_lib datetime string string string
  | SyncFixtures provider "nat \<Rightarrow> uuid \<times> datetime" datetime sync_job
  | CreateBet datetime uuid user uuid football_outcome decimal
  | AcceptBet datetime user uuid football_outcome
  | CancelBet user uuid
  | VoidBet uuid uuid "text_value option"
  | ConfirmResult datetime "uuid \<Rightarrow> datetime" uuid football_outcome int int uuid
  | SettleBet datetime uuid
  | CreateDeposit uuid uuid decimal string "string option" "string option" "text_value option"
  | InitiatePayfast uuid uuid decimal "string option" "string option" "string option"
  | CompleteDeposit datetime uuid "string option" "text_value option"
  | FailDeposit datetime uuid "text_value option"
  | PayfastItn datetime "(string \<times> string) list option"
  | CreateWithdrawal uuid uuid decimal string string "string option"
  | ApproveWithdrawal datetime uuid
  | CompleteWithdrawal datetime uuid
  | RejectWithdrawal uuid "string option"
  | FailWithdrawal datetime uuid "string option"

fun exec :: "stdlib \<Rightarrow> settings \<Rightarrow> request \<Rightarrow> db \<Rightarrow> db" where
  "exec std cfg (Register lib now u i salt req) s = run_request (register std lib cfg now u i salt req) s"
| "exec std cfg (ResetPassword lib now salt token pass) s =
     run_request (reset_password std lib cfg now salt token pass) s"
| "exec std cfg (SyncFixtures pr clock now job) s = snd (sync_request pr clock now job s)"
| "exec std cfg (CreateBet now i u m p st) s = run_request (create_bet cfg now i u m p st) s"
| "exec std cfg (AcceptBet now u b p) s = run_request (accept_bet now u b p) s"
| "exec std cfg (CancelBet u b) s = run_request (cancel_bet u b) s"
| "exec std cfg (VoidBet b adm r) s = run_request (void_bet b adm r) s"
| "exec std cfg (ConfirmResult now clock m r h a adm) s = snd (confirm_and_settle now clock m r h a adm s)"
| "exec std cfg (SettleBet now b) s = snd (settle_single_bet now b s)"
| "exec std cfg (CreateDeposit i u a c pr cr n) s = run_request (create_deposit i u a c pr cr n) s"
| "exec std cfg (InitiatePayfast i u a e f l) s =
     run_request (initiate_payfast_deposit std cfg i u a e f l) s"
| "exec std cfg (CompleteDeposit now d r n) s = run_request (complete_deposit now d r n) s"
| "exec std cfg (FailDeposit now d r) s = run_request (fail_deposit now d r) s"
| "exec std cfg (PayfastItn now form) s = snd (payfast_itn std cfg now form s)"
| "exec std cfg (CreateWithdrawal i u a acc c dest) s = run_request (create_withdrawal i u a acc c dest) s"
| "exec std cfg (ApproveWithdrawal now w) s = run_request (approve_withdrawal now w) s"
| "exec std cfg (CompleteWithdrawal now w) s = run_request (complete_withdrawal now w) s"
| "exec std cfg (RejectWithdrawal w r) s = run_request (reject_withdrawal w r) s"
| "exec std cfg (FailWithdrawal now w r) s = run_request (fail_withdrawal now w r) s"

definition run :: "stdlib \<Rightarrow> settings \<Rightarrow> request list \<Rightarrow> db \<Rightarrow> db" where
  "run std cfg rs s = fold (exec std cfg) rs s"

text \<open>
  The amounts the books can carry: not half way between two cents, and a stake of at least a cent.
  Amounts come from the request body as decimals of any precision.
\<close>

fun admissible :: "request \<Rightarrow> bool" where
  "admissible (CreateBet now i u m p st) \<longleftrightarrow> \<not> half_cent_tie st \<and> 0 < round_half_up st"
| "admissible (CreateWithdrawal i u a acc c dest) \<longleftrightarrow> \<not> half_cent_tie a"
| "admissible _ \<longleftrightarrow> True"

lemma create_deposit_books:
  assumes b: "books s" and run: "create_deposit i u a c pr cr n s = Inr (x, s')"
  shows "books s'"
proof -
  note st = create_deposit_step [OF booksD(1) [OF b] run]
  show ?thesis using new_deposit_books [OF b st(8)] st(1-6) by simp
qed

lemma initiate_payfast_books:
  assumes b: "books s" and run: "initiate_payfast_deposit std cfg i u a e f l s = Inr (x, s')"
  shows "books s'"
proof -
  note st = initiate_payfast_step [OF booksD(1) [OF b] run]
  show ?thesis using new_deposit_books [OF b st(8)] st(1-6) by simp
qed

lemma reset_password_request: "books s \<Longrightarrow> books (run_request (reset_password std lib cfg now salt token pass) s)"
  by (rule books_run_request, assumption) (rule reset_password_books)

lemmas request_books =
  books_run_request [OF _ register_books] reset_password_request synced_books [OF sync_request_synced]
  books_run_request [OF _ accept_bet_books] books_run_request [OF _ cancel_bet_books]
  books_run_request [OF _ void_bet_books] books_run_request [OF _ create_deposit_books]
  books_run_request [OF _ initiate_payfast_books] books_run_request [OF _ complete_deposit_books]
  books_run_request [OF _ fail_deposit_books] books_run_request [OF _ create_withdrawal_books]
  books_run_request [OF _ approve_withdrawal_books] books_run_request [OF _ complete_withdrawal_books]
  books_run_request [OF _ reject_withdrawal_books] books_run_request [OF _ fail_withdrawal_books]
  books_transact [OF _ settle_bet_books] confirm_and_settle_books payfast_itn_books

lemma create_bet_request:
  "books s \<Longrightarrow> \<not> half_cent_tie st \<Longrightarrow> 0 < round_half_up st \<Longrightarrow>
     books (run_request (create_bet cfg now i u m p st) s)"
  by (rule books_run_request) (auto intro: create_bet_books)

lemma exec_books: "books s \<Longrightarrow> admissible r \<Longrightarrow> books (exec std cfg r s)"
  by (cases r) (simp_all add: request_books create_bet_request settle_single_bet_def)

lemma run_books: "books s \<Longrightarrow> list_all admissible rs \<Longrightarrow> books (run std cfg rs s)"
  unfolding run_def by (induction rs arbitrary: s) (auto intro: exec_books)

section \<open>The empty system\<close>

text \<open>Before the first request: no users' data, and platform accounts that have collected nothing.\<close>

definition fresh_system :: "db \<Rightarrow> bool" where
  "fresh_system s \<longleftrightarrow> wallets s = [] \<and> ledger s = [] \<and> bets s = [] \<and> deposits s = [] \<and> withdrawals s = [] \<and>
     platform_ledger s = [] \<and> keyed pa_currency (platform_accounts s) \<and>
     distinct (map pa_id (platform_accounts s)) \<and>
     (\<forall>a \<in> set (platform_accounts s). pa_balance a = 0) \<and> rates_ok s"

lemma fresh_system_books:
  assumes "fresh_system s"
  shows "books s"
proof -
  have "platform_total (platform_accounts s) = 0"
    unfolding platform_total_def using assms by (intro sum_list_zero) (auto simp: fresh_system_def)
  then show ?thesis
    using assms
    by (auto simp: fresh_system_def books_def wallet_books_def platform_sound_def bets_ok_def requests_ok_def keyed_def
        locked_explained_def stakes_def withdrawal_holds_def balance_in_def ledger_explains_def conserved_def
        total_money_def deposited_def withdrawn_def platform_explained_def fees_of_def)
qed

section \<open>Lifecycles\<close>

definition bet_edge :: "bet_status \<Rightarrow> bet_status \<Rightarrow> bool" where
  "bet_edge a b \<longleftrightarrow> (a, b) \<in> {(OPEN, MATCHED), (OPEN, CANCELLED), (OPEN, VOIDED), (MATCHED, VOIDED),
     (MATCHED, PENDING_SETTLEMENT), (PENDING_SETTLEMENT, SETTLED)}"

definition deposit_edge :: "deposit_status \<Rightarrow> deposit_status \<Rightarrow> bool" where
  "deposit_edge a b \<longleftrightarrow> a \<in> {DS_pending, DS_processing} \<and> b \<in> {DS_completed, DS_failed}"

definition withdrawal_edge :: "withdrawal_status \<Rightarrow> withdrawal_status \<Rightarrow> bool" where
  "withdrawal_edge a b \<longleftrightarrow> (a, b) \<in> {(WS_pending, WS_approved), (WS_approved, WS_completed),
     (WS_processing, WS_completed), (WS_pending, WS_rejected), (WS_approved, WS_rejected),
     (WS_pending, WS_failed), (WS_approved, WS_failed), (WS_processing, WS_failed)}"

text \<open>The four tables together; a relation every request keeps.\<close>

definition follows :: "db \<Rightarrow> db \<Rightarrow> bool" where
  "follows s s' \<longleftrightarrow> rows_follow bet_id bstatus bet_edge (bets s) (bets s') \<and>
     rows_follow dep_id dstatus deposit_edge (deposits s) (deposits s') \<and>
     rows_follow wd_id wstatus withdrawal_edge (withdrawals s) (withdrawals s') \<and>
     matches_follow (matches s) (matches s')"

lemma follows_refl: "follows s s"
  by (simp add: follows_def matches_follow_refl)

lemma follows_trans: "follows s s' \<Longrightarrow> follows s' s'' \<Longrightarrow> follows s s''"
  by (auto simp: follows_def intro: rows_follow_trans matches_follow_trans)

lemma follows_locks [simp]: "follows s (s'\<lparr>row_locks := ls\<rparr>) = follows s s'"
  by (simp add: follows_def)

lemma follows_bets:
  "bet_step d bs s s' \<Longrightarrow> rows_follow bet_id bstatus bet_edge (bets s) bs \<Longrightarrow> follows s s'"
  by (simp add: follows_def bet_step_def same_defs matches_follow_refl)

lemma follows_requests:
  "fund_step d ds ws s s' \<Longrightarrow> rows_follow dep_id dstatus deposit_edge (deposits s) ds \<Longrightarrow>
     rows_follow wd_id wstatus withdrawal_edge (withdrawals s) ws \<Longrightarrow> follows s s'"
  by (simp add: follows_def fund_step_def same_defs matches_follow_refl)

lemma create_bet_follows:
  "books s \<Longrightarrow> \<not> half_cent_tie st \<Longrightarrow> create_bet cfg now i u m p st s = Inr (x, s') \<Longrightarrow> follows s s'"
  using create_bet_step(1) [OF booksD(1)] by (blast intro: follows_bets rows_follow_append)

lemma accept_bet_follows:
  assumes b: "books s" and run: "accept_bet now u k p s = Inr (x, s')"
  shows "follows s s'"
  by (rule accept_bet_step [OF booksD(1) [OF b] run])
     (auto dest: stake_sound [OF b, unfolded find_bet_def] intro!: follows_bets rows_follow_upd
       simp: find_bet_def matched_by_def bet_edge_def)

lemma cancel_bet_follows:
  assumes b: "books s" and run: "cancel_bet u k s = Inr (x, s')"
  shows "follows s s'"
proof -
  obtain r where r: "find_bet s k = Some r" and c: "cancel_with u r s = Inr (x, s')"
    using run by (auto simp: cancel_bet_def bind_tx_inv get_bet_or_404_inv)
  have "bet_id r = k" using r row_get_SomeD by (fastforce simp: find_bet_def)
  with r cancel_with_step [OF booksD(1) [OF b] c] stake_sound [OF b r] show ?thesis
    by (auto intro!: follows_bets rows_follow_upd simp: find_bet_def bet_edge_def)
qed

lemma void_bet_follows:
  assumes b: "books s" and run: "void_bet k adm why s = Inr (x, s')"
  shows "follows s s'"
  by (rule void_bet_step [OF booksD(1) [OF b] run])
     (auto dest: stake_sound [OF b, unfolded find_bet_def] intro!: follows_bets rows_follow_upd
       simp: find_bet_def void_row_def bet_edge_def)

lemma settle_bet_follows:
  assumes b: "books s" and run: "settle_bet now k s = Inr (x, s')"
  shows "follows s s'"
proof -
  have ok: "settleable r" if "find_bet s k = Some r" for r
    using books_bet [OF b that] by (simp add: settleable_def bet_sound_def)
  obtain r opponent p a where st: "settles now k r opponent p a s s'"
    by (rule settle_bet_settles [OF booksD(1-3,5) [OF b] ok run])
  then have "rows_follow bet_id bstatus bet_edge (bets s) (bets s')"
    by (auto simp: settles_def find_bet_def settled_row_def bet_edge_def intro!: rows_follow_upd)
  with st show ?thesis by (simp add: follows_def settles_def same_defs matches_follow_refl)
qed

lemma confirm_match_follows:
  assumes b: "books s" and run: "confirm_match now m r h a adm s = Inr (x, s')"
  shows "follows s s'"
proof (rule confirm_match_inv [OF run booksD(5) [OF b]])
  fix m' evs ls
  assume m': "find_match s m = Some m'" "result_confirmed_at m' = None"
    and s': "s' = s\<lparr>matches := row_upd match_id m (confirm_row now r h a) (matches s),
      bets := pending_table m (bets s), bet_events := evs, row_locks := ls\<rparr>"
  have "rows_follow bet_id bstatus bet_edge (bets s) (pending_table m (bets s))"
    unfolding pending_table_def
    by (rule rows_follow_map) (auto simp: to_pending_def bet_edge_def)
  moreover have "matches_follow (matches s) (row_upd match_id m (confirm_row now r h a) (matches s))"
    unfolding matches_follow_def using m'
    by (intro rows_follow_upd [of _ _ _ m']) (auto simp: find_match_def result_view_def confirm_row_def)
  ultimately show "follows s s'" using s' by (simp add: follows_def)
qed

lemma create_deposit_follows:
  "books s \<Longrightarrow> create_deposit i u a c pr cr n s = Inr (x, s') \<Longrightarrow> follows s s'"
  using create_deposit_step(8) [OF booksD(1)] by (rule follows_requests) (auto intro: rows_follow_append)

lemma initiate_payfast_follows:
  "books s \<Longrightarrow> initiate_payfast_deposit std cfg i u a e f l s = Inr (x, s') \<Longrightarrow> follows s s'"
  using initiate_payfast_step(8) [OF booksD(1)] by (rule follows_requests) (auto intro: rows_follow_append)

lemma complete_deposit_follows:
  assumes b: "books s" and run: "complete_deposit now k ref n s = Inr (x, s')"
  shows "follows s s'"
proof -
  obtain d where d: "find_deposit s k = Some d" and c: "complete_with now ref n d s = Inr (x, s')"
    using run by (auto simp: complete_deposit_def bind_tx_inv get_deposit_or_404_inv)
  have "dep_id d = k" using d row_get_SomeD by (fastforce simp: find_deposit_def)
  with d complete_with_step [OF booksD(1) [OF b] _ c] books_deposit [OF b d] show ?thesis
    by (auto intro!: follows_requests rows_follow_upd
        simp: find_deposit_def deposit_edge_def deposit_completable_def completed_row_def)
qed

lemma fail_deposit_follows:
  assumes b: "books s" and run: "fail_deposit now k why s = Inr (x, s')"
  shows "follows s s'"
proof (rule fail_deposit_step [OF booksD(1) [OF b] run])
  fix d
  assume "find_deposit s k = Some d" and "\<not> deposit_terminal (dstatus d)"
    and st: "fund_step (\<lambda>u f. 0) (row_upd dep_id k (failed_row now why) (deposits s)) (withdrawals s) s s'"
  then have "rows_follow dep_id dstatus deposit_edge (deposits s) (row_upd dep_id k (failed_row now why) (deposits s))"
    by (intro rows_follow_upd [of _ _ _ d])
       (cases "dstatus d"; auto simp: find_deposit_def failed_row_def deposit_edge_def deposit_terminal_def)+
  with st show "follows s s'" by (auto intro: follows_requests)
qed

lemma create_withdrawal_follows:
  "books s \<Longrightarrow> \<not> half_cent_tie a \<Longrightarrow> create_withdrawal i u a acc c dest s = Inr (x, s') \<Longrightarrow> follows s s'"
  using create_withdrawal_step(7) [OF booksD(1)] by (blast intro: follows_requests rows_follow_append rows_follow_refl)

lemma approve_withdrawal_follows:
  assumes b: "books s" and run: "approve_withdrawal now k s = Inr (x, s')"
  shows "follows s s'"
  by (rule approve_withdrawal_step [OF booksD(1) [OF b] run])
     (auto intro!: follows_requests rows_follow_upd simp: find_withdrawal_def approved_row_def withdrawal_edge_def)

lemma ended_withdrawal_follows:
  assumes "find_withdrawal s k = Some w" and "fund_step d (deposits s) (row_upd wd_id k f (withdrawals s)) s s'"
    and "\<And>r. wd_id (f r) = wd_id r" and "withdrawal_edge (wstatus w) (wstatus (f w))"
  shows "follows s s'"
  using assms by (auto intro!: follows_requests rows_follow_upd simp: find_withdrawal_def)

lemma complete_withdrawal_follows:
  assumes b: "books s" and run: "complete_withdrawal now k s = Inr (x, s')"
  shows "follows s s'"
proof -
  obtain w where w: "find_withdrawal s k = Some w" and c: "complete_withdrawal_with now w s = Inr (x, s')"
    using run by (auto simp: complete_withdrawal_def bind_tx_inv get_withdrawal_or_404_inv)
  have "on_cent (wd_amount w)" using books_withdrawal [OF b w] by simp
  note st = complete_withdrawal_with_step [OF booksD(1) [OF b] this c, unfolded withdrawal_lookup [OF w]]
  show ?thesis
    using st(1) by (intro ended_withdrawal_follows [OF w st(3)]) (auto simp: paid_row_def withdrawal_edge_def)
qed

lemma reject_withdrawal_follows:
  assumes b: "books s" and run: "reject_withdrawal k why s = Inr (x, s')"
  shows "follows s s'"
proof -
  obtain w where w: "find_withdrawal s k = Some w" and c: "reject_withdrawal_with why w s = Inr (x, s')"
    using run by (auto simp: reject_withdrawal_def bind_tx_inv get_withdrawal_or_404_inv)
  have "on_cent (wd_amount w)" using books_withdrawal [OF b w] by simp
  note st = reject_withdrawal_with_step [OF booksD(1) [OF b] this c, unfolded withdrawal_lookup [OF w]]
  show ?thesis
    using st(1) by (intro ended_withdrawal_follows [OF w st(3)]) (auto simp: rejected_row_def withdrawal_edge_def)
qed

lemma fail_withdrawal_follows:
  assumes b: "books s" and run: "fail_withdrawal now k why s = Inr (x, s')"
  shows "follows s s'"
proof -
  obtain w where w: "find_withdrawal s k = Some w" and c: "fail_withdrawal_with now why w s = Inr (x, s')"
    using run by (auto simp: fail_withdrawal_def bind_tx_inv get_withdrawal_or_404_inv)
  have "on_cent (wd_amount w)" using books_withdrawal [OF b w] by simp
  note st = fail_withdrawal_with_step [OF booksD(1) [OF b] this c, unfolded withdrawal_lookup [OF w]]
  show ?thesis
    using st(1) by (intro ended_withdrawal_follows [OF w st(3)]) (auto simp: failed_withdrawal_row_def withdrawal_edge_def holds_funds_def)
qed

lemma register_follows: "register std lib cfg now u i salt req s = Inr (t, s') \<Longrightarrow> follows s s'"
  by (erule register_inv)
     (auto simp: create_wallet_def bind_tx_inv seq_tx_inv get_by_user_id_inv Let_def follows_def matches_follow_refl)

lemma reset_password_follows: "reset_password std lib cfg now salt token pass s = Inr (x, s') \<Longrightarrow> follows s s'"
  by (erule reset_password_inv) (simp add: follows_def matches_follow_refl)

lemma synced_follows: "synced s s' \<Longrightarrow> follows s s'"
  unfolding synced_def follows_def by (metis db.select_convs db.surjective db.update_convs(4) rows_follow_refl)

lemma follows_transact: "(\<And>x s'. m s = Inr (x, s') \<Longrightarrow> follows s s') \<Longrightarrow> follows s (snd (transact m s))"
  by (auto simp: transact_def follows_refl split: sum.splits prod.splits)

lemma follows_run: "(\<And>x s'. m s = Inr (x, s') \<Longrightarrow> follows s s') \<Longrightarrow> follows s (run_request m s)"
  unfolding run_request_def by (rule follows_transact)

lemma reset_password_request_follows: "follows s (run_request (reset_password std lib cfg now salt token pass) s)"
  by (rule follows_run) (rule reset_password_follows)

lemma settle_each_follows: "books s \<Longrightarrow> follows s (snd (settle_each clock bs n m fs s))"
proof (induction bs arbitrary: n m fs s)
  case (Cons b bs)
  obtain r s1 where t: "transact (settle_bet (clock b) b) s = (r, s1)" by force
  have "books (snd (transact (settle_bet (clock b) b) s))"
    by (rule books_transact [OF Cons.prems]) (rule settle_bet_books [OF Cons.prems])
  then have "books s1" by (simp add: t)
  moreover have "follows s (snd (transact (settle_bet (clock b) b) s))"
    by (rule follows_transact) (rule settle_bet_follows [OF Cons.prems])
  then have "follows s s1" by (simp add: t)
  ultimately show ?case
    using Cons.IH [of s1] by (cases r) (auto simp: t split: error.splits intro: follows_trans)
qed (simp add: follows_refl)

lemma confirm_and_settle_follows:
  assumes b: "books s"
  shows "follows s (snd (confirm_and_settle now clock m r h a adm s))"
proof -
  obtain q s1 where t: "transact (confirm_match now m r h a adm) s = (q, s1)" by force
  have "books (snd (transact (confirm_match now m r h a adm) s))"
    by (rule books_transact [OF b]) (rule confirm_match_books [OF b])
  then have "books s1" by (simp add: t)
  have "follows s (snd (transact (confirm_match now m r h a adm) s))"
    by (rule follows_transact) (rule confirm_match_follows [OF b])
  then have "follows s s1" by (simp add: t)
  with \<open>books s1\<close> have "follows s (snd (settle_each clock bs 0 0 [] s1))" for bs
    using settle_each_follows follows_trans by blast
  with \<open>follows s s1\<close> show ?thesis
    by (auto simp: confirm_and_settle_def t Let_def split: sum.splits prod.splits) (metis snd_conv)
qed

lemma payfast_itn_follows:
  assumes b: "books s"
  shows "follows s (snd (payfast_itn std cfg now form s))"
proof (rule payfast_itn_cases [of std cfg now form s])
  fix d ref
  assume "snd (payfast_itn std cfg now form s) = run_request (complete_deposit now (dep_id d) ref
         (Some [Lit ''PayFast ITN -- COMPLETE''])) s"
  with follows_run [OF complete_deposit_follows [OF b]] show ?thesis by simp
next
  fix d why
  assume "snd (payfast_itn std cfg now form s) = run_request (fail_deposit now (dep_id d) why) s"
  with follows_run [OF fail_deposit_follows [OF b]] show ?thesis by simp
qed (simp add: follows_refl)

lemma exec_follows:
  assumes b: "books s" and ok: "admissible r"
  shows "follows s (exec std cfg r s)"
proof (cases r)
  case CreateBet
  with ok show ?thesis by (auto intro!: follows_run create_bet_follows [OF b])
next
  case CreateWithdrawal
  with ok show ?thesis by (auto intro!: follows_run create_withdrawal_follows [OF b])
qed (simp_all add: settle_single_bet_def follows_run [OF register_follows]
    reset_password_request_follows synced_follows [OF sync_request_synced]
    follows_run [OF accept_bet_follows [OF b]] follows_run [OF cancel_bet_follows [OF b]]
    follows_run [OF void_bet_follows [OF b]] confirm_and_settle_follows [OF b]
    follows_transact [OF settle_bet_follows [OF b]] follows_run [OF create_deposit_follows [OF b]]
    follows_run [OF initiate_payfast_follows [OF b]] follows_run [OF complete_deposit_follows [OF b]]
    follows_run [OF fail_deposit_follows [OF b]] payfast_itn_follows [OF b]
    follows_run [OF approve_withdrawal_follows [OF b]] follows_run [OF complete_withdrawal_follows [OF b]]
    follows_run [OF reject_withdrawal_follows [OF b]] follows_run [OF fail_withdrawal_follows [OF b]])

text \<open>The system as a transition relation: one admissible request on sound books.\<close>

inductive serves :: "stdlib \<Rightarrow> settings \<Rightarrow> db \<Rightarrow> db \<Rightarrow> bool" for std cfg where
  serves: "books s \<Longrightarrow> admissible r \<Longrightarrow> serves std cfg s (exec std cfg r s)"

inductive_cases servesE: "serves std cfg s s'"

lemma serves_follows: "serves std cfg s s' \<Longrightarrow> follows s s'"
  by (erule servesE) (simp add: exec_follows)

lemma run_serves:
  "books s \<Longrightarrow> list_all admissible rs \<Longrightarrow> (serves std cfg)\<^sup>*\<^sup>* s (run std cfg rs s)"
proof (induction rs arbitrary: s)
  case (Cons r rs)
  then have "serves std cfg s (exec std cfg r s)" "books (exec std cfg r s)"
    by (auto intro: serves exec_books)
  with Cons.IH [of "exec std cfg r s"] Cons.prems show ?case
    by (auto simp: run_def intro: converse_rtranclp_into_rtranclp)
qed (simp add: run_def)

interpretation bet_life: lifecycle bet_id bets bstatus bet_edge "serves std cfg" for std cfg
  by unfold_locales (auto dest: serves_follows simp: follows_def)

interpretation match_life: lifecycle match_id matches result_view match_edge "serves std cfg" for std cfg
  by unfold_locales (auto dest: serves_follows simp: follows_def matches_follow_def)

interpretation deposit_life: lifecycle dep_id deposits dstatus deposit_edge "serves std cfg" for std cfg
  by unfold_locales (auto dest: serves_follows simp: follows_def)

interpretation withdrawal_life: lifecycle wd_id withdrawals wstatus withdrawal_edge "serves std cfg" for std cfg
  by unfold_locales (auto dest: serves_follows simp: follows_def)

end
