(* ===== verification/Safety.thy ===== *)
theory Safety
  imports System
begin

text \<open>
  What no request can break, in any state and for amounts of any precision: entries of the ledger,
  of the platform's ledger and of the audit log are never changed or removed, and no balance becomes negative. Both are a
  relation between the state before and after a step, kept by every step.
\<close>

definition no_debt :: "db \<Rightarrow> bool" where
  "no_debt s \<longleftrightarrow> (\<forall>w \<in> set (wallets s). wallet_row_ok w)"

definition safe :: "db \<Rightarrow> db \<Rightarrow> bool" where
  "safe s s' \<longleftrightarrow> prefix (ledger s) (ledger s') \<and> prefix (platform_ledger s) (platform_ledger s') \<and>
     prefix (bet_events s) (bet_events s') \<and> (no_debt s \<longrightarrow> no_debt s')"

interpretation safely: tx_rel safe
  by unfold_locales (auto simp: safe_def elim: prefix_order.order_trans)

lemma safe_chain [trans]: "safe s s1 \<Longrightarrow> safe s1 s2 \<Longrightarrow> safe s s2"
  by (rule safely.R_trans)

named_theorems safe_steps \<open>steps that keep \<open>safe\<close>\<close>

lemmas safe_basic [safe_steps] = safely.keeps_steps

lemmas frame_puts = put_bet_def put_match_def put_platform_def put_deposit_def put_withdrawal_def

lemma safe_reads [safe_steps]:
  "keeps safe (get_by_user_id u)" "keeps safe (get_by_user_id_or_404 u)"
  "keeps safe (get_by_user_id_for_update u)" "keeps safe (get_bet_or_404 b)"
  "keeps safe (get_bet_for_update b)" "keeps safe (get_match_or_404 m)"
  "keeps safe (get_match_for_update m)" "keeps safe (get_active_rate ft cur t)"
  "keeps safe (get_for_currency_for_update cur)" "keeps safe (get_deposit_or_404 d)"
  "keeps safe (get_withdrawal_or_404 w)" "keeps safe (take_lock l)"
  by (auto simp: keeps_def tx_inv safe_def no_debt_def)

lemma safe_writes [safe_steps]:
  "keeps safe (create_entry u wid ty fld dir a rty rid av lk n)"
  "keeps safe (add_event b ety ac l pl)" "keeps safe (insert_bet bt)"
  "keeps safe (write_platform_entry pa a b pty path)" "keeps safe (insert_deposit dp)"
  "keeps safe (flush_deposit d h)" "keeps safe (insert_withdrawal wd)" "keeps safe (flush_withdrawal w k)"
  by (auto simp: keeps_def tx_inv safe_def no_debt_def Let_def frame_puts)

lemma safe_flushes [safe_steps]:
  "keeps safe (flush_bet b f)" "keeps safe (flush_match m g)" "keeps safe (credit_fee pa a)"
  by (auto simp: keeps_def tx_inv safe_def no_debt_def frame_puts)

lemma safe_store [safe_steps]: "keeps safe (store_money v)"
  by (simp add: keeps_def store_money_inv safe_def)

lemma update_balances_safe:
  assumes "update_balances w av lk s = Inr (w', s')" and "\<not> below_zero av" and "\<not> below_zero lk"
  shows "safe s s'"
  using assms
  by (auto simp: update_balances_inv safe_def no_debt_def put_wallet_def set_row_upd set_balances_def
      wallet_row_ok_def below_zero_def round_nonneg split: option.splits)

lemma writers_safe [safe_steps]:
  "keeps safe (write_stake_lock w a r n)" "keeps safe (write_stake_unlock w a r n)"
  "keeps safe (write_void_refund w a r n)" "keeps safe (write_deposit_credit w a r n)"
  "keeps safe (write_withdrawal_hold w a r n)" "keeps safe (write_withdrawal_release w a r n)"
  "keeps safe (write_withdrawal_debit w a r n)" "keeps safe (write_settlement_winner w w2 a p r n)"
  "keeps safe (write_no_winner_share l w f a r)"
  unfolding write_stake_lock_def write_stake_unlock_def write_void_refund_def write_deposit_credit_def
    write_withdrawal_hold_def write_withdrawal_release_def write_withdrawal_debit_def
    write_settlement_winner_def write_no_winner_share_def
  by (intro safe_steps)+

lemma no_winner_writer_safe [safe_steps]: "keeps safe (write_settlement_no_winner cw ow f a r n)"
  unfolding write_settlement_no_winner_def by (intro safely.keeps_for_each safe_steps)

section \<open>Wallet operations\<close>

lemma change_one_safe:
  assumes "\<And>w. keeps safe (wr w)"
  shows "keeps safe (change_one short av lk wr u)"
proof (rule keepsI)
  fix s x s'
  assume "change_one short av lk wr u s = Inr (x, s')"
  then obtain w s1 y where upd: "update_balances w (av w) (lk w) (s\<lparr>row_locks := row_locks s @ [WalletRow u]\<rparr>) = Inr (x, s1)"
    and nn: "\<not> below_zero (av w)" "\<not> below_zero (lk w)" and wr: "wr x s1 = Inr (y, s')"
    by (auto simp: change_one_def bind_tx_inv seq_tx_inv get_by_user_id_for_update_inv)
  have "safe s (s\<lparr>row_locks := row_locks s @ [WalletRow u]\<rparr>)" by (simp add: safe_def no_debt_def)
  also have "safe (s\<lparr>row_locks := row_locks s @ [WalletRow u]\<rparr>) s1" by (rule update_balances_safe [OF upd nn])
  also have "safe s1 s'" by (rule keepsD [OF assms wr])
  finally show "safe s s'" .
qed

lemma wallet_ops_safe [safe_steps]:
  "keeps safe (lock_stake u a r n)" "keeps safe (unlock_stake u a r n)" "keeps safe (void_refund u a r n)"
  "keeps safe (unlock_funds u a r n)" "keeps safe (credit_deposit u a r n)"
  "keeps safe (hold_withdrawal u a r n)" "keeps safe (release_withdrawal_hold u a r n)"
  "keeps safe (finalize_withdrawal_debit u a r n)"
  unfolding lock_stake_shape unlock_stake_shape void_refund_shape unlock_funds_shape credit_deposit_shape
    hold_withdrawal_shape release_withdrawal_hold_shape finalize_withdrawal_debit_shape
  by (intro safe_steps change_one_safe)+

lemma lock_pair_safe [safe_steps]: "keeps safe (lock_pair a b)"
  unfolding lock_pair_def by (intro safe_steps)

lemma two_updates_safe:
  assumes "update_balances x av lk (s\<lparr>row_locks := ls\<rparr>) = Inr (x', s1)"
    and "update_balances y av' lk' s1 = Inr (y', s2)" and "list_all (\<lambda>v. \<not> below_zero v) [av, lk, av', lk']"
    and "safe s2 s'"
  shows "safe s s'"
proof -
  have "safe s (s\<lparr>row_locks := ls\<rparr>)" by (simp add: safe_def no_debt_def)
  also have "safe (s\<lparr>row_locks := ls\<rparr>) s1" using update_balances_safe [OF assms(1)] assms(3) by simp
  also have "safe s1 s2" using update_balances_safe [OF assms(2)] assms(3) by simp
  also note assms(4)
  finally show ?thesis .
qed

lemma transfer_safe [safe_steps]: "keeps safe (transfer_locked_funds w l a fee bid n)"
  by (rule keepsI, erule transfer_locked_funds_inv)
     (rule two_updates_safe, assumption+, simp add: below_zero_def, erule keepsD [OF writers_safe(8)])

lemma settle_no_winner_safe [safe_steps]: "keeps safe (settle_no_winner c opp st fee refund bid)"
  by (rule keepsI, erule settle_no_winner_inv)
     (rule two_updates_safe, assumption+, simp add: below_zero_def, erule keepsD [OF no_winner_writer_safe])

section \<open>Handlers\<close>

lemma bet_handlers_safe [safe_steps]:
  "keeps safe (create_bet cfg now i u m p st)" "keeps safe (accept_bet now u b p)"
  "keeps safe (cancel_with u r)" "keeps safe (void_bet b adm why)"
  unfolding create_bet_def accept_bet_def cancel_with_def void_bet_def
  by (intro safe_steps | auto split: bet_status.split option.split intro!: safe_steps)+

lemma cancel_safe [safe_steps]: "keeps safe (cancel_bet u b)"
  unfolding cancel_bet_def by (intro safe_steps)

lemma settlement_safe [safe_steps]:
  "keeps safe (settlement_checks now b)" "keeps safe (settle_wallets bt opp res wr nr)"
  "keeps safe (collect_fee bt p)" "keeps safe (mark_settled now bt p)"
  unfolding settlement_checks_def settle_wallets_def collect_fee_def mark_settled_def
  by (intro safe_steps | simp add: settled_row_def)+

lemma settle_safe [safe_steps]: "keeps safe (settle_bet now b)"
  unfolding settle_bet_def by (intro safe_steps)

lemma transition_safe [safe_steps]: "keeps safe (transition_matched_to_pending m)"
  unfolding transition_matched_to_pending_def by (intro safe_steps safely.keeps_for_each | simp)+

lemma confirm_safe [safe_steps]: "keeps safe (confirm_match now m r h a adm)"
  unfolding confirm_match_def by (intro safe_steps safely.keeps_for_each | simp)+

lemma assert_safe [safe_steps]: "keeps safe (assert_transition w from)"
  unfolding assert_transition_def by (intro safe_steps)

lemma create_deposit_safe [safe_steps]: "keeps safe (create_deposit i u a c pr cr n)"
  unfolding create_deposit_def by (intro safe_steps)

lemma funding_tails_safe [safe_steps]:
  "keeps safe (complete_with now ref n d)" "keeps safe (complete_withdrawal_with now w)"
  "keeps safe (reject_withdrawal_with why w)" "keeps safe (fail_withdrawal_with now why w)"
  unfolding complete_with_def complete_withdrawal_with_def reject_withdrawal_with_def fail_withdrawal_with_def
  by (intro safe_steps)+

lemma funding_safe [safe_steps]:
  "keeps safe (initiate_payfast_deposit std cfg i u a e f l)" "keeps safe (complete_deposit now d ref n)"
  "keeps safe (fail_deposit now d reason)" "keeps safe (create_withdrawal i u a acc c dest)"
  "keeps safe (approve_withdrawal now w)" "keeps safe (complete_withdrawal now w)"
  "keeps safe (reject_withdrawal w why)" "keeps safe (fail_withdrawal now w why)"
  unfolding initiate_payfast_deposit_def complete_deposit_def fail_deposit_def create_withdrawal_def
    approve_withdrawal_def complete_withdrawal_def reject_withdrawal_def fail_withdrawal_def
  by (intro safe_steps)+

lemma create_wallet_safe [safe_steps]: "keeps safe (create_wallet i u c)"
  by (auto simp: keeps_def create_wallet_def bind_tx_inv seq_tx_inv get_by_user_id_inv Let_def safe_def no_debt_def
      wallet_row_ok_def)

lemma register_safe [safe_steps]: "keeps safe (register std lib cfg now u i salt req)"
proof (rule keepsI, erule register_inv)
  fix s s' w
  assume "create_wallet i u (platform_currency cfg) (s\<lparr>users := users s @ [registered_user lib u salt req]\<rparr>) = Inr (w, s')"
  from keepsD [OF create_wallet_safe this] show "safe s s'" by (simp add: safe_def no_debt_def)
qed

lemma reset_password_safe [safe_steps]: "keeps safe (reset_password std lib cfg now salt token pass)"
  by (rule keepsI, erule reset_password_inv) (simp add: safe_def no_debt_def)

lemma insert_match_safe [safe_steps]: "keeps safe (insert_match m)"
  by (auto simp: keeps_def insert_match_def get_by_external_id_def bind_tx_inv seq_tx_inv check_row_inv raise_if_inv
      gets_inv modify_inv safe_def no_debt_def)

lemma bind_names_safe [safe_steps]: "keeps safe (bind_names p m)"
  unfolding bind_names_def by (intro safe_steps)

lemma upsert_safe [safe_steps]: "keeps safe (upsert_fixture i now p)"
  unfolding upsert_fixture_def create_fixture_def update_fixture_def get_by_external_id_def
  by (intro safe_steps | simp)+

lemma sync_request_safe: "safe s (snd (sync_request pr clock now job s))"
  by (rule sync_request_rel) (rule safely.R_refl, erule (1) safe_chain, rule keepsD [OF upsert_safe])

section \<open>Every request\<close>

lemma safe_release [simp]: "safe s (s'\<lparr>row_locks := ls\<rparr>) = safe s s'"
  by (simp add: safe_def no_debt_def)

lemma safe_run: "keeps safe m \<Longrightarrow> safe s (run_request m s)"
  by (simp add: run_request_commit safely.commit_rel)

lemma safe_transact: "keeps safe m \<Longrightarrow> transact m s = (q, s') \<Longrightarrow> safe s s'"
  using safe_run [of m s] by (simp add: run_request_def)

lemma settle_each_safe: "safe s (snd (settle_each clock bs n k fs s))"
proof (induction bs arbitrary: n k fs s)
  case (Cons b bs)
  obtain r s1 where t: "transact (settle_bet (clock b) b) s = (r, s1)" by force
  have "safe s s1" by (rule safe_transact [OF settle_safe t])
  also have "safe s1 (snd (settle_each clock bs n' k' fs' s1))" for n' k' fs' by (rule Cons.IH)
  finally have "safe s (snd (settle_each clock bs n' k' fs' s1))" for n' k' fs' .
  then show ?case by (cases r) (auto simp: t split: error.splits)
qed (simp add: safely.R_refl)

lemma confirm_and_settle_safe: "safe s (snd (confirm_and_settle now clock m r h a adm s))"
proof -
  obtain q s1 where t: "transact (confirm_match now m r h a adm) s = (q, s1)" by force
  have "safe s s1" by (rule safe_transact [OF confirm_safe t])
  moreover have "safe s (snd (settle_each clock bs 0 0 [] s1))" for bs
    using safe_chain [OF \<open>safe s s1\<close> settle_each_safe] .
  ultimately show ?thesis
    by (auto simp: confirm_and_settle_def t Let_def split: sum.splits prod.splits) (metis snd_conv)
qed

lemma payfast_itn_safe: "safe s (snd (payfast_itn std cfg now form s))"
  by (rule payfast_itn_cases [of std cfg now form s]) (simp_all add: safely.R_refl safe_run safe_steps)

lemma exec_safe: "safe s (exec std cfg r s)"
proof (cases r)
  case (SettleBet now b)
  then show ?thesis
    using safe_run [OF settle_safe, of s now b] by (simp add: settle_single_bet_def run_request_def)
qed (simp_all add: safe_run safe_steps confirm_and_settle_safe payfast_itn_safe sync_request_safe)

lemma run_safe: "safe s (run std cfg rs s)"
  unfolding run_def by (induction rs arbitrary: s) (auto intro: safely.R_refl safe_chain [OF exec_safe])

end
