(* ===== verification/Scenario.thy ===== *)
theory Scenario
  imports Safety
begin

text \<open>
  A small concrete system on which the theorems are applied: two users, one match, the platform's account
  and the two fee rates (10% and 5%), and the requests that take a bet from deposit to settlement.
\<close>

definition demo_settings :: settings where
  "demo_settings = \<lparr>app_env = ''development'', app_debug = True, app_host = ''0.0.0.0'', app_port = 8000,
     platform_account_code = ''PLATFORM_FEES_ZAR'', platform_currency = ''ZAR'', min_stake_amount = 5,
     max_stake_amount = 1000, bet_creation_cutoff_minutes = 1, secret_key = ''s3cret'', jwt_algorithm = ''HS256'',
     access_token_expire_minutes = 60, password_reset_token_expire_minutes = 15,
     payfast_enabled = True, payfast_sandbox = True, payfast_merchant_id = ''10000100'',
     payfast_merchant_key = ''46f0cd694581a'', payfast_passphrase = ''jt7NOE43FZPn'',
     payfast_return_url = ''http://localhost:3000/r'', payfast_cancel_url = ''http://localhost:3000/c'',
     payfast_notify_url = ''http://localhost:8000/n'', sports_provider = ''api_football'',
     sports_provider_enabled = True, sports_provider_api_key = ''key'',
     sports_provider_base_url = ''https://v3.football.api-sports.io'', sports_provider_timeout_seconds = 30,
     sports_provider_sync_days_ahead = 7, sports_provider_sync_days_back = 2,
     league_ids_raw = ''39,140'', cors_origins_raw = ''http://localhost:3000'', database_url = None, db_ssl = ''auto'',
     db_host = ''localhost'', db_port = 5432, db_name = ''buddy_bet'', db_user = ''app'', db_password = ''pw'',
     db_pool_size = 10, db_max_overflow = 20, db_pool_timeout = 30, db_pool_recycle = 1800,
     seed_test_user_enabled = False, log_level = ''INFO''\<rparr>"

definition demo_std :: stdlib where
  "demo_std = \<lparr>md5_hex = (\<lambda>s. s), uuid_text = (\<lambda>u. replicate u (CHR ''x'')),
     uuid_parse = (\<lambda>s. Some (length s)), decimal_parse = (\<lambda>s. Some 100),
     parse_sast = (\<lambda>s. Some 0)\<rparr>"

text \<open>Hashes and tokens that hide nothing: enough to run the handlers.\<close>

definition demo_auth :: auth_lib where
  "demo_auth = \<lparr>pwd_hash = (\<lambda>salt p. p), pwd_verify = (\<lambda>p h. p = h), jwt_encode = (\<lambda>c t e k a. []),
     jwt_decode = (\<lambda>now t k a. None)\<rparr>"

definition alice_form :: register_request where
  "alice_form = \<lparr>reg_email = ''a'', reg_display_name = ''Alice'', reg_password = ''alice123'', reg_phone_number = None\<rparr>"

definition bob_form :: register_request where
  "bob_form = \<lparr>reg_email = ''b'', reg_display_name = ''Bob'', reg_password = ''bob12345'', reg_phone_number = None\<rparr>"

definition alice :: user where
  "alice = \<lparr>user_id = 1, email = ''a'', phone_number = None, display_name = ''Alice'',
     password_hash = ''alice123'', urole = role_user, ustatus = US_active\<rparr>"

definition bob :: user where
  "bob = \<lparr>user_id = 2, email = ''b'', phone_number = None, display_name = ''Bob'',
     password_hash = ''bob12345'', urole = role_user, ustatus = US_active\<rparr>"

definition derby :: match_row where
  "derby = \<lparr>match_id = 7, external_id = ''x7'', provider_name = None, home_team = ''H'', away_team = ''A'',
     competition = ''C'', kickoff_at = minutes 60, mstatus = MS_scheduled, result_home_score = None,
     result_away_score = None, outcome = None, result_confirmed_at = None, last_synced_at = None\<rparr>"

definition demo_db :: db where
  "demo_db = \<lparr>users = [], wallets = [], ledger = [], matches = [derby], bets = [],
     bet_events = [],
     platform_accounts = [\<lparr>pa_id = 90, account_code = ''FEES'', pa_name = ''Fees'', pa_currency = ''ZAR'',
       pa_balance = 0, pa_version = 0\<rparr>],
     platform_ledger = [],
     fee_configs = [\<lparr>fc_type = WINNER_FEE, fc_rate = 1 / 10, fc_currency = ''ZAR'', effective_from = 0\<rparr>,
       \<lparr>fc_type = NO_WINNER_FEE, fc_rate = 1 / 20, fc_currency = ''ZAR'', effective_from = 0\<rparr>],
     deposits = [], withdrawals = [], row_locks = [], enforce_checks = True\<rparr>"

definition demo_requests :: "request list" where
  "demo_requests = [Register demo_auth 0 1 11 [] alice_form, Register demo_auth 0 2 12 [] bob_form,
     CreateDeposit 21 1 100 ''ZAR'' None None None, CreateDeposit 22 2 100 ''ZAR'' None None None,
     CompleteDeposit 1 21 None None, CompleteDeposit 1 22 None None,
     CreateBet 1 31 alice 7 home_win 10, AcceptBet 2 bob 31 away_win,
     ConfirmResult (minutes 200) (\<lambda>b. minutes 201) 7 home_win 2 1 9,
     CreateWithdrawal 41 1 50 ''acc'' ''ZAR'' None, ApproveWithdrawal 3 41, CompleteWithdrawal 4 41]"

lemma demo_fresh: "fresh_system demo_db"
  by (simp add: fresh_system_def demo_db_def keyed_def rates_ok_def)

lemma demo_admissible: "list_all admissible demo_requests"
  by (simp add: demo_requests_def half_cent_tie_code round_half_up_def round_half_away_def)

section \<open>States in the middle of the story\<close>

definition demo_wallet :: "uuid \<Rightarrow> decimal \<Rightarrow> decimal \<Rightarrow> wallet" where
  "demo_wallet u a l = \<lparr>wallet_id = 10 + u, wallet_user = u, available_balance = a, locked_balance = l,
     wallet_currency = ''ZAR'', version = 1\<rparr>"

definition demo_entry :: "uuid \<Rightarrow> ledger_entry_type \<Rightarrow> balance_field \<Rightarrow> ledger_direction \<Rightarrow> decimal \<Rightarrow> ledger_entry" where
  "demo_entry u ty f dir a = \<lparr>le_user = u, le_wallet = 10 + u, entry_type = ty, le_field = f, direction = dir,
     le_amount = a, reference_type = ref_bet, reference_id = 31, available_balance_after = 0,
     locked_balance_after = 0, le_notes = None\<rparr>"

definition demo_deposit :: "uuid \<Rightarrow> uuid \<Rightarrow> decimal \<Rightarrow> deposit_status \<Rightarrow> deposit_request" where
  "demo_deposit i u a st = \<lparr>dep_id = i, dep_user = u, dep_wallet = 10 + u, dep_amount = a,
     dep_currency = ''ZAR'', dstatus = st, payment_provider = None, provider_reference = None,
     client_reference = None, dep_notes = None, checkout_url = None, dep_completed_at = None,
     dep_failed_at = None\<rparr>"

definition demo_withdrawal :: "withdrawal_status \<Rightarrow> withdrawal_request" where
  "demo_withdrawal st = \<lparr>wd_id = 41, wd_user = 1, wd_wallet = 11, wd_amount = 50, wd_currency = ''ZAR'',
     wstatus = st, destination_account = None, destination_type = None, rejection_reason = None,
     approved_at = None, wd_completed_at = None, wd_failed_at = None\<rparr>"

definition demo_bet :: "bet_status \<Rightarrow> uuid option \<Rightarrow> football_outcome option \<Rightarrow> bet" where
  "demo_bet st opp pred = \<lparr>bet_id = 31, bet_match = 7, creator_id = 1, opponent_id = opp,
     creator_prediction = home_win, opponent_prediction = pred, stake_amount = 10,
     bet_currency = ''ZAR'', bstatus = st, settlement_outcome_of = None, winner_id = None,
     platform_fee = None, payout_amount = None, applied_winner_fee_rate = None,
     applied_no_winner_fee_rate = None, expires_at = minutes 60, settled_at = None, bet_created_at = 1\<rparr>"

text \<open>Two funded wallets, a deposit still to be completed, no bet.\<close>

definition demo_funded :: db where
  "demo_funded = demo_db\<lparr>
     wallets := [demo_wallet 1 100 0, demo_wallet 2 100 0],
     ledger := [demo_entry 1 DEPOSIT available credit 100, demo_entry 2 DEPOSIT available credit 100],
     deposits := [demo_deposit 21 1 100 DS_completed, demo_deposit 22 2 100 DS_completed,
                  demo_deposit 3 1 100 DS_processing]\<rparr>"

text \<open>Alice's bet is open.\<close>

definition demo_open :: db where
  "demo_open = demo_funded\<lparr>
     wallets := [demo_wallet 1 90 10, demo_wallet 2 100 0],
     ledger := ledger demo_funded @
       [demo_entry 1 STAKE_LOCK available debit 10, demo_entry 1 STAKE_LOCK locked credit 10],
     bets := [demo_bet OPEN None None]\<rparr>"

text \<open>Bob has accepted; in \<open>demo_pending\<close> the result \<open>r\<close> is confirmed and the bet queued.\<close>

definition demo_matched :: db where
  "demo_matched = demo_open\<lparr>
     wallets := [demo_wallet 1 90 10, demo_wallet 2 90 10],
     ledger := ledger demo_open @
       [demo_entry 2 STAKE_LOCK available debit 10, demo_entry 2 STAKE_LOCK locked credit 10],
     bets := [demo_bet MATCHED (Some 2) (Some away_win)]\<rparr>"

definition demo_pending :: "football_outcome \<Rightarrow> db" where
  "demo_pending r = demo_matched\<lparr>
     matches := [derby\<lparr>mstatus := MS_completed, outcome := Some r, result_confirmed_at := Some 5\<rparr>],
     bets := [demo_bet PENDING_SETTLEMENT (Some 2) (Some away_win)]\<rparr>"

text \<open>Alice asks for 50 back.\<close>

definition demo_held :: "withdrawal_status \<Rightarrow> db" where
  "demo_held st = demo_funded\<lparr>
     wallets := [demo_wallet 1 50 50, demo_wallet 2 100 0],
     ledger := ledger demo_funded @
       [demo_entry 1 WITHDRAWAL_HOLD available debit 50, demo_entry 1 WITHDRAWAL_HOLD locked credit 50],
     withdrawals := [demo_withdrawal st]\<rparr>"

lemmas demo_rows = demo_wallet_def demo_entry_def demo_deposit_def demo_withdrawal_def demo_bet_def
lemmas demo_states = demo_db_def demo_funded_def demo_open_def demo_matched_def demo_pending_def demo_held_def
lemmas books_defs = books_def wallet_books_def sound_wallet_def platform_sound_def rates_ok_def bets_ok_def
  bet_sound_def requests_ok_def locked_explained_def stakes_def stake_held_def withdrawal_holds_def
  withdrawal_held_def balance_in_def field_of_def ledger_explains_def signed_amount_def conserved_def
  total_money_def platform_total_def deposited_def withdrawn_def platform_explained_def fees_of_def
  keyed_def on_cent_code holds_funds_def

lemma demo_books:
  "books demo_funded" "books demo_open" "books demo_matched" "books (demo_pending r)"
  "books (demo_held WS_pending)" "books (demo_held WS_approved)"
  by (simp_all add: books_defs demo_states demo_rows split: balance_field.split)

section \<open>Running a handler\<close>

text \<open>
  Rules that let the simplifier run a handler on a concrete state: the definitions, and congruences
  that keep it from looking at a continuation before the state it continues from is known.
\<close>

lemma bind_lazily: "m = m' \<Longrightarrow> bind_tx m f = bind_tx m' f"
  by simp

lemma seq_lazily: "m = m' \<Longrightarrow> seq_tx m n = seq_tx m' n"
  by simp

lemma for_each_lazily: "xs = ys \<Longrightarrow> for_each f xs = for_each f ys"
  by simp

lemmas lazily = bind_lazily seq_lazily for_each_lazily sum.case_cong_weak prod.case_cong_weak
  option.case_cong_weak let_weak_cong

lemmas eval_steps = tx_run take_lock_def check_row_def store_money_def store_money_opt_def
  verify_non_negative_def Let_def
lemmas eval_repositories = get_by_user_id_for_update_def get_by_user_id_or_404_def get_by_user_id_def
  update_balances_def set_balances_def create_entry_def find_bet_def get_bet_or_404_def
  get_bet_for_update_def insert_bet_def flush_bet_def put_bet_def put_wallet_def add_event_def
  find_match_def get_match_or_404_def get_match_for_update_def flush_match_def put_match_def
  get_active_rate_def put_platform_def get_for_currency_for_update_def credit_fee_def
  write_platform_entry_def put_deposit_def find_deposit_def get_deposit_or_404_def deposit_unique_def
  insert_deposit_def flush_deposit_def put_withdrawal_def find_withdrawal_def
  get_withdrawal_or_404_def insert_withdrawal_def flush_withdrawal_def
  transition_matched_to_pending_def matched_bets_of_def
lemmas eval_amounts = round_half_up_def round_half_away_def safe_add_def safe_subtract_def safe_multiply_def
lemmas eval_constraints = wallet_row_ok_def ledger_row_ok_def match_row_ok_def match_row_fits_def short_text_fits bet_row_ok_def
  participants_ok_def winner_identity_ok_def payout_presence_ok_def platform_fee_ok_def
  positive_amount_def rate_ok_def platform_row_ok_def platform_entry_ok_def
lemmas eval_ledger = write_stake_lock_def write_stake_unlock_def write_void_refund_def
  write_deposit_credit_def write_withdrawal_hold_def write_withdrawal_release_def
  write_withdrawal_debit_def write_settlement_winner_def write_settlement_no_winner_def
  write_no_winner_share_def or_default_def
lemmas eval_wallets = lock_stake_def unlock_stake_def void_refund_def credit_deposit_def
  hold_withdrawal_def release_withdrawal_hold_def finalize_withdrawal_debit_def
  transfer_locked_funds_def lock_pair_def settle_no_winner_def
lemmas eval_demo = demo_states demo_rows demo_settings_def alice_def bob_def derby_def minutes_def
lemmas eval_all = eval_steps eval_repositories eval_amounts eval_constraints eval_ledger eval_wallets eval_demo

lemma demo_settles:
  "\<exists>b s'. settle_bet 10 31 (demo_pending home_win) = Inr (b, s')"
  by (simp add: eval_all settle_bet_def settlement_checks_def settle_wallets_def collect_fee_def mark_settled_def
      determine_path_def compute_winner_amounts_def settled_row_def cong: lazily)

lemma demo_accepts: "\<exists>b s'. accept_bet 2 bob 31 away_win demo_open = Inr (b, s')"
  by (simp add: eval_all accept_bet_def cong: lazily)

lemma demo_completes: "\<exists>d s'. complete_deposit 9 3 None None demo_funded = Inr (d, s')"
  by (simp add: eval_all complete_deposit_def complete_with_def completed_row_def deposit_terminal_def
      deposit_completable_def cong: lazily)

end
