(* ===== verification/Wallet_Properties.thy ===== *)
theory Wallet_Properties
  imports Scenario
begin

text \<open>
  The wallet operations against their abstract specification: accounts are a function from users and fields to
  amounts, and an operation is a change of them that succeeds when no field of the user would become
  negative. Then the errors of the operations, and the one kind of amount the specification excludes.
\<close>

section \<open>Refinement\<close>

type_synonym accounts = "uuid \<Rightarrow> balance_field \<Rightarrow> decimal"

definition account_move :: "delta \<Rightarrow> uuid \<Rightarrow> accounts \<Rightarrow> accounts option" where
  "account_move d u a =
     (if 0 \<le> a u available + d u available \<and> 0 \<le> a u locked + d u locked then Some (both a d) else None)"

text \<open>The accounts a state stands for, and the ones an operation leaves.\<close>

definition accounts_of :: "db \<Rightarrow> accounts" where
  "accounts_of s = balance_in (wallets s)"

definition accounts_after :: "error + 'a \<times> db \<Rightarrow> accounts option" where
  "accounts_after r = (case r of Inl e \<Rightarrow> None | Inr (x, s') \<Rightarrow> Some (accounts_of s'))"

context wallet_mover
begin

lemma refines:
  assumes books: "wallet_books s" and w: "row_get wallet_user u (wallets s) = Some w"
    and a: "0 < a" "a < 10 ^ 13" "on_cent a"
    and room: "\<And>f. accounts_of s u f + effect u a u f < 10 ^ 13"
  shows "accounts_after (move u a r n s) = account_move (effect u a) u (accounts_of s)"
proof (cases "move u a r n s")
  case (Inr v)
  then obtain x s' where run: "move u a r n s = Inr (x, s')" by (cases v) simp
  note m = move_cents [OF books a(1,3) run]
  have "accounts_of s' = both (accounts_of s) (effect u a)"
    using m by (auto simp: accounts_of_def both_def moved_def money_def fun_eq_iff)
  moreover have "0 \<le> accounts_of s' u f" for f
    unfolding accounts_of_def by (rule balance_nonneg [OF moved_books [OF m books]])
  ultimately show ?thesis by (simp add: accounts_after_def account_move_def run both_def)
next
  case (Inl e)
  then have "\<not> (\<exists>w' s'. move u a r n s = Inr (w', s'))" by simp
  then have "\<not> bearable (effect u a) s u" using move_succeeds [OF books w a] by blast
  then obtain f where "\<not> 0 \<le> accounts_of s u f + effect u a u f"
    using room by (auto simp: bearable_def accounts_of_def)
  then show ?thesis by (cases f) (simp_all add: accounts_after_def account_move_def Inl)
qed

end

text \<open>C17: on sound wallets, for an amount on the cent, positive, that fits its column and leaves room in those of the two balances,
  each of the nine operations on one wallet implements its abstract specification: a stake lock, a withdrawal hold and \<open>lock_funds\<close> move the amount from available to locked; an
  unlock, a void refund and a release move it back; a deposit adds to available, a paid withdrawal takes from locked;
  each succeeds exactly when nothing becomes negative.\<close>

theorem wallet_operations_refine:
  assumes books: "wallet_books s" and w: "row_get wallet_user u (wallets s) = Some w"
    and a: "0 < a" "a < 10 ^ 13" "on_cent a"
    and room: "available_balance w + a < 10 ^ 13" "locked_balance w + a < 10 ^ 13"
  shows "accounts_after (lock_stake u a r n s) = account_move (shift u available locked a) u (accounts_of s) \<and>
    accounts_after (lock_funds u a r n s) = account_move (shift u available locked a) u (accounts_of s) \<and>
    accounts_after (hold_withdrawal u a r n s) = account_move (shift u available locked a) u (accounts_of s) \<and>
    accounts_after (unlock_stake u a r n s) = account_move (shift u locked available a) u (accounts_of s) \<and>
    accounts_after (unlock_funds u a r n s) = account_move (shift u locked available a) u (accounts_of s) \<and>
    accounts_after (void_refund u a r n s) = account_move (shift u locked available a) u (accounts_of s) \<and>
    accounts_after (release_withdrawal_hold u a r n s) = account_move (shift u locked available a) u (accounts_of s) \<and>
    accounts_after (credit_deposit u a r n s) = account_move (only u available a) u (accounts_of s) \<and>
    accounts_after (finalize_withdrawal_debit u a r n s) = account_move (only u locked (- a)) u (accounts_of s)"
proof -
  have acc: "accounts_of s u available = available_balance w" "accounts_of s u locked = locked_balance w"
    using w by (simp_all add: accounts_of_def balance_in_def field_of_def)
  have "accounts_of s u f + shift u g h a u f < 10 ^ 13" "accounts_of s u f + only u available a u f < 10 ^ 13"
    "accounts_of s u f + only u locked (- a) u f < 10 ^ 13" for f g h
    using room a acc by (cases f; auto simp: change_simps)+
  note rooms = this
  show ?thesis
    using lock_op.refines [OF books w a rooms(1)] lock_funds_op.refines [OF books w a rooms(1)]
      hold_op.refines [OF books w a rooms(1)] unlock_op.refines [OF books w a rooms(1)]
      unlock_funds_op.refines [OF books w a rooms(1)] refund_op.refines [OF books w a rooms(1)]
      release_op.refines [OF books w a rooms(1)] credit_op.refines [OF books w a rooms(2)]
      debit_op.refines [OF books w a rooms(3)] by simp
qed

theorem wallet_operations_refine_witness:
  "accounts_after (lock_stake 1 30 31 None demo_funded) = account_move (shift 1 available locked 30) 1 (accounts_of demo_funded) \<and>
   accounts_after (finalize_withdrawal_debit 1 30 31 None demo_funded) = None"
proof -
  have w: "row_get wallet_user 1 (wallets demo_funded) = Some (demo_wallet 1 100 0)"
    by (simp add: demo_funded_def demo_wallet_def)
  have "account_move (only 1 locked (- 30)) 1 (accounts_of demo_funded) = None"
    using w by (simp add: account_move_def accounts_of_def balance_in_def field_of_def only_def demo_wallet_def)
  then show ?thesis
    using wallet_operations_refine [OF booksD(1) [OF demo_books(1)] w, of 30]
    by (simp add: demo_wallet_def on_cent_code)
qed

section \<open>Errors\<close>

lemma change_one_errors:
  "row_get wallet_user u (wallets s) = None \<Longrightarrow> change_one short av lk wr u s = Inl NotFoundError"
  "row_get wallet_user u (wallets s) = Some w \<Longrightarrow> short w \<Longrightarrow> change_one short av lk wr u s = Inl InsufficientFundsError"
  "row_get wallet_user u (wallets s) = Some w \<Longrightarrow> \<not> short w \<Longrightarrow> below_zero (av w) \<or> below_zero (lk w) \<Longrightarrow>
     change_one short av lk wr u s = Inl ValidationError"
  by (auto simp: change_one_def get_by_user_id_for_update_def get_by_user_id_def tx_run take_lock_def)

lemma guarded_runs: "\<not> b \<Longrightarrow> seq_tx (raise_if b e) m s = m s"
  by simp

text \<open>The errors of the wallet operations: no wallet is a not-found error; too little in the field the money
  comes from is an insufficient-funds error, except that the two refunds of a bet, which check nothing
  first, report the negative balance as a validation error; a failed operation leaves no state behind.\<close>

theorem wallet_errors:
  assumes "0 < a"
  shows "(row_get wallet_user u (wallets s) = None \<longrightarrow>
      lock_stake u a r n s = Inl NotFoundError \<and> unlock_stake u a r n s = Inl NotFoundError \<and>
      void_refund u a r n s = Inl NotFoundError \<and> hold_withdrawal u a r n s = Inl NotFoundError \<and>
      release_withdrawal_hold u a r n s = Inl NotFoundError \<and> finalize_withdrawal_debit u a r n s = Inl NotFoundError \<and>
      credit_deposit u a r n s = Inl NotFoundError) \<and>
    (row_get wallet_user u (wallets s) = Some w \<and> available_balance w < a \<longrightarrow>
      lock_stake u a r n s = Inl InsufficientFundsError \<and> lock_funds u a r n s = Inl InsufficientFundsError \<and>
      hold_withdrawal u a r n s = Inl InsufficientFundsError) \<and>
    (row_get wallet_user u (wallets s) = Some w \<and> locked_balance w < a \<longrightarrow>
      unlock_funds u a r n s = Inl InsufficientFundsError \<and>
      release_withdrawal_hold u a r n s = Inl InsufficientFundsError \<and>
      finalize_withdrawal_debit u a r n s = Inl InsufficientFundsError) \<and>
    (row_get wallet_user u (wallets s) = Some w \<and> locked_balance w < a \<and> on_cent (locked_balance w) \<and> on_cent a \<longrightarrow>
      unlock_stake u a r n s = Inl ValidationError \<and> void_refund u a r n s = Inl ValidationError)"
  using assms
  by (auto simp: op_shapes change_one_errors below_zero_def safe_subtract_cents)

theorem wallet_errors_witness:
  "lock_stake 1 101 31 None demo_funded = Inl InsufficientFundsError \<and>
   unlock_stake 1 1 31 None demo_funded = Inl ValidationError"
  using wallet_errors [of 101 1 demo_funded 31 None "demo_wallet 1 100 0"]
    wallet_errors [of 1 1 demo_funded 31 None "demo_wallet 1 100 0"]
  by (simp add: demo_funded_def demo_wallet_def on_cent_code)

section \<open>Half a cent\<close>

lemma rebalanced_total:
  assumes "wallet_books s" and r: "rebalanced d s s'"
  shows "total_money (wallets s') = total_money (wallets s) + worth (map wallet_user (wallets s)) d"
proof -
  have "keyed wallet_user (wallets s)" "keyed wallet_user (wallets s')"
    and u: "map wallet_user (wallets s') = map wallet_user (wallets s)"
    and b: "balance_in (wallets s') = both (balance_in (wallets s)) d"
    using assms by (auto simp: wallet_books_def rebalanced_def keyed_def both_def fun_eq_iff)
  then show ?thesis by (simp add: total_by_users u b worth_both)
qed

lemma to_locked_tie:
  assumes books: "wallet_books s" and a: "0 < a" "half_cent_tie a"
    and run: "change_one (\<lambda>w. available_balance w < a) (\<lambda>w. Some (safe_subtract (available_balance w) a))
      (\<lambda>w. Some (safe_add (locked_balance w) a)) wr u s = Inr (w, s')"
    and post: "\<And>w' s1 x s'. wr w' s1 = Inr (x, s') \<Longrightarrow> wallets s' = wallets s1"
  shows "total_money (wallets s') = total_money (wallets s) + 1 / 100"
proof -
  let ?l = "s\<lparr>row_locks := row_locks s @ [WalletRow u]\<rparr>"
  obtain w0 s1 x where w0: "row_get wallet_user u (wallets s) = Some w0" and le: "a \<le> available_balance w0"
    and nn: "0 \<le> safe_subtract (available_balance w0) a" "0 \<le> safe_add (locked_balance w0) a"
    and upd: "update_balances w0 (Some (safe_subtract (available_balance w0) a))
        (Some (safe_add (locked_balance w0) a)) ?l = Inr (w, s1)"
    and wr: "wr w s1 = Inr (x, s')"
    using run by (auto simp: change_one_def bind_tx_inv seq_tx_inv get_by_user_id_for_update_inv below_zero_def)
  have lb: "wallet_books ?l" "row_get wallet_user u (wallets ?l) = Some w0" using books w0 by (simp_all add: wallet_books_def)
  have sound: "on_cent (available_balance w0)" "on_cent (locked_balance w0)" "0 \<le> locked_balance w0"
    using locked_row_sound [OF books w0] by auto
  let ?d = "both (only u available (change_to (Some (safe_subtract (available_balance w0) a)) (available_balance w0)))
    (only u locked (change_to (Some (safe_add (locked_balance w0) a)) (locked_balance w0)))"
  have r: "rebalanced ?d ?l s1" using update_rebalanced(1) [OF lb upd] nn by auto
  have "safe_subtract (available_balance w0) a = available_balance w0 - round_half_up a + 1 / 100"
    using round_diff_cent [OF sound(1) le] a by (simp add: safe_subtract_def)
  moreover have "round_half_up (safe_subtract (available_balance w0) a) = safe_subtract (available_balance w0) a"
    by (rule round_on_cent) simp
  ultimately have "change_to (Some (safe_subtract (available_balance w0) a)) (available_balance w0) = 1 / 100 - round_half_up a"
    unfolding change_to_def by simp
  moreover have "change_to (Some (safe_add (locked_balance w0) a)) (locked_balance w0) = round_half_up a"
    using change_to_add [OF sound(2,3)] a by simp
  moreover have "u \<in> set (map wallet_user (wallets s))" using row_get_SomeD [OF w0] by auto
  moreover have "distinct (map wallet_user (wallets s))" using books by (simp add: wallet_books_def keyed_def)
  ultimately have "worth (map wallet_user (wallets ?l)) ?d = 1 / 100" by (simp add: worth_both worth_only)
  then show ?thesis using rebalanced_total [OF lb(1) r] post [OF wr] by simp
qed

text \<open>Amounts are not limited to two decimal places, and the wallet is debited with the raw amount while the
  locked balance and the ledger take the rounded one: locking a stake or holding a withdrawal half way between two
  cents leaves the user a cent richer.\<close>

theorem half_cent_creates_money:
  assumes "wallet_books s" and "0 < a" and "half_cent_tie a"
    and "lock_stake u a r n s = Inr (w, s') \<or> hold_withdrawal u a r n s = Inr (w, s')"
  shows "total_money (wallets s') = total_money (wallets s) + 1 / 100"
proof -
  have "wallets s' = wallets s1" if "write_stake_lock w' a r n s1 = Inr (x, s')" for w' s1 x s'
    using write_stake_lock_posts [OF that] by (auto simp: posts_def)
  moreover have "wallets s' = wallets s1" if "write_withdrawal_hold w' a r n s1 = Inr (x, s')" for w' s1 x s'
    using write_withdrawal_hold_posts [OF that] by (auto simp: posts_def)
  ultimately show ?thesis
    using assms to_locked_tie [OF assms(1-3)] by (auto simp: lock_stake_shape hold_withdrawal_shape guarded_run)
qed

lemma demo_locks_tie: "\<exists>w s'. lock_stake 1 (10005 / 1000) 31 None demo_funded = Inr (w, s')"
  by (simp add: eval_all cong: lazily)

theorem half_cent_creates_money_witness:
  "\<exists>w s'. lock_stake 1 (10005 / 1000) 31 None demo_funded = Inr (w, s') \<and>
     total_money (wallets demo_funded) = 200 \<and> total_money (wallets s') = 200 + 1 / 100"
proof -
  obtain w s' where run: "lock_stake 1 (10005 / 1000) 31 None demo_funded = Inr (w, s')" using demo_locks_tie by blast
  have "half_cent_tie (10005 / 1000)" by (simp add: half_cent_tie_code)
  from half_cent_creates_money [OF booksD(1) [OF demo_books(1)] _ this disjI1 [OF run]]
  show ?thesis using run by (simp add: total_money_def demo_funded_def demo_wallet_def)
qed

end
