(* ===== verification/Bet_Properties.thy ===== *)
theory Bet_Properties
  imports Scenario
begin

text \<open>
  Creating, accepting, cancelling and voiding bets: what a success has done, which error each guard raises, that a
  cancelled or voided bet leaves the balances as they were, and what an interleaved cancellation breaks.
\<close>

lemma books_stake: "books s \<Longrightarrow> find_bet s k = Some b \<Longrightarrow> on_cent (stake_amount b) \<and> 0 < stake_amount b"
  using books_bet by (auto simp: bet_sound_def)

text \<open>The balances after a step that moved \<open>d\<close>.\<close>

lemma bet_step_balance:
  "bet_step d bs s s' \<Longrightarrow> balance_in (wallets s') u f = balance_in (wallets s) u f + d u f"
  by (simp add: bet_step_def money_def)

text \<open>C22: a created bet passed every guard (active account, scheduled match, before the cut-off, stake within the
  limits); it is open, carries the rounded stake, expires at kick-off, and exactly that stake moved from the
  creator's available to their locked balance.\<close>

theorem create_bet_outcome:
  assumes "books s" and "\<not> half_cent_tie stake"
    and "create_bet cfg now new_id creator m_id prediction stake s = Inr (b, s')"
  shows "ustatus creator = US_active \<and> min_stake_amount cfg \<le> stake \<and> stake \<le> max_stake_amount cfg \<and> 0 < stake \<and>
    (\<exists>m. find_match s m_id = Some m \<and> mstatus m = MS_scheduled \<and> expires_at b = kickoff_at m \<and>
       now < kickoff_at m - minutes (bet_creation_cutoff_minutes cfg)) \<and>
    bstatus b = OPEN \<and> creator_id b = user_id creator \<and> opponent_id b = None \<and> stake_amount b = round_half_up stake \<and>
    bets s' = bets s @ [b] \<and>
    (\<forall>u f. balance_in (wallets s') u f = balance_in (wallets s) u f +
       shift (user_id creator) available locked (round_half_up stake) u f)"
proof -
  note st = create_bet_step [OF booksD(1) [OF assms(1)] assms(2,3)]
  obtain m where m: "find_match s m_id = Some m" "mstatus m = MS_scheduled"
      "now < kickoff_at m - minutes (bet_creation_cutoff_minutes cfg)"
    and b: "b = new_bet cfg now new_id (user_id creator) m_id prediction (round_half_up stake) (kickoff_at m)"
    using st(2) by blast
  show ?thesis
    using st(1,3-5,7) m bet_step_balance [OF st(1)] by (simp add: b new_bet_def bet_step_def)
qed

lemma demo_creates: "\<exists>b s'. create_bet demo_settings 1 31 alice 7 home_win 10 demo_funded = Inr (b, s')"
  by (simp add: eval_all create_bet_def new_bet_def cong: lazily)

lemma ten_no_tie: "\<not> half_cent_tie 10"
  by (simp add: half_cent_tie_code)

theorem create_bet_outcome_witness:
  "\<exists>b s'. create_bet demo_settings 1 31 alice 7 home_win 10 demo_funded = Inr (b, s') \<and>
     bstatus b = OPEN \<and> balance_in (wallets s') 1 available = 90"
proof -
  obtain b s' where run: "create_bet demo_settings 1 31 alice 7 home_win 10 demo_funded = Inr (b, s')"
    using demo_creates by blast
  have "round_half_up 10 = 10" by (rule round_on_cent) (simp add: on_cent_code)
  with create_bet_outcome [OF demo_books(1) ten_no_tie run] show ?thesis
    using run by (auto simp: change_simps balance_in_def demo_funded_def demo_wallet_def field_of_def alice_def)
qed

text \<open>The error each guard of \<open>create_bet\<close> raises, in the order of the code.\<close>

theorem create_bet_errors:
  shows "(ustatus creator \<noteq> US_active \<longrightarrow>
      create_bet cfg now i creator m_id p stake s = Inl AccountIneligibleError) \<and>
    (ustatus creator = US_active \<and> find_match s m_id = None \<longrightarrow>
      create_bet cfg now i creator m_id p stake s = Inl NotFoundError) \<and>
    (ustatus creator = US_active \<and> find_match s m_id = Some m \<and>
       (mstatus m \<noteq> MS_scheduled \<or> kickoff_at m - minutes (bet_creation_cutoff_minutes cfg) \<le> now) \<longrightarrow>
      create_bet cfg now i creator m_id p stake s = Inl MatchNotAvailableError) \<and>
    (ustatus creator = US_active \<and> find_match s m_id = Some m \<and> mstatus m = MS_scheduled \<and>
       now < kickoff_at m - minutes (bet_creation_cutoff_minutes cfg) \<and>
       (stake \<le> 0 \<or> stake < min_stake_amount cfg \<or> max_stake_amount cfg < stake) \<longrightarrow>
      create_bet cfg now i creator m_id p stake s = Inl ValidationError)"
  by (auto simp: create_bet_def tx_run get_match_or_404_def)

theorem create_bet_errors_witness:
  "create_bet demo_settings 1 31 alice 8 home_win 10 demo_funded = Inl NotFoundError \<and>
   create_bet demo_settings (minutes 59) 31 alice 7 home_win 10 demo_funded = Inl MatchNotAvailableError \<and>
   create_bet demo_settings 1 31 alice 7 home_win 4 demo_funded = Inl ValidationError"
  using create_bet_errors [of alice demo_settings 1 31 8 home_win 10 demo_funded derby]
    create_bet_errors [of alice demo_settings "minutes 59" 31 7 home_win 10 demo_funded derby]
    create_bet_errors [of alice demo_settings 1 31 7 home_win 4 demo_funded derby]
  by (simp add: alice_def find_match_def demo_funded_def demo_db_def derby_def demo_settings_def minutes_def)

text \<open>C23: an accepted bet was open and not expired, its two sides are different active users with different
  predictions, and both now have the same stake locked.\<close>

theorem accept_bet_outcome:
  assumes "books s" and "accept_bet now opponent k prediction s = Inr (b', s')"
  shows "\<exists>b. find_bet s k = Some b \<and> bstatus b = OPEN \<and> now < expires_at b \<and>
    user_id opponent \<noteq> creator_id b \<and> prediction \<noteq> creator_prediction b \<and> ustatus opponent = US_active \<and>
    find_bet s' k = Some (matched_by (user_id opponent) prediction b) \<and>
    stakes (creator_id b) (bets s') = stakes (creator_id b) (bets s) \<and>
    stakes (user_id opponent) (bets s') = stakes (user_id opponent) (bets s) + stake_amount b \<and>
    (\<forall>u f. balance_in (wallets s') u f = balance_in (wallets s) u f +
      shift (user_id opponent) available locked (stake_amount b) u f)"
proof (rule accept_bet_step [OF booksD(1) [OF assms(1)] assms(2) books_stake [OF assms(1)]])
  fix b
  assume b: "find_bet s k = Some b" "bstatus b = OPEN" "now < expires_at b" "user_id opponent \<noteq> creator_id b"
    "prediction \<noteq> creator_prediction b" "ustatus opponent = US_active"
    and st: "bet_step (shift (user_id opponent) available locked (stake_amount b))
      (row_upd bet_id k (matched_by (user_id opponent) prediction) (bets s)) s s'"
  have none: "opponent_id b = None" using books_bet [OF assms(1) b(1)] b(2) by (simp add: bet_sound_def)
  have bs: "bets s' = row_upd bet_id k (matched_by (user_id opponent) prediction) (bets s)"
    using st by (simp add: bet_step_def)
  have "stakes u (bets s') = stakes u (bets s) - stake_held u b + stake_held u (matched_by (user_id opponent) prediction b)" for u
    unfolding bs using b(1) by (intro stakes_upd booksD(4) [OF assms(1)]) (simp add: find_bet_def)
  then have "stakes (creator_id b) (bets s') = stakes (creator_id b) (bets s)"
    "stakes (user_id opponent) (bets s') = stakes (user_id opponent) (bets s) + stake_amount b"
    using b none by (auto simp: stake_held_def matched_by_def)
  moreover have "find_bet s' k = Some (matched_by (user_id opponent) prediction b)"
    using b(1) bs by (simp add: find_bet_def row_get_upd matched_by_def)
  ultimately show ?thesis using b bet_step_balance [OF st] by auto
qed (use assms in auto)

theorem accept_bet_outcome_witness:
  "\<exists>b' s'. accept_bet 2 bob 31 away_win demo_open = Inr (b', s') \<and> balance_in (wallets s') 2 locked = 10"
proof -
  obtain b' s' where run: "accept_bet 2 bob 31 away_win demo_open = Inr (b', s')" using demo_accepts by blast
  have "find_bet demo_open 31 = Some (demo_bet OPEN None None)" by (simp add: find_bet_def demo_open_def demo_bet_def)
  with accept_bet_outcome [OF demo_books(2) run] show ?thesis
    using run by (auto simp: change_simps balance_in_def demo_open_def demo_wallet_def field_of_def bob_def demo_bet_def)
qed

text \<open>The errors of \<open>accept_bet\<close>, in the order of the code: nobody accepts a bet twice, late, their own, or on the
  creator's side.\<close>

theorem accept_bet_errors:
  assumes "find_bet s k = Some b"
  shows "(ustatus opponent \<noteq> US_active \<longrightarrow> accept_bet now opponent k p s = Inl AccountIneligibleError) \<and>
    (ustatus opponent = US_active \<and> bstatus b \<noteq> OPEN \<longrightarrow> accept_bet now opponent k p s = Inl BetNotAvailableError) \<and>
    (ustatus opponent = US_active \<and> bstatus b = OPEN \<and> expires_at b \<le> now \<longrightarrow>
      accept_bet now opponent k p s = Inl BetExpiredError) \<and>
    (ustatus opponent = US_active \<and> bstatus b = OPEN \<and> now < expires_at b \<and> user_id opponent = creator_id b \<longrightarrow>
      accept_bet now opponent k p s = Inl SelfBetError) \<and>
    (ustatus opponent = US_active \<and> bstatus b = OPEN \<and> now < expires_at b \<and> user_id opponent \<noteq> creator_id b \<and>
      p = creator_prediction b \<longrightarrow> accept_bet now opponent k p s = Inl PredictionConflictError)"
  using assms by (auto simp: accept_bet_def get_bet_for_update_def take_lock_def tx_run)

theorem accept_bet_errors_witness:
  "accept_bet (minutes 60) bob 31 away_win demo_open = Inl BetExpiredError \<and>
   accept_bet 1 alice 31 away_win demo_open = Inl SelfBetError \<and>
   accept_bet 1 bob 31 home_win demo_open = Inl PredictionConflictError"
proof -
  have f: "find_bet demo_open 31 = Some (demo_bet OPEN None None)" by (simp add: find_bet_def demo_open_def demo_bet_def)
  show ?thesis
    using accept_bet_errors [OF f, of bob "minutes 60" away_win] accept_bet_errors [OF f, of alice 1 away_win]
      accept_bet_errors [OF f, of bob 1 home_win]
    by (simp add: demo_bet_def alice_def bob_def minutes_def)
qed

section \<open>Undone bets\<close>

lemma cancel_bet_step:
  assumes "books s" and "find_bet s k = Some b" and "cancel_bet requester k s = Inr (b', s')"
  shows "creator_id b = user_id requester" and "bstatus b = OPEN"
    and "bet_step (shift (creator_id b) locked available (stake_amount b))
      (row_upd bet_id k (\<lambda>r. r\<lparr>bstatus := CANCELLED\<rparr>) (bets s)) s s'"
proof -
  have run: "cancel_with requester b s = Inr (b', s')"
    using assms(2,3) by (simp add: cancel_bet_def bind_tx_inv get_bet_or_404_inv)
  have "bet_id b = k" using assms(2) row_get_SomeD by (fastforce simp: find_bet_def)
  then show "creator_id b = user_id requester" "bstatus b = OPEN"
    "bet_step (shift (creator_id b) locked available (stake_amount b))
      (row_upd bet_id k (\<lambda>r. r\<lparr>bstatus := CANCELLED\<rparr>) (bets s)) s s'"
    using cancel_with_step [OF booksD(1) [OF assms(1)] run] books_stake [OF assms(1,2)] by auto
qed

lemma shift_back: "shift u f g x v h + shift u g f x v h = 0"
  by (simp add: change_simps)

text \<open>Creating a bet and then cancelling it puts every balance back where it was.\<close>

theorem create_cancel_round_trip:
  assumes "books s" and "\<not> half_cent_tie stake" and "0 < round_half_up stake"
    and "create_bet cfg now new_id creator m_id prediction stake s = Inr (b, s1)"
    and "cancel_bet creator new_id s1 = Inr (b', s2)"
  shows "balance_in (wallets s2) u f = balance_in (wallets s) u f \<and>
    find_bet s2 new_id = Some (b\<lparr>bstatus := CANCELLED\<rparr>)"
proof -
  note cr = create_bet_step [OF booksD(1) [OF assms(1)] assms(2,4)]
  have b: "bet_id b = new_id" "creator_id b = user_id creator" "stake_amount b = round_half_up stake"
    using cr(2) by (auto simp: new_bet_def)
  have f: "find_bet s1 new_id = Some b"
    using cr(1,6) b(1) by (simp add: find_bet_def bet_step_def row_get_append)
  have bk: "books s1" using create_bet_books [OF assms(1,2,3,4)] .
  note st = cancel_bet_step [OF bk f assms(5)]
  have "find_bet s2 new_id = Some (b\<lparr>bstatus := CANCELLED\<rparr>)"
    using st(3) f by (simp add: bet_step_def find_bet_def row_get_upd)
  moreover have "balance_in (wallets s2) u f = balance_in (wallets s) u f"
    using bet_step_balance [OF st(3)] bet_step_balance [OF cr(1)] b
      shift_back [of "user_id creator" available locked "round_half_up stake" u f] by simp
  ultimately show ?thesis by simp
qed

lemma demo_creates_cancels:
  "\<exists>b s1 b' s2. create_bet demo_settings 1 31 alice 7 home_win 10 demo_funded = Inr (b, s1) \<and>
     cancel_bet alice 31 s1 = Inr (b', s2)"
  by (simp add: eval_all create_bet_def new_bet_def cancel_bet_def cancel_with_def cong: lazily)

theorem create_cancel_round_trip_witness:
  "\<exists>b s1 b' s2. create_bet demo_settings 1 31 alice 7 home_win 10 demo_funded = Inr (b, s1) \<and>
     cancel_bet alice 31 s1 = Inr (b', s2) \<and> balance_in (wallets s2) 1 available = 100"
proof -
  obtain b s1 b' s2 where run: "create_bet demo_settings 1 31 alice 7 home_win 10 demo_funded = Inr (b, s1)"
    "cancel_bet alice 31 s1 = Inr (b', s2)"
    using demo_creates_cancels by blast
  have "round_half_up 10 = 10" by (rule round_on_cent) (simp add: on_cent_code)
  then have "0 < round_half_up 10" by simp
  from create_cancel_round_trip [OF demo_books(1) ten_no_tie this run, of 1 available]
  show ?thesis using run by (auto simp: balance_in_def demo_funded_def demo_wallet_def field_of_def)
qed

text \<open>C24: voiding returns every locked stake in full: the creator's, and the opponent's if there is one; nothing
  else moves and the bet carries the void outcome.\<close>

theorem void_bet_refunds:
  assumes "books s" and "void_bet k adm reason s = Inr (us, s')"
  shows "\<exists>b. find_bet s k = Some b \<and> bstatus b \<in> {OPEN, MATCHED} \<and> find_bet s' k = Some (void_row b) \<and>
    (\<forall>u. balance_in (wallets s') u available = balance_in (wallets s) u available + stake_held u b \<and>
         balance_in (wallets s') u locked = balance_in (wallets s) u locked - stake_held u b)"
proof (rule void_bet_step [OF booksD(1) [OF assms(1)] assms(2) books_stake [OF assms(1)]])
  fix b
  assume b: "find_bet s k = Some b" "bstatus b = OPEN \<or> bstatus b = MATCHED"
    and st: "bet_step (void_change b) (row_upd bet_id k void_row (bets s)) s s'"
  have "bet_sound b" using books_bet [OF assms(1) b(1)] .
  then have "void_change b u available = stake_held u b" "void_change b u locked = - stake_held u b" for u
    using b(2) by (auto simp: void_change_def stake_held_def change_simps bet_sound_def split: option.splits)
  moreover have "find_bet s' k = Some (void_row b)"
    using st b(1) by (simp add: bet_step_def find_bet_def row_get_upd void_row_def)
  ultimately show ?thesis using b bet_step_balance [OF st] by auto
qed (use assms in auto)

lemma demo_voids_matched: "\<exists>us s'. void_bet 31 9 None demo_matched = Inr (us, s')"
  by (simp add: eval_all void_bet_def cong: lazily)

theorem void_bet_refunds_witness:
  "\<exists>us s'. void_bet 31 9 None demo_matched = Inr (us, s') \<and>
     balance_in (wallets s') 1 available = 100 \<and> balance_in (wallets s') 2 available = 100"
proof -
  obtain us s' where run: "void_bet 31 9 None demo_matched = Inr (us, s')" using demo_voids_matched by blast
  have "find_bet demo_matched 31 = Some (demo_bet MATCHED (Some 2) (Some away_win))"
    by (simp add: find_bet_def demo_matched_def demo_bet_def)
  with void_bet_refunds [OF demo_books(3) run] show ?thesis
    using run by (auto simp: balance_in_def demo_matched_def demo_wallet_def field_of_def stake_held_def demo_bet_def)
qed

section \<open>A cancellation that read too early\<close>

text \<open>\<open>cancel_bet\<close> reads the bet without a lock. If an acceptance commits between that read and the rest of the
  cancellation, the cancellation goes on with the stale row: the bet ends cancelled while the opponent's stake stays
  locked, and no bet or withdrawal explains that balance any more.\<close>

theorem cancel_after_stale_read:
  assumes "books s" and "find_bet s k = Some b" and "accept_bet now opponent k prediction s = Inr (b1, s1)"
    and "cancel_with requester b s1 = Inr (b2, s2)"
  shows "\<not> locked_explained s2 \<and>
    balance_in (wallets s2) (user_id opponent) locked =
      stakes (user_id opponent) (bets s2) + withdrawal_holds (user_id opponent) (withdrawals s2) + stake_amount b"
proof (rule accept_bet_step [OF booksD(1) [OF assms(1)] assms(3) books_stake [OF assms(1)]])
  let ?u = "user_id opponent" and ?cancelled = "\<lambda>r. r\<lparr>bstatus := CANCELLED\<rparr>"
  fix c
  assume c: "find_bet s k = Some c" "bstatus c = OPEN" "?u \<noteq> creator_id c"
    and st: "bet_step (shift ?u available locked (stake_amount c)) (row_upd bet_id k (matched_by ?u prediction) (bets s)) s s1"
  have eq: "c = b" using c(1) assms(2) by simp
  have id: "bet_id b = k" using assms(2) row_get_SomeD by (fastforce simp: find_bet_def)
  note sound = books_stake [OF assms(1,2)]
  have st2: "bet_step (shift (creator_id b) locked available (stake_amount b)) (row_upd bet_id k ?cancelled (bets s1)) s1 s2"
    using cancel_with_step(3) [OF bet_step_books [OF st booksD(1) [OF assms(1)]] assms(4)] sound by (simp add: id)
  have none: "opponent_id b = None" using books_bet [OF assms(1,2)] c(2) eq by (simp add: bet_sound_def)
  have ok: "bets_ok (bets s)" by (rule booksD(4) [OF assms(1)])
  have "bets s2 = row_upd bet_id k (\<lambda>r. ?cancelled (matched_by ?u prediction r)) (bets s)"
    using st st2 by (simp add: bet_step_def row_upd_def matched_by_def)
  then have "stakes ?u (bets s2) = stakes ?u (bets s) - stake_held ?u b + stake_held ?u (?cancelled (matched_by ?u prediction b))"
    using stakes_upd [OF ok] assms(2) by (simp add: find_bet_def)
  then have "stakes ?u (bets s2) = stakes ?u (bets s)"
    using none c(3) eq by (simp add: stake_held_def matched_by_def)
  moreover have "withdrawals s2 = withdrawals s" using st st2 by (simp add: bet_step_def same_defs)
  moreover have "balance_in (wallets s2) ?u locked = balance_in (wallets s) ?u locked + stake_amount b"
    using bet_step_balance [OF st] bet_step_balance [OF st2] c(3) eq by (simp add: change_simps)
  moreover have "balance_in (wallets s) ?u locked = stakes ?u (bets s) + withdrawal_holds ?u (withdrawals s)"
    using booksD(7) [OF assms(1)] by (simp add: locked_explained_def)
  ultimately show ?thesis using sound by (auto simp: locked_explained_def intro!: exI [of _ ?u])
qed (use assms in auto)

lemma demo_race:
  "\<exists>b1 s1 b2 s2. accept_bet 2 bob 31 away_win demo_open = Inr (b1, s1) \<and>
     cancel_with alice (demo_bet OPEN None None) s1 = Inr (b2, s2)"
  by (simp add: eval_all accept_bet_def cancel_with_def cong: lazily)

theorem cancel_after_stale_read_witness:
  "\<exists>b1 s1 b2 s2. accept_bet 2 bob 31 away_win demo_open = Inr (b1, s1) \<and>
     cancel_with alice (demo_bet OPEN None None) s1 = Inr (b2, s2) \<and> \<not> locked_explained s2"
proof -
  obtain b1 s1 b2 s2 where run: "accept_bet 2 bob 31 away_win demo_open = Inr (b1, s1)"
    "cancel_with alice (demo_bet OPEN None None) s1 = Inr (b2, s2)"
    using demo_race by blast
  have "find_bet demo_open 31 = Some (demo_bet OPEN None None)" by (simp add: find_bet_def demo_open_def demo_bet_def)
  from cancel_after_stale_read [OF demo_books(2) this run] show ?thesis using run by blast
qed

end
