(* ===== verification/Funding_Properties.thy ===== *)
theory Funding_Properties
  imports Scenario
begin

text \<open>
  Deposits, withdrawals and the PayFast notifications: exact effects, single completion, the errors of illegal
  transitions, what a notification must show before money moves, and what two requests that read the same
  unlocked row do.
\<close>

lemma fund_step_balance:
  "fund_step d ds ws s s' \<Longrightarrow> balance_in (wallets s') u f = balance_in (wallets s) u f + d u f"
  by (simp add: fund_step_def money_def)

section \<open>Deposits\<close>

lemma complete_deposit_facts:
  assumes "books s" and "complete_deposit now k ref nts s = Inr (x, s')"
  obtains d where "find_deposit s k = Some d" and "deposit_completable (dstatus d)"
    and "fund_step (only (dep_user d) available (dep_amount d)) (row_upd dep_id k (completed_row now ref nts) (deposits s))
           (withdrawals s) s s'"
    and "find_deposit s' k = Some (completed_row now ref nts d)"
proof -
  obtain d where d: "find_deposit s k = Some d" and c: "complete_with now ref nts d s = Inr (x, s')"
    using assms(2) by (auto simp: complete_deposit_def bind_tx_inv get_deposit_or_404_inv)
  have id: "dep_id d = k" using d row_get_SomeD by (fastforce simp: find_deposit_def)
  have "on_cent (dep_amount d)" using books_deposit [OF assms(1) d] by simp
  note st = complete_with_step [OF booksD(1) [OF assms(1)] this c, unfolded id]
  moreover have "find_deposit s' k = Some (completed_row now ref nts d)"
    using st(3) d by (simp add: fund_step_def find_deposit_def row_get_upd completed_row_def)
  ultimately show thesis using d by (intro that)
qed

text \<open>C25: completing a deposit credits its stored amount to its user's available balance and nothing else, and
  happens once: after any further requests, completing or failing it again is a conflict.\<close>

theorem deposit_completed_once:
  assumes "books s" and "complete_deposit now k ref nts s = Inr (x, s')" and "list_all admissible rs"
  shows "\<exists>d. find_deposit s k = Some d \<and>
    (\<forall>u f. balance_in (wallets s') u f = balance_in (wallets s) u f + only (dep_user d) available (dep_amount d) u f) \<and>
    complete_deposit now' k ref' nts' (run std cfg rs s') = Inl ConflictError \<and>
    fail_deposit now' k why (run std cfg rs s') = Inl ConflictError"
proof (rule complete_deposit_facts [OF assms(1,2)])
  fix d
  assume d: "find_deposit s k = Some d"
    and st: "fund_step (only (dep_user d) available (dep_amount d)) (row_upd dep_id k (completed_row now ref nts) (deposits s))
           (withdrawals s) s s'"
    and d': "find_deposit s' k = Some (completed_row now ref nts d)"
  note path = run_serves [OF complete_deposit_books [OF assms(1,2)] assms(3), where std = std and cfg = cfg]
  have "\<not> deposit_edge (dstatus (completed_row now ref nts d)) t" for t
    by (simp add: deposit_edge_def completed_row_def)
  then obtain e where "find_deposit (run std cfg rs s') k = Some e" "dstatus e = DS_completed"
    using deposit_life.final_status [OF path] d' by (fastforce simp: find_deposit_def completed_row_def)
  then have "complete_deposit now' k ref' nts' (run std cfg rs s') = Inl ConflictError"
    "fail_deposit now' k why (run std cfg rs s') = Inl ConflictError"
    by (simp_all add: complete_deposit_def complete_with_def fail_deposit_def get_deposit_or_404_def tx_run
        deposit_terminal_def)
  with d fund_step_balance [OF st] show ?thesis by blast
qed

theorem deposit_completed_once_witness:
  "\<exists>d s'. complete_deposit 9 3 None None demo_funded = Inr (d, s') \<and> balance_in (wallets s') 1 available = 200 \<and>
     complete_deposit 10 3 None None (run demo_std demo_settings [FailDeposit 9 3 None] s') = Inl ConflictError"
proof -
  obtain d s' where run: "complete_deposit 9 3 None None demo_funded = Inr (d, s')" using demo_completes by blast
  have "find_deposit demo_funded 3 = Some (demo_deposit 3 1 100 DS_processing)"
    by (simp add: find_deposit_def demo_funded_def demo_deposit_def)
  with deposit_completed_once [OF demo_books(1) run, of "[FailDeposit 9 3 None]" 10 None None demo_std demo_settings]
  show ?thesis
    using run by (auto simp: only_def balance_in_def demo_funded_def demo_wallet_def field_of_def demo_deposit_def)
qed

text \<open>\<open>complete_deposit\<close> reads the request without a lock. Two completions that both read the row before either
  commits credit the amount twice, and the users' money no longer matches what was deposited.\<close>

theorem deposit_double_credit:
  assumes "books s" and "find_deposit s k = Some d"
    and "complete_with now ref nts d s = Inr (x, s1)" and "complete_with now' ref' nts' d s1 = Inr (y, s2)"
  shows "balance_in (wallets s2) (dep_user d) available = balance_in (wallets s) (dep_user d) available + 2 * dep_amount d \<and>
    deposited (deposits s2) = deposited (deposits s) + dep_amount d \<and> \<not> conserved s2"
proof -
  have id: "dep_id d = k" using assms(2) row_get_SomeD by (fastforce simp: find_deposit_def)
  have c: "on_cent (dep_amount d)" using books_deposit [OF assms(1,2)] by simp
  note st1 = complete_with_step [OF booksD(1) [OF assms(1)] c assms(3), unfolded id]
  have wb: "wallet_books s1" using fund_step_books [OF st1(3) booksD(1) [OF assms(1)]] .
  note st2 = complete_with_step [OF wb c assms(4), unfolded id]
  let ?f = "\<lambda>r. completed_row now' ref' nts' (completed_row now ref nts r)"
  have ds: "deposits s2 = row_upd dep_id k ?f (deposits s)"
    using st1(3) st2(3) by (simp add: fund_step_def row_upd_def completed_row_def)
  have "keyed dep_id (deposits s)" using booksD(6) [OF assms(1)] by (simp add: requests_ok_def)
  then have dep: "deposited (deposits s2) = deposited (deposits s) + dep_amount d"
    unfolding ds using assms(2) st1(1)
    by (subst deposited_upd) (auto simp: find_deposit_def completed_row_def deposit_completable_def)
  have "money (only (dep_user d) available (dep_amount d)) s s1" "money (only (dep_user d) available (dep_amount d)) s1 s2"
    using st1(3) st2(3) by (simp_all add: fund_step_def)
  then have "total_money (wallets s2) = total_money (wallets s) + 2 * dep_amount d"
    using money_only_total [OF booksD(1) [OF assms(1)]] money_only_total [OF wb] by simp
  moreover have "platform_accounts s2 = platform_accounts s" "withdrawals s2 = withdrawals s"
    using st1(3) st2(3) by (simp_all add: fund_step_def same_defs)
  ultimately have "\<not> conserved s2"
    using booksD(9) [OF assms(1)] dep st1(2) by (simp add: conserved_def)
  with dep show ?thesis
    using fund_step_balance [OF st1(3)] fund_step_balance [OF st2(3)] by (simp add: only_def)
qed

lemma demo_double:
  "\<exists>x s1 y s2. complete_with 9 None None (demo_deposit 3 1 100 DS_processing) demo_funded = Inr (x, s1) \<and>
     complete_with 9 None None (demo_deposit 3 1 100 DS_processing) s1 = Inr (y, s2)"
  by (simp add: eval_all complete_with_def completed_row_def deposit_terminal_def deposit_completable_def cong: lazily)

theorem deposit_double_credit_witness:
  "\<exists>x s1 y s2. complete_with 9 None None (demo_deposit 3 1 100 DS_processing) demo_funded = Inr (x, s1) \<and>
     complete_with 9 None None (demo_deposit 3 1 100 DS_processing) s1 = Inr (y, s2) \<and>
     balance_in (wallets s2) 1 available = 300 \<and> \<not> conserved s2"
proof -
  obtain x s1 y s2 where run: "complete_with 9 None None (demo_deposit 3 1 100 DS_processing) demo_funded = Inr (x, s1)"
    "complete_with 9 None None (demo_deposit 3 1 100 DS_processing) s1 = Inr (y, s2)"
    using demo_double by blast
  have "find_deposit demo_funded 3 = Some (demo_deposit 3 1 100 DS_processing)"
    by (simp add: find_deposit_def demo_funded_def demo_deposit_def)
  from deposit_double_credit [OF demo_books(1) this run] show ?thesis
    using run by (auto simp: balance_in_def demo_funded_def demo_wallet_def field_of_def demo_deposit_def)
qed

section \<open>Withdrawals\<close>

lemma returned_withdrawal:
  assumes b: "books s" and w: "find_withdrawal s k = Some w"
    and run: "reject_withdrawal k why s = Inr (x, s') \<or> fail_withdrawal now k why s = Inr (x, s')"
  shows "balance_in (wallets s') u f = balance_in (wallets s) u f + shift (wd_user w) locked available (wd_amount w) u f"
    and "\<exists>w'. find_withdrawal s' k = Some w' \<and> wstatus w' \<in> {WS_rejected, WS_failed}"
proof -
  have id: "wd_id w = k" using w by (rule withdrawal_lookup)
  have c: "on_cent (wd_amount w)" using books_withdrawal [OF b w] by simp
  have "reject_withdrawal_with why w s = Inr (x, s') \<or> fail_withdrawal_with now why w s = Inr (x, s')"
    using run w by (auto simp: reject_withdrawal_def fail_withdrawal_def bind_tx_inv get_withdrawal_or_404_inv)
  then obtain g where st: "fund_step (shift (wd_user w) locked available (wd_amount w)) (deposits s)
      (row_upd wd_id k g (withdrawals s)) s s'" and g: "wstatus (g w) \<in> {WS_rejected, WS_failed}" "\<And>r. wd_id (g r) = wd_id r"
    using reject_withdrawal_with_step(3) [OF booksD(1) [OF b] c] fail_withdrawal_with_step(3) [OF booksD(1) [OF b] c] id
    by (fastforce simp: rejected_row_def failed_withdrawal_row_def)
  show "balance_in (wallets s') u f = balance_in (wallets s) u f + shift (wd_user w) locked available (wd_amount w) u f"
    by (rule fund_step_balance [OF st])
  show "\<exists>w'. find_withdrawal s' k = Some w' \<and> wstatus w' \<in> {WS_rejected, WS_failed}"
    using st w g by (simp add: fund_step_def find_withdrawal_def row_get_upd)
qed

text \<open>C26: from sound books, asking for a withdrawal of an amount that is not half way between two cents, and having it rejected
  or failed next, puts every balance back where it was. (One of 10.005 from 100.00 leaves 100.01.)\<close>

theorem withdrawal_round_trip:
  assumes "books s" and "\<not> half_cent_tie amount"
    and "create_withdrawal k u amount account cur dest s = Inr (x, s1)"
    and "reject_withdrawal k why s1 = Inr (y, s2) \<or> fail_withdrawal now k why s1 = Inr (y, s2)"
  shows "balance_in (wallets s2) v f = balance_in (wallets s) v f \<and>
    (\<exists>w. find_withdrawal s2 k = Some w \<and> wstatus w \<in> {WS_rejected, WS_failed})"
proof -
  note cr = create_withdrawal_step [OF booksD(1) [OF assms(1)] assms(2,3)]
  have b1: "books s1" using create_withdrawal_books [OF assms(1) _ assms(3)] assms(2) by simp
  have w: "find_withdrawal s1 k = Some x"
    using cr(2,6,7) by (simp add: fund_step_def find_withdrawal_def row_get_append)
  note ret = returned_withdrawal [OF b1 w assms(4)]
  show ?thesis
    using ret(1) [of v f] ret(2) fund_step_balance [OF cr(7), of v f] cr(4,5)
    by (simp add: change_simps)
qed

lemma demo_withdraws:
  "\<exists>x s1 y s2. create_withdrawal 41 1 50 ''acc'' ''ZAR'' None demo_funded = Inr (x, s1) \<and>
     reject_withdrawal 41 None s1 = Inr (y, s2)"
  by (simp add: eval_all create_withdrawal_def reject_withdrawal_def reject_withdrawal_with_def assert_transition_def
      withdrawal_terminal_def cong: lazily)

theorem withdrawal_round_trip_witness:
  "\<exists>x s1 y s2. create_withdrawal 41 1 50 ''acc'' ''ZAR'' None demo_funded = Inr (x, s1) \<and>
     reject_withdrawal 41 None s1 = Inr (y, s2) \<and> balance_in (wallets s2) 1 available = 100"
proof -
  obtain x s1 y s2 where run: "create_withdrawal 41 1 50 ''acc'' ''ZAR'' None demo_funded = Inr (x, s1)"
    "reject_withdrawal 41 None s1 = Inr (y, s2)"
    using demo_withdraws by blast
  have "\<not> half_cent_tie 50" by (simp add: half_cent_tie_code)
  from withdrawal_round_trip [OF demo_books(1) this run(1) disjI1 [OF run(2)], of 1 available]
  show ?thesis using run by (auto simp: balance_in_def demo_funded_def demo_wallet_def field_of_def)
qed

text \<open>The transitions of a withdrawal that are refused: anything from a terminal status, approving what is not
  pending, completing what is not approved or processing, rejecting what is being processed.\<close>

theorem withdrawal_transition_errors:
  assumes "find_withdrawal s k = Some w"
  shows "(wstatus w \<noteq> WS_pending \<longrightarrow> approve_withdrawal now k s = Inl ConflictError) \<and>
    (wstatus w \<notin> {WS_approved, WS_processing} \<longrightarrow> complete_withdrawal now k s = Inl ConflictError) \<and>
    (wstatus w \<notin> {WS_pending, WS_approved} \<longrightarrow> reject_withdrawal k why s = Inl ConflictError) \<and>
    (withdrawal_terminal (wstatus w) \<longrightarrow> fail_withdrawal now k why s = Inl ConflictError)"
  using assms
  by (cases "wstatus w")
     (auto simp: approve_withdrawal_def complete_withdrawal_def complete_withdrawal_with_def reject_withdrawal_def
      reject_withdrawal_with_def fail_withdrawal_def fail_withdrawal_with_def assert_transition_def
      withdrawal_terminal_def get_withdrawal_or_404_def tx_run)

theorem withdrawal_transition_errors_witness:
  "complete_withdrawal 9 41 (demo_held WS_pending) = Inl ConflictError \<and>
   approve_withdrawal 9 41 (demo_held WS_approved) = Inl ConflictError"
proof -
  have "find_withdrawal (demo_held st) 41 = Some (demo_withdrawal st)" for st
    by (simp add: find_withdrawal_def demo_held_def demo_withdrawal_def)
  note f = this
  show ?thesis
    using withdrawal_transition_errors [OF f [of WS_pending], of 9] withdrawal_transition_errors [OF f [of WS_approved], of 9]
    by (simp add: demo_withdrawal_def)
qed

section \<open>PayFast notifications\<close>

text \<open>C20: a notification can only do two things. Any other change of the state is ruled out: either it leaves the state
  as it was (but for released locks), or it names a deposit that is not terminal and carries a valid
  signature; and money moves only if the merchant and the amount paid are verified as well, by exactly the deposit's amount.\<close>

theorem notification_moves_only_verified_money:
  assumes "books s" and "balance_in (wallets (snd (payfast_itn std cfg now form s))) u f \<noteq> balance_in (wallets s) u f"
  shows "\<exists>items d. form = Some items \<and> find_deposit s (dep_id d) = Some d \<and> \<not> deposit_terminal (dstatus d) \<and>
    uuid_parse std (dict_get (dict_of_items items) ''m_payment_id'' []) = Some (dep_id d) \<and>
    verify_itn std cfg (dict_of_items items) (dep_amount d) = itn_ok \<and>
    verify_itn_signature std (dict_of_items items) (passphrase_of cfg) \<and>
    u = dep_user d \<and> f = available \<and>
    balance_in (wallets (snd (payfast_itn std cfg now form s))) u f = balance_in (wallets s) u f + dep_amount d"
proof (rule payfast_itn_cases [of std cfg now form s])
  fix items and d :: deposit_request and ref
  let ?m = "complete_deposit now (dep_id d) ref (Some [Lit ''PayFast ITN -- COMPLETE''])"
  assume c: "form = Some items" "find_deposit s (dep_id d) = Some d" "\<not> deposit_terminal (dstatus d)"
      "uuid_parse std (dict_get (dict_of_items items) ''m_payment_id'' []) = Some (dep_id d)"
      "verify_itn std cfg (dict_of_items items) (dep_amount d) = itn_ok"
    and eq: "snd (payfast_itn std cfg now form s) = run_request ?m s"
  have sig: "verify_itn_signature std (dict_of_items items) (passphrase_of cfg)"
    using c(5) by (auto simp: verify_itn_def split: if_splits)
  obtain x s' where run: "?m s = Inr (x, s')"
    using assms(2) by (cases "?m s") (auto simp: eq run_request_commit commit_def)
  have "balance_in (wallets s') v g = balance_in (wallets s) v g + only (dep_user d) available (dep_amount d) v g" for v g
    by (rule complete_deposit_facts [OF assms(1) run]) (use c(2) fund_step_balance in fastforce)
  then have moved: "balance_in (wallets (snd (payfast_itn std cfg now form s))) u f =
      balance_in (wallets s) u f + only (dep_user d) available (dep_amount d) u f"
    by (simp add: eq run run_request_commit commit_def)
  then have "u = dep_user d" "f = available"
    using assms(2) by (auto simp: only_def split: if_splits)
  then show ?thesis
    using moved c sig by (intro exI [of _ items] exI [of _ d]) (simp add: only_def)
next
  fix items and d :: deposit_request and why
  let ?m = "fail_deposit now (dep_id d) why"
  assume eq: "snd (payfast_itn std cfg now form s) = run_request ?m s"
  obtain x s' where run: "?m s = Inr (x, s')"
    using assms(2) by (cases "?m s") (auto simp: eq run_request_commit commit_def)
  have "balance_in (wallets s') v g = balance_in (wallets s) v g" for v g
    by (rule fail_deposit_step [OF booksD(1) [OF assms(1)] run]) (use fund_step_balance in fastforce)
  then show ?thesis using assms(2) run by (simp add: eq run_request_commit commit_def)
qed (use assms(2) in simp)

text \<open>A genuine notification for the deposit in progress, signed by the checksum of the demo library.\<close>

definition demo_itn_fields :: "string \<Rightarrow> (string \<times> string) list" where
  "demo_itn_fields status = [(''m_payment_id'', ''abc''), (''pf_payment_id'', ''77''), (''payment_status'', status),
     (''amount_gross'', ''100.00''), (''merchant_id'', ''10000100'')]"

definition demo_itn :: "string \<Rightarrow> (string \<times> string) list" where
  "demo_itn status = demo_itn_fields status @
     [(''signature'', build_signature_string (demo_itn_fields status) (Some ''jt7NOE43FZPn''))]"

lemma demo_itn_dict: "dict_of_items (demo_itn status) = demo_itn status"
  by (simp add: dict_of_items_def demo_itn_def demo_itn_fields_def)

lemma demo_itn_verifies:
  "itn_verified demo_std demo_settings (demo_itn ''COMPLETE'') (demo_deposit 3 1 100 st)"
  "verify_itn_signature demo_std (demo_itn status) (Some ''jt7NOE43FZPn'')"
  by (simp_all add: itn_verified_def verify_itn_def verify_itn_signature_def demo_itn_def demo_itn_fields_def
      dict_get_def demo_std_def demo_settings_def passphrase_of_def demo_deposit_def Let_def)

lemma demo_itn_get:
  "dict_get (demo_itn status) ''m_payment_id'' [] = ''abc''" "dict_get (demo_itn status) ''payment_status'' [] = status"
  "dict_get (demo_itn status) ''pf_payment_id'' [] = ''77''" "dict_get (demo_itn status) ''payment_date'' [] = []"
  "map_of (demo_itn status) ''merchant_id'' = Some ''10000100''"
  by (simp_all add: demo_itn_def demo_itn_fields_def dict_get_def)

lemma demo_itn_step:
  "snd (payfast_itn demo_std demo_settings 9 (Some (demo_itn ''COMPLETE'')) demo_funded) =
     run_request (complete_deposit 9 3 (Some ''77'') (Some [Lit ''PayFast ITN -- COMPLETE''])) demo_funded"
proof -
  have row: "find_deposit demo_funded 3 = Some (demo_deposit 3 1 100 DS_processing)"
    by (simp add: find_deposit_def demo_funded_def demo_deposit_def)
  have id: "uuid_parse demo_std ''abc'' = Some 3" by (simp add: demo_std_def)
  have age: "verify_itn_timestamp demo_std 9 (demo_itn ''COMPLETE'')"
    by (simp add: verify_itn_timestamp_def demo_itn_get)
  have open_deposit: "\<not> deposit_terminal (dstatus (demo_deposit 3 u 100 DS_processing))"
    "dep_id (demo_deposit 3 u 100 DS_processing) = 3" for u
    by (simp_all add: demo_deposit_def deposit_terminal_def)
  have step: "process_itn 9 (demo_itn ''COMPLETE'') (demo_deposit 3 1 100 DS_processing) demo_funded =
      run_request (complete_deposit 9 3 (Some ''77'') (Some [Lit ''PayFast ITN -- COMPLETE''])) demo_funded"
    unfolding process_itn_def by (simp add: demo_itn_get open_deposit Let_def)
  have nonempty: "dict_get (demo_itn ''COMPLETE'') ''m_payment_id'' [] \<noteq> []" by (simp add: demo_itn_get)
  show ?thesis
    unfolding payfast_itn_def option.case demo_itn_dict Let_def snd_conv if_not_P [OF nonempty]
    by (simp only: demo_itn_get id option.case row age demo_itn_verifies step simp_thms if_False)
qed

lemma demo_itn_completes:
  "\<exists>d s'. complete_deposit 9 3 (Some ''77'') (Some [Lit ''PayFast ITN -- COMPLETE'']) demo_funded = Inr (d, s')"
  by (simp add: eval_all complete_deposit_def complete_with_def completed_row_def deposit_terminal_def
      deposit_completable_def cong: lazily)

lemma demo_funded_balance: "balance_in (wallets demo_funded) 1 available = 100"
  by (simp add: balance_in_def demo_funded_def demo_wallet_def field_of_def)

lemma demo_itn_credits:
  "balance_in (wallets (snd (payfast_itn demo_std demo_settings 9 (Some (demo_itn ''COMPLETE'')) demo_funded))) 1 available = 200"
proof -
  obtain d s' where run: "complete_deposit 9 3 (Some ''77'') (Some [Lit ''PayFast ITN -- COMPLETE'']) demo_funded = Inr (d, s')"
    using demo_itn_completes by blast
  have row: "find_deposit demo_funded 3 = Some (demo_deposit 3 1 100 DS_processing)"
    by (simp add: find_deposit_def demo_funded_def demo_deposit_def)
  have "balance_in (wallets s') 1 available =
      balance_in (wallets demo_funded) 1 available + only 1 available 100 1 available"
    by (rule complete_deposit_facts [OF demo_books(1) run]) (use row fund_step_balance in \<open>fastforce simp: demo_deposit_def\<close>)
  then show ?thesis
    unfolding demo_itn_step run_request_commit commit_def run demo_funded_balance by (simp add: only_def)
qed

theorem notification_moves_only_verified_money_witness:
  "\<exists>items d. Some (demo_itn ''COMPLETE'') = Some items \<and> find_deposit demo_funded (dep_id d) = Some d \<and>
     dep_user d = 1 \<and> dep_amount d = 100 \<and> verify_itn demo_std demo_settings (dict_of_items items) 100 = itn_ok"
proof -
  note before = demo_funded_balance
  from before demo_itn_credits have "balance_in (wallets (snd (payfast_itn demo_std demo_settings 9
      (Some (demo_itn ''COMPLETE'')) demo_funded))) 1 available \<noteq> balance_in (wallets demo_funded) 1 available"
    by simp
  from notification_moves_only_verified_money [OF demo_books(1) this] obtain d
    where d: "find_deposit demo_funded (dep_id d) = Some d" "dep_user d = 1"
      "verify_itn demo_std demo_settings (dict_of_items (demo_itn ''COMPLETE'')) (dep_amount d) = itn_ok"
      "200 = 100 + dep_amount d"
    using demo_itn_credits before by auto
  then have "dep_amount d = 100" by simp
  with d show ?thesis by auto
qed

end
