(* ===== verification/Payfast_Properties.thy ===== *)
theory Payfast_Properties
  imports Funding_Properties
begin

text \<open>
  The PayFast integration: what the signature covers, what the checkout URL says, when the amount
  PayFast reports is the amount stored, and the delivery of a notification more than once.
\<close>

section \<open>Splitting what was joined\<close>

fun split_at :: "char \<Rightarrow> string \<Rightarrow> string list" where
  "split_at c [] = [[]]"
| "split_at c (x # xs) =
     (if x = c then [] # split_at c xs
      else case split_at c xs of [] \<Rightarrow> [[x]] | w # ws \<Rightarrow> (x # w) # ws)"

lemma split_at_plain: "c \<notin> set w \<Longrightarrow> split_at c w = [w]"
  by (induction w) auto

lemma split_at_sep: "c \<notin> set w \<Longrightarrow> split_at c (w @ c # r) = w # split_at c r"
  by (induction w) auto

lemma split_at_join:
  "ws \<noteq> [] \<Longrightarrow> \<forall>w \<in> set ws. c \<notin> set w \<Longrightarrow> split_at c (join_with [c] ws) = ws"
proof (induction "[c]" ws rule: join_with.induct)
  case (3 x y zs)
  then show ?case by (simp add: split_at_sep)
qed (simp_all add: split_at_plain)

text \<open>The characters quoting can produce.\<close>

lemma hex_digit_plain: "n < 16 \<Longrightarrow> hex_digit n \<notin> {CHR ''&'', CHR ''=''}"
  by (auto simp: hex_digit_def split: if_splits dest!: arg_cong [where f = "of_char :: char \<Rightarrow> nat"])

lemma quote_char_plain: "set (quote_char c) \<inter> {CHR ''&'', CHR ''=''} = {}"
proof (cases "unreserved c")
  case True
  then show ?thesis by (auto simp: quote_char_def unreserved_def Let_def)
next
  case False
  have "(of_char c :: nat) div 16 < 16"
    using of_char_less [of c] by (intro less_mult_imp_div_less) linarith
  with False show ?thesis
    using hex_digit_plain [of "of_char c div 16"] hex_digit_plain [of "of_char c mod 16"]
    by (auto simp: quote_char_def Let_def)
qed

lemma quote_plus_plain: "CHR ''&'' \<notin> set (quote_plus s)" "CHR ''='' \<notin> set (quote_plus s)"
  using quote_char_plain by (fastforce simp: quote_plus_def)+

text \<open>Reading a query string back, as the receiving side does.\<close>

definition parse_pair :: "string \<Rightarrow> string \<times> string" where
  "parse_pair p = (case split_at CHR ''='' p of [k, v] \<Rightarrow> (unquote_plus k, unquote_plus v) | _ \<Rightarrow> (unquote_plus p, []))"

definition parse_query :: "string \<Rightarrow> str_dict" where
  "parse_query q = map parse_pair (split_at CHR ''&'' q)"

lemma parse_pair_quoted: "parse_pair (quote_plus k @ ''='' @ quote_plus v) = (k, v)"
  by (simp add: parse_pair_def split_at_sep split_at_plain quote_plus_plain unquote_quote)

lemma parse_urlencode: "d \<noteq> [] \<Longrightarrow> parse_query (urlencode d) = d"
proof -
  assume "d \<noteq> []"
  then have "split_at CHR ''&'' (urlencode d) = map (\<lambda>(k, v). quote_plus k @ ''='' @ quote_plus v) d"
    unfolding urlencode_def by (intro split_at_join) (auto simp: quote_plus_plain)
  then show ?thesis
    by (simp add: parse_query_def parse_pair_quoted comp_def case_prod_beta' del: append_Cons append.simps)
qed

text \<open>C36: the checkout URL loses nothing. What a browser sends PayFast after the question mark decodes to exactly
  the signed parameters, whatever bytes the buyer's data holds, and their signature verifies.\<close>

theorem checkout_url_round_trip:
  "\<exists>query. build_checkout_url cfg (build_checkout_params std cfg k amount e f l) = payfast_checkout_url cfg @ ''?'' @ query \<and>
     parse_query query = build_checkout_params std cfg k amount e f l \<and>
     verify_itn_signature std (parse_query query) (passphrase_of cfg)"
proof -
  have "build_checkout_params std cfg k amount e f l \<noteq> []" by (simp add: build_checkout_params_def Let_def)
  then show ?thesis
    by (simp add: build_checkout_url_def parse_urlencode checkout_params_verify)
qed

section \<open>What the signature covers\<close>

lemma join_with_inj:
  "join_with [c] xs = join_with [c] ys \<Longrightarrow> xs \<noteq> [] \<Longrightarrow> ys \<noteq> [] \<Longrightarrow>
     \<forall>w \<in> set xs. c \<notin> set w \<Longrightarrow> \<forall>w \<in> set ys. c \<notin> set w \<Longrightarrow> xs = ys"
  using split_at_join by metis

lemma join_with_shape:
  "map fst p = map fst q \<Longrightarrow> list_all (\<lambda>(k, v). CHR ''&'' \<notin> set k) p \<Longrightarrow>
   join_with ''&'' (map (\<lambda>(k, v). k @ ''='' @ quote_plus v) p) = join_with ''&'' (map (\<lambda>(k, v). k @ ''='' @ quote_plus v) q) \<Longrightarrow>
   p = q"
proof (cases "p = []")
  case False
  assume keys: "map fst p = map fst q" and amp: "list_all (\<lambda>(k, v). CHR ''&'' \<notin> set k) p"
    and eq: "join_with ''&'' (map (\<lambda>(k, v). k @ ''='' @ quote_plus v) p) =
      join_with ''&'' (map (\<lambda>(k, v). k @ ''='' @ quote_plus v) q)"
  have "\<forall>k \<in> set (map fst p). CHR ''&'' \<notin> set k" using amp by (auto simp: list_all_iff)
  then have both: "\<forall>k \<in> set (map fst p). CHR ''&'' \<notin> set k" "\<forall>k \<in> set (map fst q). CHR ''&'' \<notin> set k"
    using keys by simp_all
  have "q \<noteq> []" using keys False by auto
  have plain: "\<forall>w \<in> set (map (\<lambda>(k, v). k @ ''='' @ quote_plus v) r). CHR ''&'' \<notin> set w"
    if "\<forall>k \<in> set (map fst r). CHR ''&'' \<notin> set k" for r :: str_dict
    using that by (auto simp: quote_plus_plain)
  have "map (\<lambda>(k, v). k @ ''='' @ quote_plus v) p = map (\<lambda>(k, v). k @ ''='' @ quote_plus v) q"
    using join_with_inj [OF eq _ _ plain [OF both(1)] plain [OF both(2)]] False \<open>q \<noteq> []\<close> by simp
  then show ?thesis using keys
  proof (induction p arbitrary: q)
    case (Cons x p)
    then obtain y q' where q: "q = y # q'" by (cases q) auto
    then have "fst x = fst y" using Cons.prems(2) by simp
    then have "x = y" using Cons.prems(1) q by (cases x; cases y) (simp add: quote_plus_inj)
    then show ?case using Cons.IH [of q'] Cons.prems q by simp
  qed simp
qed simp

text \<open>The signed string determines every value. Two notifications with the same fields, in the same order, that
  give the same string to hash are the same but for the signature itself: no value can be altered, and no part of
  one value moved into another, without changing what is hashed.\<close>

theorem signature_covers_every_value:
  assumes "map fst p = map fst q" and "list_all (\<lambda>(k, v). CHR ''&'' \<notin> set k) p"
    and "build_signature_string p pass = build_signature_string q pass"
  shows "filter (\<lambda>(k, v). k \<noteq> ''signature'') p = filter (\<lambda>(k, v). k \<noteq> ''signature'') q"
proof (rule join_with_shape)
  have fst_filter: "map fst (filter (\<lambda>(k, v). k \<noteq> ''signature'') r) = filter (\<lambda>k. k \<noteq> ''signature'') (map fst r)" for r :: str_dict
    by (induction r) auto
  show "map fst (filter (\<lambda>(k, v). k \<noteq> ''signature'') p) = map fst (filter (\<lambda>(k, v). k \<noteq> ''signature'') q)"
    unfolding fst_filter assms(1) ..
  show "list_all (\<lambda>(k, v). CHR ''&'' \<notin> set k) (filter (\<lambda>(k, v). k \<noteq> ''signature'') p)"
    using assms(2) by (auto simp: list_all_iff)
  show "join_with ''&'' (map (\<lambda>(k, v). k @ ''='' @ quote_plus v) (filter (\<lambda>(k, v). k \<noteq> ''signature'') p)) =
    join_with ''&'' (map (\<lambda>(k, v). k @ ''='' @ quote_plus v) (filter (\<lambda>(k, v). k \<noteq> ''signature'') q))"
    using assms(3) by (simp add: build_signature_string_def percent_encode_def)
qed

theorem signature_covers_every_value_witness:
  "build_signature_string [(''amount_gross'', ''10.00''), (''name'', ''a&b=c'')] (Some ''p'') \<noteq>
   build_signature_string [(''amount_gross'', ''90.00''), (''name'', ''a&b=c'')] (Some ''p'')"
  using signature_covers_every_value [of "[(''amount_gross'', ''10.00''), (''name'', ''a&b=c'')]"
      "[(''amount_gross'', ''90.00''), (''name'', ''a&b=c'')]" "Some ''p''"] by auto

section \<open>The amount paid and the amount stored\<close>

text \<open>Rounding half up is rounding half to even, but for a tie above an even number of cents.\<close>

lemma half_up_half_even:
  assumes "0 \<le> x"
  shows "round_half_even x = round_half_away x \<longleftrightarrow> \<not> (x + 1 / 2 \<in> \<int> \<and> even \<lfloor>x\<rfloor>)"
proof -
  let ?f = "\<lfloor>x\<rfloor>"
  have fl: "of_int ?f \<le> x" "x < of_int ?f + 1" by linarith+
  consider (low) "x - of_int ?f < 1 / 2" | (tie) "x - of_int ?f = 1 / 2" | (high) "1 / 2 < x - of_int ?f" by linarith
  then show ?thesis
  proof cases
    case low
    then have "round_half_away x = ?f" using assms fl by (simp add: round_half_away_def) linarith
    moreover have "x + 1 / 2 \<notin> \<int>"
    proof
      assume "x + 1 / 2 \<in> \<int>"
      then obtain k where "x + 1 / 2 = of_int k" by (auto elim: Ints_cases)
      then have "of_int ?f < (of_int k :: rat)" "(of_int k :: rat) < of_int (?f + 1)" using fl low by linarith+
      then have "?f < k" "k < ?f + 1" by (simp_all only: of_int_less_iff)
      then show False by simp
    qed
    ultimately show ?thesis using low by (simp add: round_half_even_def Let_def)
  next
    case tie
    then have up: "round_half_away x = ?f + 1" using assms fl by (simp add: round_half_away_def) linarith
    have "x + 1 / 2 = of_int (?f + 1)" using tie by simp
    then have "x + 1 / 2 \<in> \<int>" by (metis Ints_of_int)
    with tie up show ?thesis by (simp add: round_half_even_def Let_def)
  next
    case high
    then have up: "round_half_away x = ?f + 1" using assms fl by (simp add: round_half_away_def) linarith
    moreover have "x + 1 / 2 \<notin> \<int>"
    proof
      assume "x + 1 / 2 \<in> \<int>"
      then obtain k where "x + 1 / 2 = of_int k" by (auto elim: Ints_cases)
      then have "of_int (?f + 1) < (of_int k :: rat)" "(of_int k :: rat) < of_int (?f + 2)" using fl high by linarith+
      then have "?f + 1 < k" "k < ?f + 2" by (simp_all only: of_int_less_iff)
      then show False by simp
    qed
    ultimately show ?thesis using high by (simp add: round_half_even_def Let_def)
  qed
qed

text \<open>PayFast is asked for the amount rounded half to even while the deposit stores it rounded half up. A paid,
  correctly signed notification for the amount of the checkout is therefore accepted unless the requested amount lies half way
  above an even number of cents, and then it is refused: the payment is taken and never credited.\<close>

theorem checkout_amount_accepted:
  assumes "books s" and "initiate_payfast_deposit std cfg k u amount e f l s = Inr (x, s')"
    and "decimal_parse std (format_2f amount) = Some (of_int (round_half_even (amount * 100)) / 100)"
    and "map_of itn ''amount_gross'' = Some (format_2f amount)" and "map_of itn ''payment_status'' = Some ''COMPLETE''"
    and "map_of itn ''merchant_id'' = Some (payfast_merchant_id cfg)" and "verify_itn_signature std itn (passphrase_of cfg)"
  shows "verify_itn std cfg itn (dep_amount x) = itn_ok \<longleftrightarrow> \<not> (half_cent_tie amount \<and> even \<lfloor>amount * 100\<rfloor>)"
proof -
  note st = initiate_payfast_step [OF booksD(1) [OF assms(1)] assms(2)]
  have "(of_int (round_half_even (amount * 100)) / 100 = dep_amount x) =
      (round_half_even (amount * 100) = round_half_away (amount * 100))"
    by (simp add: st(4) round_half_up_def)
  then show ?thesis
    using half_up_half_even [of "amount * 100"] st(1) assms(3-7)
    by (auto simp: verify_itn_def dict_get_def half_cent_tie_def)
qed

text \<open>A checkout of 10.005: 10.00 is charged, 10.01 is expected. Decimals are read as 10.\<close>

definition tie_std :: stdlib where
  "tie_std = demo_std\<lparr>decimal_parse := (\<lambda>s. Some 10)\<rparr>"

lemma tie_initiates:
  "\<exists>x s'. initiate_payfast_deposit tie_std demo_settings 5 1 (2001 / 200) None None None demo_funded = Inr (x, s')"
  by (simp add: eval_all initiate_payfast_deposit_def create_deposit_def tie_std_def demo_std_def cong: lazily)

definition tie_itn_fields :: str_dict where
  "tie_itn_fields = [(''amount_gross'', format_2f (2001 / 200)), (''payment_status'', ''COMPLETE''), (''merchant_id'', ''10000100'')]"

definition tie_itn :: str_dict where
  "tie_itn = tie_itn_fields @ [(''signature'', build_signature_string tie_itn_fields (Some ''jt7NOE43FZPn''))]"

lemma tie_itn_get:
  "map_of tie_itn ''amount_gross'' = Some (format_2f (2001 / 200))" "map_of tie_itn ''payment_status'' = Some ''COMPLETE''"
  "map_of tie_itn ''merchant_id'' = Some (payfast_merchant_id demo_settings)"
  "verify_itn_signature tie_std tie_itn (passphrase_of demo_settings)"
  by (simp_all add: tie_itn_def tie_itn_fields_def demo_settings_def verify_itn_signature_def dict_get_def tie_std_def
      demo_std_def passphrase_of_def)

theorem checkout_amount_accepted_witness:
  "\<exists>x s'. initiate_payfast_deposit tie_std demo_settings 5 1 (2001 / 200) None None None demo_funded = Inr (x, s') \<and>
     verify_itn tie_std demo_settings tie_itn (dep_amount x) \<noteq> itn_ok"
proof -
  obtain x s' where run:
    "initiate_payfast_deposit tie_std demo_settings 5 1 (2001 / 200) None None None demo_funded = Inr (x, s')"
    using tie_initiates by blast
  have "decimal_parse tie_std (format_2f (2001 / 200)) = Some (of_int (round_half_even (2001 / 200 * 100)) / 100)"
    by (simp add: tie_std_def round_half_even_def)
  from checkout_amount_accepted [OF demo_books(1) run this tie_itn_get] show ?thesis
    using run by (simp add: half_cent_tie_code)
qed

section \<open>Notifications delivered more than once\<close>

lemma terminal_ignored:
  assumes "form = Some items" and "uuid_parse std (dict_get (dict_of_items items) ''m_payment_id'' []) = Some k"
    and "find_deposit s k = Some d" and "deposit_terminal (dstatus d)"
  shows "payfast_itn std cfg now form s = (''OK'', s)"
  using assms by (simp add: payfast_itn_def process_itn_def Let_def)

text \<open>A transaction that changed more than the locks committed.\<close>

lemma changed_committed:
  assumes "run_request m s \<noteq> s\<lparr>row_locks := []\<rparr>"
  obtains x s' where "m s = Inr (x, s')" and "run_request m s = s'\<lparr>row_locks := []\<rparr>"
  using assms by (cases "m s") (auto simp: run_request_commit commit_def)

text \<open>The deposit a notification settled is in a terminal status.\<close>

lemma notified_deposit:
  assumes "books s" and "snd (payfast_itn std cfg now form s) \<notin> {s, s\<lparr>row_locks := []\<rparr>}"
  obtains items k d where "form = Some items"
    and "uuid_parse std (dict_get (dict_of_items items) ''m_payment_id'' []) = Some k"
    and "find_deposit (snd (payfast_itn std cfg now form s)) k = Some d" and "dstatus d \<in> {DS_completed, DS_failed}"
proof (rule payfast_itn_cases [of std cfg now form s])
  fix items and d :: deposit_request and ref
  let ?m = "complete_deposit now (dep_id d) ref (Some [Lit ''PayFast ITN -- COMPLETE''])"
  assume c: "form = Some items"
      "uuid_parse std (dict_get (dict_of_items items) ''m_payment_id'' []) = Some (dep_id d)"
    and eq: "snd (payfast_itn std cfg now form s) = run_request ?m s"
  obtain x s' where run: "?m s = Inr (x, s')" "run_request ?m s = s'\<lparr>row_locks := []\<rparr>"
    using assms(2) by (auto simp: eq elim: changed_committed)
  obtain r where "find_deposit s' (dep_id d) = Some r" "dstatus r = DS_completed"
    by (rule complete_deposit_facts [OF assms(1) run(1)]) (auto simp: completed_row_def)
  then show thesis using that [OF c] by (simp add: eq run(2) find_deposit_def)
next
  fix items and d :: deposit_request and why
  let ?m = "fail_deposit now (dep_id d) why"
  assume c: "form = Some items"
      "uuid_parse std (dict_get (dict_of_items items) ''m_payment_id'' []) = Some (dep_id d)"
    and eq: "snd (payfast_itn std cfg now form s) = run_request ?m s"
  obtain x s' where run: "?m s = Inr (x, s')" "run_request ?m s = s'\<lparr>row_locks := []\<rparr>"
    using assms(2) by (auto simp: eq elim: changed_committed)
  obtain r where "find_deposit s' (dep_id d) = Some r" "dstatus r = DS_failed"
    by (rule fail_deposit_step [OF booksD(1) [OF assms(1)] run(1)])
       (auto simp: fund_step_def find_deposit_def row_get_upd failed_row_def)
  then show thesis using that [OF c] by (simp add: eq run(2) find_deposit_def)
qed (use assms(2) in simp)

text \<open>C21: PayFast may deliver a notification any number of times. Once it has settled its deposit, delivering it again, at any
  later time and after any other requests, answers OK and changes nothing.\<close>

theorem notification_idempotent:
  assumes "books s" and "list_all admissible rs"
    and "snd (payfast_itn std cfg now form s) \<notin> {s, s\<lparr>row_locks := []\<rparr>}"
    and "s' = run std cfg rs (snd (payfast_itn std cfg now form s))"
  shows "payfast_itn std cfg now' form s' = (''OK'', s')"
proof -
  obtain items k d where d: "form = Some items"
    "uuid_parse std (dict_get (dict_of_items items) ''m_payment_id'' []) = Some k"
    "find_deposit (snd (payfast_itn std cfg now form s)) k = Some d" "dstatus d \<in> {DS_completed, DS_failed}"
    by (rule notified_deposit [OF assms(1,3)])
  note path = run_serves [OF payfast_itn_books [OF assms(1)] assms(2), where std = std and cfg = cfg]
  have "\<not> deposit_edge (dstatus d) t" for t using d(4) by (auto simp: deposit_edge_def)
  then obtain e where "find_deposit s' k = Some e" "dstatus e = dstatus d"
    using deposit_life.final_status [OF path] d(3) unfolding assms(4) by (fastforce simp: find_deposit_def)
  then show ?thesis
    using terminal_ignored [OF d(1,2)] d(4) by (auto simp: deposit_terminal_def)
qed

theorem notification_idempotent_witness:
  "let s' = run demo_std demo_settings [CancelBet alice 31]
      (snd (payfast_itn demo_std demo_settings 9 (Some (demo_itn ''COMPLETE'')) demo_funded)) in
   payfast_itn demo_std demo_settings 11 (Some (demo_itn ''COMPLETE'')) s' = (''OK'', s')"
proof -
  have "balance_in (wallets (snd (payfast_itn demo_std demo_settings 9 (Some (demo_itn ''COMPLETE'')) demo_funded))) 1
      available \<noteq> balance_in (wallets demo_funded) 1 available"
    unfolding demo_itn_credits demo_funded_balance by simp
  then have "snd (payfast_itn demo_std demo_settings 9 (Some (demo_itn ''COMPLETE'')) demo_funded) \<notin>
      {demo_funded, demo_funded\<lparr>row_locks := []\<rparr>}"
    by auto
  from notification_idempotent [OF demo_books(1) _ this refl, of "[CancelBet alice 31]"] show ?thesis
    by (simp add: Let_def)
qed

end
