(* ===== verification/Auth_Properties.thy ===== *)
theory Auth_Properties
  imports Scenario
begin

text \<open>
  Accounts: a registered user can log in and is recognised by the token, the login lockout is a count of recent
  failures, and a password-reset token is also accepted as an access token.
\<close>

section \<open>Tokens\<close>

text \<open>
  What the JWT library documents, for one token: encoding gives a non-empty string that decodes, until it expires and
  under the same key and algorithm, to the same claims.
\<close>

definition honours :: "auth_lib \<Rightarrow> settings \<Rightarrow> claims \<Rightarrow> datetime \<Rightarrow> datetime \<Rightarrow> bool" where
  "honours lib cfg c iat until \<longleftrightarrow>
     (let token = jwt_encode lib c iat until (secret_key cfg) (jwt_algorithm cfg) in
      token \<noteq> [] \<and> (\<forall>now \<le> until. jwt_decode lib now token (secret_key cfg) (jwt_algorithm cfg) = Some c))"

text \<open>The text of an id is not empty and parses back.\<close>

definition uuid_text_ok :: "stdlib \<Rightarrow> uuid \<Rightarrow> bool" where
  "uuid_text_ok std u \<longleftrightarrow> uuid_text std u \<noteq> [] \<and> uuid_parse std (uuid_text std u) = Some u"

definition access_claims :: "stdlib \<Rightarrow> uuid \<Rightarrow> string \<Rightarrow> claims" where
  "access_claims std u role = \<lparr>sub_claim = Some (uuid_text std u), role_claim = Some role, type_claim = None\<rparr>"

definition reset_claims :: "stdlib \<Rightarrow> uuid \<Rightarrow> claims" where
  "reset_claims std u = \<lparr>sub_claim = Some (uuid_text std u), role_claim = None, type_claim = Some ''password_reset''\<rparr>"

lemma bearer_current_user:
  assumes "honours lib cfg c iat until" and "now \<le> until" and "str_lower sch = ''bearer''"
    and "sub_claim c = Some (uuid_text std u)" and "uuid_text_ok std u" and "find_user s u = Some v"
  shows "get_current_user std lib cfg now
    (Some \<lparr>scheme = sch, bearer = jwt_encode lib c iat until (secret_key cfg) (jwt_algorithm cfg)\<rparr>) s = Inr (v, s)"
  using assms
  by (simp add: get_current_user_def extract_token_def user_of_token_def decode_access_token_def honours_def Let_def
      extract_user_id_def uuid_text_ok_def load_user_def tx_run)

text \<open>C28: registration, login and recognition fit together. A user who registered can log in with the same
  password and any spelling of the address that normalises to the same, is recognised by the token until it expires,
  is not an administrator, and has an empty wallet; the failed attempts on the address are forgotten.\<close>

theorem register_login_round_trip:
  assumes "register std lib cfg now u i salt req s = Inr (t, s1)"
    and "\<forall>p. pwd_verify lib p (pwd_hash lib salt p)" and "uuid_text_ok std u"
    and "honours lib cfg (access_claims std u ''user'') now' (now' + minutes (access_token_expire_minutes cfg))"
    and "str_strip (str_lower e) = str_strip (str_lower (reg_email req))"
    and "\<not> fst (is_locked (str_strip (str_lower e)) checked tr)"
    and "later \<le> now' + minutes (access_token_expire_minutes cfg)" and "str_lower sch = ''bearer''"
  shows "\<exists>t' tr'. login std lib cfg now' checked decided e (reg_password req) s1 tr = (Inr t', tr') \<and>
    get_current_user std lib cfg later (Some \<lparr>scheme = sch, bearer = access_token t'\<rparr>) s1 =
      Inr (registered_user lib u salt req, s1) \<and>
    get_current_admin std lib cfg later (Some \<lparr>scheme = sch, bearer = access_token t'\<rparr>) s1 = Inl ForbiddenError \<and>
    tr' (str_strip (str_lower e)) = None \<and>
    balance_in (wallets s1) u available = 0 \<and> balance_in (wallets s1) u locked = 0"
proof (rule register_inv [OF assms(1)])
  fix w
  let ?v = "registered_user lib u salt req"
  assume new: "find_user s u = None" "find_by_email s (str_strip (str_lower (reg_email req))) = None"
    and wal: "create_wallet i u (platform_currency cfg) (s\<lparr>users := users s @ [?v]\<rparr>) = Inr (w, s1)"
  have us: "users s1 = users s @ [?v]" and bal: "balance_in (wallets s1) u f = 0" for f
    using wal by (auto simp: create_wallet_def bind_tx_inv seq_tx_inv get_by_user_id_inv Let_def balance_in_def
        row_get_append field_of_def split: balance_field.split)
  have v: "find_user s1 u = Some ?v"
    using new(1) by (simp add: find_user_def us row_get_append registered_user_def)
  have mail: "find_by_email s1 (str_strip (str_lower e)) = Some ?v"
  proof -
    have "find_by_email q x = row_get email x (users q)" for q :: db and x by (simp add: find_by_email_def row_get_def)
    then show ?thesis using new(2) by (simp add: us row_get_append assms(5) registered_user_def)
  qed
  obtain tr1 where lk: "is_locked (str_strip (str_lower e)) checked tr = (False, tr1)"
    using assms(6) by (cases "is_locked (str_strip (str_lower e)) checked tr") auto
  have run: "login std lib cfg now' checked decided e (reg_password req) s1 tr =
      (Inr (token_for std lib cfg now' ?v), clear_attempts (str_strip (str_lower e)) tr1)"
    using mail assms(2) by (simp add: login_def lk Let_def normal_email verify_password_def registered_user_def hash_password_def)
  have tok: "access_token (token_for std lib cfg now' ?v) = jwt_encode lib (access_claims std u ''user'') now'
      (now' + minutes (access_token_expire_minutes cfg)) (secret_key cfg) (jwt_algorithm cfg)"
    by (simp add: token_for_def create_access_token_def access_claims_def registered_user_def role_value_def)
  have cur: "get_current_user std lib cfg later (Some \<lparr>scheme = sch, bearer = access_token (token_for std lib cfg now' ?v)\<rparr>) s1
      = Inr (?v, s1)"
    unfolding tok by (rule bearer_current_user [OF assms(4,7,8) _ assms(3) v]) (simp add: access_claims_def)
  then have "get_current_admin std lib cfg later (Some \<lparr>scheme = sch, bearer = access_token (token_for std lib cfg now' ?v)\<rparr>) s1
      = Inl ForbiddenError"
    by (simp add: get_current_admin_def tx_run registered_user_def role_value_def)
  with run cur bal show ?thesis by (simp add: clear_attempts_def)
qed

text \<open>Tokens for user 1 of the demo library: one for access and one for a reset.\<close>

definition token_lib :: auth_lib where
  "token_lib = \<lparr>pwd_hash = (\<lambda>salt p. salt @ p), pwd_verify = (\<lambda>p h. \<exists>salt \<in> set (suffixes h). salt = p),
     jwt_encode = (\<lambda>c iat until k a. if type_claim c = None then ''A'' else ''R''),
     jwt_decode = (\<lambda>now t k a. Some (if t = ''A'' then access_claims demo_std 1 ''user'' else reset_claims demo_std 1))\<rparr>"

lemma token_lib_honours:
  "honours token_lib cfg (access_claims demo_std 1 ''user'') iat until" "honours token_lib cfg (reset_claims demo_std 1) iat until"
  "uuid_text_ok demo_std 1" "pwd_verify token_lib p (pwd_hash token_lib salt p)"
  by (auto simp: honours_def token_lib_def access_claims_def reset_claims_def uuid_text_ok_def demo_std_def Let_def
      suffix_def)

theorem register_login_round_trip_witness:
  "\<exists>t s1 t' tr'. register demo_std token_lib demo_settings 0 1 11 ''salt'' alice_form demo_db = Inr (t, s1) \<and>
     login demo_std token_lib demo_settings 5 0 0 '' A'' ''alice123'' s1 Map.empty = (Inr t', tr') \<and>
     get_current_user demo_std token_lib demo_settings 6 (Some \<lparr>scheme = ''Bearer'', bearer = access_token t'\<rparr>) s1 =
       Inr (registered_user token_lib 1 ''salt'' alice_form, s1)"
proof -
  obtain t s1 where run: "register demo_std token_lib demo_settings 0 1 11 ''salt'' alice_form demo_db = Inr (t, s1)"
    by (simp add: register_def get_by_email_def create_user_def insert_user_def create_wallet_def get_by_user_id_def tx_run
        demo_db_def find_by_email_def find_user_def Let_def)
  have mail: "str_strip (str_lower '' A'') = str_strip (str_lower (reg_email alice_form))"
    unfolding alice_form_def register_request.select_convs by code_simp
  have sch: "str_lower ''Bearer'' = ''bearer''" by code_simp
  have open_door: "\<not> fst (is_locked (str_strip (str_lower '' A'')) 0 Map.empty)"
    by (simp add: is_locked_def prune_def max_attempts_def Let_def)
  have later: "(6::int) \<le> 5 + minutes (access_token_expire_minutes demo_settings)"
    by (simp add: demo_settings_def minutes_def)
  have "reg_password alice_form = ''alice123''" by (simp add: alice_form_def)
  with register_login_round_trip [OF run _ token_lib_honours(3,1) mail open_door later sch, of 0] run
  show ?thesis using token_lib_honours(4) by fastforce
qed

text \<open>A password-reset token works as an access token. Until it expires it identifies its user to every endpoint,
  administrators included, although the reverse is refused: an access token does not reset a password.\<close>

theorem reset_token_is_access_token:
  assumes "honours lib cfg (reset_claims std u) now (now + minutes (password_reset_token_expire_minutes cfg))"
    and "honours lib cfg (access_claims std u role) now (now + minutes (access_token_expire_minutes cfg))"
    and "later \<le> now + minutes (password_reset_token_expire_minutes cfg)"
    and "later \<le> now + minutes (access_token_expire_minutes cfg)"
    and "uuid_text_ok std u" and "find_user s u = Some v"
  shows "get_current_user std lib cfg later
      (Some \<lparr>scheme = ''Bearer'', bearer = create_password_reset_token std lib cfg now u\<rparr>) s = Inr (v, s) \<and>
    (urole v = role_admin \<longrightarrow> get_current_admin std lib cfg later
      (Some \<lparr>scheme = ''Bearer'', bearer = create_password_reset_token std lib cfg now u\<rparr>) s = Inr (v, s)) \<and>
    verify_password_reset_token std lib cfg later (create_access_token std lib cfg now u role) = Inl UnauthorizedError"
proof -
  have b: "str_lower ''Bearer'' = ''bearer''" by code_simp
  have "get_current_user std lib cfg later
      (Some \<lparr>scheme = ''Bearer'', bearer = create_password_reset_token std lib cfg now u\<rparr>) s = Inr (v, s)"
    unfolding create_password_reset_token_def reset_claims_def [symmetric]
    by (rule bearer_current_user [OF assms(1,3) b _ assms(5,6)]) (simp add: reset_claims_def)
  moreover have "verify_password_reset_token std lib cfg later (create_access_token std lib cfg now u role) = Inl UnauthorizedError"
    using assms(2,4)
    by (simp add: verify_password_reset_token_def decode_access_token_def create_access_token_def honours_def Let_def
        access_claims_def)
  ultimately show ?thesis by (simp add: get_current_admin_def tx_run role_value_def)
qed

theorem reset_token_is_access_token_witness:
  "\<exists>t s1. register demo_std token_lib demo_settings 0 1 11 ''salt'' alice_form demo_db = Inr (t, s1) \<and>
     get_current_user demo_std token_lib demo_settings 6
       (Some \<lparr>scheme = ''Bearer'', bearer = create_password_reset_token demo_std token_lib demo_settings 5 1\<rparr>) s1 =
     Inr (registered_user token_lib 1 ''salt'' alice_form, s1)"
proof -
  obtain t s1 where run: "register demo_std token_lib demo_settings 0 1 11 ''salt'' alice_form demo_db = Inr (t, s1)"
    and user: "find_user s1 1 = Some (registered_user token_lib 1 ''salt'' alice_form)"
    by (simp add: register_def get_by_email_def create_user_def insert_user_def create_wallet_def get_by_user_id_def tx_run
        demo_db_def find_by_email_def find_user_def registered_user_def str_lower_strip Let_def)
  have later: "(6::int) \<le> 5 + minutes (password_reset_token_expire_minutes demo_settings)"
    "(6::int) \<le> 5 + minutes (access_token_expire_minutes demo_settings)"
    by (simp_all add: demo_settings_def minutes_def)
  from reset_token_is_access_token [OF token_lib_honours(2,1) later token_lib_honours(3) user] run show ?thesis by blast
qed

section \<open>The lockout\<close>

text \<open>
  The specification: a history of what happened to the addresses. The tracker prunes what it stores at every access; the
  specification keeps every failure since the address was last cleared.
\<close>

datatype attempt = Checked string datetime | Failed string datetime | Cleared string

fun attempt_time :: "attempt \<Rightarrow> datetime option" where
  "attempt_time (Checked e t) = Some t"
| "attempt_time (Failed e t) = Some t"
| "attempt_time (Cleared e) = None"

fun track :: "attempt \<Rightarrow> tracker \<Rightarrow> tracker" where
  "track (Checked e t) tr = snd (is_locked e t tr)"
| "track (Failed e t) tr = record_failure e t tr"
| "track (Cleared e) tr = clear_attempts e tr"

fun failures :: "string \<Rightarrow> attempt list \<Rightarrow> datetime list" where
  "failures e [] = []"
| "failures e (Failed e' t # older) = (if e' = e then t # failures e older else failures e older)"
| "failures e (Cleared e' # older) = (if e' = e then [] else failures e older)"
| "failures e (Checked e' t # older) = failures e older"

text \<open>Histories are newest first; the clock does not run backwards.\<close>

fun monotone :: "datetime \<Rightarrow> attempt list \<Rightarrow> bool" where
  "monotone now [] = True"
| "monotone now (a # older) = (case attempt_time a of None \<Rightarrow> monotone now older | Some t \<Rightarrow> t \<le> now \<and> monotone t older)"

definition recent :: "datetime \<Rightarrow> datetime list \<Rightarrow> datetime list" where
  "recent now ts = filter (\<lambda>t. now - t < window_length) ts"

definition stored :: "string \<Rightarrow> tracker \<Rightarrow> datetime list" where
  "stored e tr = (case tr e of None \<Rightarrow> [] | Some ts \<Rightarrow> ts)"

lemma recent_recent: "t \<le> now \<Longrightarrow> recent now (recent t ts) = recent now ts"
  by (induction ts) (auto simp: recent_def)

lemma stored_ops [simp]:
  "stored e (snd (is_locked e' t tr)) = (if e = e' then recent t (stored e tr) else stored e tr)"
  "stored e (record_failure e' t tr) = (if e = e' then recent t (stored e tr) @ [t] else stored e tr)"
  "stored e (clear_attempts e' tr) = (if e = e' then [] else stored e tr)"
  by (auto simp: stored_def is_locked_def record_failure_def clear_attempts_def prune_def recent_def Let_def)

lemma recent_append: "recent now (xs @ ys) = recent now xs @ recent now ys"
  by (simp add: recent_def)

lemma monotone_later: "monotone t h \<Longrightarrow> t \<le> now \<Longrightarrow> monotone now h"
  by (induction h arbitrary: t) (auto split: option.splits)

lemma tracker_counts:
  "monotone now h \<Longrightarrow> recent now (stored e (foldr track h Map.empty)) = recent now (rev (failures e h))"
proof (induction h arbitrary: now)
  case (Cons a h)
  show ?case
  proof (cases a)
    case (Checked e' t)
    with Cons show ?thesis by (auto simp: recent_recent dest: monotone_later)
  next
    case (Failed e' t)
    with Cons show ?thesis by (auto simp: recent_recent recent_append dest: monotone_later)
  qed (use Cons in \<open>auto simp: recent_def\<close>)
qed (simp add: stored_def recent_def)

text \<open>C31: the lockout counts what it should. Whatever happened on whatever addresses, an address is locked exactly when
  at least five failures since it was last cleared are less than fifteen minutes old, although the tracker forgets old
  entries whenever it is asked; and while it is locked no login succeeds, with the right password or not.\<close>

theorem lockout_counts_failures:
  assumes "monotone now h"
  shows "(fst (is_locked e now (foldr track h Map.empty)) \<longleftrightarrow>
      5 \<le> length (filter (\<lambda>t. now - t < minutes 15) (failures e h))) \<and>
    (5 \<le> length (filter (\<lambda>t. now - t < minutes 15) (failures e h)) \<and> e = str_strip (str_lower addr) \<longrightarrow>
      fst (login std lib cfg wall now decided addr pass s (foldr track h Map.empty)) = Inl UnauthorizedError)"
proof -
  have w: "window_length = minutes 15" by (simp add: window_length_def minutes_def seconds_def)
  have "fst (is_locked e now (foldr track h Map.empty)) \<longleftrightarrow> 5 \<le> length (recent now (stored e (foldr track h Map.empty)))"
    by (simp add: is_locked_def prune_def recent_def stored_def max_attempts_def Let_def)
  also have "\<dots> \<longleftrightarrow> 5 \<le> length (filter (\<lambda>t. now - t < minutes 15) (failures e h))"
    unfolding tracker_counts [OF assms] by (simp add: recent_def w rev_filter [symmetric])
  finally have iff: "fst (is_locked e now (foldr track h Map.empty)) \<longleftrightarrow>
      5 \<le> length (filter (\<lambda>t. now - t < minutes 15) (failures e h))" .
  then show ?thesis by (auto simp: login_def Let_def split: prod.splits)
qed

theorem lockout_counts_failures_witness:
  "fst (is_locked ''a'' (minutes 20) (foldr track
      [Failed ''a'' (minutes 19), Checked ''a'' (minutes 19), Failed ''a'' (minutes 10), Failed ''b'' (minutes 9),
       Failed ''a'' (minutes 8), Failed ''a'' (minutes 7), Failed ''a'' (minutes 6), Failed ''a'' (minutes 1)] Map.empty))"
proof -
  have "monotone (minutes 20) [Failed ''a'' (minutes 19), Checked ''a'' (minutes 19), Failed ''a'' (minutes 10),
      Failed ''b'' (minutes 9), Failed ''a'' (minutes 8), Failed ''a'' (minutes 7), Failed ''a'' (minutes 6),
      Failed ''a'' (minutes 1)]"
    by (simp add: minutes_def)
  from lockout_counts_failures [OF this, of "''a''"] show ?thesis by (simp add: minutes_def)
qed

section \<open>Concurrent logins\<close>

text \<open>A login awaits the database between the test of the lock and the record of a failure; \<open>finish_login\<close> is what follows the
  test, on whatever the tracker holds by then.\<close>

definition finish_login ::
  "stdlib \<Rightarrow> auth_lib \<Rightarrow> settings \<Rightarrow> datetime \<Rightarrow> datetime \<Rightarrow> string \<Rightarrow> db \<Rightarrow> string \<Rightarrow> tracker \<Rightarrow> (error + token_response) \<times> tracker" where
  "finish_login std lib cfg now decided normalised_email s pass tr =
     (case find_by_email s (str_strip (str_lower normalised_email)) of
        None \<Rightarrow> (Inl UnauthorizedError, record_failure normalised_email decided tr)
      | Some u \<Rightarrow>
          if \<not> verify_password lib pass (password_hash u)
          then (Inl UnauthorizedError, record_failure normalised_email decided tr)
          else (Inr (token_for std lib cfg now u), clear_attempts normalised_email tr))"

lemma login_split:
  "login std lib cfg now checked decided addr pass s tr =
     (let e = str_strip (str_lower addr) in case is_locked e checked tr of (lckd, tr1) \<Rightarrow>
        if lckd then (Inl UnauthorizedError, tr1) else finish_login std lib cfg now decided e s pass tr1)"
  by (simp add: login_def finish_login_def Let_def split: prod.split)

text \<open>A number of requests that test the lock one after the other, and then finish one after the other.\<close>

fun check_all :: "string \<Rightarrow> datetime \<Rightarrow> nat \<Rightarrow> tracker \<Rightarrow> bool list \<times> tracker" where
  "check_all e t 0 tr = ([], tr)"
| "check_all e t (Suc n) tr = (case is_locked e t tr of (lckd, tr1) \<Rightarrow>
     case check_all e t n tr1 of (ls, tr2) \<Rightarrow> (lckd # ls, tr2))"

fun finish_all ::
  "stdlib \<Rightarrow> auth_lib \<Rightarrow> settings \<Rightarrow> datetime \<Rightarrow> datetime \<Rightarrow> string \<Rightarrow> db \<Rightarrow> string list \<Rightarrow> tracker \<Rightarrow>
   (error + token_response) list \<times> tracker" where
  "finish_all std lib cfg now t e s [] tr = ([], tr)"
| "finish_all std lib cfg now t e s (p # ps) tr = (case finish_login std lib cfg now t e s p tr of (r, tr1) \<Rightarrow>
     case finish_all std lib cfg now t e s ps tr1 of (rs, tr2) \<Rightarrow> (r # rs, tr2))"

lemma checks_pass: "\<not> fst (is_locked e t tr) \<Longrightarrow> list_all Not (fst (check_all e t n tr))"
proof (induction n arbitrary: tr)
  case (Suc n)
  have "fst (is_locked e t (snd (is_locked e t tr))) = fst (is_locked e t tr)"
    by (simp add: is_locked_def prune_def Let_def)
  with Suc.prems Suc.IH [of "snd (is_locked e t tr)"] show ?case by (auto split: prod.split)
qed simp

text \<open>As many guesses as are in flight together are tried: the lock is only tested before.\<close>

lemma concurrent_guesses:
  assumes "\<not> fst (is_locked e t tr)" and "find_by_email s (str_strip (str_lower e)) = Some u"
    and "verify_password lib pass (password_hash u)"
  shows "list_all Not (fst (check_all e t (length (guesses @ [pass])) tr)) \<and>
    last (fst (finish_all std lib cfg now t e s (guesses @ [pass]) (snd (check_all e t (length (guesses @ [pass])) tr)))) =
      Inr (token_for std lib cfg now u)"
proof
  show "last (fst (finish_all std lib cfg now t e s (guesses @ [pass]) tr')) = Inr (token_for std lib cfg now u)" for tr'
  proof (induction guesses arbitrary: tr')
    case Nil
    then show ?case using assms(2,3) by (simp add: finish_login_def)
  next
    case (Cons g gs)
    have "fst (finish_all std lib cfg now t e s (gs @ [pass]) tr'') \<noteq> []" for tr''
      by (cases gs) (auto split: prod.splits)
    with Cons show ?case by (auto split: prod.split) (metis fst_conv)+
  qed
qed (rule checks_pass [OF assms(1)])

end
