(* ===== verification/Settlement_Properties.thy ===== *)
theory Settlement_Properties
  imports Scenario
begin

text \<open>
  What settling a bet does, proved on sound books: the exact movements of each path, that it happens once,
  the cases in which the schema forbids it, and the accounting of a confirmed match.
\<close>

section \<open>The movements\<close>

lemma settled_by:
  assumes "books s" and "settle_bet now k s = Inr (b', s')"
  obtains b opponent p a where "settles now k b opponent p a s s'"
    and "b' = settled_row now p (sp_payout p) (sp_fee p) b" and "enforce_checks s \<longrightarrow> bet_row_ok b'"
proof -
  have "settleable b" if "find_bet s k = Some b" for b
    using books_bet [OF assms(1) that] by (simp add: settleable_def bet_sound_def)
  then show thesis
    using settle_bet_settles [OF booksD(1-3,5) [OF assms(1)] _ assms(2)] that by metis
qed

lemma settles_facts:
  assumes "settles now k b opponent p a s s'"
  shows "find_bet s k = Some b" "bstatus b = PENDING_SETTLEMENT" "opponent_id b = Some opponent"
    "plan_ok b opponent p" "money (settlement_change b opponent p) s s'"
    "bets s' = row_upd bet_id k (settled_row now p (sp_payout p) (sp_fee p)) (bets s)"
    "row_get pa_currency (bet_currency b) (platform_accounts s) = Some a"
    "platform_accounts s' = row_upd pa_currency (bet_currency b) (add_fee (sp_fee p)) (platform_accounts s)"
  using assms by (simp_all add: settles_def)

lemma settles_outcome:
  assumes "settles now k b opponent p a s s'" and "find_match s (bet_match b) = Some m"
    and "outcome m = Some r" and "opponent_prediction b = Some q"
  shows "sp_outcome p = determine_path r (creator_prediction b) q"
  using assms by (auto simp: settles_def)

lemma settles_fee:
  assumes "settles now k b opponent p a s s'"
  shows "get_active_rate WINNER_FEE (bet_currency b) now s = Inr (wr, s) \<Longrightarrow> sp_outcome p \<noteq> no_winner \<Longrightarrow>
      sp_fee p = safe_multiply (2 * stake_amount b) wr"
    and "get_active_rate NO_WINNER_FEE (bet_currency b) now s = Inr (nr, s) \<Longrightarrow> sp_outcome p = no_winner \<Longrightarrow>
      sp_fee p = 2 * safe_multiply (stake_amount b) nr"
  using assms by (auto simp: settles_def fee_charged_def)

lemma winner_side:
  assumes "settles now k b opponent p a s s'" and "sp_outcome p = creator_wins \<or> sp_outcome p = opponent_wins"
    and w: "w = (if sp_outcome p = creator_wins then creator_id b else opponent)"
    and l: "l = (if sp_outcome p = creator_wins then opponent else creator_id b)"
  shows "settlement_change b opponent p = winner_change w l (stake_amount b) (sp_fee p)"
    and "sp_winner p = Some w" and "sp_payout p = 2 * stake_amount b - sp_fee p"
  using assms(2) settles_facts(4) [OF assms(1)]
  by (auto simp: w l settlement_change_def plan_ok_def)

text \<open>C13: settling a bet whose result matches one prediction pays the winner both stakes less the fee at the
  rate in force, takes both stakes out of the locked balances, credits the fee to the platform,
  changes no other balance, and records winner, payout and fee on the bet.\<close>

theorem winner_settlement:
  assumes "books s" and "settle_bet now k s = Inr (b', s')" and "find_bet s k = Some b"
    and "opponent_id b = Some opponent" and "opponent_prediction b = Some q"
    and "find_match s (bet_match b) = Some m" and "outcome m = Some r"
    and "get_active_rate WINNER_FEE (bet_currency b) now s = Inr (rate, s)"
    and "r = creator_prediction b \<and> w = creator_id b \<and> l = opponent \<or>
         r \<noteq> creator_prediction b \<and> r = q \<and> w = opponent \<and> l = creator_id b"
    and "fee = safe_multiply (2 * stake_amount b) rate"
  shows "balance_in (wallets s') w available = balance_in (wallets s) w available + 2 * stake_amount b - fee \<and>
    balance_in (wallets s') w locked = balance_in (wallets s) w locked - stake_amount b \<and>
    balance_in (wallets s') l available = balance_in (wallets s) l available \<and>
    balance_in (wallets s') l locked = balance_in (wallets s) l locked - stake_amount b \<and>
    (\<forall>u f. u \<noteq> w \<and> u \<noteq> l \<longrightarrow> balance_in (wallets s') u f = balance_in (wallets s) u f) \<and>
    map_option pa_balance (row_get pa_currency (bet_currency b) (platform_accounts s')) =
      map_option (\<lambda>a. pa_balance a + fee) (row_get pa_currency (bet_currency b) (platform_accounts s)) \<and>
    bstatus b' = SETTLED \<and> winner_id b' = Some w \<and> payout_amount b' = Some (2 * stake_amount b - fee) \<and>
    platform_fee b' = Some fee \<and> find_bet s' k = Some b'"
proof -
  obtain c opp p a where st: "settles now k c opp p a s s'"
    and b': "b' = settled_row now p (sp_payout p) (sp_fee p) c"
    by (rule settled_by [OF assms(1,2)])
  have eq: "c = b" "opp = opponent" using settles_facts(1,3) [OF st] assms(3,4) by auto
  note st = st [unfolded eq] and f = settles_facts [OF st [unfolded eq]]
  have path: "sp_outcome p = determine_path r (creator_prediction b) q"
    by (rule settles_outcome [OF st assms(6,7,5)])
  then have out: "sp_outcome p = creator_wins \<or> sp_outcome p = opponent_wins" "sp_outcome p \<noteq> no_winner"
    and wl: "w = (if sp_outcome p = creator_wins then creator_id b else opponent)"
      "l = (if sp_outcome p = creator_wins then opponent else creator_id b)"
    using assms(9) by (auto simp: determine_path_def)
  note side = winner_side [OF st out(1) wl]
  have fee: "sp_fee p = fee" using settles_fee(1) [OF st assms(8) out(2)] assms(10) by simp
  have "opponent \<noteq> creator_id b" using books_bet [OF assms(1,3)] assms(4) by (simp add: bet_sound_def)
  then have "w \<noteq> l" using wl by auto
  moreover have "balance_in (wallets s') u g = balance_in (wallets s) u g +
      winner_change w l (stake_amount b) fee u g" for u g
    using f(5) side(1) fee by (simp add: money_def)
  moreover have "find_bet s' k = Some b'"
    using f(1,6) b' eq by (simp add: find_bet_def row_get_upd settled_row_def)
  moreover have "map_option pa_balance (row_get pa_currency (bet_currency b) (platform_accounts s')) =
      map_option (\<lambda>a. pa_balance a + fee) (row_get pa_currency (bet_currency b) (platform_accounts s))"
    using f(7,8) fee by (simp add: row_get_upd add_fee_def)
  ultimately show ?thesis
    using side fee b' eq by (simp add: winner_change_def change_simps settled_row_def)
qed

theorem winner_settlement_witness:
  "\<exists>b' s'. settle_bet 10 31 (demo_pending home_win) = Inr (b', s') \<and>
     balance_in (wallets s') 1 available = 108 \<and> balance_in (wallets s') 2 locked = 0 \<and>
     winner_id b' = Some 1 \<and> payout_amount b' = Some 18 \<and> platform_fee b' = Some 2"
proof -
  let ?s = "demo_pending home_win" and ?b = "demo_bet PENDING_SETTLEMENT (Some 2) (Some away_win)"
  obtain b' s' where run: "settle_bet 10 31 ?s = Inr (b', s')" using demo_settles by blast
  have b: "find_bet ?s 31 = Some ?b" "opponent_id ?b = Some 2" "opponent_prediction ?b = Some away_win"
    by (simp_all add: find_bet_def demo_pending_def demo_bet_def)
  obtain m where m: "find_match ?s (bet_match ?b) = Some m" "outcome m = Some home_win"
    by (simp add: find_match_def demo_states demo_bet_def derby_def)
  have r: "get_active_rate WINNER_FEE (bet_currency ?b) 10 ?s = Inr (1 / 10, ?s)"
    by (simp add: get_active_rate_inv demo_states demo_bet_def)
  have "2 = safe_multiply (2 * stake_amount ?b) (1 / 10)"
    by (simp add: safe_multiply_def round_half_up_def round_half_away_def demo_bet_def)
  from winner_settlement [OF demo_books(4) run b m r _ this, of 1 2]
  show ?thesis
    using run by (auto simp: demo_bet_def demo_pending_def demo_matched_def balance_in_def demo_wallet_def field_of_def)
qed

text \<open>Settling a bet that neither side won (where the schema lets it through) returns each user the stake less
  the fee at the rate in force, credits the platform with both fees and changes no other balance.\<close>

theorem no_winner_settlement:
  assumes "books s" and "settle_bet now k s = Inr (b', s')" and "find_bet s k = Some b"
    and "opponent_id b = Some opponent" and "opponent_prediction b = Some q"
    and "find_match s (bet_match b) = Some m" and "outcome m = Some r"
    and "get_active_rate NO_WINNER_FEE (bet_currency b) now s = Inr (rate, s)"
    and "r \<noteq> creator_prediction b" and "r \<noteq> q" and "fee = safe_multiply (stake_amount b) rate"
    and "u \<in> {creator_id b, opponent}"
  shows "balance_in (wallets s') u available = balance_in (wallets s) u available + stake_amount b - fee \<and>
    balance_in (wallets s') u locked = balance_in (wallets s) u locked - stake_amount b \<and>
    (\<forall>v f. v \<noteq> creator_id b \<and> v \<noteq> opponent \<longrightarrow> balance_in (wallets s') v f = balance_in (wallets s) v f) \<and>
    map_option pa_balance (row_get pa_currency (bet_currency b) (platform_accounts s')) =
      map_option (\<lambda>a. pa_balance a + 2 * fee) (row_get pa_currency (bet_currency b) (platform_accounts s)) \<and>
    bstatus b' = SETTLED \<and> winner_id b' = None \<and> platform_fee b' = Some (2 * fee)"
proof -
  obtain c opp p a where st: "settles now k c opp p a s s'"
    and b': "b' = settled_row now p (sp_payout p) (sp_fee p) c"
    by (rule settled_by [OF assms(1,2)])
  have eq: "c = b" "opp = opponent" using settles_facts(1,3) [OF st] assms(3,4) by auto
  note st = st [unfolded eq] and f = settles_facts [OF st [unfolded eq]]
  have out: "sp_outcome p = no_winner"
    using settles_outcome [OF st assms(6,7,5)] assms(9,10) by (simp add: determine_path_def)
  then have fee: "sp_fee p = 2 * fee" using settles_fee(2) [OF st assms(8)] assms(11) by simp
  have pay: "sp_payout p = stake_amount b - fee" "sp_winner p = None"
    using f(4) out fee by (simp_all add: plan_ok_def)
  have "opponent \<noteq> creator_id b" using books_bet [OF assms(1,3)] assms(4) by (simp add: bet_sound_def)
  moreover have "balance_in (wallets s') v g = balance_in (wallets s) v g +
      no_winner_change (creator_id b) opponent (stake_amount b) (stake_amount b - fee) v g" for v g
    using f(5) out pay by (simp add: money_def settlement_change_def)
  moreover have "map_option pa_balance (row_get pa_currency (bet_currency b) (platform_accounts s')) =
      map_option (\<lambda>a. pa_balance a + 2 * fee) (row_get pa_currency (bet_currency b) (platform_accounts s))"
    using f(7,8) fee by (simp add: row_get_upd add_fee_def)
  ultimately show ?thesis
    using assms(12) pay fee b' eq
    by (auto simp: no_winner_change_def change_simps settled_row_def)
qed

text \<open>The no-winner path on a database without the CHECK constraints (the one the tests create).\<close>

definition demo_unchecked :: db where
  "demo_unchecked = (demo_pending draw)\<lparr>enforce_checks := False\<rparr>"

lemma demo_no_winner: "\<exists>b s'. settle_bet 10 31 demo_unchecked = Inr (b, s')"
  by (simp add: eval_all demo_unchecked_def settle_bet_def settlement_checks_def settle_wallets_def collect_fee_def
      mark_settled_def determine_path_def compute_no_winner_amounts_def settled_row_def cong: lazily)

lemma books_unchecked: "books (s\<lparr>enforce_checks := c\<rparr>) = books s"
  by (simp add: books_def wallet_books_def platform_sound_def rates_ok_def locked_explained_def
      ledger_explains_def conserved_def platform_explained_def)

theorem no_winner_settlement_witness:
  "\<exists>b' s'. settle_bet 10 31 demo_unchecked = Inr (b', s') \<and>
     balance_in (wallets s') 2 available = 90 + 10 - 1 / 2 \<and> platform_fee b' = Some 1"
proof -
  let ?s = demo_unchecked and ?b = "demo_bet PENDING_SETTLEMENT (Some 2) (Some away_win)"
  obtain b' s' where run: "settle_bet 10 31 ?s = Inr (b', s')" using demo_no_winner by blast
  have bk: "books ?s" using demo_books(4) by (simp add: demo_unchecked_def books_unchecked)
  have b: "find_bet ?s 31 = Some ?b" "opponent_id ?b = Some 2" "opponent_prediction ?b = Some away_win"
    by (simp_all add: demo_unchecked_def find_bet_def demo_pending_def demo_bet_def)
  obtain m where m: "find_match ?s (bet_match ?b) = Some m" "outcome m = Some draw"
    by (simp add: demo_unchecked_def find_match_def demo_states demo_bet_def derby_def)
  have r: "get_active_rate NO_WINNER_FEE (bet_currency ?b) 10 ?s = Inr (1 / 20, ?s)"
    by (simp add: demo_unchecked_def get_active_rate_inv demo_states demo_bet_def)
  have fee: "1 / 2 = safe_multiply (stake_amount ?b) (1 / 20)"
    by (simp add: safe_multiply_def round_half_up_def round_half_away_def demo_bet_def)
  from no_winner_settlement [OF bk run b m r _ _ fee, of 2]
  have "balance_in (wallets s') 2 available = balance_in (wallets ?s) 2 available + stake_amount ?b - 1 / 2"
    "platform_fee b' = Some (2 * (1 / 2))"
    by (simp_all add: demo_bet_def)
  then show ?thesis
    using run by (simp add: demo_bet_def demo_unchecked_def demo_pending_def demo_matched_def balance_in_def demo_wallet_def
        field_of_def)
qed

section \<open>Once, and only when the schema allows it\<close>

lemma settled_stays:
  assumes "books s" and "settle_bet now k s = Inr (b', s')" and "list_all admissible rs"
  shows "\<exists>b. find_bet (run std cfg rs s') k = Some b \<and> bstatus b = SETTLED"
proof -
  obtain b opp p a where st: "settles now k b opp p a s s'"
    and b': "b' = settled_row now p (sp_payout p) (sp_fee p) b"
    by (rule settled_by [OF assms(1,2)])
  have "row_get bet_id k (bets s') = Some b'" "bstatus b' = SETTLED"
    using settles_facts(1,6) [OF st] b' by (simp_all add: find_bet_def row_get_upd settled_row_def)
  moreover note path = run_serves [OF settle_bet_books [OF assms(1,2)] assms(3), where std = std and cfg = cfg]
  ultimately obtain b where "row_get bet_id k (bets (run std cfg rs s')) = Some b" "bstatus b = bstatus b'"
    using bet_life.final_status [OF path] by (fastforce simp: bet_edge_def)
  with \<open>bstatus b' = SETTLED\<close> show ?thesis by (auto simp: find_bet_def)
qed

text \<open>C15: a settled bet is settled once: after any further requests a second settlement is refused with the
  idempotency error and, as a request, changes nothing but the released locks.\<close>

theorem settled_once:
  assumes "books s" and "settle_bet now k s = Inr (b', s')" and "list_all admissible rs"
  shows "settle_bet now' k (run std cfg rs s') = Inl SettlementIdempotencyError \<and>
    exec std cfg (SettleBet now' k) (run std cfg rs s') = (run std cfg rs s')\<lparr>row_locks := []\<rparr>"
proof -
  obtain b where "find_bet (run std cfg rs s') k = Some b" "bstatus b = SETTLED"
    using settled_stays [OF assms] by blast
  then have "settle_bet now' k (run std cfg rs s') = Inl SettlementIdempotencyError"
    by (intro settle_not_pending) auto
  then show ?thesis by (simp add: settle_single_bet_def transact_def)
qed

theorem settled_once_witness:
  "\<exists>b' s'. settle_bet 10 31 (demo_pending home_win) = Inr (b', s') \<and>
     settle_bet 20 31 (run demo_std demo_settings [CancelBet alice 31, VoidBet 31 9 None] s')
       = Inl SettlementIdempotencyError"
proof -
  obtain b' s' where "settle_bet 10 31 (demo_pending home_win) = Inr (b', s')" using demo_settles by blast
  with settled_once [OF demo_books(4) this, of "[CancelBet alice 31, VoidBet 31 9 None]"]
  show ?thesis by auto
qed

text \<open>C39: with the CHECK constraints of the schema in force no bet is ever settled without a winner: the
  update records the refund as the payout, which \<^verbatim>\<open>chk_bets_payout_presence\<close> forbids.\<close>

theorem no_winner_never_settles:
  assumes "books s" and "enforce_checks s" and "find_bet s k = Some b" and "opponent_prediction b = Some q"
    and "find_match s (bet_match b) = Some m" and "outcome m = Some r"
    and "r \<noteq> creator_prediction b" and "r \<noteq> q"
  shows "\<exists>e. settle_bet now k s = Inl e \<and>
    exec std cfg (SettleBet now k) s = s\<lparr>row_locks := []\<rparr>"
proof (cases "settle_bet now k s")
  case (Inl e)
  then show ?thesis by (simp add: settle_single_bet_def transact_def)
next
  case (Inr v)
  then obtain b' s' where run: "settle_bet now k s = Inr (b', s')" by (cases v) simp
  obtain c opp p a where st: "settles now k c opp p a s s'"
    and b': "b' = settled_row now p (sp_payout p) (sp_fee p) c" and ok: "enforce_checks s \<longrightarrow> bet_row_ok b'"
    by (rule settled_by [OF assms(1) run])
  have "c = b" using settles_facts(1) [OF st] assms(3) by simp
  then have "sp_outcome p = no_winner"
    using settles_outcome [OF st] assms(4-8) by (simp add: determine_path_def)
  then have "\<not> payout_presence_ok b'" by (simp add: b' settled_row_def payout_presence_ok_def)
  with ok assms(2) show ?thesis by (simp add: bet_row_ok_def)
qed

theorem no_winner_never_settles_witness:
  "\<exists>e. settle_bet 10 31 (demo_pending draw) = Inl e"
proof -
  let ?s = "demo_pending draw" and ?b = "demo_bet PENDING_SETTLEMENT (Some 2) (Some away_win)"
  have c: "enforce_checks ?s" by (simp add: demo_states)
  have b: "find_bet ?s 31 = Some ?b" "opponent_prediction ?b = Some away_win"
    by (simp_all add: find_bet_def demo_pending_def demo_bet_def)
  obtain m where m: "find_match ?s (bet_match ?b) = Some m" "outcome m = Some draw"
    by (simp add: find_match_def demo_states demo_bet_def derby_def)
  from no_winner_never_settles [OF demo_books(4) c b m, of 10] show ?thesis
    by (auto simp: demo_bet_def)
qed

text \<open>A stake so small that the winner's fee rounds to nothing cannot be settled under the schema either:
  a recorded platform fee must be positive.\<close>

theorem zero_fee_never_settles:
  assumes "books s" and "enforce_checks s" and "find_bet s k = Some b" and "opponent_prediction b = Some q"
    and "find_match s (bet_match b) = Some m" and "outcome m = Some r"
    and "r = creator_prediction b \<or> r = q"
    and "get_active_rate WINNER_FEE (bet_currency b) now s = Inr (rate, s)"
    and "safe_multiply (2 * stake_amount b) rate = 0"
  shows "\<exists>e. settle_bet now k s = Inl e"
proof (cases "settle_bet now k s")
  case (Inr v)
  then obtain b' s' where run: "settle_bet now k s = Inr (b', s')" by (cases v) simp
  obtain c opp p a where st: "settles now k c opp p a s s'"
    and b': "b' = settled_row now p (sp_payout p) (sp_fee p) c" and ok: "enforce_checks s \<longrightarrow> bet_row_ok b'"
    by (rule settled_by [OF assms(1) run])
  have c: "c = b" using settles_facts(1) [OF st] assms(3) by simp
  then have out: "sp_outcome p \<noteq> no_winner" "sp_outcome p \<noteq> voided"
    using settles_outcome [OF st] assms(4-7) by (auto simp: determine_path_def)
  then have "sp_fee p = 0" using settles_fee(1) [OF st] assms(8,9) c by simp
  then have "\<not> platform_fee_ok b'"
    using out by (cases "sp_outcome p") (auto simp: b' settled_row_def platform_fee_ok_def positive_amount_def)
  with ok assms(2) show ?thesis by (simp add: bet_row_ok_def)
qed simp

definition demo_tiny :: db where
  "demo_tiny = (demo_pending home_win)\<lparr>fee_configs :=
     [\<lparr>fc_type = WINNER_FEE, fc_rate = 1 / 10000, fc_currency = ''ZAR'', effective_from = 0\<rparr>,
      \<lparr>fc_type = NO_WINNER_FEE, fc_rate = 1 / 20, fc_currency = ''ZAR'', effective_from = 0\<rparr>]\<rparr>"

lemma books_rates:
  assumes "books s" and "\<forall>c \<in> set cs. 0 \<le> fc_rate c \<and> fc_rate c \<le> 1"
  shows "books (s\<lparr>fee_configs := cs\<rparr>)"
proof -
  let ?t = "s\<lparr>fee_configs := cs\<rparr>"
  have "wallet_books ?t = wallet_books s" "platform_sound ?t = platform_sound s"
    "locked_explained ?t = locked_explained s" "ledger_explains ?t = ledger_explains s"
    "conserved ?t = conserved s" "platform_explained ?t = platform_explained s" "rates_ok ?t"
    using assms(2)
    by (simp_all add: wallet_books_def platform_sound_def locked_explained_def ledger_explains_def conserved_def
        platform_explained_def rates_ok_def)
  with assms(1) show ?thesis by (simp add: books_def)
qed

theorem zero_fee_never_settles_witness:
  "\<exists>e. settle_bet 10 31 demo_tiny = Inl e"
proof -
  let ?s = demo_tiny and ?b = "demo_bet PENDING_SETTLEMENT (Some 2) (Some away_win)"
  have bk: "books ?s" unfolding demo_tiny_def by (rule books_rates [OF demo_books(4)]) simp
  have c: "enforce_checks ?s" by (simp add: demo_tiny_def demo_states)
  have b: "find_bet ?s 31 = Some ?b" "opponent_prediction ?b = Some away_win"
    by (simp_all add: demo_tiny_def find_bet_def demo_pending_def demo_bet_def)
  obtain m where m: "find_match ?s (bet_match ?b) = Some m" "outcome m = Some home_win"
    by (simp add: demo_tiny_def find_match_def demo_states demo_bet_def derby_def)
  have r: "get_active_rate WINNER_FEE (bet_currency ?b) 10 ?s = Inr (1 / 10000, ?s)"
    by (simp add: get_active_rate_inv demo_tiny_def demo_bet_def)
  have "safe_multiply (2 * stake_amount ?b) (1 / 10000) = 0"
    by (simp add: safe_multiply_def round_half_up_def round_half_away_def demo_bet_def)
  from zero_fee_never_settles [OF bk c b m _ r this] show ?thesis by (simp add: demo_bet_def)
qed

text \<open>C16: the amounts of both paths on a stake on the cent: nothing is lost between the shares, no share is
  negative, and each fee is within half a cent of the exact percentage.\<close>

theorem settlement_amounts:
  assumes "on_cent stake" and "0 \<le> stake" and "0 \<le> rate" and "rate \<le> 1"
    and "compute_winner_amounts stake rate = (payout, fee)"
    and "compute_no_winner_amounts stake rate = (refund, fee')"
  shows "payout + fee = 2 * stake \<and> 0 \<le> payout \<and> 0 \<le> fee \<and> \<bar>fee - 2 * stake * rate\<bar> \<le> 1 / 200 \<and>
    refund + fee' = stake \<and> 0 \<le> refund \<and> 0 \<le> fee' \<and> \<bar>fee' - stake * rate\<bar> \<le> 1 / 200"
proof -
  note w = winner_amounts [OF assms(1-5)] and n = no_winner_amounts [OF assms(1-4,6)]
  have "fee = round_half_up (2 * stake * rate)"
    using assms(5) by (auto simp: compute_winner_amounts_def Let_def safe_add_cents assms(1) safe_multiply_def)
  moreover have "fee' = round_half_up (stake * rate)"
    using assms(6) by (auto simp: compute_no_winner_amounts_def Let_def safe_multiply_def)
  ultimately show ?thesis using w n round_error [of "2 * stake * rate"] round_error [of "stake * rate"] by simp
qed

theorem settlement_amounts_witness:
  "on_cent (1001 / 100) \<and> compute_winner_amounts (1001 / 100) (1 / 10) = (18 + 2 / 100, 2) \<and>
   compute_no_winner_amounts (1001 / 100) (1 / 20) = (951 / 100, 1 / 2) \<and> (18 + 2 / 100 :: rat) + 2 = 2 * (1001 / 100)"
proof -
  have c: "on_cent (1001 / 100)" by (simp add: on_cent_code)
  have w: "compute_winner_amounts (1001 / 100) (1 / 10) = (18 + 2 / 100, 2)"
    and n: "compute_no_winner_amounts (1001 / 100) (1 / 20) = (951 / 100, 1 / 2)"
    by (simp_all add: compute_winner_amounts_def compute_no_winner_amounts_def Let_def safe_add_def safe_subtract_def
        safe_multiply_def round_half_up_def round_half_away_def)
  have w': "compute_winner_amounts (1001 / 100) (1 / 20) = (19 + 2 / 100, 1)"
    by (simp add: compute_winner_amounts_def Let_def safe_add_def safe_subtract_def
        safe_multiply_def round_half_up_def round_half_away_def)
  show ?thesis using c w n settlement_amounts [OF c _ _ _ w' n] by simp
qed

end
