(* ===== verification/Settlement_Progress.thy ===== *)
theory Settlement_Progress
  imports Settlement_Properties
begin

text \<open>
  That a settlement goes through when nothing stands against it, the order in which the services take their
  row locks, and the accounting of a confirmed match.
\<close>

section \<open>Settlement goes through\<close>

text \<open>Every stored amount fits its \<open>NUMERIC(15, 2)\<close> column.\<close>

definition in_range :: "db \<Rightarrow> bool" where
  "in_range s \<longleftrightarrow> (\<forall>w \<in> set (wallets s). available_balance w < 10 ^ 13 \<and> locked_balance w < 10 ^ 13)"

lemma update_runs:
  assumes "row_get wallet_user u (wallets s) = Some r" and "wallet_user w = u"
    and fit: "fits_cents av" "fits_cents lk" and "wallet_row_ok (set_balances av lk r)"
  shows "update_balances w av lk s = Inr (set_balances av lk r, put_wallet u (set_balances av lk) s)"
proof -
  have "map_option round_half_up av = av" "map_option round_half_up lk = lk" "fits av" "fits lk"
    using fit by (auto simp: fits_def fits_cents_def round_on_cent split: option.splits)
  then show ?thesis using assms(1,2,5) by (simp add: update_balances_inv wallet_tab.get_put)
qed

lemma lock_pair_runs:
  "row_get wallet_user a (wallets s) = Some x \<Longrightarrow> row_get wallet_user b (wallets s) = Some y \<Longrightarrow>
     lock_pair a b s = Inr ((x, y), s\<lparr>row_locks := row_locks s @ [WalletRow (min a b), WalletRow (max a b)]\<rparr>)"
  by (simp add: lock_pair_inv)

lemma transfer_succeeds:
  assumes books: "wallet_books s" and range: "in_range s" and "winner \<noteq> loser"
    and x: "row_get wallet_user winner (wallets s) = Some x" and y: "row_get wallet_user loser (wallets s) = Some y"
    and c: "on_cent stake" "on_cent fee" and p: "0 < stake" "0 \<le> fee" "fee < 2 * stake"
    and l: "stake \<le> locked_balance x" "stake \<le> locked_balance y"
    and room: "available_balance x + 2 * stake - fee < 10 ^ 13"
  shows "\<exists>r s'. transfer_locked_funds winner loser stake fee bid n s = Inr (r, s')"
proof -
  let ?pay = "2 * stake - fee" and ?l = "s\<lparr>row_locks := row_locks s @ [WalletRow (min winner loser), WalletRow (max winner loser)]\<rparr>"
  note sx = locked_row_sound [OF books x] and sy = locked_row_sound [OF books y]
  have r: "available_balance x < 10 ^ 13" "locked_balance x < 10 ^ 13" "available_balance y < 10 ^ 13" "locked_balance y < 10 ^ 13"
    using range row_get_SomeD [OF x] row_get_SomeD [OF y] by (auto simp: in_range_def)
  have cp: "on_cent (2 * stake)" "on_cent ?pay" using c by (auto intro: on_cent_double on_cent_diff)
  have pay: "safe_subtract (safe_add stake stake) fee = ?pay"
    using safe_subtract_cents [OF cp(1) c(2)] by (simp add: safe_add_cents c(1))
  have vals: "safe_subtract (locked_balance x) stake = locked_balance x - stake"
    "safe_add (available_balance x) ?pay = available_balance x + ?pay"
    "safe_subtract (locked_balance y) stake = locked_balance y - stake"
    using sx sy c cp by (simp_all add: safe_subtract_cents safe_add_cents)
  define x' where "x' = set_balances (Some (available_balance x + ?pay)) (Some (locked_balance x - stake)) x"
  define y' where "y' = set_balances None (Some (locked_balance y - stake)) y"
  define s1 where "s1 = put_wallet winner (set_balances (Some (available_balance x + ?pay)) (Some (locked_balance x - stake))) ?l"
  define s2 where "s2 = put_wallet loser (set_balances None (Some (locked_balance y - stake))) s1"
  have fit: "fits_cents (Some (available_balance x + ?pay))" "fits_cents (Some (locked_balance x - stake))"
    "fits_cents (Some (locked_balance y - stake))" "fits_cents None"
    using sx sy c cp p l r room by (auto simp: fits_cents_def on_cent_add on_cent_diff)
  have ok: "wallet_row_ok x'" "wallet_row_ok y'"
    using sx sy p l by (auto simp: wallet_row_ok_def x'_def y'_def set_balances_def)
  have u1: "update_balances x (Some (available_balance x + ?pay)) (Some (locked_balance x - stake)) ?l = Inr (x', s1)"
    using update_runs [of winner ?l x x] x row_get_SomeD [OF x] fit ok by (simp add: x'_def s1_def)
  have "row_get wallet_user loser (wallets s1) = Some y"
    using y assms(3) by (simp add: s1_def wallet_tab.get_put)
  then have u2: "update_balances y None (Some (locked_balance y - stake)) s1 = Inr (y', s2)"
    using update_runs [of loser s1 y y] row_get_SomeD [OF y] fit ok by (simp add: y'_def s2_def)
  have post: "postable x' stake" "postable y' stake" "postable x' ?pay"
    using ok sx sy c cp p l r room
    by (auto simp: postable_def x'_def y'_def set_balances_def on_cent_add on_cent_diff)
  define fee_note where "fee_note = (if 0 < fee then [Lit ''platform fee='', MoneyPart fee] else [Lit ''zero fee''])"
  define nts where "nts = (case n of None \<Rightarrow> fee_note
     | Some t \<Rightarrow> if list_all empty_part t then fee_note else t @ Lit ''; '' # fee_note)"
  obtain z s3 where w: "write_settlement_winner x' y' stake ?pay bid (Some nts) s2 = Inr (z, s3)"
    using never_failsD [OF write_settlement_winner_never_fails [OF post]] by blast
  have "transfer_locked_funds winner loser stake fee bid n s = Inr ((x', y'), s3)"
    using p l sx room
    by (simp add: transfer_locked_funds_def Let_def tx_run lock_pair_runs [OF x y] pay vals verify_non_negative_def
        u1 u2 w [unfolded nts_def fee_note_def] not_le not_less split del: if_split)
  then show ?thesis by blast
qed

lemma collect_fee_succeeds:
  assumes "platform_sound s" and a: "row_get pa_currency (bet_currency b) (platform_accounts s) = Some a"
    and fee: "on_cent (sp_fee p)" "0 < sp_fee p" and room: "pa_balance a + sp_fee p < 10 ^ 13"
  shows "\<exists>x s'. collect_fee b p s = Inr (x, s')"
proof -
  have sound: "on_cent (pa_balance a)" "0 \<le> pa_balance a" "pa_currency a = bet_currency b"
    using assms(1) row_get_SomeD [OF a] by (auto simp: platform_sound_def)
  then have "safe_add (pa_balance a) (sp_fee p) = pa_balance a + sp_fee p"
    "round_half_up (pa_balance a + sp_fee p) = pa_balance a + sp_fee p" "round_half_up (sp_fee p) = sp_fee p"
    using fee by (simp_all add: safe_add_cents round_on_cent on_cent_add)
  then show ?thesis
    using sound fee room a
    by (simp add: collect_fee_def bind_tx_inv get_for_currency_for_update_inv credit_fee_inv write_platform_entry_inv
        Let_def fits_def put_platform_def row_get_upd platform_row_ok_def platform_entry_ok_def)
qed

lemma mark_settled_succeeds:
  assumes b: "find_bet s (bet_id b) = Some b" and st: "bstatus b = PENDING_SETTLEMENT"
    and c: "on_cent (sp_payout p)" "on_cent (sp_fee p)" "\<bar>sp_payout p\<bar> < 10 ^ 13" "\<bar>sp_fee p\<bar> < 10 ^ 13"
    and ok: "enforce_checks s \<Longrightarrow> bet_row_ok (settled_row now p (sp_payout p) (sp_fee p) b)"
  shows "\<exists>b' s'. mark_settled now b p s = Inr (b', s')"
proof -
  let ?f = "\<lambda>r. if bstatus r = PENDING_SETTLEMENT then settled_row now p (sp_payout p) (sp_fee p) r else r"
  have "b \<in> set (bets s)" using b row_get_SomeD unfolding find_bet_def by fastforce
  then have "filter (\<lambda>r. bet_id r = bet_id b \<and> bstatus r = PENDING_SETTLEMENT) (bets s) \<noteq> []"
    using st by (auto simp: filter_empty_conv)
  moreover have "bet_id (?f r) = bet_id r" for r by (simp add: settled_row_def)
  then have "find_bet (put_bet (bet_id b) ?f s) (bet_id b) = Some (settled_row now p (sp_payout p) (sp_fee p) b)"
    using b st by (simp add: find_bet_def bet_tab.get_put)
  ultimately show ?thesis
    using c ok
    by (auto simp: mark_settled_def bind_tx_inv seq_tx_inv store_money_inv round_on_cent flush_bet_inv)
qed

lemma settled_row_ok:
  assumes "bet_row_ok b" and "bstatus b = PENDING_SETTLEMENT" and "opponent_id b = Some opponent"
    and "sp_outcome p = creator_wins \<and> sp_winner p = Some (creator_id b) \<or>
         sp_outcome p = opponent_wins \<and> sp_winner p = Some opponent"
    and "0 < sp_fee p" and "0 < sp_payout p" and "sp_winner_rate p = Some wr" "0 < wr" "wr < 1" "sp_no_winner_rate p = None"
  shows "bet_row_ok (settled_row now p (sp_payout p) (sp_fee p) b)"
  using assms
  by (auto simp: bet_row_ok_def settled_row_def participants_ok_def winner_identity_ok_def payout_presence_ok_def
      platform_fee_ok_def positive_amount_def rate_ok_def)

lemma locked_covers_stake:
  assumes b: "books s" and f: "find_bet s k = Some x" and st: "bstatus x = PENDING_SETTLEMENT"
    and u: "creator_id x = u \<or> opponent_id x = Some u"
  obtains w where "row_get wallet_user u (wallets s) = Some w" and "stake_amount x \<le> locked_balance w"
proof -
  have x: "x \<in> set (bets s)" using f row_get_SomeD by (fastforce simp: find_bet_def)
  have sound: "\<forall>y \<in> set (bets s). bet_sound y" using booksD(4) [OF b] by (simp add: bets_ok_def)
  have "0 \<le> stake_held u y" if "y \<in> set (bets s)" for y
    using sound that by (auto simp: stake_held_def bet_sound_def)
  then have "stake_held u x \<le> stakes u (bets s)"
    unfolding stakes_def using x by (intro member_le_sum_list) auto
  moreover have "stake_amount x \<le> stake_held u x"
    using u st sound x by (auto simp: stake_held_def bet_sound_def)
  moreover have "0 \<le> withdrawal_holds u (withdrawals s)"
    using booksD(6) [OF b] by (auto simp: withdrawal_holds_def withdrawal_held_def requests_ok_def intro!: sum_list_nonneg)
  ultimately have le: "stake_amount x \<le> balance_in (wallets s) u locked"
    using booksD(7) [OF b] by (simp add: locked_explained_def)
  moreover have "0 < stake_amount x" using sound x by (simp add: bet_sound_def)
  ultimately obtain w where "row_get wallet_user u (wallets s) = Some w"
    by (cases "row_get wallet_user u (wallets s)") (auto simp: balance_in_def)
  with le show thesis by (intro that) (auto simp: balance_in_def field_of_def)
qed

lemma settle_tail:
  assumes plat: "platform_sound s1" and m: "moved d s1 s2"
    and b: "find_bet s1 (bet_id b) = Some b" "bstatus b = PENDING_SETTLEMENT"
    and a: "row_get pa_currency (bet_currency b) (platform_accounts s1) = Some a"
    and p: "on_cent (sp_fee p)" "on_cent (sp_payout p)" "0 < sp_fee p" "0 < sp_payout p" "sp_payout p < 10 ^ 13"
    and room: "pa_balance a + sp_fee p < 10 ^ 13"
    and ok: "enforce_checks s1 \<Longrightarrow> bet_row_ok (settled_row now p (sp_payout p) (sp_fee p) b)"
  shows "\<exists>x s3 b' s'. collect_fee b p s2 = Inr (x, s3) \<and> mark_settled now b p s3 = Inr (b', s')"
proof -
  have same: "bets s2 = bets s1" "platform_accounts s2 = platform_accounts s1" "enforce_checks s2 = enforce_checks s1"
    using m by (simp_all add: moved_def frame_def same_defs)
  have plat2: "platform_sound s2" and a2: "row_get pa_currency (bet_currency b) (platform_accounts s2) = Some a"
    using plat a same by (simp_all add: platform_sound_def)
  have pos: "0 \<le> pa_balance a" using plat row_get_SomeD [OF a] by (auto simp: platform_sound_def)
  obtain x s3 where f: "collect_fee b p s2 = Inr (x, s3)"
    using collect_fee_succeeds [OF plat2 a2 p(1,3) room] by blast
  have s3: "bets s3 = bets s1 \<and> enforce_checks s3 = enforce_checks s1"
    by (rule collect_fee_inv [OF plat2 p(1) less_imp_le [OF p(3)] f]) (simp add: same)
  have "\<exists>b' s'. mark_settled now b p s3 = Inr (b', s')"
    using s3 b p room pos ok by (intro mark_settled_succeeds) (auto simp: find_bet_def)
  with f show ?thesis by blast
qed

lemma settle_wallets_succeeds:
  assumes s: "wallet_books s" "in_range s"
    and st: "on_cent (stake_amount b)" "0 < stake_amount b" "opponent \<noteq> creator_id b"
    and res: "res = creator_wins \<and> w = creator_id b \<and> l = opponent \<or> res = opponent_wins \<and> w = opponent \<and> l = creator_id b"
    and x: "row_get wallet_user w (wallets s) = Some x" "stake_amount b \<le> locked_balance x"
    and y: "row_get wallet_user l (wallets s) = Some y" "stake_amount b \<le> locked_balance y"
    and fee: "fee = safe_multiply (2 * stake_amount b) wr" "0 < fee" "fee < 2 * stake_amount b"
    and room: "available_balance x + 2 * stake_amount b - fee < 10 ^ 13"
  shows "\<exists>s2. settle_wallets b opponent res wr nr s = Inr (\<lparr>sp_outcome = res, sp_winner = Some w,
    sp_payout = 2 * stake_amount b - fee, sp_fee = fee, sp_winner_rate = Some wr, sp_no_winner_rate = None\<rparr>, s2)"
proof -
  have cfee: "on_cent fee" using fee(1) by simp
  have amounts: "compute_winner_amounts (stake_amount b) wr = (2 * stake_amount b - fee, fee)"
    using st(1) cfee fee(1)
    by (simp add: compute_winner_amounts_def Let_def safe_add_cents safe_subtract_cents on_cent_double)
  have "w \<noteq> l" using res st(3) by auto
  then obtain u s2 where "transfer_locked_funds w l (stake_amount b) fee (bet_id b)
      (Some [Lit ''Settlement: '', Lit (settlement_value res)]) s = Inr (u, s2)"
    using transfer_succeeds [OF s, of w l x y] x y st cfee fee room by fastforce
  then show ?thesis using res st(3) by (auto simp: settle_wallets_def amounts seq_tx_inv Let_def)
qed

text \<open>C14: settlement goes through. A matched bet on sound books whose match has a result one side predicted is
  settled, provided the two rates and the platform's account exist, the fee is positive and less than the pool,
  and the new balances fit their columns.\<close>

theorem settlement_goes_through:
  assumes books: "books s" and range: "in_range s"
    and b: "find_bet s k = Some b" "bstatus b = PENDING_SETTLEMENT" "opponent_id b = Some opponent"
      "opponent_prediction b = Some q"
    and m: "find_match s (bet_match b) = Some m" "outcome m = Some r"
    and side: "r = creator_prediction b \<and> w = creator_id b \<or> r \<noteq> creator_prediction b \<and> r = q \<and> w = opponent"
    and rates: "get_active_rate WINNER_FEE (bet_currency b) now s = Inr (wr, s)" "0 < wr" "wr < 1"
      "get_active_rate NO_WINNER_FEE (bet_currency b) now s = Inr (nr, s)"
    and fee: "fee = safe_multiply (2 * stake_amount b) wr" "0 < fee" "fee < 2 * stake_amount b"
    and room: "balance_in (wallets s) w available + 2 * stake_amount b - fee < 10 ^ 13"
    and a: "row_get pa_currency (bet_currency b) (platform_accounts s) = Some a" "pa_balance a + fee < 10 ^ 13"
    and ok: "enforce_checks s \<longrightarrow> bet_row_ok b"
  shows "\<exists>b' s'. settle_bet now k s = Inr (b', s')"
proof -
  let ?s = "s\<lparr>row_locks := row_locks s @ [BetRow k]\<rparr>" and ?res = "determine_path r (creator_prediction b) q"
  have id: "bet_id b = k" using b(1) row_get_SomeD by (fastforce simp: find_bet_def)
  have st: "on_cent (stake_amount b)" "0 < stake_amount b" "opponent \<noteq> creator_id b"
    using books_bet [OF books b(1)] b(3) by (auto simp: bet_sound_def)
  have chk: "settlement_checks now k s = Inr ((b, opponent, ?res, wr, nr), ?s)"
    using b m rates by (simp add: settlement_checks_inv)
  define l where "l = (if w = creator_id b then opponent else creator_id b)"
  define p where "p = \<lparr>sp_outcome = ?res, sp_winner = Some w, sp_payout = 2 * stake_amount b - fee, sp_fee = fee,
     sp_winner_rate = Some wr, sp_no_winner_rate = None\<rparr>"
  have res: "?res = creator_wins \<and> w = creator_id b \<and> l = opponent \<or> ?res = opponent_wins \<and> w = opponent \<and> l = creator_id b"
    using side st(3) by (auto simp: determine_path_def l_def)
  then have part: "creator_id b = w \<or> opponent_id b = Some w" "creator_id b = l \<or> opponent_id b = Some l"
    using b(3) by auto
  obtain x where x: "row_get wallet_user w (wallets s) = Some x" "stake_amount b \<le> locked_balance x"
    by (rule locked_covers_stake [OF books b(1,2) part(1)])
  obtain y where y: "row_get wallet_user l (wallets s) = Some y" "stake_amount b \<le> locked_balance y"
    by (rule locked_covers_stake [OF books b(1,2) part(2)])
  have cfee: "on_cent fee" using fee(1) by simp
  have cpay: "on_cent (2 * stake_amount b - fee)" using cfee st(1) by (intro on_cent_diff on_cent_double)
  have sb: "wallet_books ?s" "in_range ?s" "platform_sound ?s"
    using booksD(1-3) [OF books] range by (simp_all add: wallet_books_def in_range_def platform_sound_def)
  have "available_balance x + 2 * stake_amount b - fee < 10 ^ 13"
    using room x by (simp add: balance_in_def field_of_def)
  then obtain s2 where sw: "settle_wallets b opponent ?res wr nr ?s = Inr (p, s2)"
    using settle_wallets_succeeds [OF sb(1,2) st res, of x y fee wr nr] x y fee by (auto simp: p_def)
  have "0 \<le> nr \<and> nr \<le> 1" using active_rate_ok [OF booksD(3) [OF books] rates(4)] by simp
  then have mv: "moved (settlement_change b opponent p) ?s s2"
    using settle_wallets_moved [OF sb(1) st _ _ _ _ _ sw] rates(2,3) res by auto
  have fields: "sp_fee p = fee" "sp_payout p = 2 * stake_amount b - fee" by (simp_all add: p_def)
  have "0 \<le> balance_in (wallets s) w available" by (rule balance_nonneg [OF booksD(1) [OF books]])
  then have pay: "2 * stake_amount b - fee < 10 ^ 13" using room by simp
  have row: "bet_row_ok (settled_row now p (sp_payout p) (sp_fee p) b)" if "enforce_checks ?s"
    using that ok rates(2,3) fee res
    by (intro settled_row_ok [OF _ b(2,3)]) (auto simp: p_def)
  have "\<exists>x s3 b' s'. collect_fee b p s2 = Inr (x, s3) \<and> mark_settled now b p s3 = Inr (b', s')"
    by (rule settle_tail [OF sb(3) mv _ b(2) _ _ _ _ _ _ _ row])
       (use b(1) a fee cfee cpay pay in \<open>simp_all add: fields id find_bet_def\<close>)
  then obtain v s3 b' s4 where f: "collect_fee b p s2 = Inr (v, s3)" and u: "mark_settled now b p s3 = Inr (b', s4)"
    by blast
  show ?thesis using chk sw f u by (simp add: settle_bet_def tx_run add_event_def)
qed

theorem settlement_goes_through_witness:
  "\<exists>b' s'. settle_bet 10 31 (demo_pending away_win) = Inr (b', s')"
proof -
  let ?s = "demo_pending away_win" and ?b = "demo_bet PENDING_SETTLEMENT (Some 2) (Some away_win)"
  have range: "in_range ?s" by (simp add: in_range_def demo_pending_def demo_matched_def demo_wallet_def)
  have b: "find_bet ?s 31 = Some ?b" "bstatus ?b = PENDING_SETTLEMENT" "opponent_id ?b = Some 2"
    "opponent_prediction ?b = Some away_win"
    by (simp_all add: find_bet_def demo_pending_def demo_bet_def)
  obtain m where m: "find_match ?s (bet_match ?b) = Some m" "outcome m = Some away_win"
    by (simp add: find_match_def demo_states demo_bet_def derby_def)
  have side: "away_win = creator_prediction ?b \<and> 2 = creator_id ?b \<or>
      away_win \<noteq> creator_prediction ?b \<and> away_win = away_win \<and> 2 = (2::nat)" by (simp add: demo_bet_def)
  have r: "get_active_rate WINNER_FEE (bet_currency ?b) 10 ?s = Inr (1 / 10, ?s)"
    "get_active_rate NO_WINNER_FEE (bet_currency ?b) 10 ?s = Inr (1 / 20, ?s)"
    by (simp_all add: get_active_rate_inv demo_states demo_bet_def)
  have fee: "2 = safe_multiply (2 * stake_amount ?b) (1 / 10)"
    by (simp add: safe_multiply_def round_half_up_def round_half_away_def demo_bet_def)
  obtain a where a: "row_get pa_currency (bet_currency ?b) (platform_accounts ?s) = Some a" "pa_balance a + 2 < 10 ^ 13"
    by (simp add: demo_states demo_bet_def)
  have ok: "enforce_checks ?s \<longrightarrow> bet_row_ok ?b"
    by (simp add: eval_constraints demo_bet_def minutes_def)
  have room: "balance_in (wallets ?s) 2 available + 2 * stake_amount ?b - 2 < 10 ^ 13"
    by (simp add: demo_pending_def demo_matched_def balance_in_def demo_wallet_def field_of_def demo_bet_def)
  have "stake_amount ?b = 10" by (simp add: demo_bet_def)
  then show ?thesis
    using settlement_goes_through [OF demo_books(4) range b m side r(1) _ _ r(2) fee _ _ room a ok] by simp
qed

section \<open>The order of row locks\<close>

definition same_locks :: "db \<Rightarrow> db \<Rightarrow> bool" where
  "same_locks s s' \<longleftrightarrow> row_locks s' = row_locks s"

interpretation lockless: tx_rel same_locks
  by unfold_locales (simp_all add: same_locks_def)

lemma writes_lockless:
  "keeps same_locks (create_entry u wid ty fld dir a rty rid av lk n)"
  "keeps same_locks (update_balances w oav olk)" "keeps same_locks (add_event b ety ac lb pl)"
  "keeps same_locks (flush_bet b f)" "keeps same_locks (credit_fee pa a)" "keeps same_locks (store_money a)"
  "keeps same_locks (write_platform_entry pa a b pty path)"
  by (auto simp: keeps_def tx_inv same_locks_def Let_def put_wallet_def put_bet_def put_platform_def)

lemma writers_lockless:
  "keeps same_locks (write_settlement_winner ww lw st po bid n)"
  "keeps same_locks (write_settlement_no_winner cw ow f r bid n)"
  "keeps same_locks (write_void_refund w a bid n)"
  unfolding write_settlement_winner_def write_settlement_no_winner_def write_no_winner_share_def write_void_refund_def
  by (intro lockless.keeps_steps lockless.keeps_for_each writes_lockless)+

lemma locks_after: "m s = Inr (x, s') \<Longrightarrow> keeps same_locks m \<Longrightarrow> row_locks s' = row_locks s"
  by (auto dest: keepsD simp: same_locks_def)

lemma settle_wallets_locks:
  assumes run: "settle_wallets b opponent result wr nr s = Inr (p, s')"
  shows "row_locks s' = row_locks s @
    [WalletRow (min (creator_id b) opponent), WalletRow (max (creator_id b) opponent)]"
proof (cases "result = creator_wins \<or> result = opponent_wins")
  case True
  obtain payout fee where "compute_winner_amounts (stake_amount b) wr = (payout, fee)" by force
  with run True obtain w l x n where t: "transfer_locked_funds w l (stake_amount b) fee (bet_id b) n s = Inr (x, s')"
    and wl: "w = creator_id b \<and> l = opponent \<or> w = opponent \<and> l = creator_id b"
    by (auto simp: settle_wallets_def Let_def seq_tx_inv split: if_splits)
  have "row_locks s' = row_locks s @ [WalletRow (min w l), WalletRow (max w l)]"
    by (rule transfer_locked_funds_inv [OF t])
       (auto dest!: locks_after [OF _ writes_lockless(2)] locks_after [OF _ writers_lockless(1)])
  with wl show ?thesis by (auto simp: min.commute max.commute)
next
  case False
  obtain refund fee where "compute_no_winner_amounts (stake_amount b) nr = (refund, fee)" by force
  with run False obtain x where
    "settle_no_winner (creator_id b) opponent (stake_amount b) fee refund (bet_id b) s = Inr (x, s')"
    by (auto simp: settle_wallets_def Let_def seq_tx_inv)
  then show ?thesis
    by (rule settle_no_winner_inv)
       (auto dest!: locks_after [OF _ writes_lockless(2)] locks_after [OF _ writers_lockless(2)])
qed

text \<open>C35: a settlement locks the bet, then the two wallets in ascending order of their owners, then the
  platform's account, whoever created the bet and whoever won it: two settlements cannot wait for each other in a circle.\<close>

theorem settlement_lock_order:
  assumes "settle_bet now k s = Inr (b', s')" and "find_bet s k = Some b" and "opponent_id b = Some opponent"
  shows "row_locks s' = row_locks s @ [BetRow k, WalletRow (min (creator_id b) opponent),
    WalletRow (max (creator_id b) opponent), PlatformRow (bet_currency b)]"
proof -
  obtain c opp result wr nr s1 p s2 x s3 s4 y ty ac l pl where
    c: "settlement_checks now k s = Inr ((c, opp, result, wr, nr), s1)"
    and w: "settle_wallets c opp result wr nr s1 = Inr (p, s2)"
    and f: "collect_fee c p s2 = Inr (x, s3)" and u: "mark_settled now c p s3 = Inr (b', s4)"
    and e: "add_event (bet_id b') ty ac l pl s4 = Inr (y, s')"
    using assms(1) unfolding settle_bet_def
    by (auto simp only: bind_tx_inv seq_tx_inv ret_inv split_paired_Ex prod.case)
  have eq: "c = b" "opp = opponent" and s1: "row_locks s1 = row_locks s @ [BetRow k]"
    using c assms(2,3) by (auto simp: settlement_checks_inv)
  have "row_locks s3 = row_locks s2 @ [PlatformRow (bet_currency b)]"
    using f eq by (auto simp: collect_fee_def bind_tx_inv get_for_currency_for_update_inv
        dest!: locks_after [OF _ writes_lockless(5)] locks_after [OF _ writes_lockless(7)])
  moreover have "row_locks s4 = row_locks s3"
    using u by (auto simp: mark_settled_def bind_tx_inv seq_tx_inv flush_bet_inv put_bet_def
        dest!: locks_after [OF _ writes_lockless(6)])
  ultimately show ?thesis
    using settle_wallets_locks [OF w] eq s1 locks_after [OF e writes_lockless(3)] by simp
qed

theorem settlement_lock_order_witness:
  "\<exists>b' s'. settle_bet 10 31 (demo_pending home_win) = Inr (b', s') \<and>
     row_locks s' = [BetRow 31, WalletRow 1, WalletRow 2, PlatformRow ''ZAR'']"
proof -
  let ?b = "demo_bet PENDING_SETTLEMENT (Some 2) (Some away_win)"
  obtain b' s' where run: "settle_bet 10 31 (demo_pending home_win) = Inr (b', s')" using demo_settles by blast
  have b: "find_bet (demo_pending home_win) 31 = Some ?b" "opponent_id ?b = Some 2"
    by (simp_all add: find_bet_def demo_pending_def demo_bet_def)
  show ?thesis using run settlement_lock_order [OF run b] by (simp add: demo_bet_def demo_states)
qed

lemma change_one_locks:
  assumes run: "change_one short av lk wr u s = Inr (w, s')" and "\<And>w. keeps same_locks (wr w)"
  shows "row_locks s' = row_locks s @ [WalletRow u]"
  using run by (auto simp: change_one_def bind_tx_inv seq_tx_inv get_by_user_id_for_update_inv
      dest!: locks_after [OF _ writes_lockless(2)] locks_after [OF _ assms(2)])

lemma void_refund_locks:
  "void_refund u a r n s = Inr (w, s') \<Longrightarrow> row_locks s' = row_locks s @ [WalletRow u]"
  unfolding void_refund_shape by (erule change_one_locks) (rule writers_lockless)

text \<open>Voiding a matched bet locks the creator's wallet before the opponent's, in whatever order their ids are:
  with the greater id on the creator's side this is the opposite of the order of a settlement of the same two users.\<close>

theorem void_lock_order:
  assumes "void_bet k adm reason s = Inr (us, s')" and "find_bet s k = Some b"
    and "bstatus b = MATCHED" and "opponent_id b = Some opponent"
  shows "row_locks s' = row_locks s @ [BetRow k, WalletRow (creator_id b), WalletRow opponent]"
  using assms
  by (auto simp: void_bet_def Let_def bind_tx_inv seq_tx_inv get_bet_for_update_inv flush_bet_inv put_bet_def
      add_event_inv dest!: void_refund_locks)

text \<open>The same bet with the two users' sides exchanged.\<close>

definition demo_swapped :: db where
  "demo_swapped = demo_matched\<lparr>bets := [(demo_bet MATCHED (Some 1) (Some away_win))\<lparr>creator_id := 2\<rparr>]\<rparr>"

lemma demo_voids: "\<exists>us s'. void_bet 31 9 None demo_swapped = Inr (us, s')"
  by (simp add: eval_all demo_swapped_def void_bet_def cong: lazily)

theorem void_lock_order_witness:
  "\<exists>us s'. void_bet 31 9 None demo_swapped = Inr (us, s') \<and>
     row_locks s' = [BetRow 31, WalletRow 2, WalletRow 1]"
proof -
  obtain us s' where run: "void_bet 31 9 None demo_swapped = Inr (us, s')" using demo_voids by blast
  obtain b where b: "find_bet demo_swapped 31 = Some b" "bstatus b = MATCHED" "opponent_id b = Some 1" "creator_id b = 2"
    by (simp add: find_bet_def demo_swapped_def demo_bet_def)
  show ?thesis using run void_lock_order [OF run b(1-3)] b(4) by (simp add: demo_swapped_def demo_states)
qed

section \<open>The accounting of a confirmed match\<close>

text \<open>Steps that never raise a given error.\<close>

definition avoids :: "error \<Rightarrow> 'a dbtx \<Rightarrow> bool" where
  "avoids e m \<longleftrightarrow> (\<forall>s. m s \<noteq> Inl e)"

lemma avoids_steps:
  "avoids e (ret x)" "avoids e (gets f)" "avoids e (modify g)" "e' \<noteq> e \<Longrightarrow> avoids e (raise_if b e')"
  "e' \<noteq> e \<Longrightarrow> avoids e (require_some e' r)" "e' \<noteq> e \<Longrightarrow> avoids e (throw e')"
  by (auto simp: avoids_def tx_run require_some_def split: option.splits)

lemma avoids_bind: "avoids e m \<Longrightarrow> (\<And>x. avoids e (f x)) \<Longrightarrow> avoids e (bind_tx m f)"
  by (auto simp: avoids_def bind_tx_def split: sum.splits)

lemma avoids_seq: "avoids e m \<Longrightarrow> avoids e n \<Longrightarrow> avoids e (seq_tx m n)"
  unfolding seq_tx_def by (rule avoids_bind)

lemma avoids_cases:
  "avoids e m \<Longrightarrow> avoids e n \<Longrightarrow> avoids e (if b then m else n)"
  "(\<And>x y. avoids e (f x y)) \<Longrightarrow> avoids e (case p of (x, y) \<Rightarrow> f x y)"
  "avoids e m \<Longrightarrow> (\<And>x. avoids e (h x)) \<Longrightarrow> avoids e (case r of None \<Rightarrow> m | Some x \<Rightarrow> h x)"
  by (auto split: prod.split option.split)

lemmas avoids_intros = avoids_steps avoids_bind avoids_seq avoids_cases

text \<open>None of the steps before the final update raises the idempotency error or touches a bet.\<close>

lemma quiet_steps:
  "avoids SettlementIdempotencyError (settle_wallets b opp res wr nr)"
  "avoids SettlementIdempotencyError (collect_fee b p)"
  unfolding settle_wallets_def collect_fee_def transfer_locked_funds_def settle_no_winner_def lock_pair_def Let_def
    get_by_user_id_for_update_def get_by_user_id_def update_balances_def store_money_opt_def store_money_def check_row_def
    take_lock_def verify_non_negative_def write_settlement_winner_def write_settlement_no_winner_def
    write_no_winner_share_def create_entry_def get_for_currency_for_update_def credit_fee_def write_platform_entry_def
    for_each.simps
  by (intro avoids_intros error.distinct)+

interpretation betless: tx_rel same_bets
  by unfold_locales (simp_all add: same_bets_def)

lemma steps_betless:
  "keeps same_bets (create_entry u wid ty fld dir a rty rid av lk n)"
  "keeps same_bets (update_balances w oav olk)" "keeps same_bets (credit_fee pa a)"
  "keeps same_bets (write_platform_entry pa a b pty path)" "keeps same_bets (get_by_user_id_for_update u)"
  "keeps same_bets (get_for_currency_for_update cur)" "keeps same_bets (verify_non_negative a)"
  by (auto simp: keeps_def tx_inv same_bets_def Let_def put_wallet_def put_platform_def)

lemma settlement_betless:
  "keeps same_bets (settle_wallets b opp res wr nr)" "keeps same_bets (collect_fee b p)"
  unfolding settle_wallets_def collect_fee_def transfer_locked_funds_def settle_no_winner_def lock_pair_def Let_def
    write_settlement_winner_def write_settlement_no_winner_def write_no_winner_share_def for_each.simps
  by (intro betless.keeps_steps steps_betless)+

lemma mark_settled_quiet:
  assumes "find_bet s (bet_id b) = Some r" and "bstatus r = PENDING_SETTLEMENT"
  shows "mark_settled now b p s \<noteq> Inl SettlementIdempotencyError"
proof -
  have "r \<in> set (bets s)" "bet_id r = bet_id b" using assms(1) row_get_SomeD by (fastforce simp: find_bet_def)+
  then have "filter (\<lambda>r. bet_id r = bet_id b \<and> bstatus r = PENDING_SETTLEMENT) (bets s) \<noteq> []"
    using assms(2) by (auto simp: filter_empty_conv)
  moreover have "avoids SettlementIdempotencyError (bind_tx (store_money (sp_payout p)) (\<lambda>payout.
      bind_tx (store_money (sp_fee p)) (\<lambda>fee. flush_bet (bet_id b)
        (\<lambda>r. if bstatus r = PENDING_SETTLEMENT then settled_row now p payout fee r else r))))"
    unfolding store_money_def flush_bet_def check_row_def Let_def by (intro avoids_intros error.distinct)
  ultimately show ?thesis by (auto simp: mark_settled_def bind_tx_run seq_tx_run gets_def avoids_def)
qed

lemma pending_not_already:
  assumes f: "find_bet s k = Some b" and st: "bstatus b = PENDING_SETTLEMENT"
  shows "settle_bet now k s \<noteq> Inl SettlementIdempotencyError"
proof -
  let ?s = "s\<lparr>row_locks := row_locks s @ [BetRow k]\<rparr>"
  have id: "bet_id b = k" using f row_get_SomeD by (fastforce simp: find_bet_def)
  have c: "settlement_checks now k s \<noteq> Inl SettlementIdempotencyError"
  proof -
    have "avoids SettlementIdempotencyError (bind_tx (require_some ValidationError (opponent_id b)) (\<lambda>opponent.
       bind_tx (require_some ValidationError (opponent_prediction b)) (\<lambda>opponent_pred.
       bind_tx (get_match_or_404 (bet_match b)) (\<lambda>m.
       bind_tx (require_some ValidationError (outcome m)) (\<lambda>result.
       bind_tx (get_active_rate WINNER_FEE (bet_currency b) now) (\<lambda>w.
       bind_tx (get_active_rate NO_WINNER_FEE (bet_currency b) now) (\<lambda>n.
       ret (b, opponent, determine_path result (creator_prediction b) opponent_pred, w, n))))))))"
      unfolding get_match_or_404_def get_active_rate_def by (intro avoids_intros error.distinct)
    then show ?thesis
      using f st by (simp add: settlement_checks_def get_bet_for_update_def tx_run take_lock_def avoids_def)
  qed
  show ?thesis
  proof
    assume e: "settle_bet now k s = Inl SettlementIdempotencyError"
    then obtain opp res wr nr where ck: "settlement_checks now k s = Inr ((b, opp, res, wr, nr), ?s)"
      using c f by (auto simp: settle_bet_def bind_tx_run settlement_checks_inv split: sum.splits)
    then obtain p s2 x s3 where w: "settle_wallets b opp res wr nr ?s = Inr (p, s2)"
      and fe: "collect_fee b p s2 = Inr (x, s3)" and m: "mark_settled now b p s3 = Inl SettlementIdempotencyError"
      using e quiet_steps
      by (auto simp: settle_bet_def tx_run add_event_def avoids_def split: sum.splits)
    have "bets s3 = bets s"
      using keepsD [OF settlement_betless(1) w] keepsD [OF settlement_betless(2) fe] by (simp add: same_bets_def)
    with mark_settled_quiet [of s3 b b] f st m show False by (simp add: find_bet_def id)
  qed
qed

definition has_status :: "db \<Rightarrow> uuid \<Rightarrow> bet_status \<Rightarrow> bool" where
  "has_status s k st \<longleftrightarrow> (\<exists>b. find_bet s k = Some b \<and> bstatus b = st)"

lemma settled_effect:
  assumes "books s" and "settle_bet now k s = Inr (b', s')"
  shows "has_status s' k SETTLED" and "j \<noteq> k \<Longrightarrow> find_bet s' j = find_bet s j"
proof -
  obtain b opp p a where "settles now k b opp p a s s'" by (rule settled_by [OF assms])
  then have f: "find_bet s k = Some b"
    and t: "bets s' = row_upd bet_id k (settled_row now p (sp_payout p) (sp_fee p)) (bets s)"
    by (simp_all add: settles_def)
  show "has_status s' k SETTLED" using f t by (simp add: has_status_def find_bet_def row_get_upd settled_row_def)
  show "j \<noteq> k \<Longrightarrow> find_bet s' j = find_bet s j" using t by (simp add: find_bet_def row_get_upd settled_row_def)
qed

lemma has_status_locks [simp]: "has_status (s\<lparr>row_locks := ls\<rparr>) k st = has_status s k st"
  by (simp add: has_status_def find_bet_def)

lemma has_status_cong: "find_bet s' k = find_bet s k \<Longrightarrow> has_status s' k st = has_status s k st"
  by (simp add: has_status_def)

lemma settle_each_accounts:
  assumes "books s" and "distinct ids" and "\<forall>i \<in> set ids. has_status s i PENDING_SETTLEMENT"
    and "settle_each clock ids n k fs s = ((n', k', fs'), s')"
  shows "\<exists>gs. fs' = fs @ gs \<and> k' = k \<and> n' + length gs = n + length ids \<and> set (map fst gs) \<subseteq> set ids \<and>
    (\<forall>i \<in> set ids. has_status s' i (if i \<in> set (map fst gs) then PENDING_SETTLEMENT else SETTLED)) \<and>
    (\<forall>i. i \<notin> set ids \<longrightarrow> find_bet s' i = find_bet s i)"
  using assms
proof (induction ids arbitrary: n k fs s)
  case (Cons i ids)
  from Cons.prems(3) obtain b where b: "find_bet s i = Some b" "bstatus b = PENDING_SETTLEMENT"
    by (auto simp: has_status_def)
  show ?case
  proof (cases "settle_bet (clock i) i s")
    case (Inr v)
    then obtain b' s1 where run: "settle_bet (clock i) i s = Inr (b', s1)" by (cases v) simp
    note eff = settled_effect [OF Cons.prems(1) run]
    let ?s1 = "s1\<lparr>row_locks := []\<rparr>"
    have "books ?s1" using settle_bet_books [OF Cons.prems(1) run] by simp
    moreover have "\<forall>j \<in> set ids. has_status ?s1 j PENDING_SETTLEMENT"
      using Cons.prems(2,3) has_status_cong [OF eff(2)] by (metis distinct.simps(2) has_status_locks list.set_intros(2))
    moreover have "settle_each clock ids (n + 1) k fs ?s1 = ((n', k', fs'), s')"
      using Cons.prems(4) run by (simp add: transact_def)
    ultimately obtain gs where gs: "fs' = fs @ gs" "k' = k" "n' + length gs = n + 1 + length ids"
      "set (map fst gs) \<subseteq> set ids"
      "\<forall>j \<in> set ids. has_status s' j (if j \<in> set (map fst gs) then PENDING_SETTLEMENT else SETTLED)"
      "\<forall>j. j \<notin> set ids \<longrightarrow> find_bet s' j = find_bet ?s1 j"
      using Cons.IH [of ?s1 "n + 1" k fs] Cons.prems(2) by auto
    have "i \<notin> set ids" using Cons.prems(2) by simp
    then have "has_status s' i SETTLED" "i \<notin> set (map fst gs)"
      using gs(4,6) eff(1) has_status_cong [of s' i ?s1] by auto
    moreover have "find_bet ?s1 j = find_bet s1 j" for j by (simp add: find_bet_def)
    ultimately show ?thesis using gs eff(2) by (intro exI [of _ gs]) auto
  next
    case (Inl e)
    then have ne: "e \<noteq> SettlementIdempotencyError" using pending_not_already [OF b] by auto
    let ?s1 = "s\<lparr>row_locks := []\<rparr>"
    have "settle_each clock ids n k (fs @ [(i, e)]) ?s1 = ((n', k', fs'), s')"
      using Cons.prems(4) Inl ne by (cases e) (simp_all add: transact_def)
    then obtain gs where gs: "fs' = (fs @ [(i, e)]) @ gs" "k' = k" "n' + length gs = n + length ids"
      "set (map fst gs) \<subseteq> set ids"
      "\<forall>j \<in> set ids. has_status s' j (if j \<in> set (map fst gs) then PENDING_SETTLEMENT else SETTLED)"
      "\<forall>j. j \<notin> set ids \<longrightarrow> find_bet s' j = find_bet ?s1 j"
      using Cons.IH [of ?s1 n k "fs @ [(i, e)]"] Cons.prems by auto
    have nb: "i \<notin> set ids" using Cons.prems(2) by simp
    then have "has_status s' i PENDING_SETTLEMENT"
      using gs(6) Cons.prems(3) has_status_cong [of s' i ?s1] by simp
    then have "has_status s' j (if j \<in> set (map fst ((i, e) # gs)) then PENDING_SETTLEMENT else SETTLED)"
      if "j \<in> set (i # ids)" for j using that gs(5) by (cases "j = i") auto
    then have all: "\<forall>j \<in> set (i # ids). has_status s' j
        (if j \<in> set (map fst ((i, e) # gs)) then PENDING_SETTLEMENT else SETTLED)" by blast
    have "find_bet ?s1 j = find_bet s j" for j by (simp add: find_bet_def)
    then show ?thesis
      using gs(1-4,6) by (intro exI [of _ "(i, e) # gs"] conjI all) auto
  qed
qed simp

text \<open>C19: confirming a result accounts for every matched bet of the match: each is either settled, or still
  pending and listed as failed; none is counted as already settled.\<close>

theorem confirmed_match_accounted:
  assumes "books s" and "confirm_and_settle now clock m_id r home away adm s = (Inr res, s')"
  shows "bets_found res = length (matched_bets_of m_id s) \<and> bets_already_settled res = 0 \<and>
    bets_settled res + bets_failed res = bets_found res \<and> bets_failed res = length (failed_bet_ids res) \<and>
    (\<forall>b \<in> set (matched_bets_of m_id s). has_status s' (bet_id b)
       (if bet_id b \<in> set (failed_bet_ids res) then PENDING_SETTLEMENT else SETTLED))"
proof -
  have keyed: "keyed bet_id (bets s)" using booksD(5) [OF assms(1)] .
  obtain bs s1 where cm: "confirm_match now m_id r home away adm s = Inr (bs, s1)"
    using assms(2) by (auto simp: confirm_and_settle_def transact_def Let_def split: sum.splits prod.splits)
  let ?s1 = "s1\<lparr>row_locks := []\<rparr>" and ?ids = "map bet_id (matched_bets_of m_id s)"
  have bs: "bs = map to_pending (matched_bets_of m_id s)" and t: "bets s1 = pending_table m_id (bets s)"
    by (rule confirm_match_inv [OF cm keyed]; simp)+
  have ids: "map bet_id bs = ?ids" by (simp add: bs to_pending_def)
  obtain n k fs where each: "settle_each clock ?ids 0 0 [] ?s1 = ((n, k, fs), s')"
    and res: "bets_found res = length ?ids" "bets_settled res = n" "bets_already_settled res = k"
      "bets_failed res = length fs" "failed_bet_ids res = map fst fs"
    using assms(2) cm ids
    by (cases "settle_each clock ?ids 0 0 [] ?s1") (auto simp: confirm_and_settle_def transact_def Let_def)
  have "distinct ?ids" using keyed by (simp add: keyed_def matched_bets_of_def distinct_map_filter)
  moreover have "has_status ?s1 i PENDING_SETTLEMENT" if i: "i \<in> set ?ids" for i
  proof -
    obtain b where b: "b \<in> set (bets s)" "bet_match b = m_id" "bstatus b = MATCHED" "bet_id b = i"
      using i by (auto simp: matched_bets_of_def)
    have "row_get bet_id i (pending_table m_id bs') =
        map_option (\<lambda>b. if bet_match b = m_id \<and> bstatus b = MATCHED then to_pending b else b) (row_get bet_id i bs')" for bs'
      by (induction bs') (auto simp: pending_table_def to_pending_def)
    then show ?thesis
      using row_get_in [OF keyed b(1)] b t by (simp add: has_status_def find_bet_def to_pending_def)
  qed
  moreover have "books ?s1" using confirm_match_books [OF assms(1) cm] by simp
  ultimately show ?thesis
    using settle_each_accounts [OF _ _ _ each] res by fastforce
qed

lemma demo_confirms:
  "\<exists>bs s'. confirm_match 5 7 home_win 2 1 9 demo_matched = Inr (bs, s')"
  by (simp add: eval_all confirm_match_def cong: lazily)

theorem confirmed_match_accounted_witness:
  "\<exists>res s'. confirm_and_settle 5 (\<lambda>b. 10) 7 home_win 2 1 9 demo_matched = (Inr res, s') \<and>
     bets_settled res + bets_failed res = 1"
proof -
  obtain bs s1 where "confirm_match 5 7 home_win 2 1 9 demo_matched = Inr (bs, s1)" using demo_confirms by blast
  then obtain res s' where run: "confirm_and_settle 5 (\<lambda>b. 10) 7 home_win 2 1 9 demo_matched = (Inr res, s')"
    by (cases "settle_each (\<lambda>b. 10) (map bet_id bs) 0 0 [] (s1\<lparr>row_locks := []\<rparr>)")
       (auto simp: confirm_and_settle_def transact_def Let_def)
  have "length (matched_bets_of 7 demo_matched) = 1"
    by (simp add: matched_bets_of_def demo_matched_def demo_bet_def)
  with confirmed_match_accounted [OF demo_books(3) run] show ?thesis using run by auto
qed

end
