(* ===== verification/Match_Listing.thy ===== *)
theory Match_Listing
  imports Bets Texts "HOL-Library.Multiset"
begin

text \<open>
  \<^verbatim>\<open>app/services/match_service.py\<close>, the queries behind it in \<^verbatim>\<open>app/repositories/match_repository.py\<close> and the computed
  field of \<^verbatim>\<open>app/schemas/match.py\<close>: filtered, paginated lists of matches and whether one accepts bets. Two things are
  PostgreSQL's and not the code's, and so arguments of the queries: in which order a query comes across the rows its ORDER BY
  does not separate, and how the locale folds case.
\<close>

section \<open>What the database decides\<close>

text \<open>\<open>scan_order\<close>: the order of the rows before this query sorts them; \<open>fold_case\<close>: the code points of the lower-cased text.\<close>

record query_plan =
  scan_order :: "match_row list \<Rightarrow> match_row list"
  fold_case :: "string \<Rightarrow> nat list"

text \<open>\<open>LIKE\<close> on code points: 37 is the percent sign, 95 the underscore, 92 the backslash that escapes the next one.\<close>

fun like :: "nat list \<Rightarrow> nat list \<Rightarrow> bool" where
  "like [] t = (t = [])"
| "like (c # p) [] = (c = 37 \<and> like p [])"
| "like (c # p) (x # t) =
     (if c = 37 then like p (x # t) \<or> like (c # p) t
      else if c = 95 then like p t
      else if c = 92 then (case p of [] \<Rightarrow> False | d # q \<Rightarrow> x = d \<and> like q t)
      else x = c \<and> like p t)"

text \<open>\<open>ILIKE\<close> lower-cases both sides.\<close>

definition ilike :: "(string \<Rightarrow> nat list) \<Rightarrow> string \<Rightarrow> string \<Rightarrow> bool" where
  "ilike lower t pattern = like (lower pattern) (lower t)"

section \<open>The listing\<close>

definition get_filtered ::
  "query_plan \<Rightarrow> page_params \<Rightarrow> match_status option \<Rightarrow> string option \<Rightarrow> (match_row list \<times> nat) dbtx" where
  "get_filtered plan p st cname = gets (\<lambda>s.
     paginate (sort_key kickoff_at (scan_order plan (filter (\<lambda>m.
       (case st of None \<Rightarrow> True | Some x \<Rightarrow> mstatus m = x) \<and>
       (case cname of None \<Rightarrow> True | Some c \<Rightarrow> ilike (fold_case plan) (competition m) (''%'' @ c @ ''%''))) (matches s)))) p)"

definition get_available :: "query_plan \<Rightarrow> page_params \<Rightarrow> (match_row list \<times> nat) dbtx" where
  "get_available plan p = gets (\<lambda>s.
     paginate (sort_key kickoff_at (scan_order plan (filter (\<lambda>m. mstatus m = MS_scheduled) (matches s)))) p)"

record 'a paginated_response =
  items :: "'a list"
  item_count :: nat
  resp_page :: nat
  resp_page_size :: nat
  resp_pages :: nat

definition paginated :: "'a list \<times> nat \<Rightarrow> page_params \<Rightarrow> 'a paginated_response" where
  "paginated q p = \<lparr>items = fst q, item_count = snd q, resp_page = page p, resp_page_size = page_size p,
     resp_pages = page_count (snd q) (page_size p)\<rparr>"

definition get_matches ::
  "query_plan \<Rightarrow> page_params \<Rightarrow> match_status option \<Rightarrow> string option \<Rightarrow> match_row paginated_response dbtx" where
  "get_matches plan p st cname = bind_tx (get_filtered plan p st cname) (\<lambda>q. ret (paginated q p))"

definition get_available_matches :: "query_plan \<Rightarrow> page_params \<Rightarrow> match_row paginated_response dbtx" where
  "get_available_matches plan p = get_matches plan p (Some MS_scheduled) None"

definition get_match_by_id :: "uuid \<Rightarrow> match_row dbtx" where
  "get_match_by_id m = get_match_or_404 m"

definition is_betting_open :: "settings \<Rightarrow> datetime \<Rightarrow> match_row \<Rightarrow> bool" where
  "is_betting_open cfg now m =
     (if mstatus m \<noteq> MS_scheduled then False
      else now < kickoff_at m - minutes (bet_creation_cutoff_minutes cfg))"

section \<open>Properties\<close>

text \<open>A pattern character that stands for itself.\<close>

definition plain_char :: "nat \<Rightarrow> bool" where
  "plain_char c \<longleftrightarrow> c \<notin> {37, 95, 92}"

text \<open>The folding keeps the percent signs around a name.\<close>

definition folds_around :: "(string \<Rightarrow> nat list) \<Rightarrow> bool" where
  "folds_around lower \<longleftrightarrow> (\<forall>c. lower (''%'' @ c @ ''%'') = [37] @ lower c @ [37])"

definition permutes_rows :: "(match_row list \<Rightarrow> match_row list) \<Rightarrow> bool" where
  "permutes_rows scan \<longleftrightarrow> (\<forall>q. mset (scan q) = mset q)"

lemma like_prefix: "list_all plain_char w \<Longrightarrow> like (w @ p) t \<longleftrightarrow> (\<exists>r. t = w @ r \<and> like p r)"
proof (induction w arbitrary: t)
  case (Cons c w)
  then show ?case by (cases t) (auto simp: plain_char_def)
qed simp

lemma like_any: "like [37] t"
  by (induction t) simp_all

lemma like_percent: "like (37 # p) t \<longleftrightarrow> (\<exists>u v. t = u @ v \<and> like p v)"
proof (induction t)
  case (Cons x t)
  show ?case
  proof
    assume "like (37 # p) (x # t)"
    then consider "like p (x # t)" | "\<exists>u v. t = u @ v \<and> like p v" using Cons.IH by auto
    then show "\<exists>u v. x # t = u @ v \<and> like p v"
    proof cases
      case 1
      then show ?thesis by (intro exI [of _ "[]"] exI [of _ "x # t"]) simp
    next
      case 2
      then show ?thesis by (metis append_Cons)
    qed
  next
    assume "\<exists>u v. x # t = u @ v \<and> like p v"
    then show "like (37 # p) (x # t)" using Cons.IH by (auto simp: Cons_eq_append_conv)
  qed
qed simp

lemma ilike_substring:
  assumes "folds_around lower" and "list_all plain_char (lower c)"
  shows "ilike lower t (''%'' @ c @ ''%'') \<longleftrightarrow> sublist (lower c) (lower t)"
proof -
  have pat: "lower (''%'' @ c @ ''%'') = 37 # lower c @ [37]"
    using assms(1) unfolding folds_around_def by (metis append_Cons append_Nil)
  have "ilike lower t (''%'' @ c @ ''%'') \<longleftrightarrow> (\<exists>u v. lower t = u @ v \<and> (\<exists>r. v = lower c @ r))"
    unfolding ilike_def pat like_percent like_prefix [OF assms(2)] by (simp add: like_any)
  then show ?thesis by (auto simp: sublist_def)
qed

text \<open>Sorting does not depend on the scan where no two rows share the key; the keys never do.\<close>

lemma sorted_keys: "permutes_rows scan \<Longrightarrow> map f (sort_key f (scan q)) = sort (map f q)"
  unfolding permutes_rows_def
  by (rule properties_for_sort [symmetric]) simp_all

lemma sorted_rows:
  assumes "permutes_rows scan" and "distinct (map f q)"
  shows "sort_key f (scan q) = sort_key f q"
proof (rule sort_key_inj_key_eq)
  show "mset (scan q) = mset (sort_key f q)" using assms(1) by (simp add: permutes_rows_def)
  have "set (scan q) = set q" using assms(1) by (intro mset_eq_setD) (simp add: permutes_rows_def)
  then show "inj_on f (set (scan q))" using assms(2) by (simp add: distinct_map)
qed simp

text \<open>A database that folds ASCII.\<close>

definition ascii_lower :: "string \<Rightarrow> nat list" where
  "ascii_lower t = map of_char (str_lower t)"

lemma ascii_folds: "folds_around ascii_lower"
  by (simp add: folds_around_def ascii_lower_def str_lower_def lower_char_def)

section \<open>Pages\<close>

lemma pages_concat: "0 < n \<Longrightarrow> concat (map (\<lambda>k. take n (drop (k * n) q)) [0..<m]) = take (m * n) q"
proof (induction m)
  case (Suc m)
  have "Suc m * n = m * n + n" by simp
  with Suc show ?case by (simp only: take_add upt_Suc_append le0 map_append concat_append list.map concat.simps append_Nil2)
qed simp

lemma page_count_covers: "0 < n \<Longrightarrow> l \<le> page_count l n * n"
proof -
  assume n: "0 < n"
  show ?thesis
  proof (cases "l = 0")
    case False
    have "l \<le> (l + n - 1) div n * n"
      using n dividend_less_times_div [of n "l + n - 1"] by (simp add: algebra_simps)
    then show ?thesis using False by (simp add: page_count_def) (metis (no_types) le_trans max.cobounded2 mult_le_mono1)
  qed (simp add: page_count_def)
qed

end
