(* ===== verification/Fixture_Properties.thy ===== *)
theory Fixture_Properties
  imports Settlement_Progress Match_Listing
begin

text \<open>
  Matches: the listing against its specification, the computed \<open>is_betting_open\<close> against the guard of
  \<open>create_bet\<close>, what a synchronisation does to a fixture, what a failed flush does to a run, and the
  finality of a confirmed result.
\<close>

section \<open>The listing\<close>



text \<open>Without distinct kick-offs pages can repeat a match and miss another: the ORDER BY has no tie-break, so two queries may order
  matches of the same kick-off differently.\<close>

definition second_derby :: match_row where
  "second_derby = derby\<lparr>match_id := 8, external_id := ''x9''\<rparr>"

theorem tied_pages_repeat:
  assumes "matches s = [derby, second_derby]"
  shows "get_matches \<lparr>scan_order = id, fold_case = lower\<rparr> \<lparr>page = 1, page_size = 1\<rparr> None None s =
      Inr (\<lparr>items = [derby], item_count = 2, resp_page = 1, resp_page_size = 1, resp_pages = 2\<rparr>, s) \<and>
    get_matches \<lparr>scan_order = rev, fold_case = lower\<rparr> \<lparr>page = 2, page_size = 1\<rparr> None None s =
      Inr (\<lparr>items = [derby], item_count = 2, resp_page = 2, resp_page_size = 1, resp_pages = 2\<rparr>, s)"
  by (simp add: get_matches_def get_filtered_def bind_tx_def gets_def ret_def assms paginated_def paginate_def page_limit_def
      page_offset_def page_count_def second_derby_def derby_def)

section \<open>Whether a match accepts bets\<close>

text \<open>The field \<open>is_betting_open\<close> of a match response agrees with the server: for an active user \<open>create_bet\<close> answers that the
  match is not available exactly when the field is false at that moment.\<close>

theorem betting_open_agrees:
  assumes "ustatus creator = US_active" and "find_match s m_id = Some m"
  shows "create_bet cfg now new_id creator m_id p stake s = Inl MatchNotAvailableError \<longleftrightarrow> \<not> is_betting_open cfg now m"
proof (cases "is_betting_open cfg now m")
  case True
  have "avoids MatchNotAvailableError (lock_stake u a b n)" "avoids MatchNotAvailableError (insert_bet x)"
    "avoids MatchNotAvailableError (add_event b ty ac l pl)" for u a b n x ty ac l pl
    unfolding lock_stake_def insert_bet_def verify_non_negative_def Let_def get_by_user_id_for_update_def
      get_by_user_id_def update_balances_def store_money_opt_def store_money_def check_row_def take_lock_def
      write_stake_lock_def create_entry_def add_event_def
    by (intro avoids_intros error.distinct)+
  then have quiet: "lock_stake u a b n t \<noteq> Inl MatchNotAvailableError" "insert_bet x t \<noteq> Inl MatchNotAvailableError"
    "add_event b ty ac l pl t \<noteq> Inl MatchNotAvailableError" for u a b n x ty ac l pl t
    by (simp_all add: avoids_def)
  have "create_bet cfg now new_id creator m_id p stake s \<noteq> Inl MatchNotAvailableError"
    using True assms quiet
    by (auto simp: create_bet_def get_match_or_404_def is_betting_open_def tx_run split: if_splits sum.splits)
  with True show ?thesis by simp
next
  case False
  then show ?thesis
    using assms by (auto simp: create_bet_def get_match_or_404_def is_betting_open_def tx_run split: if_splits)
qed

theorem betting_open_agrees_witness:
  "create_bet demo_settings (minutes 59) 32 alice 7 home_win 10 demo_funded = Inl MatchNotAvailableError"
proof -
  have "find_match demo_funded 7 = Some derby" by (simp add: find_match_def demo_states derby_def)
  moreover have "ustatus alice = US_active" by (simp add: alice_def)
  ultimately show ?thesis
    using betting_open_agrees [of alice demo_funded 7 derby demo_settings "minutes 59" 32 home_win 10]
    by (simp add: is_betting_open_def derby_def demo_settings_def minutes_def)
qed

section \<open>Synchronisation\<close>

text \<open>Applying the same payload to a row it was applied to changes nothing.\<close>

lemma names_assigned:
  "home_team (fst (assign_names p r)) = name_text (p_home_team p)"
  "away_team (fst (assign_names p r)) = name_text (p_away_team p)"
  "competition (fst (assign_names p r)) = name_text (p_competition p)"
  by (auto simp: assign_names_def assign_name_def name_text_def split: prod.splits dest: sym)

lemma changes_stable:
  assumes "named p"
  shows "fixture_changes p (fst (fixture_changes p m)) = (fst (fixture_changes p m), False)"
proof -
  have named: "json_str (name_text (p_home_team p)) = p_home_team p" "json_str (name_text (p_away_team p)) = p_away_team p"
    "json_str (name_text (p_competition p)) = p_competition p"
    using assms by (auto simp: named_def payload_names_def name_text_def)
  obtain m1 c1 where n: "assign_names p (m, False) = (m1, c1)" by force
  have names: "home_team m1 = name_text (p_home_team p)" "away_team m1 = name_text (p_away_team p)"
    "competition m1 = name_text (p_competition p)"
    using names_assigned [of p "(m, False)"] by (simp_all add: n)
  obtain m2 c2 where k: "assign_kickoff p (m1, c1) = (m2, c2)" by force
  have k2: "\<not> seconds 60 < \<bar>kickoff_at m2 - p_kickoff_at p\<bar>"
    and n2: "home_team m2 = name_text (p_home_team p)" "away_team m2 = name_text (p_away_team p)"
      "competition m2 = name_text (p_competition p)"
    using k names by (auto simp: assign_kickoff_def seconds_def split: if_splits)
  obtain m3 c3 where st: "assign_status p (m2, c2) = (m3, c3)" by force
  have s3: "\<not> (mstatus m3 \<noteq> internal_status p \<and> internal_status p \<in> set (allowed_transitions (mstatus m3)))"
    and same3: "home_team m3 = name_text (p_home_team p)" "away_team m3 = name_text (p_away_team p)"
      "competition m3 = name_text (p_competition p)"
      "kickoff_at m3 = kickoff_at m2"
    using st n2 by (auto simp: assign_status_def split: if_splits)
  define m4 where "m4 = fst (fixture_changes p m)"
  have m4: "m4 = fst (assign_result p (m3, c3))" by (simp add: m4_def fixture_changes_def n k st)
  have same4: "home_team m4 = name_text (p_home_team p)" "away_team m4 = name_text (p_away_team p)"
      "competition m4 = name_text (p_competition p)"
      "kickoff_at m4 = kickoff_at m2" "mstatus m4 = mstatus m3"
    using same3 by (auto simp: m4 assign_result_def assign_def split: if_splits)
  have r4: "assign_result p (m4, False) = (m4, False)"
    by (auto simp: m4 assign_result_def assign_def)
  show ?thesis
    unfolding m4_def [symmetric]
    using same4 k2 s3 r4
    by (auto simp: fixture_changes_def assign_names_def assign_name_def assign_kickoff_def assign_status_def named)
qed

lemma changes_new: "named p \<Longrightarrow> fixture_changes p (new_match i now p) = (new_match i now p, False)"
  by (auto simp: named_def payload_names_def name_text_def fixture_changes_def assign_names_def assign_name_def assign_def assign_kickoff_def assign_status_def assign_result_def
      new_match_def Let_def seconds_def)

lemma assign_commutes:
  assumes "\<And>m. get (f m) = get m" and "\<And>g m. upd g (f m) = f (upd g m)"
  shows "assign get upd v (map_prod f id r) = map_prod f id (assign get upd v r)"
  by (cases r) (simp add: assign_def assms)

lemma assign_name_commutes:
  assumes "\<And>m. get (f m) = get m" and "\<And>g m. upd g (f m) = f (upd g m)"
  shows "assign_name get upd v (map_prod f id r) = map_prod f id (assign_name get upd v r)"
  by (cases r) (simp add: assign_name_def assms)

lemma changes_synced: "fixture_changes p (m\<lparr>last_synced_at := t\<rparr>) = map_prod (last_synced_at_update (\<lambda>_. t)) id (fixture_changes p m)"
proof -
  let ?at = "last_synced_at_update (\<lambda>_. t)"
  have "assign_names p (map_prod ?at id r) = map_prod ?at id (assign_names p r)" for r
    by (simp add: assign_names_def assign_name_commutes)
  moreover have "assign_kickoff p (map_prod ?at id r) = map_prod ?at id (assign_kickoff p r)" for r
    by (cases r) (simp add: assign_kickoff_def)
  moreover have "assign_status p (map_prod ?at id r) = map_prod ?at id (assign_status p r)" for r
    by (cases r) (simp add: assign_status_def)
  moreover have "assign_result p (map_prod ?at id r) = map_prod ?at id (assign_result p r)" for r
    by (simp add: assign_result_def assign_commutes)
  moreover have "(m\<lparr>last_synced_at := t\<rparr>, False) = map_prod ?at id (m, False)" by simp
  ultimately show ?thesis unfolding fixture_changes_def by (simp only:)
qed

text \<open>The row a payload leaves behind.\<close>

definition settled_row_of :: "match_payload \<Rightarrow> match_row \<Rightarrow> bool" where
  "settled_row_of p m \<longleftrightarrow> fixture_changes p m = (m, False)"

lemma get_by_external_row: "get_by_external_id x = gets (\<lambda>s. row_get external_id x (matches s))"
  by (simp add: get_by_external_id_def row_get_def)

lemma upsert_leaves_stable:
  assumes run: "upsert_fixture i now p s = Inr (a, s')" and k: "keyed match_id (matches s)" "keyed external_id (matches s)"
  obtains m where "row_get external_id (p_external_id p) (matches s') = Some m" and "settled_row_of p m"
    and "keyed match_id (matches s')" and "enforce_checks s' \<longrightarrow> match_row_ok m" and "last_synced_at m = Some now"
    and "named p" and "match_row_fits m"
proof (cases "row_get external_id (p_external_id p) (matches s)")
  case None
  then have "s' = s\<lparr>matches := matches s @ [new_match i now p]\<rparr>" "find_match s i = None"
    "enforce_checks s \<longrightarrow> match_row_ok (new_match i now p)" "named p" "match_row_fits (new_match i now p)"
    using run by (auto simp: upsert_fixture_def create_fixture_def insert_match_def get_by_external_row bind_tx_inv
        seq_tx_inv bind_names_inv raise_if_inv check_row_inv new_match_def Let_def split: if_splits)
  moreover have "external_id (new_match i now p) = p_external_id p" "match_id (new_match i now p) = i"
    "last_synced_at (new_match i now p) = Some now"
    by (simp_all add: new_match_def Let_def)
  ultimately show thesis
    using None k(1) by (intro that [of "new_match i now p"])
      (auto simp: settled_row_of_def changes_new keyed_append_one find_match_def row_get_append)
next
  case (Some e)
  let ?f = "\<lambda>r. (fst (fixture_changes p r))\<lparr>last_synced_at := Some now\<rparr>"
  have s': "s' = s\<lparr>matches := row_upd match_id (match_id e) ?f (matches s)\<rparr>"
    and named: "named p"
    and ok: "\<exists>m. row_get match_id (match_id e) (matches s') = Some m \<and> match_row_fits m \<and> (enforce_checks s \<longrightarrow> match_row_ok m)"
    using run Some by (auto simp: upsert_fixture_def update_fixture_def get_by_external_row bind_tx_inv seq_tx_inv
        bind_names_inv flush_match_inv put_match_def find_match_def)
  have e: "e \<in> set (matches s)" "external_id e = p_external_id p"
    using row_get_SomeD [OF Some] by simp_all
  have get: "row_get match_id (match_id e) (matches s) = Some e" by (rule row_get_in [OF k(1) e(1)])
  then have upd: "row_get match_id (match_id e) (matches s') = Some (?f e)"
    by (simp add: s' row_get_upd)
  then have "?f e \<in> set (matches s')" by (rule row_get_SomeD [THEN conjunct1])
  moreover have "keyed external_id (matches s')"
    unfolding s' using k(2) by (simp add: keyed_def map_row_upd)
  ultimately have "row_get external_id (external_id (?f e)) (matches s') = Some (?f e)"
    by (intro row_get_in)
  then have "row_get external_id (p_external_id p) (matches s') = Some (?f e)"
    using e(2) by simp
  moreover have "settled_row_of p (?f e)"
    by (simp add: settled_row_of_def changes_synced changes_stable [OF named])
  ultimately show thesis
    using ok upd k(1) named by (intro that) (auto simp: s' keyed_upd)
qed

text \<open>C32: synchronisation is idempotent: upserting a payload again, as the next run does, succeeds, reports that nothing
  changed, and changes nothing but the time of the last synchronisation.\<close>

theorem sync_idempotent:
  assumes "upsert_fixture i now p s = Inr (a, s1)"
    and "keyed match_id (matches s)" and "keyed external_id (matches s)"
  shows "\<exists>m. row_get external_id (p_external_id p) (matches s1) = Some m \<and>
    upsert_fixture i' now' p s1 = Inr (sync_skipped, put_match (match_id m) (\<lambda>r. r\<lparr>last_synced_at := Some now'\<rparr>) s1)"
proof -
  obtain m where m: "row_get external_id (p_external_id p) (matches s1) = Some m" "settled_row_of p m"
    "keyed match_id (matches s1)" "enforce_checks s1 \<longrightarrow> match_row_ok m" "named p" "match_row_fits m"
    by (rule upsert_leaves_stable [OF assms])
  let ?f = "\<lambda>r. (fst (fixture_changes p r))\<lparr>last_synced_at := Some now'\<rparr>"
  have "m \<in> set (matches s1)" using row_get_SomeD [OF m(1)] by simp
  then have get: "row_get match_id (match_id m) (matches s1) = Some m" by (rule row_get_in [OF m(3)])
  have "row_upd match_id (match_id m) ?f (matches s1) =
      row_upd match_id (match_id m) (\<lambda>r. r\<lparr>last_synced_at := Some now'\<rparr>) (matches s1)"
    unfolding row_upd_def
  proof (rule map_cong [OF refl])
    fix r
    assume "r \<in> set (matches s1)"
    then show "(if match_id r = match_id m then ?f r else r) = (if match_id r = match_id m then r\<lparr>last_synced_at := Some now'\<rparr> else r)"
    proof (cases "match_id r = match_id m")
      case True
      then have "r = m" using row_get_in [OF m(3) \<open>r \<in> set (matches s1)\<close>] get by (metis option.inject)
      have "fst (fixture_changes p m) = m" using m(2) by (simp add: settled_row_of_def)
      then show ?thesis unfolding \<open>r = m\<close> by simp
    next
      case False
      then show ?thesis by (simp only: if_False)
    qed
  qed
  then have put: "put_match (match_id m) ?f s1 = put_match (match_id m) (\<lambda>r. r\<lparr>last_synced_at := Some now'\<rparr>) s1"
    by (simp add: put_match_def)
  have ok: "match_row_ok (m\<lparr>last_synced_at := t\<rparr>) = match_row_ok m" "match_row_fits (m\<lparr>last_synced_at := t\<rparr>) = match_row_fits m" for t
    by (simp_all add: match_row_ok_def match_row_fits_def)
  have bound: "bind_names p m s1 = Inr ((), s1)" using m(5,6) by (simp add: bind_names_inv)
  have "flush_match (match_id m) ?f s1 = Inr (m\<lparr>last_synced_at := Some now'\<rparr>, put_match (match_id m) (\<lambda>r. r\<lparr>last_synced_at := Some now'\<rparr>) s1)"
    unfolding flush_match_inv put using m(4,6) get by (simp add: put_match_def find_match_def row_get_upd ok)
  then show ?thesis
    using m(1,2) bound by (simp add: upsert_fixture_def get_by_external_row update_fixture_def tx_run settled_row_of_def)
qed

text \<open>The derby has kicked off, under a corrected name.\<close>

definition demo_payload :: match_payload where
  "demo_payload = \<lparr>p_external_id = ''x7'', p_provider_name = ''api_football'', p_home_team = json_str ''Home'',
     p_away_team = json_str ''A'', p_competition = json_str ''C'', p_kickoff_at = minutes 60, raw_status = ''1H'', internal_status = MS_live,
     home_score = None, away_score = None, internal_outcome = None\<rparr>"

definition live_derby :: match_row where
  "live_derby = derby\<lparr>home_team := ''Home'', mstatus := MS_live, last_synced_at := Some 5\<rparr>"

lemma demo_upserts:
  "upsert_fixture 8 5 demo_payload demo_funded = Inr (sync_updated, demo_funded\<lparr>matches := [live_derby]\<rparr>)"
  by (simp add: upsert_fixture_def get_by_external_row update_fixture_def flush_match_def tx_run check_row_def put_match_def
      find_match_def match_row_ok_def match_row_fits_def short_text_fits demo_payload_def demo_funded_def demo_db_def derby_def
      live_derby_def fixture_changes_def bind_names_def payload_names_def text_or_null_def name_text_def
      assign_names_def assign_name_def assign_def assign_kickoff_def assign_status_def assign_result_def allowed_transitions_def seconds_def)

theorem sync_idempotent_witness:
  "\<exists>s1 m s2. upsert_fixture 8 5 demo_payload demo_funded = Inr (sync_updated, s1) \<and>
     upsert_fixture 9 6 demo_payload s1 = Inr (sync_skipped, s2)"
proof -
  note run = demo_upserts
  have "keyed match_id (matches demo_funded)" "keyed external_id (matches demo_funded)"
    by (simp_all add: demo_funded_def demo_db_def keyed_def)
  from sync_idempotent [OF run this, of 9 6] run show ?thesis by blast
qed

text \<open>A run once its session is gone, and the counters of a run.\<close>

lemma dead_session:
  "process_payloads clock n ps r None = (r', o') \<Longrightarrow> o' = None \<and> n_failed r' = n_failed r + length ps \<and>
     n_created r' = n_created r \<and> n_updated r' = n_updated r \<and> n_skipped r' = n_skipped r \<and>
     fixtures_fetched r' = fixtures_fetched r"
proof (induction ps arbitrary: n r)
  case (Cons p ps)
  from Cons.IH [of "n + 1"] Cons.prems show ?case by (auto simp: count_failure_def)
qed simp

lemma process_append:
  "process_payloads clock n ps r (Some s) = (r1, Some s1) \<Longrightarrow>
     process_payloads clock n (ps @ qs) r (Some s) = process_payloads clock (n + length ps) qs r1 (Some s1)"
proof (induction ps arbitrary: n r s)
  case (Cons p ps)
  have "snd (process_payloads clock (n + 1) ps q None) = None" for q
    using dead_session [of clock "n + 1" ps q] by (metis prod.collapse)
  then obtain a s2 where "upsert_fixture (fst (clock n)) (snd (clock n)) p s = Inr (a, s2)"
    using Cons.prems by (auto split: sum.splits) (metis option.distinct(1) snd_conv)
  then show ?case using Cons.IH [of "n + 1"] Cons.prems by simp
qed simp

lemma live_session:
  "process_payloads clock n ps r (Some s) = (r', Some s') \<Longrightarrow> n_failed r' = n_failed r \<and>
     n_created r' + n_updated r' + n_skipped r' = n_created r + n_updated r + n_skipped r + length ps \<and>
     fixtures_fetched r' = fixtures_fetched r"
proof (induction ps arbitrary: n r s)
  case (Cons p ps)
  have "snd (process_payloads clock (n + 1) ps q None) = None" for q
    using dead_session [of clock "n + 1" ps q] by (metis prod.collapse)
  then obtain a s2 where up: "upsert_fixture (fst (clock n)) (snd (clock n)) p s = Inr (a, s2)"
    using Cons.prems by (auto split: sum.splits) (metis option.distinct(1) snd_conv)
  then show ?case
    using Cons.IH [of "n + 1" "count_action a r" s2] Cons.prems by (cases a) (simp_all add: count_action_def)
qed simp

definition job_payloads :: "provider \<Rightarrow> sync_job \<Rightarrow> match_payload list option" where
  "job_payloads pr job = (case job of
     Upcoming d ids \<Rightarrow> fetch_upcoming_fixtures pr d ids
   | Results d ids \<Rightarrow> fetch_results pr d ids
   | Live ids \<Rightarrow> fetch_live_fixtures pr ids)"

lemma sync_job_run_fetched: "sync_job_run pr clock now job s = sync_fetched clock (job_payloads pr job) (new_result pr now) s"
  by (cases job) (simp_all add: sync_job_run_def job_payloads_def sync_upcoming_def sync_results_def sync_live_def)

text \<open>C40: one fixture the database refuses loses the whole run. If the upserts of the payloads \<open>ps\<close> succeed and that of the
  next one fails, every later payload fails too and nothing is stored; the answer reports the fixtures stored before as created.\<close>

theorem failed_upsert_loses_run:
  assumes "job_payloads pr job = Some (ps @ p # qs)"
    and "process_payloads clock 0 ps ((new_result pr now)\<lparr>fixtures_fetched := length (ps @ p # qs)\<rparr>) (Some s) = (r1, Some s1)"
    and "upsert_fixture (fst (clock (length ps))) (snd (clock (length ps))) p s1 = Inl e"
  shows "snd (sync_request pr clock now job s) = s \<and>
    n_failed (fst (sync_request pr clock now job s)) = 1 + length qs \<and>
    n_created (fst (sync_request pr clock now job s)) = n_created r1 \<and>
    n_updated (fst (sync_request pr clock now job s)) = n_updated r1"
proof -
  obtain r2 o2 where rest: "process_payloads clock (Suc (length ps)) qs (count_failure (upsert_failed (p_external_id p) e) r1) None = (r2, o2)"
    by force
  have run: "sync_job_run pr clock now job s = (r2, o2)"
    using process_append [OF assms(2)] assms(1,3) rest by (simp add: sync_job_run_fetched sync_fetched_def)
  have d: "o2 = None" "n_failed r2 = n_failed r1 + 1 + length qs" "n_created r2 = n_created r1" "n_updated r2 = n_updated r1"
    using dead_session [OF rest] by (simp_all add: count_failure_def)
  have "n_failed r1 = 0" using live_session [OF assms(2)] by (simp add: new_result_def)
  with d show ?thesis by (simp add: sync_request_def run)
qed

text \<open>A provider with a good fixture, one with a negative score, and the good one again.\<close>

definition bad_payload :: match_payload where
  "bad_payload = demo_payload\<lparr>p_external_id := ''x8'', home_score := Some (- 1), away_score := Some 0,
     internal_outcome := Some away_win\<rparr>"

definition demo_provider :: provider where
  "demo_provider = \<lparr>provider_label = ''api_football'', fetch_upcoming_fixtures = (\<lambda>d ids. None),
     fetch_results = (\<lambda>d ids. Some []), fetch_live_fixtures = (\<lambda>ids. Some [demo_payload, bad_payload, demo_payload])\<rparr>"

theorem failed_upsert_loses_run_witness:
  "snd (sync_request demo_provider (\<lambda>n. (8 + n, 5)) 4 (Live None) demo_funded) = demo_funded \<and>
   n_failed (fst (sync_request demo_provider (\<lambda>n. (8 + n, 5)) 4 (Live None) demo_funded)) = 2 \<and>
   n_updated (fst (sync_request demo_provider (\<lambda>n. (8 + n, 5)) 4 (Live None) demo_funded)) = 1"
proof -
  let ?clock = "\<lambda>n::nat. (8 + n, 5::int)" and ?s1 = "demo_funded\<lparr>matches := [live_derby]\<rparr>"
  have jobs: "job_payloads demo_provider (Live None) = Some ([demo_payload] @ bad_payload # [demo_payload])"
    by (simp add: job_payloads_def demo_provider_def)
  have good: "process_payloads ?clock 0 [demo_payload] r (Some demo_funded) = (count_action sync_updated r, Some ?s1)" for r
    using demo_upserts by simp
  have bad: "upsert_fixture (fst (?clock (length [demo_payload]))) (snd (?clock (length [demo_payload]))) bad_payload ?s1 = Inl IntegrityError"
    by (simp add: upsert_fixture_def get_by_external_row create_fixture_def insert_match_def tx_run check_row_def find_match_def
        new_match_def bad_payload_def demo_payload_def demo_funded_def demo_db_def derby_def live_derby_def match_row_ok_def
        match_row_fits_def short_text_fits bind_names_def payload_names_def text_or_null_def name_text_def Let_def)
  show ?thesis using failed_upsert_loses_run [OF jobs good bad] by (simp add: count_action_def new_result_def)
qed

text \<open>A synchronisation without failures accounts for every fixture it fetched and changed nothing but matches; one
  with a failure changed nothing at all.\<close>

theorem answered_sync_accounts:
  "case sync_request pr clock now job s of (r, s') \<Rightarrow>
     (if n_failed r \<noteq> 0 then s' = s
      else s' = s\<lparr>matches := matches s'\<rparr> \<and>
       (case job_payloads pr job of
          None \<Rightarrow> s' = s \<and> sync_errors r = [fetch_failed] \<and> fixtures_fetched r = 0
        | Some ps \<Rightarrow> fixtures_fetched r = length ps \<and> n_created r + n_updated r + n_skipped r = length ps))"
proof (cases "sync_job_run pr clock now job s")
  case (Pair r o')
  have eq: "sync_fetched clock (job_payloads pr job) (new_result pr now) s = (r, o')"
    using Pair by (simp add: sync_job_run_fetched)
  show ?thesis
  proof (cases o')
    case (Some s')
    have "s' = s\<lparr>matches := matches s'\<rparr>"
      using sync_request_synced [of s pr clock now job] Pair Some by (simp add: sync_request_def synced_def)
    then show ?thesis
      using Pair Some eq
      by (auto simp: sync_request_def sync_fetched_def new_result_def dest: live_session split: option.splits)
  next
    case None
    with eq have "n_failed r \<noteq> 0"
      by (auto simp: sync_fetched_def dest: payloads_failures split: option.splits)
    then show ?thesis by (simp add: Pair None sync_request_def)
  qed
qed

section \<open>The result of a match\<close>

text \<open>C27: a confirmed result is final. After an administrator confirmed it, no sequence of requests, synchronisations
  with whatever a provider reports among them, changes outcome, scores or status, and confirming again is refused.\<close>

theorem confirmed_result_final:
  assumes "books s" and "confirm_match now m_id r home away adm s = Inr (bs, s1)" and "list_all admissible rs"
  shows "\<exists>m. find_match (run std cfg rs s1) m_id = Some m \<and> outcome m = Some r \<and> result_home_score m = Some home \<and>
    result_away_score m = Some away \<and> mstatus m = MS_completed \<and> result_confirmed_at m = Some now \<and>
    fst (confirm_and_settle now' clock m_id r' home' away' adm' (run std cfg rs s1)) = Inl ValidationError"
proof -
  let ?v = "(Some now, MS_completed, Some r, Some home, Some away)"
  obtain m0 where m0: "find_match s m_id = Some m0"
    and ms: "matches s1 = row_upd match_id m_id (confirm_row now r home away) (matches s)"
    by (rule confirm_match_inv [OF assms(2) booksD(5) [OF assms(1)]]) auto
  have first: "row_get match_id m_id (matches s1) = Some (confirm_row now r home away m0)"
    using m0 by (simp add: ms find_match_def row_get_upd confirm_row_def)
  note path = run_serves [OF confirm_match_books [OF assms(1,2)] assms(3), where std = std and cfg = cfg]
  have view: "result_view (confirm_row now r home away m0) = ?v" by (simp add: result_view_def confirm_row_def)
  have "\<not> match_edge ?v w" for w by (cases w) (simp add: allowed_transitions_def)
  then obtain m where m: "find_match (run std cfg rs s1) m_id = Some m" "result_view m = ?v"
    using match_life.final_status [OF path first] by (auto simp: view find_match_def)
  have "confirm_match now' m_id r' home' away' adm' (run std cfg rs s1) = Inl ValidationError"
    using m by (simp add: confirm_match_def get_match_for_update_def tx_run take_lock_def result_view_def)
  then have "fst (confirm_and_settle now' clock m_id r' home' away' adm' (run std cfg rs s1)) = Inl ValidationError"
    by (simp add: confirm_and_settle_def transact_def)
  with m show ?thesis by (simp add: result_view_def)
qed

theorem confirmed_result_final_witness:
  "\<exists>bs s1. confirm_match 5 7 home_win 2 1 9 demo_matched = Inr (bs, s1) \<and>
     (\<exists>m. find_match (run demo_std demo_settings [SyncFixtures demo_provider (\<lambda>n. (8 + n, 6)) 6 (Results 2 None),
        SettleBet 7 31] s1) 7 = Some m \<and> outcome m = Some home_win)"
proof -
  obtain bs s1 where run: "confirm_match 5 7 home_win 2 1 9 demo_matched = Inr (bs, s1)" using demo_confirms by blast
  have "list_all admissible [SyncFixtures demo_provider (\<lambda>n. (8 + n, 6)) 6 (Results 2 None), SettleBet 7 31]" by simp
  from confirmed_result_final [OF demo_books(3) run this] run show ?thesis by blast
qed

end
