(* ===== verification/Providers.thy ===== *)
theory Providers
  imports Sync PayFast Json
begin

text \<open>
  \<^verbatim>\<open>app/integrations/providers/api_football.py\<close> and \<^verbatim>\<open>football_data_org.py\<close>: the parsing of fixtures and the three
  queries of each client. The HTTP library is a function from the parameters of a request to its outcome; the calendar,
  \<open>datetime.fromisoformat\<close> (with the conversion to UTC) and the text of a float, list or dict are functions too. \<open>None\<close> is
  an exception. Names of any JSON type are passed on. One thing is narrower than the code: the score of a finished
  match that is neither an integer nor null (a float, say) counts as an exception here, where the code compares it
  and leaves it to the driver.
\<close>

section \<open>Fields of a fixture\<close>

text \<open>A score: an integer or null.\<close>

definition json_score :: "json \<Rightarrow> int option option" where
  "json_score j = (case j of json_null \<Rightarrow> Some None | json_int n \<Rightarrow> Some (Some n) | _ \<Rightarrow> None)"

text \<open>What the standard library makes of a timestamp, and of a value in a formatted string.\<close>

record py_text =
  from_iso :: "string \<Rightarrow> datetime option"
  value_repr :: "json \<Rightarrow> string"

definition id_text :: "py_text \<Rightarrow> json \<Rightarrow> string" where
  "id_text py j = (case j of json_int n \<Rightarrow> int_text n | json_str s \<Rightarrow> s
     | json_bool b \<Rightarrow> (if b then ''True'' else ''False'') | json_null \<Rightarrow> ''None'' | _ \<Rightarrow> value_repr py j)"

section \<open>API-Football\<close>

text \<open>\<open>ft_score.get(side) or goals.get(side)\<close>.\<close>

definition preferred_score :: "json \<Rightarrow> json \<Rightarrow> string \<Rightarrow> json option" where
  "preferred_score ft_score goals side =
     Option.bind (json_get ft_score side json_null) (\<lambda>x. if truthy x then Some x else json_get goals side json_null)"

text \<open>\<open>Some None\<close>: the fixture lacks a required field.\<close>

definition parse_fixture :: "py_text \<Rightarrow> json \<Rightarrow> match_payload option option" where
  "parse_fixture py raw =
     Option.bind (json_get raw ''fixture'' (json_obj [])) (\<lambda>fixture.
     Option.bind (json_get fixture ''id'' json_null) (\<lambda>fixture_id.
     if \<not> truthy fixture_id then Some None else
     Option.bind (json_get fixture ''date'' json_null) (\<lambda>date_str.
     if \<not> truthy date_str then Some None else
     Option.bind (Option.bind (json_text date_str) (from_iso py)) (\<lambda>kickoff.
     Option.bind (json_get fixture ''status'' (json_obj [])) (\<lambda>st.
     Option.bind (Option.bind (json_get st ''short'' (json_str ''NS'')) json_text) (\<lambda>raw_st.
     Option.bind (json_get raw ''league'' (json_obj [])) (\<lambda>league.
     Option.bind (json_get league ''name'' (json_str ''Unknown League'')) (\<lambda>comp_name.
     Option.bind (json_get raw ''teams'' (json_obj [])) (\<lambda>teams.
     Option.bind (Option.bind (json_get teams ''home'' (json_obj [])) (\<lambda>t. json_get t ''name'' json_null)) (\<lambda>home.
     Option.bind (Option.bind (json_get teams ''away'' (json_obj [])) (\<lambda>t. json_get t ''name'' json_null)) (\<lambda>away.
     if \<not> truthy home \<or> \<not> truthy away then Some None else
     Option.bind (json_get raw ''score'' (json_obj [])) (\<lambda>score.
     Option.bind (json_get score ''fulltime'' (json_obj [])) (\<lambda>ft_score.
     Option.bind (json_get raw ''goals'' (json_obj [])) (\<lambda>goals.
     Option.bind (preferred_score ft_score goals ''home'') (\<lambda>h.
     Option.bind (preferred_score ft_score goals ''away'') (\<lambda>a.
     let final = is_completed_api_football_status raw_st in
     Option.bind (if final then json_score h else Some None) (\<lambda>hs.
     Option.bind (if final then json_score a else Some None) (\<lambda>as.
     Some (Some \<lparr>p_external_id = ''api_football:'' @ id_text py fixture_id, p_provider_name = ''api_football'',
       p_home_team = home, p_away_team = away, p_competition = comp_name, p_kickoff_at = kickoff,
       raw_status = raw_st, internal_status = map_api_football_status raw_st,
       home_score = hs, away_score = as, internal_outcome = derive_outcome hs as\<rparr>)))))))))))))))))))"

text \<open>
  The loop: a fixture without a required field is left out, and so is one whose parsing raises, unless the handler raises
  as well when it looks for an id to log; that ends the whole fetch.
\<close>

fun normalize_each ::
  "(json \<Rightarrow> match_payload option option) \<Rightarrow> (json \<Rightarrow> json option) \<Rightarrow> json list \<Rightarrow> match_payload list option" where
  "normalize_each parse handler [] = Some []"
| "normalize_each parse handler (raw # raws) =
     (case parse raw of
        Some (Some p) \<Rightarrow> map_option (\<lambda>ps. p # ps) (normalize_each parse handler raws)
      | Some None \<Rightarrow> normalize_each parse handler raws
      | None \<Rightarrow> Option.bind (handler raw) (\<lambda>logged. normalize_each parse handler raws))"

definition normalize_fixtures :: "py_text \<Rightarrow> json list \<Rightarrow> match_payload list option" where
  "normalize_fixtures py raws = normalize_each (parse_fixture py)
     (\<lambda>raw. Option.bind (json_get raw ''fixture'' (json_obj [])) (\<lambda>fixture. json_get fixture ''id'' (json_str ''?''))) raws"

section \<open>Requests\<close>

datatype http_reply = http_timeout | http_status int | http_error | http_body json

type_synonym query = "(string \<times> json) list"

record calendar =
  iso_date :: "int \<Rightarrow> string"
  year_of :: "int \<Rightarrow> int"
  month_of :: "int \<Rightarrow> int"

definition current_season :: "calendar \<Rightarrow> int \<Rightarrow> int" where
  "current_season cal today = (if 8 \<le> month_of cal today then year_of cal today else year_of cal today - 1)"

text \<open>
  The elements the caller's loop goes through: those of a list, none of an empty dict or string. Over another value there is no
  loop, and an element of another dict or string is a string, on which parser and handler both raise: \<open>None\<close>.
\<close>

definition elements :: "json \<Rightarrow> json list option" where
  "elements j = (case j of json_list xs \<Rightarrow> Some xs
     | json_obj kvs \<Rightarrow> if kvs = [] then Some [] else None
     | json_str x \<Rightarrow> if x = [] then Some [] else None
     | _ \<Rightarrow> None)"

text \<open>The \<open>response\<close> of the body.\<close>

definition get_fixtures :: "(query \<Rightarrow> http_reply) \<Rightarrow> query \<Rightarrow> json list option" where
  "get_fixtures http q = (case http q of
     http_body body \<Rightarrow>
       (case json_get body ''errors'' (json_obj []) of
          None \<Rightarrow> Some []
        | Some errs \<Rightarrow>
            if truthy errs then Some []
            else (case json_get body ''response'' (json_list []) of
                Some xs \<Rightarrow> elements xs
              | None \<Rightarrow> Some []))
   | http_timeout \<Rightarrow> Some [] | http_status code \<Rightarrow> Some [] | http_error \<Rightarrow> Some [])"

definition ids_or_default :: "int list option \<Rightarrow> int list \<Rightarrow> int list" where
  "ids_or_default league_ids dflt = (case league_ids of None \<Rightarrow> dflt | Some ids \<Rightarrow> if ids = [] then dflt else ids)"

text \<open>The loop over the leagues that extends one list.\<close>

fun for_leagues :: "(int \<Rightarrow> match_payload list option) \<Rightarrow> int list \<Rightarrow> match_payload list option" where
  "for_leagues f [] = Some []"
| "for_leagues f (l # ls) = Option.bind (f l) (\<lambda>ps. Option.bind (for_leagues f ls) (\<lambda>qs. Some (ps @ qs)))"

text \<open>Always \<open>None\<close>: the id of a payload does not hold a league.\<close>

definition league_id_from_payload :: "match_payload \<Rightarrow> int option" where
  "league_id_from_payload p = None"

definition api_fetch_upcoming ::
  "calendar \<Rightarrow> py_text \<Rightarrow> (query \<Rightarrow> http_reply) \<Rightarrow> int list \<Rightarrow> int \<Rightarrow> int \<Rightarrow> int list option \<Rightarrow>
   match_payload list option" where
  "api_fetch_upcoming cal py http dflt today days_ahead league_ids =
     for_leagues (\<lambda>l. Option.bind (get_fixtures http
        [(''league'', json_int l), (''season'', json_int (current_season cal today)),
         (''from'', json_str (iso_date cal today)), (''to'', json_str (iso_date cal (today + days_ahead)))])
        (normalize_fixtures py))
       (ids_or_default league_ids dflt)"

definition api_fetch_results ::
  "calendar \<Rightarrow> py_text \<Rightarrow> (query \<Rightarrow> http_reply) \<Rightarrow> int list \<Rightarrow> int \<Rightarrow> int \<Rightarrow> int list option \<Rightarrow>
   match_payload list option" where
  "api_fetch_results cal py http dflt today days_back league_ids =
     for_leagues (\<lambda>l. Option.bind (get_fixtures http
        [(''league'', json_int l), (''season'', json_int (current_season cal today)),
         (''from'', json_str (iso_date cal (today - days_back))), (''to'', json_str (iso_date cal today)),
         (''status'', json_str ''FT-AET-PEN-AWD-WO'')])
        (\<lambda>raw. map_option (filter (\<lambda>p. is_completed_api_football_status (raw_status p))) (normalize_fixtures py raw)))
       (ids_or_default league_ids dflt)"

definition api_fetch_live ::
  "py_text \<Rightarrow> (query \<Rightarrow> http_reply) \<Rightarrow> int list \<Rightarrow> int list option \<Rightarrow> match_payload list option" where
  "api_fetch_live py http dflt league_ids =
     (let ids = ids_or_default league_ids dflt in
      Option.bind (get_fixtures http [(''live'', json_str ''all'')]) (\<lambda>raw.
      Option.bind (normalize_fixtures py raw) (\<lambda>payloads.
      Some (if ids \<noteq> [] then filter (\<lambda>p. league_id_from_payload p \<in> Some ` set ids) payloads else payloads))))"

definition api_football_provider ::
  "calendar \<Rightarrow> py_text \<Rightarrow> (query \<Rightarrow> http_reply) \<Rightarrow> int list \<Rightarrow> int \<Rightarrow> provider" where
  "api_football_provider cal py http dflt today =
     \<lparr>provider_label = ''api_football'',
      fetch_upcoming_fixtures = api_fetch_upcoming cal py http dflt today,
      fetch_results = api_fetch_results cal py http dflt today,
      fetch_live_fixtures = api_fetch_live py http dflt\<rparr>"

section \<open>Football-Data.org\<close>

definition parse_match :: "py_text \<Rightarrow> json \<Rightarrow> match_payload option option" where
  "parse_match py raw =
     Option.bind (json_get raw ''id'' json_null) (\<lambda>ident.
     if \<not> truthy ident then Some None else
     Option.bind (json_get raw ''utcDate'' json_null) (\<lambda>utc_date.
     if \<not> truthy utc_date then Some None else
     Option.bind (Option.bind (json_text utc_date) (from_iso py)) (\<lambda>kickoff.
     Option.bind (Option.bind (json_get raw ''status'' (json_str ''SCHEDULED'')) json_text) (\<lambda>raw_st.
     Option.bind (Option.bind (json_get raw ''competition'' (json_obj []))
       (\<lambda>c. json_get c ''name'' (json_str ''Unknown Competition''))) (\<lambda>comp_name.
     Option.bind (Option.bind (json_get raw ''homeTeam'' (json_obj [])) (\<lambda>t. json_get t ''name'' json_null)) (\<lambda>home.
     Option.bind (Option.bind (json_get raw ''awayTeam'' (json_obj [])) (\<lambda>t. json_get t ''name'' json_null)) (\<lambda>away.
     if \<not> truthy home \<or> \<not> truthy away then Some None else
     let final = is_completed_football_data_org_status raw_st in
     Option.bind (if \<not> final then Some (None, None) else
       Option.bind (json_get raw ''score'' (json_obj [])) (\<lambda>score.
       Option.bind (json_get score ''fullTime'' (json_obj [])) (\<lambda>ft.
       Option.bind (Option.bind (json_get ft ''home'' json_null) json_score) (\<lambda>h.
       Option.bind (Option.bind (json_get ft ''away'' json_null) json_score) (\<lambda>a.
       Some (h, a)))))) (\<lambda>(hs, as).
     Some (Some \<lparr>p_external_id = ''football_data_org:'' @ id_text py ident, p_provider_name = ''football_data_org'',
       p_home_team = home, p_away_team = away, p_competition = comp_name, p_kickoff_at = kickoff,
       raw_status = raw_st, internal_status = map_football_data_org_status raw_st,
       home_score = hs, away_score = as, internal_outcome = derive_outcome hs as\<rparr>)))))))))"

definition normalize_matches :: "py_text \<Rightarrow> json list \<Rightarrow> match_payload list option" where
  "normalize_matches py raws = normalize_each (parse_match py) (\<lambda>raw. json_get raw ''id'' (json_str ''?'')) raws"

definition default_competition_ids :: "int list" where
  "default_competition_ids = [2021, 2014, 2002, 2019, 2015, 2001]"

text \<open>The request names the competition in its path.\<close>

definition get_fd_matches :: "(int \<Rightarrow> query \<Rightarrow> http_reply) \<Rightarrow> int \<Rightarrow> query \<Rightarrow> json list option" where
  "get_fd_matches http competition_id q = (case http competition_id q of
     http_body body \<Rightarrow> (case json_get body ''matches'' (json_list []) of
         Some xs \<Rightarrow> elements xs
       | None \<Rightarrow> Some [])
   | http_timeout \<Rightarrow> Some [] | http_status code \<Rightarrow> Some [] | http_error \<Rightarrow> Some [])"

definition fd_fetch_upcoming ::
  "calendar \<Rightarrow> py_text \<Rightarrow> (int \<Rightarrow> query \<Rightarrow> http_reply) \<Rightarrow> int list \<Rightarrow> int \<Rightarrow> int \<Rightarrow> int list option \<Rightarrow>
   match_payload list option" where
  "fd_fetch_upcoming cal py http dflt today days_ahead league_ids =
     for_leagues (\<lambda>c. Option.bind (get_fd_matches http c
        [(''dateFrom'', json_str (iso_date cal today)), (''dateTo'', json_str (iso_date cal (today + days_ahead))),
         (''status'', json_str ''SCHEDULED,TIMED'')]) (normalize_matches py))
       (ids_or_default league_ids dflt)"

definition fd_fetch_results ::
  "calendar \<Rightarrow> py_text \<Rightarrow> (int \<Rightarrow> query \<Rightarrow> http_reply) \<Rightarrow> int list \<Rightarrow> int \<Rightarrow> int \<Rightarrow> int list option \<Rightarrow>
   match_payload list option" where
  "fd_fetch_results cal py http dflt today days_back league_ids =
     for_leagues (\<lambda>c. Option.bind (get_fd_matches http c
        [(''dateFrom'', json_str (iso_date cal (today - days_back))), (''dateTo'', json_str (iso_date cal today)),
         (''status'', json_str ''FINISHED'')])
        (\<lambda>raw. map_option (filter (\<lambda>p. is_completed_football_data_org_status (raw_status p))) (normalize_matches py raw)))
       (ids_or_default league_ids dflt)"

text \<open>The ids are made a set: each is asked for once, in the order \<open>set_order\<close> gives.\<close>

definition fd_fetch_live ::
  "(int list \<Rightarrow> int list) \<Rightarrow> py_text \<Rightarrow> (int \<Rightarrow> query \<Rightarrow> http_reply) \<Rightarrow> int list \<Rightarrow> int list option \<Rightarrow>
   match_payload list option" where
  "fd_fetch_live set_order py http dflt league_ids =
     for_leagues (\<lambda>c. Option.bind (get_fd_matches http c
        [(''status'', json_str ''IN_PLAY,PAUSED'')]) (normalize_matches py))
       (set_order (remdups (ids_or_default league_ids dflt)))"

definition football_data_org_provider ::
  "(int list \<Rightarrow> int list) \<Rightarrow> calendar \<Rightarrow> py_text \<Rightarrow> (int \<Rightarrow> query \<Rightarrow> http_reply) \<Rightarrow> int list \<Rightarrow> int \<Rightarrow> provider" where
  "football_data_org_provider set_order cal py http configured today =
     (let dflt = (if configured = [] then default_competition_ids else configured) in
      \<lparr>provider_label = ''football_data_org'',
       fetch_upcoming_fixtures = fd_fetch_upcoming cal py http dflt today,
       fetch_results = fd_fetch_results cal py http dflt today,
       fetch_live_fixtures = fd_fetch_live set_order py http dflt\<rparr>)"

end
