(* ===== verification/Provider_Properties.thy ===== *)
theory Provider_Properties
  imports Fixture_Properties Providers
begin

text \<open>
  The provider clients: what they parse can be stored, the live query of API-Football never returns
  anything, and which score an extra-time match is recorded with.
\<close>

section \<open>Parsed fixtures\<close>

text \<open>What every payload of either client satisfies.\<close>

definition payload_sound :: "match_payload \<Rightarrow> bool" where
  "payload_sound p \<longleftrightarrow> internal_outcome p = derive_outcome (home_score p) (away_score p) \<and>
     (internal_status p \<noteq> MS_completed \<longrightarrow> home_score p = None \<and> away_score p = None)"

lemma api_final_status: "is_completed_api_football_status raw \<Longrightarrow> map_api_football_status raw = MS_completed"
  by (auto simp: is_completed_api_football_status_def map_api_football_status_def api_football_completed_statuses_def
      api_football_status_map_def)

lemma fd_final_status: "is_completed_football_data_org_status raw \<Longrightarrow> map_football_data_org_status raw = MS_completed"
  by (simp add: is_completed_football_data_org_status_def map_football_data_org_status_def football_data_org_status_map_def)

lemma parse_fixture_sound: "parse_fixture py raw = Some (Some p) \<Longrightarrow> payload_sound p \<and> p_provider_name p = ''api_football''"
  by (auto simp: parse_fixture_def payload_sound_def Let_def bind_eq_Some_conv dest: api_final_status split: if_splits)

lemma parse_match_sound: "parse_match py raw = Some (Some p) \<Longrightarrow> payload_sound p \<and> p_provider_name p = ''football_data_org''"
  by (auto simp: parse_match_def payload_sound_def Let_def bind_eq_Some_conv dest: fd_final_status split: if_splits)

lemma normalized_parsed: "normalize_each parse handler raws = Some ps \<Longrightarrow> p \<in> set ps \<Longrightarrow> \<exists>raw \<in> set raws. parse raw = Some (Some p)"
  by (induction raws arbitrary: ps) (auto split: option.splits bind_splits)

lemma normalized_sound:
  "normalize_fixtures py raws = Some ps \<Longrightarrow> p \<in> set ps \<Longrightarrow> payload_sound p \<and> p_provider_name p = ''api_football''"
  "normalize_matches py raws = Some ps \<Longrightarrow> p \<in> set ps \<Longrightarrow> payload_sound p \<and> p_provider_name p = ''football_data_org''"
  unfolding normalize_fixtures_def normalize_matches_def
  by (auto dest!: normalized_parsed parse_fixture_sound parse_match_sound)

definition scores_nonneg :: "match_payload \<Rightarrow> bool" where
  "scores_nonneg p \<longleftrightarrow> (\<forall>h. home_score p = Some h \<longrightarrow> 0 \<le> h) \<and> (\<forall>a. away_score p = Some a \<longrightarrow> 0 \<le> a)"

lemma derived_scores: "derive_outcome h a \<noteq> None \<longleftrightarrow> h \<noteq> None \<and> a \<noteq> None"
  by (cases h; cases a) (simp_all add: derive_outcome_def)

lemma new_match_ok: "payload_sound p \<Longrightarrow> scores_nonneg p \<Longrightarrow> match_row_ok (new_match i now p)"
  by (cases "home_score p"; cases "away_score p")
     (auto simp: payload_sound_def scores_nonneg_def match_row_ok_def new_match_def Let_def derive_outcome_def)

lemma result_assigned_ok:
  "payload_sound p \<Longrightarrow> scores_nonneg p \<Longrightarrow> match_row_ok (fst r) \<Longrightarrow> match_row_ok (fst (assign_result p r))"
  by (cases r; cases "home_score p"; cases "away_score p")
     (auto simp: payload_sound_def scores_nonneg_def match_row_ok_def assign_result_def assign_def derive_outcome_def)

lemma row_ok_updates [simp]:
  "match_row_ok (m\<lparr>home_team := x\<rparr>) = match_row_ok m" "match_row_ok (m\<lparr>away_team := x\<rparr>) = match_row_ok m"
  "match_row_ok (m\<lparr>competition := x\<rparr>) = match_row_ok m" "match_row_ok (m\<lparr>kickoff_at := t\<rparr>) = match_row_ok m"
  "match_row_ok (m\<lparr>mstatus := st\<rparr>) = match_row_ok m" "match_row_ok (m\<lparr>last_synced_at := u\<rparr>) = match_row_ok m"
  by (simp_all add: match_row_ok_def)

lemma assign_name_ok:
  "(\<And>m. match_row_ok (upd (\<lambda>_. name_text v) m) = match_row_ok m) \<Longrightarrow> match_row_ok (fst (assign_name get upd v r)) = match_row_ok (fst r)"
  by (cases r) (simp add: assign_name_def)

lemma assign_ok:
  "(\<And>m. match_row_ok (upd (\<lambda>_. v) m) = match_row_ok m) \<Longrightarrow> match_row_ok (fst (assign get upd v r)) = match_row_ok (fst r)"
  by (cases r) (simp add: assign_def)

lemma steps_ok:
  "match_row_ok (fst (assign_names p r)) = match_row_ok (fst r)" "match_row_ok (fst (assign_kickoff p r)) = match_row_ok (fst r)"
  "match_row_ok (fst (assign_status p r)) = match_row_ok (fst r)"
  by (cases r; simp add: assign_names_def assign_name_ok assign_kickoff_def assign_status_def)+

lemma changes_ok: "payload_sound p \<Longrightarrow> scores_nonneg p \<Longrightarrow> match_row_ok m \<Longrightarrow> match_row_ok (fst (fixture_changes p m))"
proof -
  assume p: "payload_sound p" "scores_nonneg p" and m: "match_row_ok m"
  have "match_row_ok (fst (assign_status p (assign_kickoff p (assign_names p (m, False)))))"
    using m by (simp add: steps_ok)
  then show ?thesis unfolding fixture_changes_def by (rule result_assigned_ok [OF p])
qed

text \<open>The values a payload offers the columns: names that are strings, of the length of their columns, and scores of an
  \<open>INTEGER\<close> that are not negative.\<close>

definition storable :: "match_payload \<Rightarrow> bool" where
  "storable p \<longleftrightarrow> named p \<and> (\<forall>j \<in> set (payload_names p). text_fits 200 (name_text j)) \<and> text_fits 200 (p_external_id p) \<and>
     scores_nonneg p \<and> integer_fits (home_score p) \<and> integer_fits (away_score p)"

lemma provider_label_fits: "text_fits 50 ''api_football''" "text_fits 50 ''football_data_org''"
  by (simp_all add: short_text_fits)

lemma new_match_fits: "storable p \<Longrightarrow> text_fits 50 (p_provider_name p) \<Longrightarrow> match_row_fits (new_match i now p)"
  by (auto simp: storable_def payload_names_def match_row_fits_def new_match_def Let_def)

lemma assign_fits:
  "match_row_fits (fst r) \<Longrightarrow> (match_row_fits (fst r) \<Longrightarrow> match_row_fits (upd (\<lambda>_. v) (fst r))) \<Longrightarrow> match_row_fits (fst (assign get upd v r))"
  "match_row_fits (fst r) \<Longrightarrow> (match_row_fits (fst r) \<Longrightarrow> match_row_fits (upd' (\<lambda>_. name_text j) (fst r))) \<Longrightarrow>
     match_row_fits (fst (assign_name get' upd' j r))"
  by (cases r; simp add: assign_def assign_name_def)+

lemma changes_fit: "storable p \<Longrightarrow> match_row_fits m \<Longrightarrow> match_row_fits (fst (fixture_changes p m))"
proof -
  assume p: "storable p" and m: "match_row_fits m"
  have names: "match_row_fits (fst (assign_names p r))" if "match_row_fits (fst r)" for r
    unfolding assign_names_def using p that
    by (intro assign_fits) (auto simp: storable_def payload_names_def match_row_fits_def)
  have moves: "match_row_fits (fst (assign_status p (assign_kickoff p r)))" if "match_row_fits (fst r)" for r
    using that by (cases r) (auto simp: assign_status_def assign_kickoff_def match_row_fits_def)
  have result: "match_row_fits (fst (assign_result p r))" if "match_row_fits (fst r)" for r
  proof (cases "internal_outcome p \<noteq> None \<and> result_confirmed_at (fst r) = None")
    case True
    show ?thesis
      unfolding assign_result_def if_P [OF True] using p that
      by (intro assign_fits) (simp_all add: storable_def match_row_fits_def)
  qed (use that in \<open>auto simp: assign_result_def\<close>)
  show ?thesis unfolding fixture_changes_def by (intro result moves names) (simp add: m)
qed

text \<open>C33: what the clients parse can be stored. A fixture of either provider whose names are strings of at most 200
  characters, whose id fits its column and whose scores are integers from 0 to \<open>2 ^ 31 - 1\<close> or absent is
  upserted whatever rows the table holds, and the rows keep the CHECK constraints and the column types: the status, the
  outcome and the two scores a client derives never contradict each other.\<close>

theorem parsed_fixture_upserts:
  assumes "normalize_fixtures py raws = Some ps \<or> normalize_matches py raws = Some ps" and "p \<in> set ps" and "storable p"
    and "\<forall>m \<in> set (matches s). match_row_ok m \<and> match_row_fits m" and "keyed match_id (matches s)" and "find_match s i = None"
  shows "\<exists>a s'. upsert_fixture i now p s = Inr (a, s') \<and> (\<forall>m \<in> set (matches s'). match_row_ok m \<and> match_row_fits m)"
proof -
  have sound: "payload_sound p" and label: "text_fits 50 (p_provider_name p)"
    using assms(1,2) normalized_sound provider_label_fits by metis+
  have nonneg: "scores_nonneg p" and named: "named p" using assms(3) by (simp_all add: storable_def)
  show ?thesis
  proof (cases "row_get external_id (p_external_id p) (matches s)")
    case None
    have keys: "match_id (new_match i now p) = i" "external_id (new_match i now p) = p_external_id p"
      by (simp_all add: new_match_def Let_def)
    have bound: "bind_names p (new_match i now p) s = Inr ((), s)"
      using new_match_fits [OF assms(3) label] named by (simp add: bind_names_inv)
    then show ?thesis
      using None assms(4,6) new_match_ok [OF sound nonneg, of i now] new_match_fits [OF assms(3) label, of i now]
      by (auto simp: upsert_fixture_def get_by_external_row create_fixture_def insert_match_def tx_run check_row_def keys Let_def)
  next
    case (Some e)
    let ?f = "\<lambda>r. (fst (fixture_changes p r))\<lparr>last_synced_at := Some now\<rparr>"
    have ok: "match_row_ok (?f m)" "match_row_fits (?f m)" if "m \<in> set (matches s)" for m
      using changes_ok [OF sound nonneg, of m] changes_fit [OF assms(3), of m] assms(4) that
      by (auto simp: match_row_ok_def match_row_fits_def)
    have e: "e \<in> set (matches s)" using row_get_SomeD [OF Some] by simp
    then have "row_get match_id (match_id e) (row_upd match_id (match_id e) ?f (matches s)) = Some (?f e)"
      by (simp add: row_get_upd row_get_in [OF assms(5)])
    then have "flush_match (match_id e) ?f s = Inr (?f e, put_match (match_id e) ?f s)"
      unfolding flush_match_inv using ok [OF e] by (simp add: put_match_def find_match_def)
    moreover have "bind_names p (fst (fixture_changes p e)) s = Inr ((), s)"
      using changes_fit [OF assms(3)] assms(4) e named by (simp add: bind_names_inv)
    moreover have "\<forall>m \<in> set (matches (put_match (match_id e) ?f s)). match_row_ok m \<and> match_row_fits m"
      using ok assms(4) by (auto simp: put_match_def set_row_upd)
    ultimately show ?thesis
      using Some by (auto simp: upsert_fixture_def get_by_external_row update_fixture_def tx_run)
  qed
qed

text \<open>What \<open>storable\<close> leaves out is refused: a fixture with a null competition, which the parser lets through, cannot be
  written, and so loses its run.\<close>

lemma null_competition_refused:
  assumes "p_competition p = json_null"
  shows "\<exists>e. upsert_fixture i now p s = Inl e"
proof (cases "upsert_fixture i now p s")
  case (Inr r)
  then have "named p"
    by (cases r) (auto simp: upsert_fixture_def get_by_external_row create_fixture_def update_fixture_def Let_def bind_tx_inv
        seq_tx_inv bind_names_inv split: option.splits)
  with assms show ?thesis by (simp add: named_def payload_names_def)
qed blast

text \<open>The documentation has it that a malformed record never aborts a run. One that is no dict does: the handler that logs its id
  raises on it too, and the records that follow are lost with the fetch.\<close>

lemma non_dict_aborts_fetch:
  "normalize_fixtures py (json_list xs # raws) = None" "normalize_matches py (json_list xs # raws) = None"
  by (simp_all add: normalize_fixtures_def normalize_matches_def parse_fixture_def parse_match_def json_get_def)

text \<open>A finished match as API-Football reports it; \<open>n\<close> goals each after ninety minutes, \<open>h\<close> to \<open>a\<close> in the end.\<close>

definition api_match :: "string \<Rightarrow> int \<Rightarrow> int \<Rightarrow> int \<Rightarrow> json" where
  "api_match st n h a = json_obj
     [(''fixture'', json_obj [(''id'', json_int 7), (''date'', json_str ''2024-08-17T15:00:00+00:00''),
        (''status'', json_obj [(''short'', json_str st)])]),
      (''league'', json_obj [(''id'', json_int 39), (''name'', json_str ''Cup'')]),
      (''teams'', json_obj [(''home'', json_obj [(''name'', json_str ''Arsenal'')]),
        (''away'', json_obj [(''name'', json_str ''Chelsea'')])]),
      (''goals'', json_obj [(''home'', json_int h), (''away'', json_int a)]),
      (''score'', json_obj [(''fulltime'', json_obj [(''home'', json_int n), (''away'', json_int n)])])]"

lemma aet_completed: "is_completed_api_football_status ''AET''"
  by code_simp

text \<open>A standard library for which every timestamp is the epoch.\<close>

definition demo_py :: py_text where
  "demo_py = \<lparr>from_iso = (\<lambda>s. Some 0), value_repr = (\<lambda>j. [])\<rparr>"

lemma parse_api_match:
  "\<exists>p. parse_fixture demo_py (api_match ''AET'' n h a) = Some (Some p) \<and>
     payload_names p = [json_str ''Arsenal'', json_str ''Chelsea'', json_str ''Cup''] \<and>
     p_external_id p = ''api_football:'' @ int_text 7 \<and>
     home_score p = Some (if n = 0 then h else n) \<and> away_score p = Some (if n = 0 then a else n) \<and>
     internal_outcome p = derive_outcome (home_score p) (away_score p)"
  by (simp add: parse_fixture_def api_match_def json_get_def json_text_def preferred_score_def json_score_def id_text_def
      demo_py_def payload_names_def aet_completed Let_def)

text \<open>A fixture without a date, which is left out.\<close>

definition undated_match :: json where
  "undated_match = json_obj [(''fixture'', json_obj [(''id'', json_int 8), (''date'', json_null)])]"

theorem parsed_fixture_upserts_witness:
  "\<exists>p a s'. normalize_fixtures demo_py [undated_match, api_match ''AET'' 0 2 1] = Some [p] \<and>
     upsert_fixture 8 5 p demo_funded = Inr (a, s')"
proof -
  obtain p where p: "parse_fixture demo_py (api_match ''AET'' 0 2 1) = Some (Some p)" "home_score p = Some 2" "away_score p = Some 1"
    "payload_names p = [json_str ''Arsenal'', json_str ''Chelsea'', json_str ''Cup'']" "p_external_id p = ''api_football:'' @ int_text 7"
    using parse_api_match [of 0 2 1] by auto
  have seven: "int_text 7 = ''7''" by code_simp
  have parsed: "normalize_fixtures demo_py [undated_match, api_match ''AET'' 0 2 1] = Some [p]"
    using p(1) by (simp add: normalize_fixtures_def undated_match_def parse_fixture_def [of _ "json_obj [(''fixture'', json_obj [(''id'', json_int 8), (''date'', json_null)])]"] json_get_def)
  have "storable p"
    using p by (auto simp: storable_def named_def scores_nonneg_def name_text_def short_text_fits seven)
  moreover have "\<forall>m \<in> set (matches demo_funded). match_row_ok m \<and> match_row_fits m" "keyed match_id (matches demo_funded)"
    "find_match demo_funded 8 = None"
    by (simp_all add: demo_funded_def demo_db_def derby_def match_row_ok_def match_row_fits_def short_text_fits keyed_def find_match_def)
  ultimately show ?thesis
    using parsed_fixture_upserts [of demo_py "[undated_match, api_match ''AET'' 0 2 1]" "[p]" p demo_funded 8 5] parsed by auto
qed

section \<open>Extra time\<close>

text \<open>A match decided in extra time is recorded with its final score only when it was goalless after ninety
  minutes; with \<open>n > 0\<close> goals each it is recorded, and settled, as a draw: Python's \<open>or\<close> takes a score of zero for a missing one.\<close>

theorem extra_time_result:
  "case parse_fixture demo_py (api_match ''AET'' n h a) of
     Some (Some p) \<Rightarrow> internal_outcome p =
       Some (if n = 0 then if a < h then home_win else if h < a then away_win else draw else draw)
   | _ \<Rightarrow> False"
  using parse_api_match [of n h a] by (auto simp: derive_outcome_def)

section \<open>Live fixtures\<close>

text \<open>With leagues configured, the live query of API-Football never yields a fixture: the filter compares the leagues
  with an id that is always missing. A live synchronisation changes nothing, whatever the provider answers.\<close>

theorem live_sync_finds_nothing:
  assumes "ids_or_default league_ids dflt \<noteq> []"
  shows "snd (sync_request (api_football_provider cal py http dflt today) clock now (Live league_ids) s) = s \<and>
    fixtures_fetched (fst (sync_request (api_football_provider cal py http dflt today) clock now (Live league_ids) s)) = 0"
proof -
  have "api_fetch_live py http dflt league_ids \<in> {None, Some []}"
    using assms by (auto simp: api_fetch_live_def Let_def league_id_from_payload_def image_iff bind_eq_Some_conv
        split: bind_splits)
  then show ?thesis
    by (auto simp: sync_request_def sync_job_run_def sync_live_def sync_fetched_def api_football_provider_def new_result_def)
qed

theorem live_sync_finds_nothing_witness:
  "snd (sync_request (api_football_provider \<lparr>iso_date = (\<lambda>d. []), year_of = (\<lambda>d. 2024), month_of = (\<lambda>d. 8)\<rparr> demo_py
      (\<lambda>q. http_body (json_obj [(''response'', json_list [api_match ''1H'' 0 1 0])])) [39, 140] 0)
      (\<lambda>n. (8 + n, 5)) 4 (Live None) demo_funded) = demo_funded"
proof -
  have "ids_or_default None [39, 140] \<noteq> []" by (simp add: ids_or_default_def)
  from live_sync_finds_nothing [OF this] show ?thesis by blast
qed

end
