(* ===== verification/Consistency.thy ===== *)
theory Consistency
  imports Scenario
begin

text \<open>
  What the rows of bets and matches say about each other, kept by the services' own logic: nothing here relies on the
  CHECK constraints, which the tables the ORM creates do not have. The status of a bet tells which of its columns
  are filled, a settled bet names the participant who predicted the confirmed result, and what it pays out and charges
  adds up to the stakes.
\<close>

section \<open>Consistent rows\<close>

definition confirmed_result :: "match_row list \<Rightarrow> uuid \<Rightarrow> football_outcome option" where
  "confirmed_result ms k = (case row_get match_id k ms of None \<Rightarrow> None
     | Some m \<Rightarrow> if result_confirmed_at m = None then None else outcome m)"

definition match_complete :: "match_row \<Rightarrow> bool" where
  "match_complete m \<longleftrightarrow> (result_confirmed_at m \<noteq> None \<longrightarrow> mstatus m = MS_completed \<and> outcome m \<noteq> None \<and>
     result_home_score m \<noteq> None \<and> result_away_score m \<noteq> None)"

definition undecided :: "bet \<Rightarrow> bool" where
  "undecided b \<longleftrightarrow> settlement_outcome_of b = None \<and> winner_id b = None \<and> payout_amount b = None \<and>
     platform_fee b = None \<and> settled_at b = None"

definition taken :: "bet \<Rightarrow> bool" where
  "taken b \<longleftrightarrow> (\<exists>u p. opponent_id b = Some u \<and> u \<noteq> creator_id b \<and>
     opponent_prediction b = Some p \<and> p \<noteq> creator_prediction b)"

definition untaken :: "bet \<Rightarrow> bool" where
  "untaken b \<longleftrightarrow> opponent_id b = None \<and> opponent_prediction b = None"

text \<open>A bet settled by the result \<open>r\<close>.\<close>

definition settled_by :: "football_outcome \<Rightarrow> bet \<Rightarrow> bool" where
  "settled_by r b \<longleftrightarrow> settled_at b \<noteq> None \<and> (\<exists>pay fee. payout_amount b = Some pay \<and> platform_fee b = Some fee \<and>
     0 \<le> pay \<and> 0 \<le> fee \<and>
     (if creator_prediction b = r
      then settlement_outcome_of b = Some creator_wins \<and> winner_id b = Some (creator_id b) \<and> pay + fee = 2 * stake_amount b
      else if opponent_prediction b = Some r
      then settlement_outcome_of b = Some opponent_wins \<and> winner_id b = opponent_id b \<and> pay + fee = 2 * stake_amount b
      else settlement_outcome_of b = Some no_winner \<and> winner_id b = None \<and> 2 * pay + fee = 2 * stake_amount b))"

definition bet_consistent :: "match_row list \<Rightarrow> bet \<Rightarrow> bool" where
  "bet_consistent ms b \<longleftrightarrow> (case bstatus b of
     OPEN \<Rightarrow> untaken b \<and> undecided b
   | CANCELLED \<Rightarrow> untaken b \<and> undecided b
   | MATCHED \<Rightarrow> taken b \<and> undecided b
   | PENDING_SETTLEMENT \<Rightarrow> taken b \<and> undecided b \<and> confirmed_result ms (bet_match b) \<noteq> None
   | SETTLED \<Rightarrow> taken b \<and> (\<exists>r. confirmed_result ms (bet_match b) = Some r \<and> settled_by r b)
   | VOIDED \<Rightarrow> (taken b \<or> untaken b) \<and> settlement_outcome_of b = Some voided \<and> winner_id b = None \<and>
       payout_amount b = None \<and> platform_fee b = None \<and> settled_at b = None
   | UNDER_REVIEW \<Rightarrow> undecided b)"

definition consistent :: "db \<Rightarrow> bool" where
  "consistent s \<longleftrightarrow> (\<forall>m \<in> set (matches s). match_complete m) \<and> (\<forall>b \<in> set (bets s). bet_consistent (matches s) b)"

definition keeps_consistent :: "db \<Rightarrow> db \<Rightarrow> bool" where
  "keeps_consistent s s' \<longleftrightarrow> (consistent s \<longrightarrow> consistent s')"

lemma keeps_refl [simp]: "keeps_consistent s s"
  by (simp add: keeps_consistent_def)

lemma keeps_trans: "keeps_consistent s t \<Longrightarrow> keeps_consistent t u \<Longrightarrow> keeps_consistent s u"
  by (simp add: keeps_consistent_def)

lemma keeps_locks [simp]: "keeps_consistent s (s'\<lparr>row_locks := ls\<rparr>) = keeps_consistent s s'"
  by (simp add: keeps_consistent_def consistent_def)

lemma keeps_transact: "(\<And>x s'. m s = Inr (x, s') \<Longrightarrow> keeps_consistent s s') \<Longrightarrow> keeps_consistent s (snd (transact m s))"
  by (auto simp: transact_def split: sum.splits prod.splits)

lemma keeps_run: "(\<And>x s'. m s = Inr (x, s') \<Longrightarrow> keeps_consistent s s') \<Longrightarrow> keeps_consistent s (run_request m s)"
  unfolding run_request_def by (rule keeps_transact)

section \<open>Steps on bets\<close>

lemma keeps_funds: "fund_step d ds ws s s' \<Longrightarrow> keeps_consistent s s'"
  by (simp add: keeps_consistent_def consistent_def fund_step_def same_defs)

lemma keeps_bets:
  assumes "bet_step d bs s s'" and "consistent s \<Longrightarrow> \<forall>b \<in> set bs. bet_consistent (matches s) b"
  shows "keeps_consistent s s'"
  using assms by (simp add: keeps_consistent_def consistent_def bet_step_def same_defs)

lemma keeps_one_bet:
  assumes "books s" and "bet_step d (row_upd bet_id k f (bets s)) s s'" and "find_bet s k = Some b"
    and "bet_consistent (matches s) b \<Longrightarrow> bet_consistent (matches s) (f b)"
  shows "keeps_consistent s s'"
  using assms(2)
proof (rule keeps_bets)
  assume c: "consistent s"
  then have all: "\<forall>r \<in> set (bets s). bet_consistent (matches s) r" by (simp add: consistent_def)
  have "b \<in> set (bets s)" using assms(3) row_get_SomeD by (fastforce simp: find_bet_def)
  with all assms(4) have "bet_consistent (matches s) (f b)" by blast
  with assms(3) show "\<forall>r \<in> set (row_upd bet_id k f (bets s)). bet_consistent (matches s) r"
    by (intro all_row_upd [OF all _ booksD(5) [OF assms(1)]]) (simp add: find_bet_def)
qed

lemma create_bet_keeps:
  assumes "books s" and "\<not> half_cent_tie st" and "create_bet cfg now i u m p st s = Inr (x, s')"
  shows "keeps_consistent s s'"
proof -
  note step = create_bet_step [OF booksD(1) [OF assms(1)] assms(2,3)]
  have "bet_consistent ms x" for ms
    using step(2) by (auto simp: bet_consistent_def new_bet_def untaken_def undecided_def)
  then show ?thesis by (intro keeps_bets [OF step(1)]) (simp add: consistent_def)
qed

lemma accept_bet_keeps:
  assumes b: "books s" and run: "accept_bet now u k p s = Inr (x, s')"
  shows "keeps_consistent s s'"
  by (rule accept_bet_step [OF booksD(1) [OF b] run])
     (auto dest: stake_sound [OF b] intro!: keeps_one_bet [OF b]
       simp: bet_consistent_def matched_by_def taken_def undecided_def)

lemma cancel_bet_keeps:
  assumes b: "books s" and run: "cancel_bet u k s = Inr (x, s')"
  shows "keeps_consistent s s'"
proof -
  obtain r where r: "find_bet s k = Some r" and c: "cancel_with u r s = Inr (x, s')"
    using run by (auto simp: cancel_bet_def bind_tx_inv get_bet_or_404_inv)
  have id: "bet_id r = k" using r row_get_SomeD by (fastforce simp: find_bet_def)
  note st = cancel_with_step [OF booksD(1) [OF b] c] stake_sound [OF b r]
  show ?thesis
    using st r by (intro keeps_one_bet [OF b st(3) [unfolded id] r])
      (simp_all add: bet_consistent_def untaken_def undecided_def)
qed

lemma void_bet_keeps:
  assumes b: "books s" and run: "void_bet k adm why s = Inr (x, s')"
  shows "keeps_consistent s s'"
  by (rule void_bet_step [OF booksD(1) [OF b] run])
     (auto dest: stake_sound [OF b] intro!: keeps_one_bet [OF b]
       simp: bet_consistent_def void_row_def taken_def untaken_def undecided_def)

lemma settled_consistent:
  assumes "settles now k b opponent p a s s'" and "taken b" and "confirmed_result (matches s) (bet_match b) = Some r"
  shows "bet_consistent (matches s) (settled_row now p (sp_payout p) (sp_fee p) b)"
proof -
  obtain m cp where m: "find_match s (bet_match b) = Some m" "outcome m = Some r" "opponent_prediction b = Some cp"
    and out: "sp_outcome p = determine_path r (creator_prediction b) cp"
    and plan: "plan_ok b opponent p" and opp: "opponent_id b = Some opponent"
    using assms(1,3) by (auto simp: settles_def confirmed_result_def find_match_def split: option.splits if_splits)
  have "settled_by r (settled_row now p (sp_payout p) (sp_fee p) b)"
    using plan opp m(3) out by (auto simp: settled_by_def settled_row_def plan_ok_def determine_path_def split: if_splits)
  then show ?thesis
    using assms(2,3) by (simp add: bet_consistent_def settled_row_def taken_def)
qed

lemma settle_bet_keeps:
  assumes b: "books s" and run: "settle_bet now k s = Inr (x, s')"
  shows "keeps_consistent s s'"
proof -
  have ok: "settleable r" if "find_bet s k = Some r" for r
    using books_bet [OF b that] by (simp add: settleable_def bet_sound_def)
  obtain r opponent p a where st: "settles now k r opponent p a s s'"
    by (rule settle_bet_settles [OF booksD(1-3,5) [OF b] ok run])
  have r: "find_bet s k = Some r" "bstatus r = PENDING_SETTLEMENT" using st by (simp_all add: settles_def)
  have eq: "bets s' = row_upd bet_id k (settled_row now p (sp_payout p) (sp_fee p)) (bets s)" "matches s' = matches s"
    using st by (auto simp: settles_def same_defs)
  show ?thesis
    unfolding keeps_consistent_def
  proof
    assume c: "consistent s"
    then have all: "\<forall>b \<in> set (bets s). bet_consistent (matches s) b" by (simp add: consistent_def)
    have "r \<in> set (bets s)" using r(1) row_get_SomeD by (fastforce simp: find_bet_def)
    with all r(2) have "taken r" "confirmed_result (matches s) (bet_match r) \<noteq> None"
      by (auto simp: bet_consistent_def)
    with settled_consistent [OF st] have new: "bet_consistent (matches s) (settled_row now p (sp_payout p) (sp_fee p) r)" by blast
    have "\<forall>b \<in> set (row_upd bet_id k (settled_row now p (sp_payout p) (sp_fee p)) (bets s)). bet_consistent (matches s) b"
      using r(1) new by (intro all_row_upd [OF all _ booksD(5) [OF b]]) (simp add: find_bet_def)
    with c show "consistent s'" by (simp add: consistent_def eq)
  qed
qed

section \<open>Steps on matches\<close>

text \<open>A result once confirmed stays.\<close>

definition results_kept :: "match_row list \<Rightarrow> match_row list \<Rightarrow> bool" where
  "results_kept ms ms' \<longleftrightarrow> (\<forall>k r. confirmed_result ms k = Some r \<longrightarrow> confirmed_result ms' k = Some r)"

lemma bet_consistent_mono: "results_kept ms ms' \<Longrightarrow> bet_consistent ms b \<Longrightarrow> bet_consistent ms' b"
  by (auto simp: bet_consistent_def results_kept_def split: bet_status.splits)

lemma confirmed_path:
  "match_edge\<^sup>*\<^sup>* v w \<Longrightarrow> fst v = Some t \<Longrightarrow> fst w = Some t \<and> snd (snd w) = snd (snd v)"
proof (induction rule: rtranclp_induct)
  case (step y z)
  then show ?case by (cases y; cases z) auto
qed simp

lemma follow_results: "matches_follow ms ms' \<Longrightarrow> results_kept ms ms'"
  unfolding results_kept_def
proof (intro allI impI)
  fix k r
  assume f: "matches_follow ms ms'" and r: "confirmed_result ms k = Some r"
  then obtain m t where m: "row_get match_id k ms = Some m" "result_confirmed_at m = Some t" "outcome m = Some r"
    by (auto simp: confirmed_result_def split: option.splits if_splits)
  then obtain m' where m': "row_get match_id k ms' = Some m'" "match_edge\<^sup>*\<^sup>* (result_view m) (result_view m')"
    using f by (auto simp: matches_follow_def rows_follow_def)
  from confirmed_path [OF m'(2), of t] m show "confirmed_result ms' k = Some r"
    by (simp add: confirmed_result_def m'(1) result_view_def)
qed

lemma changes_complete: "match_complete m \<Longrightarrow> match_complete (fst (fixture_changes p m))"
proof -
  assume m: "match_complete m"
  show ?thesis
  proof (cases "result_confirmed_at m")
    case None
    then show ?thesis by (simp add: match_complete_def)
  next
    case (Some t)
    with m fixture_changes_edge [of m p] show ?thesis
      by (auto simp: match_complete_def result_view_def allowed_transitions_def)
  qed
qed

definition keeps_complete :: "db \<Rightarrow> db \<Rightarrow> bool" where
  "keeps_complete s s' \<longleftrightarrow> ((\<forall>m \<in> set (matches s). match_complete m) \<longrightarrow> (\<forall>m \<in> set (matches s'). match_complete m))"

lemma complete_refl: "keeps_complete s s"
  by (simp add: keeps_complete_def)

lemma complete_trans: "keeps_complete s t \<Longrightarrow> keeps_complete t u \<Longrightarrow> keeps_complete s u"
  unfolding keeps_complete_def by blast

lemma upsert_rows:
  assumes "upsert_fixture i now p s = Inr (a, s')"
  shows "matches s' = matches s @ [new_match i now p] \<or>
    (\<exists>k. matches s' = row_upd match_id k (\<lambda>r. (fst (fixture_changes p r))\<lparr>last_synced_at := Some now\<rparr>) (matches s))"
proof -
  have get: "get_by_external_id x t = Inr (find (\<lambda>m. external_id m = x) (matches t), t)" for x t
    by (simp add: get_by_external_id_def gets_def)
  show ?thesis
  proof (cases "find (\<lambda>m. external_id m = p_external_id p) (matches s)")
    case None
    then have "create_fixture i now p s = Inr (a, s')"
      using assms by (simp add: upsert_fixture_def bind_tx_def get)
    then have "insert_match (new_match i now p) s = Inr ((), s')"
      by (auto simp: create_fixture_def Let_def seq_tx_inv bind_names_inv)
    then show ?thesis
      by (auto simp: insert_match_def bind_tx_inv seq_tx_inv raise_if_inv check_row_inv get)
  next
    case (Some e)
    then have "update_fixture e p now s = Inr (a, s')"
      using assms by (simp add: upsert_fixture_def bind_tx_def get)
    then have "\<exists>x. flush_match (match_id e) (\<lambda>r. (fst (fixture_changes p r))\<lparr>last_synced_at := Some now\<rparr>) s = Inr (x, s')"
      by (auto simp: update_fixture_def bind_tx_inv seq_tx_inv bind_names_inv)
    then have "matches s' = row_upd match_id (match_id e) (\<lambda>r. (fst (fixture_changes p r))\<lparr>last_synced_at := Some now\<rparr>) (matches s)"
      by (auto simp: flush_match_inv put_match_def)
    then show ?thesis by blast
  qed
qed

lemma upsert_complete: "upsert_fixture i now p s = Inr (a, s') \<Longrightarrow> keeps_complete s s'"
proof -
  assume run: "upsert_fixture i now p s = Inr (a, s')"
  have new: "match_complete (new_match i now p)" by (simp add: match_complete_def new_match_def Let_def)
  have upd: "match_complete ((fst (fixture_changes p m))\<lparr>last_synced_at := Some now\<rparr>)" if "match_complete m" for m
    using changes_complete [OF that] by (simp add: match_complete_def)
  from upsert_rows [OF run] show ?thesis
  proof
    assume "matches s' = matches s @ [new_match i now p]"
    with new show ?thesis by (simp add: keeps_complete_def)
  next
    assume "\<exists>k. matches s' = row_upd match_id k (\<lambda>r. (fst (fixture_changes p r))\<lparr>last_synced_at := Some now\<rparr>) (matches s)"
    with upd show ?thesis by (auto simp: keeps_complete_def set_row_upd)
  qed
qed

lemma sync_keeps: "keeps_consistent s (snd (sync_request pr clock now job s))"
proof -
  let ?s' = "snd (sync_request pr clock now job s)"
  have "keeps_complete s ?s'"
    by (rule sync_request_rel [of keeps_complete, OF complete_refl complete_trans upsert_complete])
  moreover have st: "synced s ?s'" by (rule sync_request_synced)
  then have "bets ?s' = bets s" unfolding synced_def by (metis db.select_convs(5) db.surjective db.update_convs(4))
  moreover have "results_kept (matches s) (matches ?s')" using st by (simp add: synced_def follow_results)
  ultimately show ?thesis
    using bet_consistent_mono by (simp add: keeps_consistent_def consistent_def keeps_complete_def)
qed

lemma confirm_match_keeps:
  assumes b: "books s" and run: "confirm_match now m r h a adm s = Inr (x, s')"
  shows "keeps_consistent s s'"
proof (rule confirm_match_inv [OF run booksD(5) [OF b]])
  fix m' evs ls
  assume m': "find_match s m = Some m'" "result_confirmed_at m' = None"
    and s': "s' = s\<lparr>matches := row_upd match_id m (confirm_row now r h a) (matches s),
      bets := pending_table m (bets s), bet_events := evs, row_locks := ls\<rparr>"
  let ?ms = "row_upd match_id m (confirm_row now r h a) (matches s)"
  have here: "confirmed_result ?ms m = Some r"
    using m' by (simp add: confirmed_result_def find_match_def row_get_upd confirm_row_def)
  have kept: "results_kept (matches s) ?ms"
    using m' here by (auto simp: results_kept_def confirmed_result_def find_match_def row_get_upd confirm_row_def
        split: option.splits if_splits)
  have "bet_consistent ?ms (to_pending c)" if "bet_consistent (matches s) c" "bet_match c = m" "bstatus c = MATCHED" for c
    using that here by (simp add: bet_consistent_def to_pending_def taken_def undecided_def)
  note moved = this
  have row: "match_complete (confirm_row now r h a c)" for c by (simp add: match_complete_def confirm_row_def)
  show "keeps_consistent s s'"
    unfolding keeps_consistent_def
  proof
    assume "consistent s"
    then have ms: "\<forall>c \<in> set (matches s). match_complete c" and bs: "\<forall>c \<in> set (bets s). bet_consistent (matches s) c"
      by (simp_all add: consistent_def)
    have "\<forall>c \<in> set ?ms. match_complete c" using ms row by (auto simp: set_row_upd)
    moreover have "bet_consistent ?ms (if bet_match c = m \<and> bstatus c = MATCHED then to_pending c else c)" if "c \<in> set (bets s)" for c
      using moved bet_consistent_mono [OF kept] bs that by simp
    then have "\<forall>c \<in> set (pending_table m (bets s)). bet_consistent ?ms c" unfolding pending_table_def set_map by blast
    ultimately show "consistent s'" by (simp add: consistent_def s')
  qed
qed

section \<open>Every request\<close>

lemma register_keeps: "register std lib cfg now u i salt req s = Inr (t, s') \<Longrightarrow> keeps_consistent s s'"
  by (erule register_inv)
     (auto simp: create_wallet_def bind_tx_inv seq_tx_inv get_by_user_id_inv Let_def keeps_consistent_def consistent_def)

lemma reset_password_keeps: "reset_password std lib cfg now salt token pass s = Inr (x, s') \<Longrightarrow> keeps_consistent s s'"
  by (erule reset_password_inv) (simp add: keeps_consistent_def consistent_def)

lemma settle_each_keeps: "books s \<Longrightarrow> keeps_consistent s (snd (settle_each clock bs n m fs s))"
proof (induction bs arbitrary: n m fs s)
  case (Cons b bs)
  obtain r s1 where t: "transact (settle_bet (clock b) b) s = (r, s1)" by force
  have "books (snd (transact (settle_bet (clock b) b) s))"
    by (rule books_transact [OF Cons.prems]) (rule settle_bet_books [OF Cons.prems])
  then have "books s1" by (simp add: t)
  moreover have "keeps_consistent s (snd (transact (settle_bet (clock b) b) s))"
    by (rule keeps_transact) (rule settle_bet_keeps [OF Cons.prems])
  then have "keeps_consistent s s1" by (simp add: t)
  ultimately show ?case
    using Cons.IH [of s1] by (cases r) (auto simp: t split: error.splits intro: keeps_trans)
qed simp

lemma confirm_and_settle_keeps:
  assumes b: "books s"
  shows "keeps_consistent s (snd (confirm_and_settle now clock m r h a adm s))"
proof -
  obtain q s1 where t: "transact (confirm_match now m r h a adm) s = (q, s1)" by force
  have "books (snd (transact (confirm_match now m r h a adm) s))"
    by (rule books_transact [OF b]) (rule confirm_match_books [OF b])
  then have "books s1" by (simp add: t)
  have "keeps_consistent s (snd (transact (confirm_match now m r h a adm) s))"
    by (rule keeps_transact) (rule confirm_match_keeps [OF b])
  then have "keeps_consistent s s1" by (simp add: t)
  with \<open>books s1\<close> have "keeps_consistent s (snd (settle_each clock bs 0 0 [] s1))" for bs
    using settle_each_keeps keeps_trans by blast
  with \<open>keeps_consistent s s1\<close> show ?thesis
    by (auto simp: confirm_and_settle_def t Let_def split: sum.splits prod.splits) (metis snd_conv)
qed

lemma deposit_keeps:
  assumes b: "books s"
  shows "create_deposit i u am c pr cr n s = Inr (x, s') \<Longrightarrow> keeps_consistent s s'"
    and "initiate_payfast_deposit std cfg i u am e f l s = Inr (y, s') \<Longrightarrow> keeps_consistent s s'"
    and "fail_deposit now k why s = Inr (z, s') \<Longrightarrow> keeps_consistent s s'"
  using create_deposit_step(8) [OF booksD(1) [OF b]] initiate_payfast_step(8) [OF booksD(1) [OF b]]
  by (blast intro: keeps_funds elim: fail_deposit_step [OF booksD(1) [OF b]])+

lemma complete_deposit_keeps:
  assumes b: "books s" and run: "complete_deposit now k ref n s = Inr (x, s')"
  shows "keeps_consistent s s'"
proof -
  obtain d where d: "find_deposit s k = Some d" and c: "complete_with now ref n d s = Inr (x, s')"
    using run by (auto simp: complete_deposit_def bind_tx_inv get_deposit_or_404_inv)
  have "on_cent (dep_amount d)" using books_deposit [OF b d] by simp
  from complete_with_step(3) [OF booksD(1) [OF b] this c] show ?thesis by (rule keeps_funds)
qed

lemma payfast_itn_keeps:
  assumes b: "books s"
  shows "keeps_consistent s (snd (payfast_itn std cfg now form s))"
proof (rule payfast_itn_cases [of std cfg now form s])
  fix d ref
  assume "snd (payfast_itn std cfg now form s) = run_request (complete_deposit now (dep_id d) ref
         (Some [Lit ''PayFast ITN -- COMPLETE''])) s"
  with keeps_run [OF complete_deposit_keeps [OF b]] show ?thesis by simp
next
  fix d why
  assume "snd (payfast_itn std cfg now form s) = run_request (fail_deposit now (dep_id d) why) s"
  with keeps_run [OF deposit_keeps(3) [OF b]] show ?thesis by simp
qed simp

lemma withdrawal_keeps:
  assumes b: "books s"
  shows "\<not> half_cent_tie am \<Longrightarrow> create_withdrawal i u am acc c dest s = Inr (x, s') \<Longrightarrow> keeps_consistent s s'"
    and "approve_withdrawal now k s = Inr (y, s') \<Longrightarrow> keeps_consistent s s'"
  using create_withdrawal_step(7) [OF booksD(1) [OF b]]
  by (blast intro: keeps_funds elim: approve_withdrawal_step [OF booksD(1) [OF b]])+

lemma ended_withdrawal_keeps:
  assumes b: "books s" and w: "find_withdrawal s k = Some w"
  shows "complete_withdrawal_with now w s = Inr (x, s') \<Longrightarrow> keeps_consistent s s'"
    and "reject_withdrawal_with why w s = Inr (y, s') \<Longrightarrow> keeps_consistent s s'"
    and "fail_withdrawal_with now why w s = Inr (z, s') \<Longrightarrow> keeps_consistent s s'"
proof -
  have c: "on_cent (wd_amount w)" using books_withdrawal [OF b w] by simp
  show "complete_withdrawal_with now w s = Inr (x, s') \<Longrightarrow> keeps_consistent s s'"
    "reject_withdrawal_with why w s = Inr (y, s') \<Longrightarrow> keeps_consistent s s'"
    "fail_withdrawal_with now why w s = Inr (z, s') \<Longrightarrow> keeps_consistent s s'"
    using complete_withdrawal_with_step(3) [OF booksD(1) [OF b] c] reject_withdrawal_with_step(3) [OF booksD(1) [OF b] c]
      fail_withdrawal_with_step(3) [OF booksD(1) [OF b] c] keeps_funds by blast+
qed

lemma end_withdrawal_keeps:
  assumes b: "books s"
  shows "complete_withdrawal now k s = Inr (x, s') \<Longrightarrow> keeps_consistent s s'"
    and "reject_withdrawal k why s = Inr (y, s') \<Longrightarrow> keeps_consistent s s'"
    and "fail_withdrawal now k why s = Inr (z, s') \<Longrightarrow> keeps_consistent s s'"
  using ended_withdrawal_keeps [OF b]
  by (auto simp: complete_withdrawal_def reject_withdrawal_def fail_withdrawal_def bind_tx_inv get_withdrawal_or_404_inv)

lemma exec_keeps:
  assumes b: "books s" and ok: "admissible r"
  shows "keeps_consistent s (exec std cfg r s)"
proof (cases r)
  case CreateBet
  with ok show ?thesis by (auto intro!: keeps_run create_bet_keeps [OF b])
next
  case CreateWithdrawal
  with ok show ?thesis by (auto intro!: keeps_run withdrawal_keeps(1) [OF b])
next
  case (ResetPassword lib now salt token pass)
  have "keeps_consistent s (run_request (reset_password std lib cfg now salt token pass) s)"
    by (rule keeps_run) (rule reset_password_keeps)
  with ResetPassword show ?thesis by simp
qed (simp_all add: settle_single_bet_def keeps_run [OF register_keeps] sync_keeps
    keeps_run [OF accept_bet_keeps [OF b]] keeps_run [OF cancel_bet_keeps [OF b]]
    keeps_run [OF void_bet_keeps [OF b]] confirm_and_settle_keeps [OF b]
    keeps_transact [OF settle_bet_keeps [OF b]] keeps_run [OF deposit_keeps(1) [OF b]]
    keeps_run [OF deposit_keeps(2) [OF b]] keeps_run [OF complete_deposit_keeps [OF b]]
    keeps_run [OF deposit_keeps(3) [OF b]] payfast_itn_keeps [OF b]
    keeps_run [OF withdrawal_keeps(2) [OF b]] keeps_run [OF end_withdrawal_keeps(1) [OF b]]
    keeps_run [OF end_withdrawal_keeps(2) [OF b]] keeps_run [OF end_withdrawal_keeps(3) [OF b]])

lemma run_keeps: "books s \<Longrightarrow> list_all admissible rs \<Longrightarrow> keeps_consistent s (run std cfg rs s)"
proof (induction rs arbitrary: s)
  case (Cons r rs)
  then have "keeps_consistent s (exec std cfg r s)" "books (exec std cfg r s)" by (auto intro: exec_books exec_keeps)
  with Cons.IH [of "exec std cfg r s"] Cons.prems show ?case by (auto simp: run_def intro: keeps_trans)
qed (simp add: run_def)

text \<open>C9: the rows agree with each other. Along every sequence of requests (with amounts that are not half way between two
  cents), on a database with the CHECK constraints or without, a bet is untaken while it is open or cancelled and has two participants with
  different predictions once it is matched; it carries no winner, payout or fee before it is settled; a settled one
  belongs to a match whose result is confirmed, names the participant who predicted that result as winner, or nobody where nobody did,
  and its payout and fee add up to the two stakes; and a match with a confirmed result is completed, with an outcome and both scores.\<close>

theorem rows_consistent:
  assumes "books s" and "consistent s" and "list_all admissible rs"
  shows "consistent (run std cfg rs s)"
  using run_keeps [OF assms(1,3)] assms(2) by (simp add: keeps_consistent_def)

theorem rows_consistent_witness:
  "consistent (run demo_std demo_settings [ConfirmResult (minutes 200) (\<lambda>b. minutes 201) 7 home_win 2 1 9, VoidBet 31 9 None]
     (demo_matched\<lparr>enforce_checks := False\<rparr>))"
proof -
  have "books (demo_matched\<lparr>enforce_checks := False\<rparr>)"
    using demo_books(3) by simp
  moreover have "consistent (demo_matched\<lparr>enforce_checks := False\<rparr>)"
    by (simp add: consistent_def eval_demo match_complete_def bet_consistent_def taken_def undecided_def)
  ultimately show ?thesis by (rule rows_consistent) simp
qed

end
