(* ===== verification/Config.thy ===== *)
theory Config
  imports PayFast Texts Json
begin

text \<open>
  \<^verbatim>\<open>app/core/config.py\<close>: the guards on the settings at startup and the settings computed from others. Of the standard
  library, \<open>json.loads\<close>, \<open>str\<close> and \<open>int\<close> on a string are the fields of \<open>loaders\<close>. \<open>None\<close> is an exception.
\<close>

record loaders =
  json_loads :: "string \<Rightarrow> json option"
  py_str :: "json \<Rightarrow> string"
  int_of_text :: "string \<Rightarrow> int option"

section \<open>Lists in the environment\<close>

definition nonblank_parts :: "string \<Rightarrow> string list" where
  "nonblank_parts s = filter (\<lambda>t. t \<noteq> []) (map str_strip (split_on (CHR '','') s))"

definition cors_origins :: "loaders \<Rightarrow> settings \<Rightarrow> string list option" where
  "cors_origins ld cfg =
     (let stripped = str_strip (cors_origins_raw cfg) in
      case (if starts_with stripped ''['' then json_loads ld stripped else None) of
        None \<Rightarrow> Some (nonblank_parts stripped)
      | Some (json_list parsed) \<Rightarrow> Some (filter (\<lambda>t. t \<noteq> []) (map (\<lambda>j. str_strip (py_str ld j)) parsed))
      | Some _ \<Rightarrow> None)"

text \<open>\<open>int(i)\<close> of a JSON value: a \<open>ValueError\<close> is caught, a \<open>TypeError\<close> is not.\<close>

datatype int_reading = int_read int | value_error | type_error

definition int_of_json :: "loaders \<Rightarrow> json \<Rightarrow> int_reading" where
  "int_of_json ld j = (case j of
     json_int n \<Rightarrow> int_read n
   | json_bool b \<Rightarrow> int_read (if b then 1 else 0)
   | json_float q \<Rightarrow> int_read (if 0 \<le> q then \<lfloor>q\<rfloor> else \<lceil>q\<rceil>)
   | json_str t \<Rightarrow> (case int_of_text ld t of None \<Rightarrow> value_error | Some n \<Rightarrow> int_read n)
   | _ \<Rightarrow> type_error)"

text \<open>The list comprehension stops at the first exception.\<close>

datatype ints_reading = ints_read "int list" | ints_value_error | ints_type_error

fun ints_of_json :: "loaders \<Rightarrow> json list \<Rightarrow> ints_reading" where
  "ints_of_json ld [] = ints_read []"
| "ints_of_json ld (j # js) = (case int_of_json ld j of
     value_error \<Rightarrow> ints_value_error
   | type_error \<Rightarrow> ints_type_error
   | int_read n \<Rightarrow> (case ints_of_json ld js of ints_read ns \<Rightarrow> ints_read (n # ns) | e \<Rightarrow> e))"

fun all_some :: "('a \<Rightarrow> 'b option) \<Rightarrow> 'a list \<Rightarrow> 'b list option" where
  "all_some f [] = Some []"
| "all_some f (x # xs) = (case f x of None \<Rightarrow> None | Some y \<Rightarrow> map_option (\<lambda>ys. y # ys) (all_some f xs))"

definition sports_provider_league_ids :: "loaders \<Rightarrow> settings \<Rightarrow> int list option" where
  "sports_provider_league_ids ld cfg =
     (let stripped = str_strip (league_ids_raw cfg);
          by_comma = all_some (int_of_text ld) (nonblank_parts stripped) in
      if starts_with stripped ''['' then
        (case json_loads ld stripped of
           None \<Rightarrow> by_comma
         | Some (json_list parsed) \<Rightarrow> (case ints_of_json ld parsed of
             ints_read ns \<Rightarrow> Some ns | ints_value_error \<Rightarrow> by_comma | ints_type_error \<Rightarrow> None)
         | Some _ \<Rightarrow> None)
      else by_comma)"

section \<open>Startup guards\<close>

definition insecure_placeholders :: "string list" where
  "insecure_placeholders = [''INSECURE_CHANGE_ME'', ''changeme'', ''change_me'', ''secret'', ''your-secret-key'',
     ''CHANGE_ME_GENERATE_WITH_openssl_rand_-hex_32'', []]"

definition secret_key_accepted :: "settings \<Rightarrow> bool" where
  "secret_key_accepted cfg \<longleftrightarrow> \<not> (app_env cfg \<noteq> ''development'' \<and> secret_key cfg \<in> set insecure_placeholders)"

definition https_enforced :: "settings \<Rightarrow> bool" where
  "https_enforced cfg \<longleftrightarrow>
     (if app_env cfg \<noteq> ''production'' \<or> \<not> payfast_enabled cfg then True
      else list_all (\<lambda>url. url = [] \<or> starts_with url ''https://'')
             [payfast_return_url cfg, payfast_cancel_url cfg, payfast_notify_url cfg])"

definition settings_accepted :: "settings \<Rightarrow> bool" where
  "settings_accepted cfg \<longleftrightarrow> secret_key_accepted cfg \<and> https_enforced cfg"

section \<open>The database\<close>

text \<open>The \<open>connect_args\<close>: none, or an SSL context that verifies nothing, with or without a disabled statement cache.\<close>

datatype connect_args = plain_connection | ssl_connection bool

definition db_connect_args :: "settings \<Rightarrow> connect_args" where
  "db_connect_args cfg =
     (let url = (case database_url cfg of None \<Rightarrow> [] | Some u \<Rightarrow> u);
          supabase_host = contains_text ''supabase.co'' url \<or> contains_text ''supabase.com'' url;
          transaction_pooler = supabase_host \<and> contains_text '':6543/'' url in
      if db_ssl cfg = ''disable'' then plain_connection
      else if db_ssl cfg = ''require'' \<or> db_ssl cfg = ''auto'' \<and> supabase_host
      then ssl_connection transaction_pooler
      else plain_connection)"

text \<open>\<open>_use_null_pool\<close> of \<^verbatim>\<open>app/db/session.py\<close>.\<close>

definition use_null_pool :: "settings \<Rightarrow> bool" where
  "use_null_pool cfg \<longleftrightarrow> db_connect_args cfg = ssl_connection True"

definition db_address :: "settings \<Rightarrow> string" where
  "db_address cfg = db_user cfg @ '':'' @ db_password cfg @ ''@'' @ db_host cfg @ '':'' @ int_text (db_port cfg) @
     ''/'' @ db_name cfg"

definition database_url_async :: "settings \<Rightarrow> string" where
  "database_url_async cfg = (case database_url cfg of
     Some url \<Rightarrow>
       if url = [] then ''postgresql+asyncpg://'' @ db_address cfg
       else if starts_with url ''postgresql://'' then replace_once ''postgresql://'' ''postgresql+asyncpg://'' url
       else if starts_with url ''postgres://'' then replace_once ''postgres://'' ''postgresql+asyncpg://'' url
       else url
   | None \<Rightarrow> ''postgresql+asyncpg://'' @ db_address cfg)"

definition database_url_sync :: "settings \<Rightarrow> string" where
  "database_url_sync cfg = (case database_url cfg of
     Some url \<Rightarrow>
       if url = [] then ''postgresql://'' @ db_address cfg
       else if contains_text ''+asyncpg'' url then replace_once ''+asyncpg'' [] url
       else url
   | None \<Rightarrow> ''postgresql://'' @ db_address cfg)"

text \<open>The engine of \<^verbatim>\<open>app/db/session.py\<close>: no pool behind the transaction pooler, else one of the configured size whose connections are
  tested before use.\<close>

datatype pool_options = null_pool
  | queue_pool (pool_size: int) (max_overflow: int) (pool_timeout: int) (pool_recycle: int) (pool_pre_ping: bool)

record engine_options =
  engine_url :: string
  engine_echo :: bool
  engine_pool :: pool_options
  engine_connect_args :: connect_args

definition engine :: "settings \<Rightarrow> engine_options" where
  "engine cfg = (if use_null_pool cfg
     then \<lparr>engine_url = database_url_async cfg, engine_echo = app_debug cfg, engine_pool = null_pool,
       engine_connect_args = db_connect_args cfg\<rparr>
     else \<lparr>engine_url = database_url_async cfg, engine_echo = app_debug cfg,
       engine_pool = queue_pool (db_pool_size cfg) (db_max_overflow cfg) (db_pool_timeout cfg) (db_pool_recycle cfg) True,
       engine_connect_args = db_connect_args cfg\<rparr>)"

section \<open>The address of the migrations\<close>

text \<open>
  \<^verbatim>\<open>alembic/env.py\<close> puts the address into a \<open>ConfigParser\<close> and reads it back. Its interpolation turns \<open>%%\<close> into a percent sign
  and \<open>%(name)s\<close> into the option \<open>name\<close> (\<open>lookup\<close>); any other percent sign is an exception (\<open>None\<close>).
\<close>

function interpolated :: "(string \<Rightarrow> string option) \<Rightarrow> string \<Rightarrow> string option" where
  "interpolated lookup [] = Some []"
| "interpolated lookup (c # cs) =
     (if c \<noteq> CHR ''%'' then map_option (\<lambda>t. c # t) (interpolated lookup cs)
      else case cs of
        [] \<Rightarrow> None
      | d # r \<Rightarrow>
          if d = CHR ''%'' then map_option (\<lambda>t. CHR ''%'' # t) (interpolated lookup r)
          else if d = CHR ''('' then
            (let name = takeWhile (\<lambda>x. x \<noteq> CHR '')'') r; rest = dropWhile (\<lambda>x. x \<noteq> CHR '')'') r in
             if name = [] \<or> \<not> starts_with rest '')s'' then None
             else (case (lookup name, interpolated lookup (drop 2 rest)) of
                 (Some v, Some t) \<Rightarrow> Some (v @ t)
               | _ \<Rightarrow> None))
          else None)"
  by pat_completeness auto
termination
  by (relation "measure (length \<circ> snd)") (auto simp: le_imp_less_Suc length_dropWhile_le le_SucI le_diff_conv)

text \<open>Online the migrations connect to the asynchronous address, without a pool and without the connection arguments of the
  application. Offline it is only stored, which looks no option up, and SQL is printed for the synchronous one.\<close>

definition migration_url :: "(string \<Rightarrow> string option) \<Rightarrow> settings \<Rightarrow> string option" where
  "migration_url lookup cfg = interpolated lookup (database_url_async cfg)"

definition migration_engine :: "(string \<Rightarrow> string option) \<Rightarrow> settings \<Rightarrow> engine_options option" where
  "migration_engine lookup cfg = map_option (\<lambda>url. \<lparr>engine_url = url, engine_echo = False, engine_pool = null_pool,
     engine_connect_args = plain_connection\<rparr>) (migration_url lookup cfg)"

definition offline_url :: "settings \<Rightarrow> string option" where
  "offline_url cfg = (case interpolated (\<lambda>name. Some []) (database_url_async cfg) of
     None \<Rightarrow> None
   | Some t \<Rightarrow> Some (database_url_sync cfg))"

lemma interpolated_plain: "CHR ''%'' \<notin> set v \<Longrightarrow> interpolated lookup v = Some v"
  by (induction v) auto

lemma interpolated_prefix: "CHR ''%'' \<notin> set u \<Longrightarrow> interpolated lookup (u @ v) = map_option (\<lambda>t. u @ t) (interpolated lookup v)"
  by (induction u; cases "interpolated lookup v") auto

text \<open>Without a percent sign the migrations use the database of the application, but never over its encrypted connection; with an
  escape such as \<open>%40\<close> in the password they do not start.\<close>

lemma migrations_same_database:
  assumes "CHR ''%'' \<notin> set (database_url_async cfg)"
  shows "map_option engine_url (migration_engine lookup cfg) = Some (engine_url (engine cfg))"
    "map_option engine_connect_args (migration_engine lookup cfg) = Some plain_connection"
  using assms by (simp_all add: migration_engine_def migration_url_def interpolated_plain engine_def)

lemma escaped_password_stops_migrations:
  assumes "database_url_async cfg = u @ CHR ''%'' # d # v" and "CHR ''%'' \<notin> set u" and "d \<noteq> CHR ''%''" "d \<noteq> CHR ''(''"
  shows "migration_engine lookup cfg = None" "offline_url cfg = None"
  using assms by (simp_all add: migration_engine_def migration_url_def offline_url_def interpolated_prefix)

text \<open>A value of \<open>db_ssl\<close> other than the three that are tested asks for no encryption, \<open>true\<close> included; and the synchronous address
  keeps a \<open>postgres\<close> scheme, which the asynchronous one replaces.\<close>

lemma other_ssl_is_plain: "db_ssl cfg \<notin> {''require'', ''auto''} \<Longrightarrow> db_connect_args cfg = plain_connection"
  by (simp add: db_connect_args_def Let_def)

lemma postgres_scheme:
  "database_url_async (cfg\<lparr>database_url := Some ''postgres://u:p@h/d''\<rparr>) = ''postgresql+asyncpg://u:p@h/d''"
  "database_url_sync (cfg\<lparr>database_url := Some ''postgres://u:p@h/d''\<rparr>) = ''postgres://u:p@h/d''"
proof -
  have "\<not> starts_with ''postgres://u:p@h/d'' ''postgresql://''" "starts_with ''postgres://u:p@h/d'' ''postgres://''"
    "replace_once ''postgres://'' ''postgresql+asyncpg://'' ''postgres://u:p@h/d'' = ''postgresql+asyncpg://u:p@h/d''"
    "\<not> contains_text ''+asyncpg'' ''postgres://u:p@h/d''" by code_simp+
  then show "database_url_async (cfg\<lparr>database_url := Some ''postgres://u:p@h/d''\<rparr>) = ''postgresql+asyncpg://u:p@h/d''"
    "database_url_sync (cfg\<lparr>database_url := Some ''postgres://u:p@h/d''\<rparr>) = ''postgres://u:p@h/d''"
    by (simp_all add: database_url_async_def database_url_sync_def)
qed

end
