(* ===== verification/Seed.thy ===== *)
theory Seed
  imports Auth Wallets
begin

text \<open>
  \<^verbatim>\<open>app/db/seed.py\<close> and the lifespan of \<^verbatim>\<open>app/main.py\<close> that runs it: a funded test user and five matches, in one
  transaction at startup of a development instance. A failure is logged and startup goes on.
\<close>

section \<open>The test user\<close>

definition test_email :: string where
  "test_email = ''testuser@buddybet.com''"

definition test_display_name :: string where
  "test_display_name = ''testuser''"

definition test_password :: string where
  "test_password = ''TestPass123!''"

definition test_initial_balance :: decimal where
  "test_initial_balance = 10000"

text \<open>\<open>wallet_repo.create\<close> with an initial balance; no ledger entry goes with it.\<close>

definition create_funded_wallet :: "uuid \<Rightarrow> uuid \<Rightarrow> string \<Rightarrow> decimal \<Rightarrow> unit dbtx" where
  "create_funded_wallet new_id u cur amount =
     bind_tx (get_by_user_id u) (\<lambda>r.
     seq_tx (raise_if (r \<noteq> None) IntegrityError)
    (bind_tx (store_money amount) (\<lambda>av.
     let w = \<lparr>wallet_id = new_id, wallet_user = u, available_balance = av, locked_balance = 0,
              wallet_currency = cur, version = 0\<rparr> in
     seq_tx (check_row (wallet_row_ok w))
       (modify (\<lambda>s. s\<lparr>wallets := wallets s @ [w]\<rparr>)))))"

definition seed_test_user :: "auth_lib \<Rightarrow> settings \<Rightarrow> uuid \<Rightarrow> uuid \<Rightarrow> string \<Rightarrow> unit dbtx" where
  "seed_test_user lib cfg new_user_id new_wallet_id salt =
     bind_tx (get_by_email test_email) (\<lambda>existing.
     case existing of
       Some u \<Rightarrow> ret ()
     | None \<Rightarrow>
         bind_tx (create_user new_user_id test_email test_display_name (hash_password lib salt test_password) None) (\<lambda>u.
         create_funded_wallet new_wallet_id (user_id u) (platform_currency cfg) test_initial_balance))"

section \<open>The matches\<close>

record match_fixture =
  fx_external_id :: string
  fx_home_team :: string
  fx_away_team :: string
  fx_competition :: string
  fx_days_from_now :: int

definition fixture_of :: "string \<Rightarrow> string \<Rightarrow> string \<Rightarrow> string \<Rightarrow> int \<Rightarrow> match_fixture" where
  "fixture_of ext home away comp_name days = \<lparr>fx_external_id = ext, fx_home_team = home, fx_away_team = away,
     fx_competition = comp_name, fx_days_from_now = days\<rparr>"

definition seed_match_fixtures :: "match_fixture list" where
  "seed_match_fixtures =
     [fixture_of ''DEV-arsenal-vs-manchester-city'' ''Arsenal'' ''Manchester City'' ''Premier League'' 7,
      fixture_of ''DEV-liverpool-vs-chelsea'' ''Liverpool'' ''Chelsea'' ''Premier League'' 10,
      fixture_of ''DEV-barcelona-vs-real-madrid'' ''Barcelona'' ''Real Madrid'' ''La Liga'' 14,
      fixture_of ''DEV-bayern-munich-vs-borussia-dortmund'' ''Bayern Munich'' ''Borussia Dortmund'' ''Bundesliga'' 18,
      fixture_of ''DEV-psg-vs-marseille'' ''Paris Saint-Germain'' ''Marseille'' ''Ligue 1'' 21]"

definition seeded_match :: "datetime \<Rightarrow> uuid \<Rightarrow> match_fixture \<Rightarrow> match_row" where
  "seeded_match now new_id fx = \<lparr>match_id = new_id, external_id = fx_external_id fx, provider_name = None,
     home_team = fx_home_team fx, away_team = fx_away_team fx, competition = fx_competition fx,
     kickoff_at = now + minutes (fx_days_from_now fx * 24 * 60), mstatus = MS_scheduled, result_home_score = None,
     result_away_score = None, outcome = None, result_confirmed_at = None, last_synced_at = None\<rparr>"

definition seed_match :: "datetime \<Rightarrow> uuid \<Rightarrow> match_fixture \<Rightarrow> unit dbtx" where
  "seed_match now new_id fx =
     bind_tx (get_by_external_id (fx_external_id fx)) (\<lambda>existing.
     if existing \<noteq> None then ret () else insert_match (seeded_match now new_id fx))"

text \<open>The loop, with the id the database gives the n-th match.\<close>

definition seed_matches :: "datetime \<Rightarrow> (match_fixture \<Rightarrow> uuid) \<Rightarrow> unit dbtx" where
  "seed_matches now new_id = for_each (\<lambda>fx. seed_match now (new_id fx) fx) seed_match_fixtures"

section \<open>Startup\<close>

definition seed_all ::
  "auth_lib \<Rightarrow> settings \<Rightarrow> datetime \<Rightarrow> uuid \<Rightarrow> uuid \<Rightarrow> string \<Rightarrow> (match_fixture \<Rightarrow> uuid) \<Rightarrow> unit dbtx" where
  "seed_all lib cfg now new_user_id new_wallet_id salt new_match_id =
     seq_tx (seed_test_user lib cfg new_user_id new_wallet_id salt) (seed_matches now new_match_id)"

definition startup ::
  "auth_lib \<Rightarrow> settings \<Rightarrow> datetime \<Rightarrow> uuid \<Rightarrow> uuid \<Rightarrow> string \<Rightarrow> (match_fixture \<Rightarrow> uuid) \<Rightarrow> db \<Rightarrow> db" where
  "startup lib cfg now new_user_id new_wallet_id salt new_match_id s =
     (if app_env cfg = ''development'' \<and> seed_test_user_enabled cfg
      then run_request (seed_all lib cfg now new_user_id new_wallet_id salt new_match_id) s else s)"

section \<open>What seeding leaves behind\<close>

definition has_fixture :: "db \<Rightarrow> match_fixture \<Rightarrow> bool" where
  "has_fixture s fx \<longleftrightarrow> find (\<lambda>m. external_id m = fx_external_id fx) (matches s) \<noteq> None"

lemma normal_test_email: "str_strip (str_lower test_email) = test_email"
  by code_simp

lemma find_at_end: "P x \<Longrightarrow> find P (xs @ [x]) \<noteq> None"
  by (induction xs) auto

lemma seed_match_found: "has_fixture s fx \<Longrightarrow> seed_match now i fx s = Inr ((), s)"
  by (auto simp: seed_match_def has_fixture_def get_by_external_id_def bind_tx_def gets_def ret_def)

lemma seed_match_inv:
  assumes "seed_match now i fx s = Inr (x, s')"
  shows "(\<exists>ms. s' = s\<lparr>matches := matches s @ ms\<rparr>) \<and> has_fixture s' fx"
proof (cases "has_fixture s fx")
  case True
  then show ?thesis using assms by (auto simp: seed_match_found intro!: exI [of _ "[]"])
next
  case False
  then have "s' = s\<lparr>matches := matches s @ [seeded_match now i fx]\<rparr>"
    using assms
    by (auto simp: seed_match_def has_fixture_def get_by_external_id_def insert_match_def bind_tx_inv seq_tx_inv
        check_row_inv split: if_splits)
  note s' = this
  have "external_id (seeded_match now i fx) = fx_external_id fx" by (simp add: seeded_match_def)
  then have "has_fixture s' fx" unfolding s' has_fixture_def by (simp add: find_at_end del: not_None_eq)
  with s' show ?thesis by blast
qed

lemma has_fixture_grows: "has_fixture s fx \<Longrightarrow> has_fixture (s\<lparr>matches := matches s @ ms\<rparr>) fx"
  unfolding has_fixture_def find_None_iff by auto

lemma seed_each_inv:
  "for_each (\<lambda>fx. seed_match now (f fx) fx) fxs s = Inr (x, s') \<Longrightarrow>
     (\<exists>ms. s' = s\<lparr>matches := matches s @ ms\<rparr>) \<and> list_all (has_fixture s') fxs"
proof (induction fxs arbitrary: s)
  case (Cons fx fxs)
  then obtain s1 where s1: "seed_match now (f fx) fx s = Inr ((), s1)"
    and rest: "for_each (\<lambda>fx. seed_match now (f fx) fx) fxs s1 = Inr (x, s')"
    by (auto simp: seq_tx_inv)
  obtain ms where ms: "s1 = s\<lparr>matches := matches s @ ms\<rparr>" "has_fixture s1 fx"
    using seed_match_inv [OF s1] by blast
  obtain ns where ns: "s' = s1\<lparr>matches := matches s1 @ ns\<rparr>" "list_all (has_fixture s') fxs"
    using Cons.IH [OF rest] by blast
  have "has_fixture s' fx" using has_fixture_grows [OF ms(2)] ns(1) by simp
  then show ?case using ms(1) ns by (auto intro!: exI [of _ "ms @ ns"])
qed (auto intro!: exI [of _ "[]"])

lemma seed_each_found:
  "list_all (has_fixture s) fxs \<Longrightarrow> for_each (\<lambda>fx. seed_match now (f fx) fx) fxs s = Inr ((), s)"
  by (induction fxs) (auto simp: ret_def seq_tx_def bind_tx_def seed_match_found)

lemma seed_test_user_found:
  "find_by_email s test_email \<noteq> None \<Longrightarrow> seed_test_user lib cfg u w salt s = Inr ((), s)"
  by (auto simp: seed_test_user_def get_by_email_def normal_test_email bind_tx_def gets_def ret_def)

text \<open>The test user is there afterwards; a wallet is added with the user, and no ledger entry.\<close>

lemma seed_test_user_inv:
  assumes "seed_test_user lib cfg u w salt s = Inr (x, s')"
  shows "find_by_email s' test_email \<noteq> None \<and>
    (\<exists>us ws. s' = s\<lparr>users := users s @ us, wallets := wallets s @ ws\<rparr> \<and>
       total_money ws = (if find_by_email s test_email = None then test_initial_balance else 0))"
proof (cases "find_by_email s test_email")
  case (Some a)
  then show ?thesis
    using assms by (auto simp: seed_test_user_found total_money_def intro!: exI [of _ "[]"])
next
  case None
  let ?u = "\<lparr>user_id = u, email = test_email, phone_number = None, display_name = str_strip test_display_name,
     password_hash = hash_password lib salt test_password, urole = role_user, ustatus = US_active\<rparr>"
  let ?w = "\<lparr>wallet_id = w, wallet_user = u, available_balance = 10000, locked_balance = 0,
     wallet_currency = platform_currency cfg, version = 0\<rparr>"
  have "s' = s\<lparr>users := users s @ [?u], wallets := wallets s @ [?w]\<rparr>"
    using assms None
    by (auto simp: seed_test_user_def get_by_email_inv normal_test_email bind_tx_inv seq_tx_inv create_user_def
        insert_user_inv create_funded_wallet_def get_by_user_id_inv Let_def store_money_inv check_row_inv
        test_initial_balance_def round_half_up_def round_half_away_def)
  note s' = this
  have "find_by_email s' test_email \<noteq> None"
    unfolding s' find_by_email_def by (simp add: find_at_end del: not_None_eq)
  moreover have "total_money [?w] = test_initial_balance" by (simp add: total_money_def test_initial_balance_def)
  ultimately show ?thesis using s' None by (intro conjI exI [of _ "[?u]"] exI [of _ "[?w]"]) (simp_all only: refl if_True not_False_eq_True)
qed

definition seeded :: "db \<Rightarrow> bool" where
  "seeded s \<longleftrightarrow> find_by_email s test_email \<noteq> None \<and> list_all (has_fixture s) seed_match_fixtures"

lemma seed_all_found: "seeded s \<Longrightarrow> seed_all lib cfg now u w salt f s = Inr ((), s)"
  by (simp add: seeded_def seed_all_def seed_matches_def seq_tx_def bind_tx_def seed_test_user_found seed_each_found)

lemma seed_all_inv:
  assumes "seed_all lib cfg now u w salt f s = Inr (x, s')"
  shows "seeded s' \<and>
    (\<exists>us ws ms. s' = s\<lparr>users := users s @ us, wallets := wallets s @ ws, matches := matches s @ ms\<rparr> \<and>
       total_money ws = (if find_by_email s test_email = None then test_initial_balance else 0))"
proof -
  obtain s1 where s1: "seed_test_user lib cfg u w salt s = Inr ((), s1)"
    and rest: "for_each (\<lambda>fx. seed_match now (f fx) fx) seed_match_fixtures s1 = Inr (x, s')"
    using assms by (auto simp: seed_all_def seed_matches_def seq_tx_inv)
  obtain us ws where a: "s1 = s\<lparr>users := users s @ us, wallets := wallets s @ ws\<rparr>" "find_by_email s1 test_email \<noteq> None"
    "total_money ws = (if find_by_email s test_email = None then test_initial_balance else 0)"
    using seed_test_user_inv [OF s1] by blast
  obtain ms where b: "s' = s1\<lparr>matches := matches s1 @ ms\<rparr>" "list_all (has_fixture s') seed_match_fixtures"
    using seed_each_inv [OF rest] by blast
  have "seeded s'" using a(2) b by (simp add: seeded_def find_by_email_def)
  with a b(1) show ?thesis by fastforce
qed

end
