(* ===== verification/Startup_Properties.thy ===== *)
theory Startup_Properties
  imports Config Seed Scenario
begin

text \<open>
  Startup: the environment's lists and database addresses are read back as written, and seeding a development
  database twice is the same as seeding it once.
\<close>

section \<open>Settings\<close>

lemma digit_chars: "m < 10 \<Longrightarrow> 48 \<le> (of_char (digit m) :: nat) \<and> (of_char (digit m) :: nat) \<le> 57"
  by (simp add: digit_def)

lemma nat_text_chars: "c \<in> set (nat_text m) \<Longrightarrow> 48 \<le> (of_char c :: nat) \<and> (of_char c :: nat) \<le> 57"
proof (induction m rule: nat_text.induct)
  case (1 m)
  from "1.prems" show ?case
    by (subst (asm) nat_text.simps) (auto simp: digit_chars dest: "1.IH" split: if_splits)
qed

lemma nat_text_nonempty [simp]: "nat_text m \<noteq> []"
  by (subst nat_text.simps) simp

text \<open>The characters of a number: a minus sign and digits.\<close>

lemma int_text_chars: "c \<in> set (int_text k) \<Longrightarrow> (of_char c :: nat) = 45 \<or> 48 \<le> (of_char c :: nat) \<and> (of_char c :: nat) \<le> 57"
  by (auto simp: int_text_def dest: nat_text_chars split: if_splits)

lemma int_text_nonempty [simp]: "int_text k \<noteq> []"
  by (simp add: int_text_def)

lemma int_text_no_comma: "CHR '','' \<notin> set (int_text k)"
  using int_text_chars by fastforce

lemma int_text_no_space: "\<forall>c \<in> set (int_text k). \<not> is_space c"
  using int_text_chars by (fastforce simp: is_space_def Let_def)

lemma split_join: "ts \<noteq> [] \<Longrightarrow> \<forall>t \<in> set ts. c \<notin> set t \<Longrightarrow> split_on c (join_with [c] ts) = ts"
proof (induction ts)
  case (Cons x ts)
  then show ?case by (cases ts) (auto simp: split_on_plain split_on_append)
qed simp

lemma all_some_map: "\<forall>x \<in> set xs. f (g x) = Some x \<Longrightarrow> all_some f (map g xs) = Some xs"
  by (induction xs) auto

lemma join_chars: "c \<in> set (join_with sep ts) \<Longrightarrow> c \<in> set sep \<or> (\<exists>t \<in> set ts. c \<in> set t)"
  by (induction sep ts rule: join_with.induct) auto

text \<open>The league ids written as a comma-separated list are read back.\<close>

theorem league_ids_round_trip:
  assumes "league_ids_raw cfg = join_with '','' (map int_text ids)"
    and "\<forall>k \<in> set ids. int_of_text ld (int_text k) = Some k"
  shows "sports_provider_league_ids ld cfg = Some ids"
proof -
  let ?t = "join_with '','' (map int_text ids)"
  have c: "(of_char c :: nat) = 44 \<or> (of_char c :: nat) = 45 \<or> 48 \<le> (of_char c :: nat) \<and> (of_char c :: nat) \<le> 57"
    if "c \<in> set ?t" for c
    using join_chars [OF that] int_text_chars by auto
  have s: "str_strip ?t = ?t" using c by (intro str_strip_plain) (fastforce simp: is_space_def Let_def)
  have b: "\<not> starts_with ?t ''[''"
  proof
    assume "starts_with ?t ''[''"
    then have "CHR ''['' \<in> set ?t" by (cases ?t) (auto simp: starts_with_def)
    from c [OF this] show False by simp
  qed
  have p: "nonblank_parts ?t = map int_text ids"
  proof (cases "ids = []")
    case False
    then have "split_on CHR '','' ?t = map int_text ids" using int_text_no_comma by (intro split_join) auto
    then show ?thesis by (simp add: nonblank_parts_def str_strip_plain int_text_no_space comp_def filter_map)
  qed (simp add: nonblank_parts_def str_strip_def)
  show ?thesis
    using assms(2) by (simp add: sports_provider_league_ids_def assms(1) s b p all_some_map)
qed

definition demo_loaders :: loaders where
  "demo_loaders = \<lparr>json_loads = (\<lambda>s. None), py_str = (\<lambda>j. []),
     int_of_text = (\<lambda>t. if t = ''39'' then Some 39 else if t = ''140'' then Some 140 else None)\<rparr>"

theorem league_ids_round_trip_witness:
  "sports_provider_league_ids demo_loaders demo_settings = Some [39, 140]"
proof (rule league_ids_round_trip)
  have t: "int_text 39 = ''39''" "int_text 140 = ''140''"
    by code_simp+
  show "league_ids_raw demo_settings = join_with '','' (map int_text [39, 140])"
    by (simp add: t demo_settings_def)
  show "\<forall>k \<in> set [39, 140]. int_of_text demo_loaders (int_text k) = Some k"
    by (simp add: t demo_loaders_def)
qed

text \<open>The address Alembic uses is the address the application uses, less the driver: whichever of the two
  forms \<open>DATABASE_URL\<close> has, each is computed from the other.\<close>

theorem database_url_round_trip:
  assumes "database_url cfg = Some (''postgresql://'' @ rest)"
  shows "database_url_sync (cfg\<lparr>database_url := Some (database_url_async cfg)\<rparr>) = ''postgresql://'' @ rest \<and>
    database_url_async (cfg\<lparr>database_url := Some (database_url_async cfg)\<rparr>) = database_url_async cfg"
proof -
  have a: "database_url_async cfg = ''postgresql+asyncpg://'' @ rest"
    by (simp add: database_url_async_def assms starts_with_def)
  show ?thesis
    by (simp add: a database_url_sync_def) (simp add: database_url_async_def starts_with_def)
qed

theorem database_url_round_trip_witness:
  "database_url_sync (demo_settings\<lparr>database_url :=
     Some (database_url_async (demo_settings\<lparr>database_url := Some ''postgresql://u:p@h/db''\<rparr>))\<rparr>) =
     ''postgresql://u:p@h/db''"
  using database_url_round_trip [of "demo_settings\<lparr>database_url := Some ''postgresql://u:p@h/db''\<rparr>" "''u:p@h/db''"]
  by simp

section \<open>Seeding\<close>

text \<open>Once the seed has gone through, starting again changes nothing, whatever the clock and the ids. The
  first run gives a new test user ten thousand, with no deposit and no ledger entry behind it.\<close>

theorem seeding_idempotent:
  assumes "app_env cfg = ''development''" and "seed_test_user_enabled cfg"
    and "seed_all lib cfg now u w salt f s = Inr ((), s1)"
  shows "let s' = startup lib cfg now u w salt f s in
    startup lib' cfg now' u' w' salt' f' s' = s' \<and>
    total_money (wallets s') = total_money (wallets s) +
      (if find_by_email s test_email = None then test_initial_balance else 0) \<and>
    ledger s' = ledger s \<and> deposits s' = deposits s"
proof -
  note inv = seed_all_inv [OF assms(3)]
  have s': "startup lib cfg now u w salt f s = s1\<lparr>row_locks := []\<rparr>"
    by (simp add: startup_def assms run_request_def transact_def)
  have "seeded (s1\<lparr>row_locks := []\<rparr>)"
    using inv by (simp add: seeded_def find_by_email_def has_fixture_def [abs_def])
  then have "startup lib' cfg now' u' w' salt' f' (s1\<lparr>row_locks := []\<rparr>) = s1\<lparr>row_locks := []\<rparr>"
    by (simp add: startup_def seed_all_found run_request_def transact_def)
  with inv show ?thesis by (auto simp: s' Let_def total_money_def)
qed

lemma demo_seed: "\<not> isl (seed_all demo_auth (demo_settings\<lparr>seed_test_user_enabled := True\<rparr>) 0 1 11 []
    (\<lambda>fx. nat (100 + fx_days_from_now fx)) demo_db)"
  by code_simp

theorem seeding_idempotent_witness:
  "\<exists>cfg f. total_money (wallets (startup demo_auth cfg 0 1 11 [] f demo_db)) = 10000"
proof -
  let ?cfg = "demo_settings\<lparr>seed_test_user_enabled := True\<rparr>"
  let ?f = "\<lambda>fx. nat (100 + fx_days_from_now fx)"
  obtain s1 where s1: "seed_all demo_auth ?cfg 0 1 11 [] ?f demo_db = Inr ((), s1)" 
    using demo_seed by (cases "seed_all demo_auth ?cfg 0 1 11 [] ?f demo_db") auto
  have e: "find_by_email demo_db test_email = None" by (simp add: demo_db_def find_by_email_def)
  have "total_money (wallets (startup demo_auth ?cfg 0 1 11 [] ?f demo_db)) = 10000"
    using seeding_idempotent [OF _ _ s1, unfolded Let_def]
    by (simp add: e demo_settings_def test_initial_balance_def) (simp add: demo_db_def total_money_def)
  then show ?thesis by blast
qed

end
