(* ===== verification/Schemas.thy ===== *)
theory Schemas
  imports Match_Listing Auth Json
begin

text \<open>
  \<^verbatim>\<open>app/schemas\<close>: the request bodies, from the JSON value of a request to the fields a service is called with. \<open>None\<close> is a
  validation error, answered 422. What a class declares (required fields, defaults, lengths, validators) is
  translated; the conversions of Pydantic itself to a UUID, to an integer and of an e-mail address are the fields of
  \<open>pydantic\<close>. Lengths count characters.
\<close>

record pydantic =
  to_uuid :: "string \<Rightarrow> uuid option"
  to_int :: "json \<Rightarrow> int option"
  to_email :: "string \<Rightarrow> string option"

section \<open>Fields\<close>

definition required :: "json \<Rightarrow> string \<Rightarrow> (json \<Rightarrow> 'a option) \<Rightarrow> 'a option" where
  "required j k p = (case j of json_obj kvs \<Rightarrow> Option.bind (map_of kvs k) p | _ \<Rightarrow> None)"

definition defaulted :: "json \<Rightarrow> string \<Rightarrow> 'a \<Rightarrow> (json \<Rightarrow> 'a option) \<Rightarrow> 'a option" where
  "defaulted j k d p = (case j of json_obj kvs \<Rightarrow> (case map_of kvs k of None \<Rightarrow> Some d | Some v \<Rightarrow> p v) | _ \<Rightarrow> None)"

definition nullable :: "(json \<Rightarrow> 'a option) \<Rightarrow> json \<Rightarrow> 'a option option" where
  "nullable p v = (if v = json_null then Some None else map_option Some (p v))"

text \<open>A string, stripped when the class says so, of a length within bounds.\<close>

definition text_between :: "nat \<Rightarrow> nat option \<Rightarrow> bool \<Rightarrow> json \<Rightarrow> string option" where
  "text_between lo hi strip v =
     Option.bind (json_text v) (\<lambda>t.
     let x = (if strip then str_strip t else t) in
     if lo \<le> char_count x \<and> (case hi of None \<Rightarrow> True | Some h \<Rightarrow> char_count x \<le> h) then Some x else None)"

definition any_text :: "json \<Rightarrow> string option" where
  "any_text v = text_between 0 None False v"

definition optional_text :: "json \<Rightarrow> string \<Rightarrow> nat option \<Rightarrow> string option option" where
  "optional_text j k hi = defaulted j k None (nullable (text_between 0 hi False))"

definition int_between :: "pydantic \<Rightarrow> int \<Rightarrow> int option \<Rightarrow> json \<Rightarrow> int option" where
  "int_between py lo hi v =
     Option.bind (to_int py v) (\<lambda>k.
     if lo \<le> k \<and> (case hi of None \<Rightarrow> True | Some h \<Rightarrow> k \<le> h) then Some k else None)"

text \<open>\<open>_parse_decimal\<close>: a bool is an \<open>int\<close>, but \<open>Decimal("True")\<close> is an error.\<close>

definition parse_decimal :: "stdlib \<Rightarrow> json \<Rightarrow> decimal option" where
  "parse_decimal std v = (case v of
     json_int k \<Rightarrow> Some (of_int k)
   | json_float q \<Rightarrow> Some q
   | json_str t \<Rightarrow> decimal_parse std t
   | _ \<Rightarrow> None)"

definition positive_decimal :: "stdlib \<Rightarrow> json \<Rightarrow> decimal option" where
  "positive_decimal std v = Option.bind (parse_decimal std v) (\<lambda>a. if a \<le> 0 then None else Some a)"

definition read_outcome :: "json \<Rightarrow> football_outcome option" where
  "read_outcome v = Option.bind (json_text v) (\<lambda>t.
     if t = ''home_win'' then Some home_win else if t = ''away_win'' then Some away_win
     else if t = ''draw'' then Some draw else None)"

definition email_field :: "pydantic \<Rightarrow> json \<Rightarrow> string option" where
  "email_field py v = Option.bind (json_text v) (\<lambda>t. to_email py (str_strip t))"

text \<open>\<open>password_not_empty\<close> and \<open>display_name_not_blank\<close>.\<close>

definition not_blank :: "string \<Rightarrow> string option" where
  "not_blank t = (if str_strip t = [] then None else Some t)"

section \<open>Accounts\<close>

definition read_register :: "pydantic \<Rightarrow> json \<Rightarrow> register_request option" where
  "read_register py j =
     Option.bind (required j ''email'' (email_field py)) (\<lambda>e.
     Option.bind (Option.bind (required j ''display_name'' (text_between 2 (Some 100) True)) not_blank) (\<lambda>name.
     Option.bind (Option.bind (required j ''password'' (text_between 8 (Some 128) True)) not_blank) (\<lambda>pass.
     Option.bind (defaulted j ''phone_number'' None (nullable (text_between 0 (Some 30) True))) (\<lambda>phone.
     Some \<lparr>reg_email = e, reg_display_name = name, reg_password = pass, reg_phone_number = phone\<rparr>))))"

definition read_login :: "pydantic \<Rightarrow> json \<Rightarrow> (string \<times> string) option" where
  "read_login py j =
     Option.bind (required j ''email'' (email_field py)) (\<lambda>e.
     Option.bind (required j ''password'' (text_between 0 None True)) (\<lambda>pass. Some (e, pass)))"

definition read_forgot_password :: "pydantic \<Rightarrow> json \<Rightarrow> string option" where
  "read_forgot_password py j = required j ''email'' (email_field py)"

definition read_reset_password :: "json \<Rightarrow> (string \<times> string) option" where
  "read_reset_password j =
     Option.bind (required j ''token'' (text_between 0 None True)) (\<lambda>token.
     Option.bind (Option.bind (required j ''new_password'' (text_between 8 (Some 128) True)) not_blank) (\<lambda>pass.
     Some (token, pass)))"

section \<open>Bets\<close>

definition read_create_bet :: "stdlib \<Rightarrow> pydantic \<Rightarrow> json \<Rightarrow> (uuid \<times> football_outcome \<times> decimal) option" where
  "read_create_bet std py j =
     Option.bind (required j ''match_id'' (\<lambda>v. Option.bind (json_text v) (to_uuid py))) (\<lambda>m.
     Option.bind (required j ''creator_prediction'' read_outcome) (\<lambda>p.
     Option.bind (required j ''stake_amount'' (positive_decimal std)) (\<lambda>st. Some (m, p, st))))"

definition read_accept_bet :: "json \<Rightarrow> football_outcome option" where
  "read_accept_bet j = required j ''opponent_prediction'' read_outcome"

section \<open>Administration of bets\<close>

definition read_confirm_result :: "pydantic \<Rightarrow> json \<Rightarrow> (football_outcome \<times> int \<times> int) option" where
  "read_confirm_result py j =
     Option.bind (required j ''outcome'' read_outcome) (\<lambda>r.
     Option.bind (required j ''home_score'' (int_between py 0 None)) (\<lambda>h.
     Option.bind (required j ''away_score'' (int_between py 0 None)) (\<lambda>a. Some (r, h, a))))"

definition read_void_bet :: "json \<Rightarrow> string option" where
  "read_void_bet j = required j ''reason'' (text_between 1 (Some 500) False)"

section \<open>Deposits and withdrawals\<close>

record deposit_body =
  db_amount :: decimal
  db_currency :: string
  db_provider :: "string option"
  db_client_reference :: "string option"
  db_notes :: "string option"

definition read_create_deposit :: "stdlib \<Rightarrow> json \<Rightarrow> deposit_body option" where
  "read_create_deposit std j =
     Option.bind (required j ''amount'' (positive_decimal std)) (\<lambda>a.
     Option.bind (defaulted j ''currency'' ''ZAR'' (text_between 0 (Some 3) False)) (\<lambda>c.
     Option.bind (optional_text j ''payment_provider'' (Some 50)) (\<lambda>pr.
     Option.bind (optional_text j ''client_reference'' (Some 200)) (\<lambda>cr.
     Option.bind (optional_text j ''notes'' None) (\<lambda>n.
     Some \<lparr>db_amount = a, db_currency = c, db_provider = pr, db_client_reference = cr, db_notes = n\<rparr>)))))"

definition read_initiate_deposit ::
  "stdlib \<Rightarrow> json \<Rightarrow> (decimal \<times> string option \<times> string option \<times> string option) option" where
  "read_initiate_deposit std j =
     Option.bind (required j ''amount'' (positive_decimal std)) (\<lambda>a.
     Option.bind (optional_text j ''email_address'' None) (\<lambda>e.
     Option.bind (optional_text j ''name_first'' (Some 100)) (\<lambda>f.
     Option.bind (optional_text j ''name_last'' (Some 100)) (\<lambda>l. Some (a, e, f, l)))))"

definition read_complete_deposit :: "json \<Rightarrow> (string option \<times> string option) option" where
  "read_complete_deposit j =
     Option.bind (optional_text j ''provider_reference'' (Some 200)) (\<lambda>r.
     Option.bind (optional_text j ''notes'' None) (\<lambda>n. Some (r, n)))"

text \<open>The three bodies with a reason and nothing else.\<close>

definition read_reason :: "json \<Rightarrow> string option option" where
  "read_reason j = optional_text j ''reason'' None"

definition read_verify_deposit :: "json \<Rightarrow> string option" where
  "read_verify_deposit j = required j ''pf_payment_id'' any_text"

record withdrawal_body =
  wb_amount :: decimal
  wb_currency :: string
  wb_account :: string
  wb_type :: "string option"

definition read_create_withdrawal :: "stdlib \<Rightarrow> json \<Rightarrow> withdrawal_body option" where
  "read_create_withdrawal std j =
     Option.bind (required j ''amount'' (positive_decimal std)) (\<lambda>a.
     Option.bind (defaulted j ''currency'' ''ZAR'' (text_between 0 (Some 3) False)) (\<lambda>c.
     Option.bind (required j ''destination_account'' (text_between 0 (Some 200) False)) (\<lambda>acc.
     Option.bind (optional_text j ''destination_type'' (Some 50)) (\<lambda>ty.
     Some \<lparr>wb_amount = a, wb_currency = c, wb_account = acc, wb_type = ty\<rparr>))))"

section \<open>Queries\<close>

text \<open>\<open>page\<close> and \<open>page_size\<close>: at least 1, at most a hundred rows.\<close>

definition valid_page :: "page_params \<Rightarrow> bool" where
  "valid_page p \<longleftrightarrow> 1 \<le> page p \<and> 1 \<le> page_size p \<and> page_size p \<le> 100"

definition page_query :: "page_params \<Rightarrow> page_params option" where
  "page_query p = (if valid_page p then Some p else None)"

text \<open>The bounds of \<open>SyncRequest\<close>.\<close>

record sync_body =
  days_ahead :: "int option"
  days_back :: "int option"
  sync_league_ids :: "int list option"

definition valid_sync_body :: "sync_body \<Rightarrow> bool" where
  "valid_sync_body b \<longleftrightarrow>
     (case days_ahead b of None \<Rightarrow> True | Some d \<Rightarrow> 1 \<le> d \<and> d \<le> 30) \<and>
     (case days_back b of None \<Rightarrow> True | Some d \<Rightarrow> 1 \<le> d \<and> d \<le> 14)"

section \<open>Responses\<close>

text \<open>
  The response classes that differ from the row they are built from. Those of ledger entries, deposits and
  withdrawals have the columns of the row; that of a bet has the match beside them.
\<close>

record match_response =
  mr_id :: uuid
  mr_external_id :: string
  mr_home_team :: string
  mr_away_team :: string
  mr_competition :: string
  mr_kickoff_at :: datetime
  mr_status :: match_status
  mr_home_score :: "int option"
  mr_away_score :: "int option"
  mr_outcome :: "football_outcome option"
  mr_confirmed_at :: "datetime option"
  mr_is_betting_open :: bool

definition match_response_of :: "settings \<Rightarrow> datetime \<Rightarrow> match_row \<Rightarrow> match_response" where
  "match_response_of cfg now m = \<lparr>mr_id = match_id m, mr_external_id = external_id m, mr_home_team = home_team m,
     mr_away_team = away_team m, mr_competition = competition m, mr_kickoff_at = kickoff_at m, mr_status = mstatus m,
     mr_home_score = result_home_score m, mr_away_score = result_away_score m, mr_outcome = outcome m,
     mr_confirmed_at = result_confirmed_at m, mr_is_betting_open = is_betting_open cfg now m\<rparr>"

definition match_page ::
  "settings \<Rightarrow> datetime \<Rightarrow> match_row paginated_response \<Rightarrow> match_response paginated_response" where
  "match_page cfg now r = \<lparr>items = map (match_response_of cfg now) (items r), item_count = item_count r,
     resp_page = resp_page r, resp_page_size = resp_page_size r, resp_pages = resp_pages r\<rparr>"

record bet_response =
  br_row :: bet
  br_match :: "match_response option"

definition bet_response_of :: "settings \<Rightarrow> datetime \<Rightarrow> db \<Rightarrow> bet \<Rightarrow> bet_response" where
  "bet_response_of cfg now s b = \<lparr>br_row = b, br_match = map_option (match_response_of cfg now) (find_match s (bet_match b))\<rparr>"

definition bet_page :: "settings \<Rightarrow> datetime \<Rightarrow> db \<Rightarrow> page_params \<Rightarrow> bet list \<times> nat \<times> nat \<Rightarrow> bet_response paginated_response" where
  "bet_page cfg now s p r = (case r of (bs, n, k) \<Rightarrow> \<lparr>items = map (bet_response_of cfg now s) bs, item_count = n,
     resp_page = page p, resp_page_size = page_size p, resp_pages = k\<rparr>)"

text \<open>\<open>total_balance\<close> is computed when the wallet is serialised.\<close>

definition total_balance :: "wallet \<Rightarrow> decimal" where
  "total_balance w = available_balance w + locked_balance w"

record wallet_response =
  wr_id :: uuid
  wr_user :: uuid
  wr_available :: decimal
  wr_locked :: decimal
  wr_currency :: string
  wr_version :: int
  wr_total :: decimal

definition wallet_response_of :: "wallet \<Rightarrow> wallet_response" where
  "wallet_response_of w = \<lparr>wr_id = wallet_id w, wr_user = wallet_user w, wr_available = available_balance w,
     wr_locked = locked_balance w, wr_currency = wallet_currency w, wr_version = version w, wr_total = total_balance w\<rparr>"

record pending_item =
  pi_id :: uuid
  pi_match :: uuid
  pi_creator :: uuid
  pi_opponent :: "uuid option"
  pi_stake :: decimal
  pi_currency :: string
  pi_updated_at :: datetime

definition pending_item_of :: "(uuid \<Rightarrow> datetime) \<Rightarrow> bet \<Rightarrow> pending_item" where
  "pending_item_of updated_at b = \<lparr>pi_id = bet_id b, pi_match = bet_match b, pi_creator = creator_id b,
     pi_opponent = opponent_id b, pi_stake = stake_amount b, pi_currency = bet_currency b,
     pi_updated_at = updated_at (bet_id b)\<rparr>"

section \<open>What an accepted body says\<close>

lemma positive_decimal_Some [simp]: "positive_decimal std v = Some a \<longleftrightarrow> parse_decimal std v = Some a \<and> 0 < a"
  by (cases "parse_decimal std v") (auto simp: positive_decimal_def)

lemma required_Some: "required j k p = Some x \<longleftrightarrow> (\<exists>kvs v. j = json_obj kvs \<and> map_of kvs k = Some v \<and> p v = Some x)"
  by (auto simp: required_def bind_eq_Some_conv split: json.splits)

lemma text_between_Some:
  "text_between lo hi strip v = Some x \<longleftrightarrow>
     (\<exists>t. v = json_str t \<and> x = (if strip then str_strip t else t) \<and> lo \<le> char_count x \<and>
       (case hi of None \<Rightarrow> True | Some h \<Rightarrow> char_count x \<le> h))"
  by (cases v) (auto simp: text_between_def json_text_def Let_def)

end
