(* ===== verification/Endpoints.thy ===== *)
theory Endpoints
  imports Schemas System
begin

text \<open>
  \<^verbatim>\<open>app/api/v1/endpoints\<close>: who may call what. A path operation resolves the caller from the bearer token, then
  validates the query and the body, calls one service with the ids and fields of the caller and the body, and turns its
  result or exception into a response (the handlers of \<^verbatim>\<open>app/main.py\<close>). Path and query parameters are typed
  values.
\<close>

text \<open>
  What a call reads besides the request and the database: the libraries, the settings, the providers, the clocks
  (of the token check, of the service, of \<open>is_locked\<close> and \<open>record_failure\<close>, one per settled bet), fresh ids and salt, and
  the verdict of the rate limiter.
\<close>

record env =
  e_std :: stdlib
  e_auth :: auth_lib
  e_py :: pydantic
  e_cfg :: settings
  e_api_football :: provider
  e_football_data_org :: provider
  e_token_clock :: datetime
  e_now :: datetime
  e_checked :: datetime
  e_decided :: datetime
  e_bet_clock :: "uuid \<Rightarrow> datetime"
  e_row_clock :: "nat \<Rightarrow> uuid \<times> datetime"
  e_updated_at :: "uuid \<Rightarrow> datetime"
  e_plan :: query_plan
  e_new_id :: uuid
  e_new_wallet_id :: uuid
  e_salt :: string
  e_over_limit :: bool

datatype body =
    b_nothing | b_text string | b_token token_response | b_reset "string option" | b_user user_response
  | b_match match_response | b_matches "match_response paginated_response"
  | b_bet bet_response | b_bets "bet_response paginated_response"
  | b_wallet wallet_response | b_entries "ledger_entry paginated_response"
  | b_deposit deposit_request | b_deposits "deposit_request paginated_response"
  | b_checkout uuid string deposit_status
  | b_withdrawal withdrawal_request | b_withdrawals "withdrawal_request paginated_response"
  | b_summary settlement_result | b_pending "pending_item list" nat
  | b_settled uuid "settlement_outcome option" "uuid option" "decimal option" "decimal option"
  | b_voided uuid "uuid list" | b_sync sync_result

datatype response = answered int body | refused int

section \<open>The parts of a path operation\<close>

text \<open>The session commits the result of a service or rolls back; an exception becomes its status code.\<close>

definition answer :: "int \<Rightarrow> ('a \<Rightarrow> body) \<Rightarrow> (error + 'a) \<times> db \<Rightarrow> response \<times> db" where
  "answer code f r = (case r of (Inl e, s) \<Rightarrow> (refused (status_code e), s) | (Inr x, s) \<Rightarrow> (answered code (f x), s))"

definition in_session :: "int \<Rightarrow> ('a \<Rightarrow> body) \<Rightarrow> 'a dbtx \<Rightarrow> db \<Rightarrow> response \<times> db" where
  "in_session code f m s = answer code f (transact m s)"

definition as_user :: "env \<Rightarrow> credentials option \<Rightarrow> (user \<Rightarrow> db \<Rightarrow> response \<times> db) \<Rightarrow> db \<Rightarrow> response \<times> db" where
  "as_user E c h s = (case get_current_user (e_std E) (e_auth E) (e_cfg E) (e_token_clock E) c s of
     Inl e \<Rightarrow> (refused (status_code e), s)
   | Inr (u, s') \<Rightarrow> h u s')"

definition as_admin :: "env \<Rightarrow> credentials option \<Rightarrow> (user \<Rightarrow> db \<Rightarrow> response \<times> db) \<Rightarrow> db \<Rightarrow> response \<times> db" where
  "as_admin E c h s = (case get_current_admin (e_std E) (e_auth E) (e_cfg E) (e_token_clock E) c s of
     Inl e \<Rightarrow> (refused (status_code e), s)
   | Inr (u, s') \<Rightarrow> h u s')"

definition with_valid :: "'a option \<Rightarrow> ('a \<Rightarrow> db \<Rightarrow> response \<times> db) \<Rightarrow> db \<Rightarrow> response \<times> db" where
  "with_valid b h s = (case b of None \<Rightarrow> (refused 422, s) | Some x \<Rightarrow> h x s)"

definition rate_limited :: "env \<Rightarrow> (db \<Rightarrow> response \<times> db) \<Rightarrow> db \<Rightarrow> response \<times> db" where
  "rate_limited E h s = (if e_over_limit E then (refused 429, s) else h s)"

definition as_text :: "string option \<Rightarrow> text_value option" where
  "as_text t = map_option (\<lambda>x. [Lit x]) t"

section \<open>Accounts\<close>

definition register_endpoint :: "env \<Rightarrow> json \<Rightarrow> db \<Rightarrow> response \<times> db" where
  "register_endpoint E j = with_valid (read_register (e_py E) j) (\<lambda>req. rate_limited E
     (in_session 201 b_token (register (e_std E) (e_auth E) (e_cfg E) (e_now E) (e_new_id E) (e_new_wallet_id E)
        (e_salt E) req)))"

definition login_endpoint :: "env \<Rightarrow> json \<Rightarrow> db \<times> tracker \<Rightarrow> response \<times> (db \<times> tracker)" where
  "login_endpoint E j st = (case st of (s, tr) \<Rightarrow> case read_login (e_py E) j of
     None \<Rightarrow> (refused 422, st)
   | Some (addr, pass) \<Rightarrow>
       if e_over_limit E then (refused 429, st)
       else (case login (e_std E) (e_auth E) (e_cfg E) (e_now E) (e_checked E) (e_decided E) addr pass s tr of
           (Inl e, tr') \<Rightarrow> (refused (status_code e), (s, tr'))
         | (Inr t, tr') \<Rightarrow> (answered 200 (b_token t), (s, tr'))))"

definition forgot_password_endpoint :: "env \<Rightarrow> json \<Rightarrow> db \<Rightarrow> response \<times> db" where
  "forgot_password_endpoint E j = with_valid (read_forgot_password (e_py E) j) (\<lambda>addr. rate_limited E
     (in_session 200 b_reset (forgot_password (e_std E) (e_auth E) (e_cfg E) (e_now E) addr)))"

definition reset_password_endpoint :: "env \<Rightarrow> json \<Rightarrow> db \<Rightarrow> response \<times> db" where
  "reset_password_endpoint E j = with_valid (read_reset_password j) (\<lambda>(token, pass).
     in_session 204 (\<lambda>_. b_nothing)
       (reset_password (e_std E) (e_auth E) (e_cfg E) (e_now E) (e_salt E) token pass))"

definition get_me :: "env \<Rightarrow> credentials option \<Rightarrow> db \<Rightarrow> response \<times> db" where
  "get_me E c = as_user E c (\<lambda>u s. (answered 200 (b_user (user_response_of u)), s))"

section \<open>Matches\<close>

definition list_matches ::
  "env \<Rightarrow> credentials option \<Rightarrow> page_params \<Rightarrow> match_status option \<Rightarrow> string option \<Rightarrow> db \<Rightarrow> response \<times> db" where
  "list_matches E c p st comp_name = as_user E c (\<lambda>u.
     with_valid (case comp_name of None \<Rightarrow> page_query p
                 | Some t \<Rightarrow> if 1 \<le> char_count t \<and> char_count t \<le> 200 then page_query p else None) (\<lambda>q.
     in_session 200 (\<lambda>r. b_matches (match_page (e_cfg E) (e_now E) r)) (get_matches (e_plan E) q st comp_name)))"

definition get_match :: "env \<Rightarrow> credentials option \<Rightarrow> uuid \<Rightarrow> db \<Rightarrow> response \<times> db" where
  "get_match E c m = as_user E c (\<lambda>u.
     in_session 200 (\<lambda>x. b_match (match_response_of (e_cfg E) (e_now E) x)) (get_match_by_id m))"

section \<open>Bets\<close>

text \<open>The response is built from the bet and its match, which the session has loaded.\<close>

definition with_match :: "env \<Rightarrow> bet dbtx \<Rightarrow> bet_response dbtx" where
  "with_match E m = bind_tx m (\<lambda>b. gets (\<lambda>s. bet_response_of (e_cfg E) (e_now E) s b))"

definition with_matches :: "env \<Rightarrow> page_params \<Rightarrow> (bet list \<times> nat \<times> nat) dbtx \<Rightarrow> bet_response paginated_response dbtx" where
  "with_matches E p m = bind_tx m (\<lambda>r. gets (\<lambda>s. bet_page (e_cfg E) (e_now E) s p r))"

definition open_bets_endpoint :: "env \<Rightarrow> credentials option \<Rightarrow> page_params \<Rightarrow> db \<Rightarrow> response \<times> db" where
  "open_bets_endpoint E c p = as_user E c (\<lambda>u. with_valid (page_query p) (\<lambda>q.
     in_session 200 b_bets (with_matches E q (list_open_bets (e_now E) q))))"

definition get_my_bets :: "env \<Rightarrow> credentials option \<Rightarrow> page_params \<Rightarrow> bet_status option \<Rightarrow> db \<Rightarrow> response \<times> db" where
  "get_my_bets E c p st = as_user E c (\<lambda>u. with_valid (page_query p) (\<lambda>q.
     in_session 200 b_bets (with_matches E q (list_user_bets (user_id u) q st))))"

definition create_bet_endpoint :: "env \<Rightarrow> credentials option \<Rightarrow> json \<Rightarrow> db \<Rightarrow> response \<times> db" where
  "create_bet_endpoint E c j = as_user E c (\<lambda>u. with_valid (read_create_bet (e_std E) (e_py E) j) (\<lambda>(m, p, st).
     in_session 201 b_bet (with_match E (create_bet (e_cfg E) (e_now E) (e_new_id E) u m p st))))"

definition get_bet :: "env \<Rightarrow> credentials option \<Rightarrow> uuid \<Rightarrow> db \<Rightarrow> response \<times> db" where
  "get_bet E c b = as_user E c (\<lambda>u. in_session 200 b_bet (with_match E (get_bet_by_id b)))"

definition accept_bet_endpoint :: "env \<Rightarrow> credentials option \<Rightarrow> uuid \<Rightarrow> json \<Rightarrow> db \<Rightarrow> response \<times> db" where
  "accept_bet_endpoint E c b j = as_user E c (\<lambda>u. with_valid (read_accept_bet j) (\<lambda>p.
     in_session 200 b_bet (with_match E (accept_bet (e_now E) u b p))))"

definition cancel_bet_endpoint :: "env \<Rightarrow> credentials option \<Rightarrow> uuid \<Rightarrow> db \<Rightarrow> response \<times> db" where
  "cancel_bet_endpoint E c b = as_user E c (\<lambda>u. in_session 200 b_bet (with_match E (cancel_bet u b)))"

section \<open>Wallets, deposits and withdrawals\<close>

definition get_wallet_endpoint :: "env \<Rightarrow> credentials option \<Rightarrow> db \<Rightarrow> response \<times> db" where
  "get_wallet_endpoint E c = as_user E c (\<lambda>u.
     in_session 200 (\<lambda>w. b_wallet (wallet_response_of w)) (get_wallet (user_id u)))"

definition get_transactions :: "env \<Rightarrow> credentials option \<Rightarrow> page_params \<Rightarrow> db \<Rightarrow> response \<times> db" where
  "get_transactions E c p = as_user E c (\<lambda>u. with_valid (page_query p) (\<lambda>q.
     in_session 200 (\<lambda>r. b_entries (paginated r q)) (get_user_history (user_id u) q)))"

definition initiate_deposit :: "env \<Rightarrow> credentials option \<Rightarrow> json \<Rightarrow> db \<Rightarrow> response \<times> db" where
  "initiate_deposit E c j = as_user E c (\<lambda>u. with_valid (read_initiate_deposit (e_std E) j) (\<lambda>(a, mail, f, l).
     in_session 201 (\<lambda>d. b_checkout (dep_id d) (case checkout_url d of None \<Rightarrow> [] | Some t \<Rightarrow> t) (dstatus d))
       (initiate_payfast_deposit (e_std E) (e_cfg E) (e_new_id E) (user_id u) a mail f l)))"

definition create_deposit_endpoint :: "env \<Rightarrow> credentials option \<Rightarrow> json \<Rightarrow> db \<Rightarrow> response \<times> db" where
  "create_deposit_endpoint E c j = as_user E c (\<lambda>u. with_valid (read_create_deposit (e_std E) j) (\<lambda>b.
     in_session 201 b_deposit (create_deposit (e_new_id E) (user_id u) (db_amount b) (db_currency b) (db_provider b)
       (db_client_reference b) (as_text (db_notes b)))))"

definition list_deposits_endpoint :: "env \<Rightarrow> credentials option \<Rightarrow> page_params \<Rightarrow> db \<Rightarrow> response \<times> db" where
  "list_deposits_endpoint E c p = as_user E c (\<lambda>u. with_valid (page_query p) (\<lambda>q.
     in_session 200 (\<lambda>r. b_deposits (paginated r q)) (list_deposits (user_id u) q)))"

definition get_deposit_endpoint :: "env \<Rightarrow> credentials option \<Rightarrow> uuid \<Rightarrow> db \<Rightarrow> response \<times> db" where
  "get_deposit_endpoint E c d = as_user E c (\<lambda>u. in_session 200 b_deposit (get_deposit d (Some (user_id u))))"

definition create_withdrawal_endpoint :: "env \<Rightarrow> credentials option \<Rightarrow> json \<Rightarrow> db \<Rightarrow> response \<times> db" where
  "create_withdrawal_endpoint E c j = as_user E c (\<lambda>u. with_valid (read_create_withdrawal (e_std E) j) (\<lambda>b.
     in_session 201 b_withdrawal (create_withdrawal (e_new_id E) (user_id u) (wb_amount b) (wb_account b)
       (wb_currency b) (wb_type b))))"

definition list_withdrawals_endpoint :: "env \<Rightarrow> credentials option \<Rightarrow> page_params \<Rightarrow> db \<Rightarrow> response \<times> db" where
  "list_withdrawals_endpoint E c p = as_user E c (\<lambda>u. with_valid (page_query p) (\<lambda>q.
     in_session 200 (\<lambda>r. b_withdrawals (paginated r q)) (list_withdrawals (user_id u) q)))"

definition get_withdrawal_endpoint :: "env \<Rightarrow> credentials option \<Rightarrow> uuid \<Rightarrow> db \<Rightarrow> response \<times> db" where
  "get_withdrawal_endpoint E c w = as_user E c (\<lambda>u.
     in_session 200 b_withdrawal (get_withdrawal w (Some (user_id u))))"

section \<open>Administration of bets\<close>

definition confirm_match_result :: "env \<Rightarrow> credentials option \<Rightarrow> uuid \<Rightarrow> json \<Rightarrow> db \<Rightarrow> response \<times> db" where
  "confirm_match_result E c m j = as_admin E c (\<lambda>adm. with_valid (read_confirm_result (e_py E) j) (\<lambda>(r, h, a) s.
     answer 200 b_summary (confirm_and_settle (e_now E) (e_bet_clock E) m r h a (user_id adm) s)))"

definition list_pending_settlement_bets :: "env \<Rightarrow> credentials option \<Rightarrow> uuid option \<Rightarrow> db \<Rightarrow> response \<times> db" where
  "list_pending_settlement_bets E c m = as_admin E c (\<lambda>adm.
     in_session 200 (\<lambda>bs. b_pending (map (pending_item_of (e_updated_at E)) bs) (length bs))
       (get_pending_settlement_bets (e_updated_at E) m))"

definition manually_settle_bet :: "env \<Rightarrow> credentials option \<Rightarrow> uuid \<Rightarrow> db \<Rightarrow> response \<times> db" where
  "manually_settle_bet E c b = as_admin E c (\<lambda>adm s.
     answer 200 (\<lambda>x. b_settled b (settlement_outcome_of x) (winner_id x) (payout_amount x) (platform_fee x))
       (settle_single_bet (e_now E) b s))"

definition void_bet_endpoint :: "env \<Rightarrow> credentials option \<Rightarrow> uuid \<Rightarrow> json \<Rightarrow> db \<Rightarrow> response \<times> db" where
  "void_bet_endpoint E c b j = as_admin E c (\<lambda>adm. with_valid (read_void_bet j) (\<lambda>reason.
     in_session 200 (b_voided b) (void_bet b (user_id adm) (Some [Lit reason]))))"

section \<open>Administration of deposits and withdrawals\<close>

definition admin_list_deposits ::
  "env \<Rightarrow> credentials option \<Rightarrow> page_params \<Rightarrow> deposit_status option \<Rightarrow> db \<Rightarrow> response \<times> db" where
  "admin_list_deposits E c p st = as_admin E c (\<lambda>adm. with_valid (page_query p) (\<lambda>q.
     in_session 200 (\<lambda>r. b_deposits (paginated r q)) (list_all_deposits q st)))"

definition admin_complete_deposit :: "env \<Rightarrow> credentials option \<Rightarrow> uuid \<Rightarrow> json \<Rightarrow> db \<Rightarrow> response \<times> db" where
  "admin_complete_deposit E c d j = as_admin E c (\<lambda>adm. with_valid (read_complete_deposit j) (\<lambda>(ref, n).
     in_session 200 b_deposit (complete_deposit (e_now E) d ref (as_text n))))"

definition admin_fail_deposit :: "env \<Rightarrow> credentials option \<Rightarrow> uuid \<Rightarrow> json \<Rightarrow> db \<Rightarrow> response \<times> db" where
  "admin_fail_deposit E c d j = as_admin E c (\<lambda>adm. with_valid (read_reason j) (\<lambda>reason.
     in_session 200 b_deposit (fail_deposit (e_now E) d (as_text reason))))"

definition admin_verify_deposit :: "env \<Rightarrow> credentials option \<Rightarrow> uuid \<Rightarrow> json \<Rightarrow> db \<Rightarrow> response \<times> db" where
  "admin_verify_deposit E c d j = as_admin E c (\<lambda>adm. with_valid (read_verify_deposit j) (\<lambda>pf_payment_id.
     in_session 200 b_deposit (complete_deposit (e_now E) d (Some pf_payment_id)
       (Some [Lit ''Admin reconciliation -- manual verify'']))))"

definition admin_list_withdrawals ::
  "env \<Rightarrow> credentials option \<Rightarrow> page_params \<Rightarrow> withdrawal_status option \<Rightarrow> db \<Rightarrow> response \<times> db" where
  "admin_list_withdrawals E c p st = as_admin E c (\<lambda>adm. with_valid (page_query p) (\<lambda>q.
     in_session 200 (\<lambda>r. b_withdrawals (paginated r q)) (list_all_withdrawals q st)))"

definition admin_approve_withdrawal :: "env \<Rightarrow> credentials option \<Rightarrow> uuid \<Rightarrow> db \<Rightarrow> response \<times> db" where
  "admin_approve_withdrawal E c w = as_admin E c (\<lambda>adm.
     in_session 200 b_withdrawal (approve_withdrawal (e_now E) w))"

definition admin_reject_withdrawal :: "env \<Rightarrow> credentials option \<Rightarrow> uuid \<Rightarrow> json \<Rightarrow> db \<Rightarrow> response \<times> db" where
  "admin_reject_withdrawal E c w j = as_admin E c (\<lambda>adm. with_valid (read_reason j) (\<lambda>reason.
     in_session 200 b_withdrawal (reject_withdrawal w reason)))"

definition admin_complete_withdrawal :: "env \<Rightarrow> credentials option \<Rightarrow> uuid \<Rightarrow> db \<Rightarrow> response \<times> db" where
  "admin_complete_withdrawal E c w = as_admin E c (\<lambda>adm.
     in_session 200 b_withdrawal (complete_withdrawal (e_now E) w))"

definition admin_fail_withdrawal :: "env \<Rightarrow> credentials option \<Rightarrow> uuid \<Rightarrow> json \<Rightarrow> db \<Rightarrow> response \<times> db" where
  "admin_fail_withdrawal E c w j = as_admin E c (\<lambda>adm. with_valid (read_reason j) (\<lambda>reason.
     in_session 200 b_withdrawal (fail_withdrawal (e_now E) w reason)))"

section \<open>Synchronisation\<close>

definition get_provider :: "env \<Rightarrow> provider" where
  "get_provider E = (if sports_provider (e_cfg E) = ''football_data_org'' then e_football_data_org E
     else e_api_football E)"

definition when_provider_enabled :: "env \<Rightarrow> (db \<Rightarrow> response \<times> db) \<Rightarrow> db \<Rightarrow> response \<times> db" where
  "when_provider_enabled E h s = (if \<not> sports_provider_enabled (e_cfg E) then (refused 503, s) else h s)"

text \<open>\<open>body.days or default\<close>.\<close>

definition days_or :: "int option \<Rightarrow> int \<Rightarrow> int" where
  "days_or d dflt = (case d of None \<Rightarrow> dflt | Some k \<Rightarrow> if k = 0 then dflt else k)"

text \<open>A session that was lost during the run makes the commit fail, after the answer.\<close>

definition sync_endpoint :: "env \<Rightarrow> credentials option \<Rightarrow> sync_body \<Rightarrow> (sync_body \<Rightarrow> sync_job) \<Rightarrow> db \<Rightarrow> response \<times> db" where
  "sync_endpoint E c b job = as_admin E c (\<lambda>adm.
     with_valid (if valid_sync_body b then Some b else None) (\<lambda>b. when_provider_enabled E (\<lambda>s.
       case sync_request (get_provider E) (e_row_clock E) (e_now E) (job b) s of
         (r, s') \<Rightarrow> (answered 200 (b_sync r), s'))))"

definition sync_upcoming_endpoint :: "env \<Rightarrow> credentials option \<Rightarrow> sync_body \<Rightarrow> db \<Rightarrow> response \<times> db" where
  "sync_upcoming_endpoint E c b = sync_endpoint E c b (\<lambda>b.
     Upcoming (days_or (days_ahead b) (sports_provider_sync_days_ahead (e_cfg E))) (sync_league_ids b))"

definition sync_results_endpoint :: "env \<Rightarrow> credentials option \<Rightarrow> sync_body \<Rightarrow> db \<Rightarrow> response \<times> db" where
  "sync_results_endpoint E c b = sync_endpoint E c b (\<lambda>b.
     Results (days_or (days_back b) (sports_provider_sync_days_back (e_cfg E))) (sync_league_ids b))"

definition sync_live_endpoint :: "env \<Rightarrow> credentials option \<Rightarrow> sync_body \<Rightarrow> db \<Rightarrow> response \<times> db" where
  "sync_live_endpoint E c b = sync_endpoint E c b (\<lambda>b. Live (sync_league_ids b))"

section \<open>The router\<close>

datatype route =
    R_register json | R_forgot_password json | R_reset_password json | R_me
  | R_matches page_params "match_status option" "string option" | R_match uuid
  | R_open_bets page_params | R_my_bets page_params "bet_status option"
  | R_create_bet json | R_bet uuid | R_accept_bet uuid json | R_cancel_bet uuid
  | R_wallet | R_transactions page_params
  | R_initiate_deposit json | R_create_deposit json | R_deposits page_params | R_deposit uuid
  | R_create_withdrawal json | R_withdrawals page_params | R_withdrawal uuid
  | R_confirm_result uuid json | R_pending_bets "uuid option" | R_settle_bet uuid | R_void_bet uuid json
  | R_all_deposits page_params "deposit_status option" | R_complete_deposit uuid json
  | R_fail_deposit uuid json | R_verify_deposit uuid json
  | R_all_withdrawals page_params "withdrawal_status option" | R_approve_withdrawal uuid
  | R_reject_withdrawal uuid json | R_complete_withdrawal uuid | R_fail_withdrawal uuid json
  | R_sync_upcoming sync_body | R_sync_results sync_body | R_sync_live sync_body
  | R_payfast_itn "(string \<times> string) list option"

fun handle :: "env \<Rightarrow> credentials option \<Rightarrow> route \<Rightarrow> db \<Rightarrow> response \<times> db" where
  "handle E c (R_register j) s = register_endpoint E j s"
| "handle E c (R_forgot_password j) s = forgot_password_endpoint E j s"
| "handle E c (R_reset_password j) s = reset_password_endpoint E j s"
| "handle E c R_me s = get_me E c s"
| "handle E c (R_matches p st cn) s = list_matches E c p st cn s"
| "handle E c (R_match m) s = get_match E c m s"
| "handle E c (R_open_bets p) s = open_bets_endpoint E c p s"
| "handle E c (R_my_bets p st) s = get_my_bets E c p st s"
| "handle E c (R_create_bet j) s = create_bet_endpoint E c j s"
| "handle E c (R_bet b) s = get_bet E c b s"
| "handle E c (R_accept_bet b j) s = accept_bet_endpoint E c b j s"
| "handle E c (R_cancel_bet b) s = cancel_bet_endpoint E c b s"
| "handle E c R_wallet s = get_wallet_endpoint E c s"
| "handle E c (R_transactions p) s = get_transactions E c p s"
| "handle E c (R_initiate_deposit j) s = initiate_deposit E c j s"
| "handle E c (R_create_deposit j) s = create_deposit_endpoint E c j s"
| "handle E c (R_deposits p) s = list_deposits_endpoint E c p s"
| "handle E c (R_deposit d) s = get_deposit_endpoint E c d s"
| "handle E c (R_create_withdrawal j) s = create_withdrawal_endpoint E c j s"
| "handle E c (R_withdrawals p) s = list_withdrawals_endpoint E c p s"
| "handle E c (R_withdrawal w) s = get_withdrawal_endpoint E c w s"
| "handle E c (R_confirm_result m j) s = confirm_match_result E c m j s"
| "handle E c (R_pending_bets m) s = list_pending_settlement_bets E c m s"
| "handle E c (R_settle_bet b) s = manually_settle_bet E c b s"
| "handle E c (R_void_bet b j) s = void_bet_endpoint E c b j s"
| "handle E c (R_all_deposits p st) s = admin_list_deposits E c p st s"
| "handle E c (R_complete_deposit d j) s = admin_complete_deposit E c d j s"
| "handle E c (R_fail_deposit d j) s = admin_fail_deposit E c d j s"
| "handle E c (R_verify_deposit d j) s = admin_verify_deposit E c d j s"
| "handle E c (R_all_withdrawals p st) s = admin_list_withdrawals E c p st s"
| "handle E c (R_approve_withdrawal w) s = admin_approve_withdrawal E c w s"
| "handle E c (R_reject_withdrawal w j) s = admin_reject_withdrawal E c w j s"
| "handle E c (R_complete_withdrawal w) s = admin_complete_withdrawal E c w s"
| "handle E c (R_fail_withdrawal w j) s = admin_fail_withdrawal E c w j s"
| "handle E c (R_sync_upcoming b) s = sync_upcoming_endpoint E c b s"
| "handle E c (R_sync_results b) s = sync_results_endpoint E c b s"
| "handle E c (R_sync_live b) s = sync_live_endpoint E c b s"
| "handle E c (R_payfast_itn form) s =
     (case payfast_itn (e_std E) (e_cfg E) (e_now E) form s of (t, s') \<Rightarrow> (answered 200 (b_text t), s'))"

text \<open>The server: the database, and the login attempts the process remembers.\<close>

datatype call = Login json | Route "credentials option" route

fun serve :: "env \<Rightarrow> call \<Rightarrow> db \<times> tracker \<Rightarrow> response \<times> (db \<times> tracker)" where
  "serve E (Login j) st = login_endpoint E j st"
| "serve E (Route c r) (s, tr) = (case handle E c r s of (resp, s') \<Rightarrow> (resp, (s', tr)))"

end
