(* ===== verification/Endpoint_Properties.thy ===== *)
theory Endpoint_Properties
  imports Endpoints Scenario
begin

text \<open>
  The API as a whole: who is answered, that a call is one of the requests of \<open>System\<close> made with the rights of the
  caller, that a user's calls leave the wallets of the others alone, and that what a user is shown is their own.
\<close>

section \<open>A small server\<close>

text \<open>A token names its user: \<open>x\<close> is user 1, \<open>xx\<close> user 2.\<close>

definition token_auth :: auth_lib where
  "token_auth = demo_auth\<lparr>jwt_decode := (\<lambda>now t k a. Some \<lparr>sub_claim = Some t, role_claim = None, type_claim = None\<rparr>)\<rparr>"

definition demo_provider_off :: provider where
  "demo_provider_off = \<lparr>provider_label = [], fetch_upcoming_fixtures = (\<lambda>d ids. None), fetch_results = (\<lambda>d ids. None),
     fetch_live_fixtures = (\<lambda>ids. None)\<rparr>"

definition demo_env :: "uuid \<Rightarrow> env" where
  "demo_env i = \<lparr>e_std = demo_std, e_auth = token_auth,
     e_py = \<lparr>to_uuid = (\<lambda>t. Some (length t)), to_int = (\<lambda>j. None), to_email = (\<lambda>t. Some t)\<rparr>,
     e_cfg = demo_settings, e_api_football = demo_provider_off, e_football_data_org = demo_provider_off,
     e_token_clock = 0, e_now = 1, e_checked = 0, e_decided = 0, e_bet_clock = (\<lambda>b. 2), e_row_clock = (\<lambda>k. (100 + k, 1)),
     e_updated_at = (\<lambda>b. 0), e_plan = \<lparr>scan_order = id, fold_case = ascii_lower\<rparr>, e_new_id = i, e_new_wallet_id = 50 + i, e_salt = [], e_over_limit = False\<rparr>"

definition bearing :: "string \<Rightarrow> credentials option" where
  "bearing t = Some \<lparr>scheme = ''Bearer'', bearer = t\<rparr>"

definition bet_form :: json where
  "bet_form = json_obj [(''match_id'', json_str ''derby-7''), (''creator_prediction'', json_str ''home_win''),
     (''stake_amount'', json_int 10)]"

definition demo_world :: db where
  "demo_world = demo_funded\<lparr>users := [alice, bob]\<rparr>"

lemma demo_world_books: "books demo_world"
  by (simp add: demo_world_def demo_books)

section \<open>Rights\<close>

definition caller :: "env \<Rightarrow> credentials option \<Rightarrow> db \<Rightarrow> user option" where
  "caller E c s = (case get_current_user (e_std E) (e_auth E) (e_cfg E) (e_token_clock E) c s of
     Inl e \<Rightarrow> None | Inr (u, s') \<Rightarrow> Some u)"

definition is_admin :: "user option \<Rightarrow> bool" where
  "is_admin c \<longleftrightarrow> (case c of None \<Rightarrow> False | Some u \<Rightarrow> urole u = role_admin)"

datatype access = public | signed_in | administrator

fun access_of :: "route \<Rightarrow> access" where
  "access_of (R_register j) = public"
| "access_of (R_forgot_password j) = public"
| "access_of (R_reset_password j) = public"
| "access_of (R_payfast_itn form) = public"
| "access_of (R_confirm_result m j) = administrator"
| "access_of (R_pending_bets m) = administrator"
| "access_of (R_settle_bet b) = administrator"
| "access_of (R_void_bet b j) = administrator"
| "access_of (R_all_deposits p st) = administrator"
| "access_of (R_complete_deposit d j) = administrator"
| "access_of (R_fail_deposit d j) = administrator"
| "access_of (R_verify_deposit d j) = administrator"
| "access_of (R_all_withdrawals p st') = administrator"
| "access_of (R_approve_withdrawal w) = administrator"
| "access_of (R_reject_withdrawal w j) = administrator"
| "access_of (R_complete_withdrawal w) = administrator"
| "access_of (R_fail_withdrawal w j) = administrator"
| "access_of (R_sync_upcoming b) = administrator"
| "access_of (R_sync_results b) = administrator"
| "access_of (R_sync_live b) = administrator"
| "access_of _ = signed_in"

text \<open>Resolving the caller reads the database only and fails with 401 only.\<close>

lemma demo_callers:
  "caller (demo_env i) (bearing ''x'') demo_world = Some alice"
  "caller (demo_env i) None demo_world = None"
  by code_simp+

lemma current_user_cases:
  obtains (none) "get_current_user std lib cfg now c s = Inl UnauthorizedError"
  | (found) u where "get_current_user std lib cfg now c s = Inr (u, s)" and "find_user s (user_id u) = Some u"
proof (cases "get_current_user std lib cfg now c s")
  case (Inl e)
  then have "e = UnauthorizedError"
    by (auto simp: get_current_user_def user_of_token_def decode_access_token_def extract_user_id_def load_user_def
        throw_def ret_def gets_def bind_tx_def require_some_def split: option.splits if_splits)
  with Inl none show ?thesis by simp
next
  case (Inr p)
  obtain u s' where p: "p = (u, s')" by force
  have "s' = s \<and> find_user s (user_id u) = Some u"
    using Inr row_get_SomeD [of user_id]
    by (fastforce simp: p get_current_user_def user_of_token_def load_user_def bind_tx_inv find_user_def
        split: option.splits if_splits sum.splits)
  with Inr p found show ?thesis by simp
qed

lemma as_user_cases:
  obtains (none) "caller E c s = None" and "as_user E c h s = (refused 401, s)"
  | (found) u where "caller E c s = Some u" and "as_user E c h s = h u s"
  by (rule current_user_cases [of "e_std E" "e_auth E" "e_cfg E" "e_token_clock E" c s])
     (auto simp: caller_def as_user_def)

lemma as_admin_cases:
  obtains (none) "caller E c s = None" and "as_admin E c h s = (refused 401, s)"
  | (user) u where "caller E c s = Some u" and "urole u \<noteq> role_admin" and "as_admin E c h s = (refused 403, s)"
  | (found) u where "caller E c s = Some u" and "urole u = role_admin" and "as_admin E c h s = h u s"
proof (rule current_user_cases [of "e_std E" "e_auth E" "e_cfg E" "e_token_clock E" c s])
  fix u
  assume "get_current_user (e_std E) (e_auth E) (e_cfg E) (e_token_clock E) c s = Inr (u, s)"
  then show thesis
    using user found
    by (cases "urole u") (auto simp: caller_def as_admin_def get_current_admin_def role_value_def bind_tx_def seq_tx_def
        raise_if_def throw_def ret_def)
qed (auto simp: caller_def as_admin_def get_current_admin_def bind_tx_def intro: none)

lemmas user_endpoints = get_me_def list_matches_def get_match_def open_bets_endpoint_def get_my_bets_def
  create_bet_endpoint_def get_bet_def accept_bet_endpoint_def cancel_bet_endpoint_def get_wallet_endpoint_def
  get_transactions_def initiate_deposit_def create_deposit_endpoint_def list_deposits_endpoint_def
  get_deposit_endpoint_def create_withdrawal_endpoint_def list_withdrawals_endpoint_def get_withdrawal_endpoint_def

lemmas admin_endpoints = confirm_match_result_def list_pending_settlement_bets_def manually_settle_bet_def
  void_bet_endpoint_def admin_list_deposits_def admin_complete_deposit_def admin_fail_deposit_def
  admin_verify_deposit_def admin_list_withdrawals_def admin_approve_withdrawal_def admin_reject_withdrawal_def
  admin_complete_withdrawal_def admin_fail_withdrawal_def sync_upcoming_endpoint_def sync_results_endpoint_def
  sync_live_endpoint_def sync_endpoint_def

lemma signed_in_route: "access_of r = signed_in \<Longrightarrow> \<exists>h. handle E c r s = as_user E c h s"
  by (cases r) (auto simp: user_endpoints)

lemma admin_route: "access_of r = administrator \<Longrightarrow> \<exists>h. handle E c r s = as_admin E c h s"
  by (cases r) (auto simp: admin_endpoints)

text \<open>C5: without a valid token a call gets 401 and nothing happens; without the administrator's role an
  administrative call gets 403 and nothing happens. Only registration, the two password calls, the login and the payment
  notification are open.\<close>

theorem api_authorization:
  "(access_of r = signed_in \<and> caller E c s = None \<longrightarrow> handle E c r s = (refused 401, s)) \<and>
   (access_of r = administrator \<and> \<not> is_admin (caller E c s) \<longrightarrow>
      handle E c r s = (refused (if caller E c s = None then 401 else 403), s))"
proof (intro conjI impI)
  assume a: "access_of r = signed_in \<and> caller E c s = None"
  then obtain h where "handle E c r s = as_user E c h s" using signed_in_route by blast
  with a show "handle E c r s = (refused 401, s)" by (cases rule: as_user_cases [of E c s h]) auto
next
  assume a: "access_of r = administrator \<and> \<not> is_admin (caller E c s)"
  then obtain h where "handle E c r s = as_admin E c h s" using admin_route by blast
  with a show "handle E c r s = (refused (if caller E c s = None then 401 else 403), s)"
    by (cases rule: as_admin_cases [of E c s h]) (auto simp: is_admin_def)
qed

theorem api_authorization_witness:
  "handle (demo_env 31) (bearing ''x'') (R_settle_bet 5) demo_world = (refused 403, demo_world) \<and>
   handle (demo_env 31) None R_wallet demo_world = (refused 401, demo_world)"
  using api_authorization [of "R_settle_bet 5" "demo_env 31" "bearing ''x''" demo_world]
    api_authorization [of R_wallet "demo_env 31" None demo_world]
  by (simp add: demo_callers is_admin_def alice_def)

section \<open>A call is a request\<close>

text \<open>Whose request it may be.\<close>

fun permitted :: "user option \<Rightarrow> request \<Rightarrow> bool" where
  "permitted c (Register lib now u i salt req) \<longleftrightarrow> True"
| "permitted c (ResetPassword lib now salt token pass) \<longleftrightarrow> True"
| "permitted c (PayfastItn now form) \<longleftrightarrow> True"
| "permitted c (CreateBet now i u m p st) \<longleftrightarrow> c = Some u"
| "permitted c (AcceptBet now u b p) \<longleftrightarrow> c = Some u"
| "permitted c (CancelBet u b) \<longleftrightarrow> c = Some u"
| "permitted c (CreateDeposit i u a cur pr cr n) \<longleftrightarrow> map_option user_id c = Some u"
| "permitted c (InitiatePayfast i u a e f l) \<longleftrightarrow> map_option user_id c = Some u"
| "permitted c (CreateWithdrawal i u a acc cur dest) \<longleftrightarrow> map_option user_id c = Some u"
| "permitted c (VoidBet b adm r) \<longleftrightarrow> is_admin c \<and> map_option user_id c = Some adm"
| "permitted c (ConfirmResult now clock m r h a adm) \<longleftrightarrow> is_admin c \<and> map_option user_id c = Some adm"
| "permitted c (SettleBet now b) \<longleftrightarrow> is_admin c"
| "permitted c (CompleteDeposit now d ref n) \<longleftrightarrow> is_admin c"
| "permitted c (FailDeposit now d why) \<longleftrightarrow> is_admin c"
| "permitted c (ApproveWithdrawal now w) \<longleftrightarrow> is_admin c"
| "permitted c (CompleteWithdrawal now w) \<longleftrightarrow> is_admin c"
| "permitted c (RejectWithdrawal w why) \<longleftrightarrow> is_admin c"
| "permitted c (FailWithdrawal now w why) \<longleftrightarrow> is_admin c"
| "permitted c (SyncFixtures pr clock now job) \<longleftrightarrow> is_admin c"

text \<open>What the schemas have checked of it.\<close>

fun validated :: "request \<Rightarrow> bool" where
  "validated (CreateBet now i u m p st) \<longleftrightarrow> 0 < st"
| "validated (CreateDeposit i u a cur pr cr n) \<longleftrightarrow> 0 < a \<and> char_count cur \<le> 3"
| "validated (InitiatePayfast i u a e f l) \<longleftrightarrow> 0 < a"
| "validated (CreateWithdrawal i u a acc cur dest) \<longleftrightarrow> 0 < a \<and> char_count cur \<le> 3 \<and> char_count acc \<le> 200"
| "validated (ConfirmResult now clock m r h a adm) \<longleftrightarrow> 0 \<le> h \<and> 0 \<le> a"
| "validated (VoidBet b adm r) \<longleftrightarrow> (\<exists>t. r = Some [Lit t] \<and> 1 \<le> char_count t \<and> char_count t \<le> 500)"
| "validated _ \<longleftrightarrow> True"

text \<open>The amounts of a call that are not half way between two cents; a stake of at least a cent.\<close>

fun carries :: "env \<Rightarrow> route \<Rightarrow> bool" where
  "carries E (R_create_bet j) \<longleftrightarrow> (case read_create_bet (e_std E) (e_py E) j of None \<Rightarrow> True
     | Some (m, p, st) \<Rightarrow> \<not> half_cent_tie st \<and> 0 < round_half_up st)"
| "carries E (R_create_withdrawal j) \<longleftrightarrow> (case read_create_withdrawal (e_std E) j of None \<Rightarrow> True
     | Some b \<Rightarrow> \<not> half_cent_tie (wb_amount b))"
| "carries E _ \<longleftrightarrow> True"

fun is_notification :: "request \<Rightarrow> bool" where
  "is_notification (PayfastItn now form) = True"
| "is_notification _ = False"

fun is_itn :: "route \<Rightarrow> bool" where
  "is_itn (R_payfast_itn form) = True"
| "is_itn _ = False"

definition unchanged :: "db \<Rightarrow> db \<Rightarrow> bool" where
  "unchanged s s' \<longleftrightarrow> s'\<lparr>row_locks := []\<rparr> = s\<lparr>row_locks := []\<rparr>"

definition api_step :: "bool \<Rightarrow> bool \<Rightarrow> env \<Rightarrow> user option \<Rightarrow> db \<Rightarrow> db \<Rightarrow> bool" where
  "api_step ok ntf E c s s' \<longleftrightarrow> unchanged s s' \<or>
     (\<exists>q. permitted c q \<and> validated q \<and> (ok \<longrightarrow> admissible q) \<and>
        (is_notification q \<longrightarrow> ntf) \<and> s' = exec (e_std E) (e_cfg E) q s)"

lemma unchanged_refl [simp]: "unchanged s s"
  by (simp add: unchanged_def)

lemma api_step_refl [simp]: "api_step ok ntf E c s s"
  by (simp add: api_step_def)

lemma api_step_exec:
  "s' = exec (e_std E) (e_cfg E) q s \<Longrightarrow> permitted c q \<Longrightarrow> validated q \<Longrightarrow> (ok \<Longrightarrow> admissible q) \<Longrightarrow>
     (is_notification q \<Longrightarrow> ntf) \<Longrightarrow> api_step ok ntf E c s s'"
  by (auto simp: api_step_def)

lemma answer_snd [simp]: "snd (answer code f r) = snd r"
  by (auto simp: answer_def split: prod.splits sum.splits)

lemma in_session_snd [simp]: "snd (in_session code f m s) = run_request m s"
  by (simp add: in_session_def run_request_def)

lemma with_match_runs [simp]:
  "run_request (with_match E m) s = run_request m s" "run_request (with_matches E p n) s = run_request n s"
  by (simp_all add: run_request_def transact_def with_match_def with_matches_def bind_tx_def gets_def split: sum.split prod.split)

lemma read_unchanged: "(\<And>x s'. m s = Inr (x, s') \<Longrightarrow> s' = s) \<Longrightarrow> unchanged s (run_request m s)"
  by (auto simp: unchanged_def run_request_def transact_def split: sum.splits prod.splits)

lemma read_step: "(\<And>x s'. m s = Inr (x, s') \<Longrightarrow> s' = s) \<Longrightarrow> api_step ok ntf E c s (run_request m s)"
  by (auto simp: api_step_def intro: read_unchanged)

lemma as_user_step:
  "(\<And>u. caller E c s = Some u \<Longrightarrow> api_step ok ntf E (Some u) s (snd (h u s))) \<Longrightarrow>
     api_step ok ntf E (caller E c s) s (snd (as_user E c h s))"
  by (cases rule: as_user_cases [of E c s h]) auto

lemma as_admin_step:
  "(\<And>u. caller E c s = Some u \<Longrightarrow> urole u = role_admin \<Longrightarrow> api_step ok ntf E (Some u) s (snd (h u s))) \<Longrightarrow>
     api_step ok ntf E (caller E c s) s (snd (as_admin E c h s))"
  by (cases rule: as_admin_cases [of E c s h]) auto

lemma with_valid_step:
  "(\<And>x. b = Some x \<Longrightarrow> api_step ok ntf E c s (snd (h x s))) \<Longrightarrow> api_step ok ntf E c s (snd (with_valid b h s))"
  by (auto simp: with_valid_def split: option.splits)

lemmas reads = get_matches_def get_match_by_id_def list_open_bets_def list_user_bets_def get_bet_by_id_def
  get_wallet_def get_user_history_def list_deposits_def get_deposit_def list_withdrawals_def get_withdrawal_def
  get_pending_settlement_bets_def get_pending_settlement_def list_all_deposits_def list_all_withdrawals_def
  forgot_password_def get_filtered_def get_open_bets_def get_user_bets_def list_deposits_of_def list_withdrawals_of_def

lemma read_routes:
  "access_of r = signed_in \<Longrightarrow>
     (\<forall>j b. r \<noteq> R_create_bet j \<and> r \<noteq> R_accept_bet b j \<and> r \<noteq> R_cancel_bet b \<and> r \<noteq> R_initiate_deposit j \<and>
       r \<noteq> R_create_deposit j \<and> r \<noteq> R_create_withdrawal j) \<Longrightarrow>
     api_step ok ntf E (caller E c s) s (snd (handle E c r s))"
  by (cases r)
     (auto simp: user_endpoints reads tx_inv intro!: as_user_step with_valid_step read_step
       split: option.splits if_splits prod.splits)

lemma amount_read [simp]: "required j k (positive_decimal std) = Some a \<Longrightarrow> 0 < a"
  by (auto simp: required_Some)

lemma defaulted_text: "defaulted j k d (text_between lo (Some hi) st) = Some x \<Longrightarrow> char_count d \<le> hi \<Longrightarrow> char_count x \<le> hi"
  by (auto simp: defaulted_def text_between_Some split: json.splits option.splits)

lemma required_text:
  "required j k (text_between lo (Some hi) st) = Some x \<Longrightarrow> lo \<le> char_count x \<and> char_count x \<le> hi"
  by (auto simp: required_Some text_between_Some)

lemma required_int: "required j k (int_between py lo hi) = Some x \<Longrightarrow> lo \<le> x"
  by (auto simp: required_Some int_between_def bind_eq_Some_conv split: if_splits)

lemma read_create_bet_positive: "read_create_bet std py j = Some (m, p, st) \<Longrightarrow> 0 < st"
  by (auto simp: read_create_bet_def bind_eq_Some_conv)

lemma read_create_deposit_valid:
  "read_create_deposit std j = Some b \<Longrightarrow> 0 < db_amount b \<and> char_count (db_currency b) \<le> 3"
  by (auto simp: read_create_deposit_def bind_eq_Some_conv char_count_def dest: defaulted_text)

lemma read_initiate_positive: "read_initiate_deposit std j = Some (a, e, f, l) \<Longrightarrow> 0 < a"
  by (auto simp: read_initiate_deposit_def bind_eq_Some_conv)

lemma read_create_withdrawal_valid:
  "read_create_withdrawal std j = Some b \<Longrightarrow>
     0 < wb_amount b \<and> char_count (wb_currency b) \<le> 3 \<and> char_count (wb_account b) \<le> 200"
  by (auto simp: read_create_withdrawal_def bind_eq_Some_conv char_count_def dest: defaulted_text required_text)

lemma read_confirm_valid: "read_confirm_result py j = Some (r, h, a) \<Longrightarrow> 0 \<le> h \<and> 0 \<le> a"
  by (auto simp: read_confirm_result_def bind_eq_Some_conv dest: required_int)

lemma read_void_valid: "read_void_bet j = Some t \<Longrightarrow> 1 \<le> char_count t \<and> char_count t \<le> 500"
  by (auto simp: read_void_bet_def dest: required_text)

lemmas body_facts = read_create_bet_positive read_create_deposit_valid read_initiate_positive
  read_create_withdrawal_valid read_confirm_valid read_void_valid

lemma user_mutations:
  "api_step (carries E (R_create_bet j)) ntf E (caller E c s) s (snd (create_bet_endpoint E c j s))"
  "api_step ok ntf E (caller E c s) s (snd (accept_bet_endpoint E c b j s))"
  "api_step ok ntf E (caller E c s) s (snd (cancel_bet_endpoint E c b s))"
  "api_step ok ntf E (caller E c s) s (snd (initiate_deposit E c j s))"
  "api_step ok ntf E (caller E c s) s (snd (create_deposit_endpoint E c j s))"
  "api_step (carries E (R_create_withdrawal j)) ntf E (caller E c s) s (snd (create_withdrawal_endpoint E c j s))"
  subgoal unfolding create_bet_endpoint_def
    by (intro as_user_step with_valid_step)
       (auto dest!: body_facts intro: api_step_exec [where q = "CreateBet (e_now E) (e_new_id E) _ _ _ _"])
  subgoal unfolding accept_bet_endpoint_def
    by (intro as_user_step with_valid_step) (auto intro: api_step_exec [where q = "AcceptBet (e_now E) _ b _"])
  subgoal unfolding cancel_bet_endpoint_def
    by (intro as_user_step) (auto intro: api_step_exec [where q = "CancelBet _ b"])
  subgoal unfolding initiate_deposit_def
    by (intro as_user_step with_valid_step)
       (auto dest!: body_facts intro: api_step_exec [where q = "InitiatePayfast (e_new_id E) (user_id _) _ _ _ _"])
  subgoal unfolding create_deposit_endpoint_def
    by (intro as_user_step with_valid_step)
       (auto dest!: body_facts intro: api_step_exec [where q = "CreateDeposit (e_new_id E) (user_id _) (db_amount _) _ _ _ _"])
  subgoal unfolding create_withdrawal_endpoint_def
    by (intro as_user_step with_valid_step)
       (auto dest!: body_facts intro: api_step_exec [where q = "CreateWithdrawal (e_new_id E) (user_id _) (wb_amount _) (wb_account _) (wb_currency _) _"])
  done

lemma sync_step: "api_step ok ntf E (caller E c s) s (snd (sync_endpoint E c b job s))"
  unfolding sync_endpoint_def
  by (intro as_admin_step with_valid_step)
     (auto simp: when_provider_enabled_def is_admin_def split: option.splits prod.splits if_splits
       intro!: api_step_exec [where q = "SyncFixtures (get_provider E) (e_row_clock E) (e_now E) (job b)"])

lemma admin_mutations:
  "api_step ok ntf E (caller E c s) s (snd (confirm_match_result E c m j s))"
  "api_step ok ntf E (caller E c s) s (snd (manually_settle_bet E c b s))"
  "api_step ok ntf E (caller E c s) s (snd (void_bet_endpoint E c b j s))"
  "api_step ok ntf E (caller E c s) s (snd (admin_complete_deposit E c d j s))"
  "api_step ok ntf E (caller E c s) s (snd (admin_fail_deposit E c d j s))"
  "api_step ok ntf E (caller E c s) s (snd (admin_verify_deposit E c d j s))"
  "api_step ok ntf E (caller E c s) s (snd (admin_approve_withdrawal E c w s))"
  "api_step ok ntf E (caller E c s) s (snd (admin_reject_withdrawal E c w j s))"
  "api_step ok ntf E (caller E c s) s (snd (admin_complete_withdrawal E c w s))"
  "api_step ok ntf E (caller E c s) s (snd (admin_fail_withdrawal E c w j s))"
  unfolding admin_endpoints
  subgoal
    by (intro as_admin_step with_valid_step)
       (auto simp: is_admin_def dest!: body_facts
         intro: api_step_exec [where q = "ConfirmResult (e_now E) (e_bet_clock E) m _ _ _ (user_id _)"])
  subgoal by (intro as_admin_step) (auto simp: is_admin_def intro: api_step_exec [where q = "SettleBet (e_now E) b"])
  subgoal
    by (intro as_admin_step with_valid_step)
       (auto simp: is_admin_def dest!: body_facts intro: api_step_exec [where q = "VoidBet b (user_id _) (Some [Lit _])"])
  subgoal
    by (intro as_admin_step with_valid_step)
       (auto simp: is_admin_def intro: api_step_exec [where q = "CompleteDeposit (e_now E) d _ _"])
  subgoal
    by (intro as_admin_step with_valid_step)
       (auto simp: is_admin_def intro: api_step_exec [where q = "FailDeposit (e_now E) d _"])
  subgoal
    by (intro as_admin_step with_valid_step)
       (auto simp: is_admin_def intro: api_step_exec [where q = "CompleteDeposit (e_now E) d _ _"])
  subgoal by (intro as_admin_step) (auto simp: is_admin_def intro: api_step_exec [where q = "ApproveWithdrawal (e_now E) w"])
  subgoal
    by (intro as_admin_step with_valid_step) (auto simp: is_admin_def intro: api_step_exec [where q = "RejectWithdrawal w _"])
  subgoal by (intro as_admin_step) (auto simp: is_admin_def intro: api_step_exec [where q = "CompleteWithdrawal (e_now E) w"])
  subgoal
    by (intro as_admin_step with_valid_step)
       (auto simp: is_admin_def intro: api_step_exec [where q = "FailWithdrawal (e_now E) w _"])
  done

lemma admin_reads:
  "api_step ok ntf E (caller E c s) s (snd (list_pending_settlement_bets E c m s))"
  "api_step ok ntf E (caller E c s) s (snd (admin_list_deposits E c p st s))"
  "api_step ok ntf E (caller E c s) s (snd (admin_list_withdrawals E c p st' s))"
  unfolding admin_endpoints
  by (intro as_admin_step with_valid_step; auto simp: reads tx_inv intro!: read_step)+

lemma public_steps:
  "api_step ok ntf E c s (snd (register_endpoint E j s))"
  "api_step ok ntf E c s (snd (forgot_password_endpoint E j s))"
  "api_step ok ntf E c s (snd (reset_password_endpoint E j s))"
  unfolding register_endpoint_def forgot_password_endpoint_def reset_password_endpoint_def rate_limited_def
  subgoal
    by (intro with_valid_step)
       (auto intro: api_step_exec [where q = "Register (e_auth E) (e_now E) (e_new_id E) (e_new_wallet_id E) (e_salt E) _"])
  subgoal by (intro with_valid_step) (auto simp: reads tx_inv intro!: read_step split: option.splits)
  subgoal
    by (intro with_valid_step)
       (auto intro: api_step_exec [where q = "ResetPassword (e_auth E) (e_now E) (e_salt E) _ _"])
  done

lemma handle_step: "api_step (carries E r) (is_itn r) E (caller E c s) s (snd (handle E c r s))"
proof (cases "access_of r = signed_in")
  case True
  then show ?thesis
    using read_routes [OF True] by (cases r) (simp_all add: user_mutations [unfolded carries.simps])
next
  case False
  then show ?thesis
    by (cases r)
       (simp_all add: public_steps admin_mutations admin_reads sync_step sync_upcoming_endpoint_def
         sync_results_endpoint_def sync_live_endpoint_def split: prod.splits,
        auto intro!: api_step_exec [where q = "PayfastItn (e_now E) _"] dest: arg_cong [of _ _ snd])
qed

text \<open>C18: every call but the login is, for the database, one of the requests of \<open>System\<close>, made on behalf of the
  caller with the caller's rights and within the bounds of the schemas, or leaves the database as it is.\<close>

theorem api_refines_requests:
  "unchanged s (snd (handle E c r s)) \<or>
   (\<exists>q. permitted (caller E c s) q \<and> validated q \<and> snd (handle E c r s) = exec (e_std E) (e_cfg E) q s)"
  using handle_step [of E r c s] by (auto simp: api_step_def)

section \<open>Sequences of calls\<close>

definition serve_all :: "(env \<times> call) list \<Rightarrow> db \<times> tracker \<Rightarrow> db \<times> tracker" where
  "serve_all calls st = fold (\<lambda>(E, k) st. snd (serve E k st)) calls st"

fun carries_call :: "env \<times> call \<Rightarrow> bool" where
  "carries_call (E, Login j) \<longleftrightarrow> True"
| "carries_call (E, Route c r) \<longleftrightarrow> carries E r"

lemma unchanged_books: "unchanged s s' \<Longrightarrow> books s' = books s"
  unfolding unchanged_def by (metis books_others(1))

lemma handle_books: "books s \<Longrightarrow> carries E r \<Longrightarrow> books (snd (handle E c r s))"
  using handle_step [of E r c s] by (auto simp: api_step_def unchanged_books intro: exec_books)

lemma handle_books_eq: "handle E c r s = (resp, s') \<Longrightarrow> books s \<Longrightarrow> carries E r \<Longrightarrow> books s'"
  using handle_books [of s E r c] by simp

lemma login_store: "fst (snd (login_endpoint E j st)) = fst st"
  by (auto simp: login_endpoint_def split: prod.splits option.splits sum.splits)

lemma serve_books: "books (fst st) \<Longrightarrow> carries_call (E, k) \<Longrightarrow> books (fst (snd (serve E k st)))"
  by (cases k; cases st) (auto simp: login_store split: prod.splits dest: handle_books_eq)

lemma serve_all_books: "books (fst st) \<Longrightarrow> list_all carries_call calls \<Longrightarrow> books (fst (serve_all calls st))"
  unfolding serve_all_def
proof (induction calls arbitrary: st)
  case (Cons k calls)
  obtain E x where k: "k = (E, x)" by force
  have "books (fst (snd (serve E x st)))" using Cons.prems by (intro serve_books) (simp_all add: k)
  with Cons show ?case by (simp add: k)
qed simp

text \<open>C4: calls to the API in any order, from an empty system, as long as no stake or withdrawal asked for is half way between two
  cents and no stake rounds to nothing: money is conserved, every locked balance is explained and the ledger replays every
  balance.\<close>

theorem api_keeps_books:
  assumes "fresh_system s0" and "list_all carries_call calls"
  shows "let s = fst (serve_all calls (s0, tr)) in
    total_money (wallets s) + platform_total (platform_accounts s) = deposited (deposits s) - withdrawn (withdrawals s) \<and>
    (\<forall>u. balance_in (wallets s) u locked = stakes u (bets s) + withdrawal_holds u (withdrawals s)) \<and>
    (\<forall>u f. net (ledger s) u f = balance_in (wallets s) u f)"
  using booksD(7-9) [OF serve_all_books [of "(s0, tr)" calls]] fresh_system_books [OF assms(1)] assms(2)
  by (simp add: Let_def conserved_def locked_explained_def ledger_explains_def)

definition demo_calls :: "(env \<times> call) list" where
  "demo_calls = [(demo_env 1, Route None (R_register (json_obj [(''email'', json_str ''a''),
       (''display_name'', json_str ''Alice''), (''password'', json_str ''alice123'')]))),
     (demo_env 31, Route (bearing ''x'') (R_create_bet bet_form))]"

lemma demo_bet_read:
  "read_create_bet demo_std \<lparr>to_uuid = (\<lambda>t. Some (length t)), to_int = i, to_email = m\<rparr> bet_form = Some (7, home_win, 10)"
  by (simp add: read_create_bet_def bet_form_def required_def json_text_def read_outcome_def positive_decimal_def
      parse_decimal_def)

lemma demo_carries: "carries (demo_env i) (R_create_bet bet_form)"
proof -
  have "\<not> half_cent_tie 10" "0 < round_half_up 10"
    by (simp_all add: half_cent_tie_code round_half_up_def round_half_away_def)
  then show ?thesis by (simp add: demo_env_def demo_bet_read del: half_cent_tie_code)
qed

theorem api_keeps_books_witness:
  "let s = fst (serve_all demo_calls (demo_db, \<lambda>e. None)) in
     \<forall>u f. net (ledger s) u f = balance_in (wallets s) u f"
proof -
  have "list_all carries_call demo_calls" using demo_carries by (simp add: demo_calls_def)
  from api_keeps_books [OF demo_fresh this] show ?thesis by (simp add: Let_def)
qed

section \<open>Confinement\<close>

text \<open>Between two states, only the caller's wallet has moved, and only between its own two fields.\<close>

definition confined :: "user option \<Rightarrow> db \<Rightarrow> db \<Rightarrow> bool" where
  "confined c s s' \<longleftrightarrow>
     (\<forall>v f. map_option user_id c \<noteq> Some v \<longrightarrow> balance_in (wallets s') v f = balance_in (wallets s) v f) \<and>
     (\<forall>v. balance_in (wallets s') v available + balance_in (wallets s') v locked =
          balance_in (wallets s) v available + balance_in (wallets s) v locked)"

lemma confined_same: "wallets s' = wallets s \<Longrightarrow> confined c s s'"
  by (simp add: confined_def)

lemma confined_unchanged: "s'\<lparr>row_locks := []\<rparr> = s\<lparr>row_locks := []\<rparr> \<Longrightarrow> confined c s s'"
  by (rule confined_same) (metis db.ext_inject db.surjective db.update_convs(12))

lemma confined_run: "(\<And>x s'. m s = Inr (x, s') \<Longrightarrow> confined c s s') \<Longrightarrow> confined c s (run_request m s)"
  by (auto simp: run_request_def transact_def confined_def split: sum.splits prod.splits)

lemma money_confined_zero: "money (\<lambda>u f. 0) s s' \<Longrightarrow> confined c s s'"
  by (simp add: money_def confined_def)

lemma money_confined_shift:
  "money (shift (user_id u) f g x) s s' \<Longrightarrow> f \<noteq> g \<Longrightarrow> confined (Some u) s s'"
  by (cases f; cases g) (auto simp: money_def confined_def shift_def both_def only_def)

lemma cancel_bet_money:
  assumes b: "books s" and run: "cancel_bet u k s = Inr (x, s')"
  shows "\<exists>a. money (shift (user_id u) locked available a) s s'"
proof -
  obtain r where r: "find_bet s k = Some r" and c: "cancel_with u r s = Inr (x, s')"
    using run by (auto simp: cancel_bet_def bind_tx_inv get_bet_or_404_inv)
  note st = cancel_with_step [OF booksD(1) [OF b] c]
  show ?thesis using st stake_sound [OF b r] by (auto simp: bet_step_def)
qed

lemma exec_confined:
  assumes b: "books s" and ok: "admissible q" and p: "permitted c q" and user: "\<not> is_admin c"
    and "\<not> is_notification q"
  shows "confined c s (exec std cfg q s)"
proof (cases q)
  case Register
  have "confined c s s'" if "register std lib cfg now u i salt req s = Inr (t, s')" for lib now u i salt req t s'
    by (rule register_inv [OF that]) (simp add: confined_def create_wallet_balances)
  with Register show ?thesis by (auto intro: confined_run)
next
  case ResetPassword
  have "confined c s s'" if "reset_password std lib cfg now salt token pass s = Inr (x, s')" for lib now salt token pass x s'
    by (rule reset_password_inv [OF that]) (simp add: confined_same)
  then have "confined c s (run_request (reset_password std lib cfg now salt token pass) s)" for lib now salt token pass
    by (rule confined_run)
  with ResetPassword show ?thesis by simp
next
  case (CreateBet now i u m k st)
  with ok p show ?thesis
    by (auto intro!: confined_run dest!: create_bet_step(1) [OF booksD(1) [OF b], rotated]
        simp: bet_step_def intro: money_confined_shift)
next
  case (AcceptBet now u k pr)
  with p show ?thesis
    using stake_sound [OF b]
    by (auto intro!: confined_run elim!: accept_bet_step [OF booksD(1) [OF b]] simp: bet_step_def intro: money_confined_shift)
next
  case (CancelBet u k)
  with p show ?thesis by (auto intro!: confined_run dest!: cancel_bet_money [OF b] intro: money_confined_shift)
next
  case CreateDeposit
  then show ?thesis
    by (auto intro!: confined_run dest!: create_deposit_step(8) [OF booksD(1) [OF b]] simp: fund_step_def
        intro: money_confined_zero)
next
  case InitiatePayfast
  then show ?thesis
    by (auto intro!: confined_run dest!: initiate_payfast_step(8) [OF booksD(1) [OF b]] simp: fund_step_def
        intro: money_confined_zero)
next
  case (CreateWithdrawal i u a acc cur dest)
  with ok p show ?thesis
    by (auto intro!: confined_run dest!: create_withdrawal_step(7) [OF booksD(1) [OF b], rotated]
        simp: fund_step_def intro: money_confined_shift)
qed (use assms in auto)

text \<open>C6: from sound books, and if a stake or withdrawal it asks for is not half way between two cents (nor the stake less than
  a cent when rounded), a call by anyone who is not an administrator (signed in or not, and no payment notification) leaves every
  wallet but the caller's as it is, and of the caller's only moves money between the available and the locked balance.\<close>

theorem api_confines_users:
  assumes "books s" and "carries E r" and "\<not> is_admin (caller E c s)" and "\<not> is_itn r"
  shows "(map_option user_id (caller E c s) \<noteq> Some v \<longrightarrow>
      balance_in (wallets (snd (handle E c r s))) v f = balance_in (wallets s) v f) \<and>
    balance_in (wallets (snd (handle E c r s))) v available + balance_in (wallets (snd (handle E c r s))) v locked =
    balance_in (wallets s) v available + balance_in (wallets s) v locked"
proof -
  have "confined (caller E c s) s (snd (handle E c r s))"
    using handle_step [of E r c s] assms
    by (auto simp: api_step_def unchanged_def intro: exec_confined confined_unchanged)
  then show ?thesis by (simp add: confined_def)
qed

theorem api_confines_users_witness:
  "balance_in (wallets (snd (handle (demo_env 31) (bearing ''x'') (R_create_bet bet_form) demo_world))) 2 available =
   balance_in (wallets demo_world) 2 available"
  using api_confines_users [OF demo_world_books demo_carries [of 31], of "bearing ''x''" 2 available]
  by (simp add: demo_callers is_admin_def alice_def)

section \<open>What a user is shown\<close>

text \<open>The private rows of a response: accounts, wallets, ledger entries, deposits and withdrawals.\<close>

fun own :: "uuid \<Rightarrow> body \<Rightarrow> bool" where
  "own u (b_user x) \<longleftrightarrow> ur_id x = u"
| "own u (b_wallet w) \<longleftrightarrow> wr_user w = u"
| "own u (b_entries r) \<longleftrightarrow> list_all (\<lambda>e. le_user e = u) (items r)"
| "own u (b_deposit d) \<longleftrightarrow> dep_user d = u"
| "own u (b_deposits r) \<longleftrightarrow> list_all (\<lambda>d. dep_user d = u) (items r)"
| "own u (b_withdrawal w) \<longleftrightarrow> wd_user w = u"
| "own u (b_withdrawals r) \<longleftrightarrow> list_all (\<lambda>w. wd_user w = u) (items r)"
| "own u _ \<longleftrightarrow> True"

lemma in_session_answered:
  "fst (in_session code f m s) = answered k b \<longleftrightarrow> (\<exists>x s'. m s = Inr (x, s') \<and> k = code \<and> b = f x)"
  by (auto simp: in_session_def answer_def transact_def split: sum.splits prod.splits)

lemma with_valid_answered:
  "fst (with_valid bd h s) = answered k b \<longleftrightarrow> (\<exists>x. bd = Some x \<and> fst (h x s) = answered k b)"
  by (auto simp: with_valid_def split: option.splits)

lemma page_rows: "x \<in> set (take n (drop m (rev (filter P xs)))) \<Longrightarrow> P x"
  by (auto dest!: in_set_takeD in_set_dropD)

lemma private_bodies:
  "create_deposit i u a cur pr cr n s = Inr (d, s') \<Longrightarrow> dep_user d = u"
  "create_withdrawal i u a acc cur dest s = Inr (w, s') \<Longrightarrow> wd_user w = u"
  "get_wallet u s = Inr (x, s') \<Longrightarrow> wallet_user x = u"
  by (auto simp: create_deposit_def create_withdrawal_def get_wallet_def bind_tx_inv seq_tx_inv
      get_by_user_id_or_404_inv get_by_user_id_inv insert_deposit_inv insert_withdrawal_inv dest: row_get_SomeD)

lemma private_reads:
  "get_user_history u q s = Inr (es, s') \<Longrightarrow> list_all (\<lambda>e. le_user e = u) (items (paginated es q))"
  "list_deposits u q s = Inr (ds, s') \<Longrightarrow> list_all (\<lambda>d. dep_user d = u) (items (paginated ds q))"
  "list_withdrawals u q s = Inr (ws, s') \<Longrightarrow> list_all (\<lambda>w. wd_user w = u) (items (paginated ws q))"
  "get_deposit k (Some u) s = Inr (d, s') \<Longrightarrow> dep_user d = u"
  "get_withdrawal k (Some u) s = Inr (w, s') \<Longrightarrow> wd_user w = u"
  unfolding reads paginated_def paginate_def list_all_iff
  by (auto simp: bind_tx_inv seq_tx_inv dest: page_rows)

text \<open>C29: a signed-in user is shown no other user's profile, wallet, ledger entry, deposit or withdrawal.\<close>

theorem api_shows_own_rows:
  assumes "access_of r = signed_in" and "caller E c s = Some u" and "fst (handle E c r s) = answered code b"
  shows "own (user_id u) b"
proof -
  have h: "as_user E c h s = h u s" for h by (rule as_user_cases [of E c s h]) (simp_all add: assms(2))
  show ?thesis
    using assms(1,3)
    by (cases r)
       (auto simp: user_endpoints user_response_of_def wallet_response_of_def h with_valid_answered in_session_answered private_bodies private_reads
          simp del: split_paired_Ex split: prod.splits)
qed

lemma demo_wallet_shown:
  "case fst (handle (demo_env 1) (bearing ''x'') R_wallet demo_world) of answered code b \<Rightarrow> True | refused code \<Rightarrow> False"
  by code_simp

theorem api_shows_own_rows_witness:
  "case fst (handle (demo_env 1) (bearing ''x'') R_wallet demo_world) of answered code b \<Rightarrow> own 1 b | refused code \<Rightarrow> False"
  using demo_wallet_shown
    api_shows_own_rows [of R_wallet "demo_env 1" "bearing ''x''" demo_world alice]
  by (simp add: demo_callers alice_def split: response.splits)

end
