(* ===== verification/Secrecy.thy ===== *)
theory Secrecy
  imports Endpoint_Properties
begin

text \<open>
  Non-interference: what the API answers, the login apart, does not depend on the password hashes. Most services never look at
  the table of users at all (\<open>blind\<close>); the few that do treat two databases alike that differ in the hashes only.
\<close>

section \<open>Services that do not look at the users\<close>

definition blind :: "'a dbtx \<Rightarrow> bool" where
  "blind m \<longleftrightarrow> (\<forall>s us. m (s\<lparr>users := us\<rparr>) =
     (case m s of Inl e \<Rightarrow> Inl e | Inr (x, s') \<Rightarrow> Inr (x, s'\<lparr>users := us\<rparr>)))"

named_theorems blind_steps \<open>steps that do not look at the users\<close>

lemma blind_ret [blind_steps]: "blind (ret x)"
  by (simp add: blind_def ret_def)

lemma blind_throw [blind_steps]: "blind (throw e)"
  by (simp add: blind_def throw_def)

lemma blind_raise_if [blind_steps]: "blind (raise_if b e)"
  by (simp add: raise_if_def blind_ret blind_throw)

lemma blind_require_some [blind_steps]: "blind (require_some e r)"
  by (simp add: require_some_def blind_ret blind_throw split: option.split)

lemma blind_bind [blind_steps]: "blind m \<Longrightarrow> (\<And>x. blind (f x)) \<Longrightarrow> blind (bind_tx m f)"
  unfolding blind_def bind_tx_def by (simp split: sum.split prod.split)

lemma blind_seq [blind_steps]: "blind m \<Longrightarrow> blind n \<Longrightarrow> blind (seq_tx m n)"
  unfolding seq_tx_def by (rule blind_bind)

lemma blind_if [blind_steps]: "(b \<Longrightarrow> blind m) \<Longrightarrow> (\<not> b \<Longrightarrow> blind n) \<Longrightarrow> blind (if b then m else n)"
  by simp

lemma blind_let [blind_steps]: "(\<And>x. blind (f x)) \<Longrightarrow> blind (let x = t in f x)"
  by simp

lemma blind_option [blind_steps]:
  "blind n \<Longrightarrow> (\<And>x. blind (f x)) \<Longrightarrow> blind (case r of None \<Rightarrow> n | Some x \<Rightarrow> f x)"
  by (simp split: option.split)

lemma blind_pair [blind_steps]: "(\<And>x y. blind (f x y)) \<Longrightarrow> blind (case p of (x, y) \<Rightarrow> f x y)"
  by (simp split: prod.split)

lemma blind_for_each [blind_steps]: "(\<And>x. blind (f x)) \<Longrightarrow> blind (for_each f xs)"
  by (induction xs) (simp_all add: blind_ret blind_seq)

lemma blind_gets: "(\<And>s us. f (s\<lparr>users := us\<rparr>) = f s) \<Longrightarrow> blind (gets f)"
  by (simp add: blind_def gets_def)

lemma blind_modify: "(\<And>s us. f (s\<lparr>users := us\<rparr>) = f s\<lparr>users := us\<rparr>) \<Longrightarrow> blind (modify f)"
  by (simp add: blind_def modify_def)

text \<open>The queries and updates of the other tables.\<close>

lemmas other_tables = find_bet_def find_match_def find_deposit_def find_withdrawal_def put_wallet_def put_bet_def
  put_match_def put_platform_def put_deposit_def put_withdrawal_def matched_bets_of_def

lemmas store_steps = store_money_def store_money_opt_def check_row_def take_lock_def

lemmas repositories_1 = get_by_user_id_def get_by_user_id_or_404_def get_by_user_id_for_update_def update_balances_def
  create_wallet_def create_entry_def get_bet_or_404_def get_bet_for_update_def insert_bet_def flush_bet_def add_event_def
  transition_matched_to_pending_def

lemmas repositories_2 = get_match_or_404_def get_by_external_id_def get_match_for_update_def flush_match_def insert_match_def
  get_active_rate_def get_for_currency_for_update_def credit_fee_def write_platform_entry_def get_deposit_or_404_def
  insert_deposit_def flush_deposit_def get_withdrawal_or_404_def insert_withdrawal_def flush_withdrawal_def

lemma blind_wallet_rows [blind_steps]:
  "blind (get_by_user_id u)" "blind (get_by_user_id_or_404 u)" "blind (get_by_user_id_for_update u)"
  "blind (update_balances w av lk)" "blind (create_wallet i u cur)" "blind (create_entry u wid ty fld dir a rty rid av' lk' n)"
  unfolding repositories_1 store_steps
  by (intro blind_steps blind_gets blind_modify; simp add: other_tables)+

lemma blind_bet_rows [blind_steps]:
  "blind (get_bet_or_404 b)" "blind (get_bet_for_update b)" "blind (insert_bet bt)" "blind (flush_bet b f)"
  "blind (add_event b ety ac l pl)" "blind (transition_matched_to_pending m)"
  unfolding repositories_1 store_steps
  by (intro blind_steps blind_gets blind_modify; simp add: other_tables)+

lemma blind_match_rows [blind_steps]:
  "blind (get_match_or_404 m)" "blind (get_by_external_id x)" "blind (get_match_for_update m)" "blind (flush_match m g)"
  "blind (insert_match mt)" "blind (get_active_rate ft cur t)" "blind (get_for_currency_for_update cur)"
  "blind (credit_fee pa a)" "blind (write_platform_entry pa a b pty path)"
  unfolding repositories_2 store_steps
  by (intro blind_steps blind_gets blind_modify; simp add: other_tables)+

lemma blind_fund_rows [blind_steps]:
  "blind (get_deposit_or_404 d)" "blind (insert_deposit dp)" "blind (flush_deposit d h)"
  "blind (get_withdrawal_or_404 w)" "blind (insert_withdrawal wd)" "blind (flush_withdrawal w k)"
  unfolding repositories_2 store_steps
  by (intro blind_steps blind_gets blind_modify; simp add: other_tables)+

lemma blind_money [blind_steps]: "blind (store_money v)" "blind (verify_non_negative v)"
  unfolding store_money_def verify_non_negative_def by (intro blind_steps)+

section \<open>Services\<close>

lemma blind_ledger [blind_steps]:
  "blind (write_stake_lock w a r n)" "blind (write_stake_unlock w a r n)"
  "blind (write_void_refund w a r n)" "blind (write_deposit_credit w a r n)"
  "blind (write_withdrawal_hold w a r n)" "blind (write_withdrawal_release w a r n)"
  "blind (write_withdrawal_debit w a r n)" "blind (write_settlement_winner w w2 a p r n)"
  "blind (write_no_winner_share l w f a r)"
  unfolding write_stake_lock_def write_stake_unlock_def write_void_refund_def write_deposit_credit_def
    write_withdrawal_hold_def write_withdrawal_release_def write_withdrawal_debit_def
    write_settlement_winner_def write_no_winner_share_def
  by (intro blind_steps)+

lemma blind_no_winner_ledger [blind_steps]: "blind (write_settlement_no_winner cw ow f a r n)"
  unfolding write_settlement_no_winner_def by (intro blind_steps)

lemma blind_wallets [blind_steps]:
  "blind (lock_stake u a r n)" "blind (unlock_stake u a r n)" "blind (void_refund u a r n)"
  "blind (credit_deposit u a r n)" "blind (hold_withdrawal u a r n)" "blind (release_withdrawal_hold u a r n)"
  "blind (finalize_withdrawal_debit u a r n)" "blind (lock_pair a' b')"
  unfolding lock_stake_def unlock_stake_def void_refund_def credit_deposit_def hold_withdrawal_def
    release_withdrawal_hold_def finalize_withdrawal_debit_def lock_pair_def
  by (intro blind_steps)+

lemma blind_transfers [blind_steps]:
  "blind (transfer_locked_funds w l a fee bid n)" "blind (settle_no_winner c opp st fee refund bid)"
  unfolding transfer_locked_funds_def settle_no_winner_def by (intro blind_steps)+

lemma blind_bets [blind_steps]:
  "blind (create_bet cfg now i u m p st)" "blind (accept_bet now u b p)" "blind (cancel_with u r)" "blind (void_bet b adm why)"
  unfolding create_bet_def accept_bet_def cancel_with_def void_bet_def
  by (intro blind_steps | auto split: bet_status.split option.split intro!: blind_steps)+

lemma blind_cancel [blind_steps]: "blind (cancel_bet u b)"
  unfolding cancel_bet_def by (intro blind_steps)

lemma blind_settlement [blind_steps]:
  "blind (settlement_checks now b)" "blind (settle_wallets bt opp res wr nr)"
  "blind (collect_fee bt p)" "blind (mark_settled now bt p)"
  unfolding settlement_checks_def settle_wallets_def collect_fee_def mark_settled_def
  by (intro blind_steps | rule blind_gets, simp)+

lemma blind_settle [blind_steps]: "blind (settle_bet now b)" "blind (confirm_match now m r h a adm)"
  unfolding settle_bet_def confirm_match_def by (intro blind_steps)+

lemma blind_transition [blind_steps]: "blind (assert_transition w from)"
  unfolding assert_transition_def by (intro blind_steps)

lemma blind_tails [blind_steps]:
  "blind (complete_with now ref n d)" "blind (complete_withdrawal_with now w)"
  "blind (reject_withdrawal_with why w)" "blind (fail_withdrawal_with now why w)"
  "blind (create_deposit i u a c pr cr n)"
  unfolding complete_with_def complete_withdrawal_with_def reject_withdrawal_with_def fail_withdrawal_with_def create_deposit_def
  by (intro blind_steps)+

lemma blind_funding [blind_steps]:
  "blind (initiate_payfast_deposit std cfg i u a e f l)" "blind (complete_deposit now d ref n)"
  "blind (fail_deposit now d reason)" "blind (create_withdrawal i u a acc c dest)"
  "blind (approve_withdrawal now w)" "blind (complete_withdrawal now w)"
  "blind (reject_withdrawal w why)" "blind (fail_withdrawal now w why)"
  unfolding initiate_payfast_deposit_def complete_deposit_def fail_deposit_def create_withdrawal_def
    approve_withdrawal_def complete_withdrawal_def reject_withdrawal_def fail_withdrawal_def
  by (intro blind_steps)+

lemma blind_queries [blind_steps]:
  "blind (get_matches plan p st cn)" "blind (get_match_by_id m)" "blind (list_open_bets now p)" "blind (list_user_bets u p bs)"
  "blind (get_bet_by_id b)" "blind (get_wallet u)" "blind (get_user_history u p)" "blind (list_deposits u p)"
  "blind (get_deposit d o')" "blind (list_withdrawals u p)" "blind (get_withdrawal w o')"
  "blind (get_pending_settlement_bets upd mm)" "blind (list_all_deposits p ds)" "blind (list_all_withdrawals p ws)"
  unfolding get_matches_def get_match_by_id_def list_open_bets_def list_user_bets_def get_bet_by_id_def get_wallet_def
    get_user_history_def list_deposits_def get_deposit_def list_withdrawals_def get_withdrawal_def
    get_pending_settlement_bets_def get_pending_settlement_def list_all_deposits_def list_all_withdrawals_def
    get_filtered_def get_open_bets_def get_user_bets_def list_deposits_of_def list_withdrawals_of_def
  by (intro blind_steps blind_gets; simp)+

lemma blind_with_match [blind_steps]:
  "blind m \<Longrightarrow> blind (with_match E m)" "blind n \<Longrightarrow> blind (with_matches E p n)"
  unfolding with_match_def with_matches_def
  by (intro blind_bind blind_gets; simp add: bet_response_of_def [abs_def] bet_page_def find_match_def)+

section \<open>Whole requests\<close>

definition blind_run :: "(db \<Rightarrow> 'a \<times> db) \<Rightarrow> bool" where
  "blind_run F \<longleftrightarrow> (\<forall>s us. F (s\<lparr>users := us\<rparr>) = (fst (F s), snd (F s)\<lparr>users := us\<rparr>))"

lemma blind_runD: "blind_run F \<Longrightarrow> F (s\<lparr>users := us\<rparr>) = (fst (F s), snd (F s)\<lparr>users := us\<rparr>)"
  by (simp add: blind_run_def)

lemma blind_transact: "blind m \<Longrightarrow> blind_run (transact m)"
  unfolding blind_run_def blind_def transact_def by (simp split: sum.split prod.split)

lemma blind_request: "blind m \<Longrightarrow> run_request m (s\<lparr>users := us\<rparr>) = run_request m s\<lparr>users := us\<rparr>"
  by (simp add: run_request_def blind_runD [OF blind_transact])

lemma blind_settle_each:
  "settle_each clock bs k n fs (s\<lparr>users := us\<rparr>) =
     (fst (settle_each clock bs k n fs s), snd (settle_each clock bs k n fs s)\<lparr>users := us\<rparr>)"
proof (induction bs arbitrary: k n fs s)
  case (Cons b bs)
  obtain r s1 where t: "transact (settle_bet (clock b) b) s = (r, s1)" by force
  have "transact (settle_bet (clock b) b) (s\<lparr>users := us\<rparr>) = (r, s1\<lparr>users := us\<rparr>)"
    using blind_runD [OF blind_transact [OF blind_settle(1)]] by (simp add: t)
  with Cons t show ?case by (auto split: sum.split error.split)
qed simp

lemma blind_confirm: "blind_run (confirm_and_settle now clock m r h a adm)"
proof -
  have "transact (confirm_match now m r h a adm) (s\<lparr>users := us\<rparr>) =
      (fst (transact (confirm_match now m r h a adm) s), snd (transact (confirm_match now m r h a adm) s)\<lparr>users := us\<rparr>)" for s us
    by (rule blind_runD [OF blind_transact [OF blind_settle(2)]])
  then show ?thesis
    by (auto simp: blind_run_def confirm_and_settle_def blind_settle_each Let_def split: sum.split prod.split)
qed

lemma blind_single: "blind_run (settle_single_bet now b)"
  unfolding settle_single_bet_def [abs_def] by (rule blind_transact) (rule blind_settle)

lemma blind_process_itn: "process_itn now itn d (s\<lparr>users := us\<rparr>) = process_itn now itn d s\<lparr>users := us\<rparr>"
  by (simp add: process_itn_def blind_request blind_funding Let_def)

lemma blind_itn: "blind_run (payfast_itn std cfg now form)"
  by (simp add: blind_run_def payfast_itn_def blind_process_itn find_deposit_def Let_def split: option.split)

lemma blind_upsert: "blind (upsert_fixture i now p)"
  unfolding upsert_fixture_def create_fixture_def update_fixture_def bind_names_def by (intro blind_steps)

definition rebind :: "user list \<Rightarrow> db option \<Rightarrow> db option" where
  "rebind us = map_option (\<lambda>s. s\<lparr>users := us\<rparr>)"

lemma blind_payloads:
  "process_payloads clock n ps r (rebind us d) =
     (fst (process_payloads clock n ps r d), rebind us (snd (process_payloads clock n ps r d)))"
proof (induction ps arbitrary: n r d)
  case (Cons p ps)
  have "upsert_fixture i now p (s\<lparr>users := us\<rparr>) =
     (case upsert_fixture i now p s of Inl e \<Rightarrow> Inl e | Inr (x, s') \<Rightarrow> Inr (x, s'\<lparr>users := us\<rparr>))" for i now s
    using blind_upsert by (simp add: blind_def)
  then show ?case
    using Cons [of _ _ None] Cons [of _ _ "Some _"] by (cases d) (auto simp: rebind_def split: sum.split)
qed simp

lemma blind_sync: "blind_run (sync_request pr clock now job)"
proof -
  have job: "sync_job_run pr clock now job (s\<lparr>users := us\<rparr>) =
      (fst (sync_job_run pr clock now job s), rebind us (snd (sync_job_run pr clock now job s)))" for s us
    using blind_payloads [where d = "Some s"]
    by (cases job) (auto simp: sync_job_run_def sync_upcoming_def sync_results_def sync_live_def sync_fetched_def
        rebind_def split: option.split)
  show ?thesis
    unfolding blind_run_def sync_request_def job by (auto simp: rebind_def split: prod.split option.split)
qed

section \<open>Two databases that differ in the hashes\<close>

definition public_part :: "user \<Rightarrow> user" where
  "public_part u = u\<lparr>password_hash := []\<rparr>"

definition twin :: "db \<Rightarrow> db \<Rightarrow> bool" where
  "twin s t \<longleftrightarrow> t = s\<lparr>users := users t\<rparr> \<and> map public_part (users t) = map public_part (users s)"

definition secret :: "(db \<Rightarrow> response \<times> db) \<Rightarrow> (db \<Rightarrow> response \<times> db) \<Rightarrow> bool" where
  "secret F G \<longleftrightarrow> (\<forall>s t. twin s t \<longrightarrow> fst (F s) = fst (G t) \<and> twin (snd (F s)) (snd (G t)))"

lemma blind_twins:
  assumes "blind_run F" and "twin s t"
  shows "fst (F s) = fst (F t) \<and> twin (snd (F s)) (snd (F t))"
proof -
  have t: "t = s\<lparr>users := users t\<rparr>" using assms(2) by (simp add: twin_def)
  have "F (s\<lparr>users := users s\<rparr>) = (fst (F s), snd (F s)\<lparr>users := users s\<rparr>)" by (rule blind_runD [OF assms(1)])
  then have u: "users (snd (F s)) = users s" by (simp add: prod_eq_iff) (metis db.select_convs(1) db.surjective db.update_convs(1))
  have "F t = (fst (F s), snd (F s)\<lparr>users := users t\<rparr>)" by (subst t, rule blind_runD [OF assms(1)])
  with u assms(2) show ?thesis by (simp add: twin_def)
qed

lemma secret_same: "secret (\<lambda>s. (resp, s)) (\<lambda>s. (resp, s))"
  by (simp add: secret_def)

lemma secret_run:
  assumes "blind_run F"
  shows "secret (\<lambda>s. answer code f (F s)) (\<lambda>s. answer code f (F s))"
  unfolding secret_def
proof (intro allI impI)
  fix s t
  assume "twin s t"
  note t = blind_twins [OF assms this]
  then have "fst (answer code f (F s)) = fst (answer code f (F t))"
    by (cases "F s"; cases "F t") (auto simp: answer_def split: sum.split)
  with t show "fst (answer code f (F s)) = fst (answer code f (F t)) \<and>
      twin (snd (answer code f (F s))) (snd (answer code f (F t)))" by simp
qed

lemma secret_session: "blind m \<Longrightarrow> secret (in_session code f m) (in_session code f m)"
  unfolding in_session_def [abs_def] by (rule secret_run) (rule blind_transact)

lemma secret_with_valid: "(\<And>x. secret (h x) (k x)) \<Longrightarrow> secret (with_valid b h) (with_valid b k)"
  by (cases b) (simp_all add: secret_def with_valid_def)

lemma secret_rate_limited: "secret h k \<Longrightarrow> secret (rate_limited E h) (rate_limited E k)"
  by (simp add: secret_def rate_limited_def)

lemma secret_when_enabled: "secret h k \<Longrightarrow> secret (when_provider_enabled E h) (when_provider_enabled E k)"
  by (simp add: secret_def when_provider_enabled_def)

text \<open>Finding a user finds the same one, up to the hash.\<close>

lemma public_key: "public_part u = public_part v \<Longrightarrow> user_id u = user_id v" "public_part u = public_part v \<Longrightarrow> email u = email v"
  "public_part u = public_part v \<Longrightarrow> urole u = urole v"
  by (cases u; cases v; simp add: public_part_def)+

lemma public_split: "public_part u = public_part v \<Longrightarrow> \<exists>h. v = u\<lparr>password_hash := h\<rparr>"
  by (cases u; cases v) (simp add: public_part_def)

lemma find_alike:
  assumes "map g xs = map g ys" and "\<And>x y. g x = g y \<Longrightarrow> P x = P y"
  shows "map_option g (find P xs) = map_option g (find P ys)"
  using assms(1)
proof (induction xs arbitrary: ys)
  case (Cons x xs)
  then obtain y zs where "ys = y # zs" by (cases ys) auto
  with Cons show ?case using assms(2) [of x y] by simp
qed simp

lemma find_user_alike: "twin s t \<Longrightarrow> map_option public_part (find_user s u) = map_option public_part (find_user t u)"
  unfolding find_user_def row_get_def by (rule find_alike) (auto simp: twin_def dest: public_key)

lemma find_email_alike: "twin s t \<Longrightarrow> map_option public_part (find_by_email s e) = map_option public_part (find_by_email t e)"
  unfolding find_by_email_def by (rule find_alike) (auto simp: twin_def dest: public_key)

lemma load_user_alike:
  "twin s t \<Longrightarrow> (\<exists>e. load_user i s = Inl e \<and> load_user i t = Inl e) \<or>
     (\<exists>u v. load_user i s = Inr (u, s) \<and> load_user i t = Inr (v, t) \<and> public_part u = public_part v)"
  using find_user_alike [of s t i]
  by (cases "find_user s i"; cases "find_user t i")
     (auto simp: load_user_def bind_tx_def gets_def require_some_def throw_def ret_def)

lemma current_user_alike:
  assumes "twin s t"
  shows "(\<exists>e. get_current_user std lib cfg now c s = Inl e \<and> get_current_user std lib cfg now c t = Inl e) \<or>
    (\<exists>u h. get_current_user std lib cfg now c s = Inr (u, s) \<and>
       get_current_user std lib cfg now c t = Inr (u\<lparr>password_hash := h\<rparr>, t))"
proof -
  let ?m = "get_current_user std lib cfg now c"
  have "(\<exists>e. ?m = throw e) \<or> (\<exists>i. ?m = load_user i)"
    by (auto simp: get_current_user_def user_of_token_def split: option.split sum.split)
  then show ?thesis
    using load_user_alike [OF assms] public_split by (elim disjE exE) (auto simp: throw_def, blast)
qed

lemma secret_as_user:
  assumes "\<And>u p. secret (h u) (h (u\<lparr>password_hash := p\<rparr>))"
  shows "secret (as_user E c h) (as_user E c h)"
  unfolding secret_def
proof (intro allI impI)
  fix s t
  assume st: "twin s t"
  show "fst (as_user E c h s) = fst (as_user E c h t) \<and> twin (snd (as_user E c h s)) (snd (as_user E c h t))"
    using current_user_alike [OF st, of "e_std E" "e_auth E" "e_cfg E" "e_token_clock E" c] assms st
    by (auto simp: as_user_def secret_def)
qed

lemma secret_as_admin:
  assumes "\<And>u p. secret (h u) (h (u\<lparr>password_hash := p\<rparr>))"
  shows "secret (as_admin E c h) (as_admin E c h)"
  unfolding secret_def
proof (intro allI impI)
  fix s t
  assume st: "twin s t"
  show "fst (as_admin E c h s) = fst (as_admin E c h t) \<and> twin (snd (as_admin E c h s)) (snd (as_admin E c h t))"
    using current_user_alike [OF st, of "e_std E" "e_auth E" "e_cfg E" "e_token_clock E" c] assms st
    by (auto simp: as_admin_def get_current_admin_def bind_tx_def seq_tx_def raise_if_def throw_def ret_def secret_def)
qed

lemma secret_pair: "(\<And>a b. secret (f a b) (g a b)) \<Longrightarrow> secret (case p of (a, b) \<Rightarrow> f a b) (case p of (a, b) \<Rightarrow> g a b)"
  by (cases p) simp

text \<open>The services that take the whole user use what is public of it.\<close>

lemma hash_ignored [simp]:
  "create_bet cfg now i (u\<lparr>password_hash := h\<rparr>) m p st = create_bet cfg now i u m p st"
  "accept_bet now (u\<lparr>password_hash := h\<rparr>) b q = accept_bet now u b q"
  "cancel_bet (u\<lparr>password_hash := h\<rparr>) b = cancel_bet u b"
  "user_response_of (u\<lparr>password_hash := h\<rparr>) = user_response_of u"
  by (simp_all add: create_bet_def new_bet_def accept_bet_def cancel_bet_def cancel_with_def [abs_def]
      user_response_of_def)

lemmas secret_parts = secret_with_valid secret_pair secret_session secret_same secret_rate_limited secret_when_enabled

lemma secret_user_endpoints:
  "secret (get_me E c) (get_me E c)" "secret (list_matches E c p st cn) (list_matches E c p st cn)"
  "secret (get_match E c m) (get_match E c m)" "secret (open_bets_endpoint E c p) (open_bets_endpoint E c p)"
  "secret (get_my_bets E c p bs) (get_my_bets E c p bs)" "secret (create_bet_endpoint E c j) (create_bet_endpoint E c j)"
  "secret (get_bet E c b) (get_bet E c b)" "secret (accept_bet_endpoint E c b j) (accept_bet_endpoint E c b j)"
  "secret (cancel_bet_endpoint E c b) (cancel_bet_endpoint E c b)"
  unfolding user_endpoints by (rule secret_as_user; simp; intro secret_parts blind_steps)+

lemma secret_fund_endpoints:
  "secret (get_wallet_endpoint E c) (get_wallet_endpoint E c)" "secret (get_transactions E c p) (get_transactions E c p)"
  "secret (initiate_deposit E c j) (initiate_deposit E c j)"
  "secret (create_deposit_endpoint E c j) (create_deposit_endpoint E c j)"
  "secret (list_deposits_endpoint E c p) (list_deposits_endpoint E c p)"
  "secret (get_deposit_endpoint E c i) (get_deposit_endpoint E c i)"
  "secret (create_withdrawal_endpoint E c j) (create_withdrawal_endpoint E c j)"
  "secret (list_withdrawals_endpoint E c p) (list_withdrawals_endpoint E c p)"
  "secret (get_withdrawal_endpoint E c i) (get_withdrawal_endpoint E c i)"
  unfolding user_endpoints by (rule secret_as_user; simp; intro secret_parts blind_steps)+

lemma secret_sync_body:
  "secret (\<lambda>s. case sync_request pr clock now job s of (r, s') \<Rightarrow> (answered 200 (b_sync r), s'))
     (\<lambda>s. case sync_request pr clock now job s of (r, s') \<Rightarrow> (answered 200 (b_sync r), s'))"
  unfolding secret_def using blind_twins [OF blind_sync, of _ _ pr clock now job]
  by (fastforce split: prod.split)

lemma secret_admin_endpoints:
  "secret (list_pending_settlement_bets E c mm) (list_pending_settlement_bets E c mm)"
  "secret (manually_settle_bet E c b) (manually_settle_bet E c b)" "secret (void_bet_endpoint E c b j) (void_bet_endpoint E c b j)"
  "secret (confirm_match_result E c m j) (confirm_match_result E c m j)"
  unfolding confirm_match_result_def list_pending_settlement_bets_def manually_settle_bet_def void_bet_endpoint_def
  by (rule secret_as_admin; simp?; intro secret_parts blind_steps secret_run blind_confirm blind_single)+

lemma secret_sync_endpoint: "secret (sync_endpoint E c sb jb) (sync_endpoint E c sb jb)"
  unfolding sync_endpoint_def by (intro secret_as_admin secret_parts secret_sync_body)

lemma secret_admin_funding:
  "secret (admin_list_deposits E c p ds) (admin_list_deposits E c p ds)"
  "secret (admin_complete_deposit E c i j) (admin_complete_deposit E c i j)"
  "secret (admin_fail_deposit E c i j) (admin_fail_deposit E c i j)"
  "secret (admin_verify_deposit E c i j) (admin_verify_deposit E c i j)"
  "secret (admin_list_withdrawals E c p ws) (admin_list_withdrawals E c p ws)"
  "secret (admin_approve_withdrawal E c i) (admin_approve_withdrawal E c i)"
  "secret (admin_reject_withdrawal E c i j) (admin_reject_withdrawal E c i j)"
  "secret (admin_complete_withdrawal E c i) (admin_complete_withdrawal E c i)"
  "secret (admin_fail_withdrawal E c i j) (admin_fail_withdrawal E c i j)"
  unfolding admin_endpoints by (rule secret_as_admin; simp?; intro secret_parts blind_steps)+

section \<open>Registration and passwords\<close>

lemma twin_email_found: "twin s t \<Longrightarrow> find_by_email s e = None \<longleftrightarrow> find_by_email t e = None"
  using find_email_alike [of s t e] by (cases "find_by_email s e"; cases "find_by_email t e") auto

lemma twin_user_found: "twin s t \<Longrightarrow> find_user s i = None \<longleftrightarrow> find_user t i = None"
  using find_user_alike [of s t i] by (cases "find_user s i"; cases "find_user t i") auto

lemma twinE:
  assumes "twin s t"
  obtains us where "t = s\<lparr>users := us\<rparr>" and "map public_part us = map public_part (users s)"
  using assms by (auto simp: twin_def)

lemma twin_users: "twin s (s\<lparr>users := us\<rparr>) \<longleftrightarrow> map public_part us = map public_part (users s)"
  by (simp add: twin_def)

definition alike :: "'a dbtx \<Rightarrow> bool" where
  "alike m \<longleftrightarrow> (\<forall>s t. twin s t \<longrightarrow> (case m s of
       Inl e \<Rightarrow> m t = Inl e
     | Inr (x, s') \<Rightarrow> (\<exists>t'. m t = Inr (x, t') \<and> twin s' t')))"

lemma alike_blind: "blind m \<Longrightarrow> alike m"
  unfolding alike_def
proof (intro allI impI)
  fix s t
  assume m: "blind m" and st: "twin s t"
  note tw = blind_twins [OF blind_transact [OF m] st]
  obtain us where t: "t = s\<lparr>users := us\<rparr>" by (rule twinE [OF st])
  have mt: "m t = (case m s of Inl e \<Rightarrow> Inl e | Inr (x, s') \<Rightarrow> Inr (x, s'\<lparr>users := us\<rparr>))"
    using m by (simp add: blind_def t)
  show "case m s of Inl e \<Rightarrow> m t = Inl e | Inr (x, s') \<Rightarrow> (\<exists>t'. m t = Inr (x, t') \<and> twin s' t')"
    using tw by (auto simp: mt transact_def twin_def split: sum.split)
qed

lemma alike_bind: "alike m \<Longrightarrow> (\<And>x. alike (f x)) \<Longrightarrow> alike (bind_tx m f)"
  unfolding alike_def bind_tx_def by (fastforce split: sum.splits prod.splits)

lemma alike_seq: "alike m \<Longrightarrow> alike n \<Longrightarrow> alike (seq_tx m n)"
  unfolding seq_tx_def by (rule alike_bind)

lemma secret_alike:
  assumes "alike m"
  shows "secret (in_session code f m) (in_session code f m)"
  unfolding secret_def
proof (intro allI impI)
  fix s t
  assume st: "twin s t"
  with assms have m: "case m s of Inl e \<Rightarrow> m t = Inl e | Inr (x, s') \<Rightarrow> (\<exists>t'. m t = Inr (x, t') \<and> twin s' t')"
    by (simp add: alike_def)
  have locks: "twin a b \<Longrightarrow> twin (a\<lparr>row_locks := []\<rparr>) (b\<lparr>row_locks := []\<rparr>)" for a b
    by (erule twinE) (simp add: twin_def)
  show "fst (in_session code f m s) = fst (in_session code f m t) \<and>
      twin (snd (in_session code f m s)) (snd (in_session code f m t))"
    using m locks st by (auto simp: in_session_def answer_def transact_def split: sum.splits)
qed

lemma alike_insert: "alike (insert_user u)"
  unfolding alike_def
proof (intro allI impI)
  fix s t
  assume st: "twin s t"
  obtain us where t: "t = s\<lparr>users := us\<rparr>" "map public_part us = map public_part (users s)" by (rule twinE [OF st])
  have "twin (s\<lparr>users := users s @ [u]\<rparr>) (s\<lparr>users := us @ [u]\<rparr>)" using t(2) by (simp add: twin_def)
  then show "case insert_user u s of Inl e \<Rightarrow> insert_user u t = Inl e
      | Inr (x, s') \<Rightarrow> (\<exists>t'. insert_user u t = Inr (x, t') \<and> twin s' t')"
    using twin_user_found [OF st, of "user_id u"] twin_email_found [OF st, of "email u"] t(1)
    by (auto simp: insert_user_def bind_tx_def seq_tx_def gets_def raise_if_def throw_def ret_def modify_def)
qed

lemma alike_unregistered: "alike (bind_tx (get_by_email e) (\<lambda>r. raise_if (r \<noteq> None) err))"
  unfolding alike_def
  by (auto simp: get_by_email_def bind_tx_def gets_def raise_if_def throw_def ret_def
      dest!: twin_email_found [where e = "str_strip (str_lower e)"])

lemma bind_seq_assoc: "bind_tx m (\<lambda>x. seq_tx (f x) n) = seq_tx (bind_tx m f) n"
  by (rule ext) (simp add: bind_tx_def seq_tx_def split: sum.split prod.split)

lemma alike_register: "alike (register std lib cfg now u w salt req)"
  unfolding register_def create_user_def Let_def bind_seq_assoc
  by (intro alike_seq alike_unregistered alike_bind alike_insert alike_blind blind_steps)

lemma alike_forgot: "alike (forgot_password std lib cfg now e)"
  unfolding alike_def
proof (intro allI impI)
  fix s t
  assume st: "twin s t"
  show "case forgot_password std lib cfg now e s of Inl err \<Rightarrow> forgot_password std lib cfg now e t = Inl err
      | Inr (x, s') \<Rightarrow> (\<exists>t'. forgot_password std lib cfg now e t = Inr (x, t') \<and> twin s' t')"
    using find_email_alike [OF st, of "str_strip (str_lower (str_strip (str_lower e)))"] st
    by (auto simp: forgot_password_def get_by_email_def bind_tx_def gets_def ret_def dest!: public_key(1) split: option.splits)
qed

lemma reset_run:
  "verify_password_reset_token std lib cfg now token = Inr u \<Longrightarrow> reset_password std lib cfg now salt token pass s =
     (if find_user s u = None then Inl NotFoundError
      else Inr ((), s\<lparr>users := row_upd user_id u (\<lambda>r. r\<lparr>password_hash := hash_password lib salt pass\<rparr>) (users s)\<rparr>))"
  using row_get_SomeD [of user_id u "users s"]
  by (cases "find_user s u") (simp_all add: reset_password_def get_user_or_404_def flush_user_def bind_tx_def gets_def
      require_some_def throw_def ret_def modify_def find_user_def)

lemma alike_reset: "alike (reset_password std lib cfg now salt token pass)"
  unfolding alike_def
proof (intro allI impI)
  fix s t
  assume st: "twin s t"
  obtain us where t: "t = s\<lparr>users := us\<rparr>" "map public_part us = map public_part (users s)" by (rule twinE [OF st])
  have upd: "map public_part (row_upd user_id k (\<lambda>r. r\<lparr>password_hash := h\<rparr>) vs) = map public_part vs" for k h vs
    by (simp add: row_upd_def public_part_def)
  show "case reset_password std lib cfg now salt token pass s of
        Inl e \<Rightarrow> reset_password std lib cfg now salt token pass t = Inl e
      | Inr (x, s') \<Rightarrow> (\<exists>t'. reset_password std lib cfg now salt token pass t = Inr (x, t') \<and> twin s' t')"
  proof (cases "verify_password_reset_token std lib cfg now token")
    case (Inr u)
    show ?thesis
      using twin_user_found [OF st, of u] t upd by (simp add: reset_run [OF Inr] twin_def)
  qed (simp add: reset_password_def throw_def)
qed

lemma secret_public_endpoints:
  "secret (register_endpoint E j) (register_endpoint E j)"
  "secret (forgot_password_endpoint E j) (forgot_password_endpoint E j)"
  "secret (reset_password_endpoint E j) (reset_password_endpoint E j)"
  unfolding register_endpoint_def forgot_password_endpoint_def reset_password_endpoint_def
  by (intro secret_parts secret_alike alike_register alike_forgot alike_reset)+

lemma secret_itn:
  "secret (\<lambda>s. case payfast_itn std cfg now form s of (x, s') \<Rightarrow> (answered 200 (b_text x), s'))
     (\<lambda>s. case payfast_itn std cfg now form s of (x, s') \<Rightarrow> (answered 200 (b_text x), s'))"
  unfolding secret_def using blind_twins [OF blind_itn, of _ _ std cfg now form] by (fastforce split: prod.split)

text \<open>C30: no answer of the API, the login apart, tells anything about a password hash: two databases that differ in hashes only give
  the same answer to every call, and differ in hashes only after it.\<close>

theorem password_hashes_secret:
  assumes "twin s t"
  shows "fst (handle E c r t) = fst (handle E c r s) \<and> twin (snd (handle E c r s)) (snd (handle E c r t))"
proof -
  have "secret (\<lambda>s. handle E c r s) (\<lambda>s. handle E c r s)"
    by (cases r)
       (simp_all add: secret_user_endpoints secret_fund_endpoints secret_admin_endpoints secret_admin_funding
          secret_public_endpoints secret_itn secret_sync_endpoint sync_upcoming_endpoint_def sync_results_endpoint_def
          sync_live_endpoint_def)
  with assms show ?thesis by (simp add: secret_def)
qed

theorem password_hashes_secret_witness:
  "demo_world\<lparr>users := [alice\<lparr>password_hash := ''other''\<rparr>, bob]\<rparr> \<noteq> demo_world \<and>
   fst (handle (demo_env 31) (bearing ''x'') R_me (demo_world\<lparr>users := [alice\<lparr>password_hash := ''other''\<rparr>, bob]\<rparr>)) =
   fst (handle (demo_env 31) (bearing ''x'') R_me demo_world)"
proof -
  have "twin demo_world (demo_world\<lparr>users := [alice\<lparr>password_hash := ''other''\<rparr>, bob]\<rparr>)"
    by (simp add: twin_def demo_world_def public_part_def)
  moreover have "users (demo_world\<lparr>users := [alice\<lparr>password_hash := ''other''\<rparr>, bob]\<rparr>) \<noteq> users demo_world"
    by (simp add: demo_world_def alice_def)
  ultimately show ?thesis using password_hashes_secret [of demo_world] by metis
qed

end
