(* ===== verification/Application.thy ===== *)
theory Application
  imports Seed Safety Config "HOL-Library.AList"
begin

text \<open>
  Around the API: the options of the application, the middleware of \<^verbatim>\<open>app/main.py\<close> that sets response headers, and the command lines in \<^verbatim>\<open>scripts\<close> that
  run the synchronisation and the seed in one session, commit or roll back, and report an exit code.
\<close>

section \<open>The application\<close>

text \<open>What \<open>create_app\<close> hands to FastAPI and its CORS middleware. \<open>None\<close> is the exception of a list of origins that is no list.\<close>

record app_options =
  docs_url :: "string option"
  redoc_url :: "string option"
  openapi_url :: "string option"
  allow_origins :: "string list"
  allow_credentials :: bool
  allow_methods :: "string list"
  allow_headers :: "string list"

definition create_app :: "loaders \<Rightarrow> settings \<Rightarrow> app_options option" where
  "create_app ld cfg = (case cors_origins ld cfg of
     None \<Rightarrow> None
   | Some origins \<Rightarrow> Some \<lparr>docs_url = (if app_debug cfg then Some ''/docs'' else None),
       redoc_url = (if app_debug cfg then Some ''/redoc'' else None),
       openapi_url = (if app_debug cfg then Some ''/openapi.json'' else None),
       allow_origins = origins, allow_credentials = True,
       allow_methods = [''GET'', ''POST'', ''PUT'', ''DELETE'', ''OPTIONS''],
       allow_headers = [''Authorization'', ''Content-Type'', ''X-Request-ID'']\<rparr>)"

text \<open>The name of the field of a validation error: its path without the leading part that says where it was. An empty path is an
  exception.\<close>

definition error_field :: "string list \<Rightarrow> string option" where
  "error_field loc = (case loc of [] \<Rightarrow> None | [p] \<Rightarrow> Some p | p # ps \<Rightarrow> Some (join_with ''.'' ps))"

text \<open>The settings as declared start only in development; elsewhere the placeholder key is refused. There they allow the two local
  front ends and show the documentation.\<close>

lemma defaults_need_development: "settings_accepted (default_settings\<lparr>app_env := e\<rparr>) \<longleftrightarrow> e = ''development''"
  by (simp add: settings_accepted_def secret_key_accepted_def https_enforced_def default_settings_def insecure_placeholders_def)

lemma default_application:
  "create_app ld default_settings = Some \<lparr>docs_url = Some ''/docs'', redoc_url = Some ''/redoc'', openapi_url = Some ''/openapi.json'',
     allow_origins = [''http://localhost:3000'', ''http://localhost:5173''], allow_credentials = True,
     allow_methods = [''GET'', ''POST'', ''PUT'', ''DELETE'', ''OPTIONS''],
     allow_headers = [''Authorization'', ''Content-Type'', ''X-Request-ID'']\<rparr>"
proof -
  have "\<not> starts_with (str_strip (cors_origins_raw default_settings)) ''[''" by code_simp
  moreover have "nonblank_parts (str_strip (cors_origins_raw default_settings)) = [''http://localhost:3000'', ''http://localhost:5173'']"
    by code_simp
  moreover have "app_debug default_settings" by (simp add: default_settings_def)
  ultimately show ?thesis by (simp add: create_app_def cors_origins_def Let_def)
qed

lemma documentation_hidden:
  "create_app ld cfg = Some a \<Longrightarrow> \<not> app_debug cfg \<Longrightarrow> docs_url a = None \<and> redoc_url a = None \<and> openapi_url a = None"
  by (auto simp: create_app_def split: option.splits)

section \<open>Middleware\<close>

text \<open>Header names are lower case in the ASGI messages; setting a header replaces it.\<close>

type_synonym headers = "(string \<times> string) list"

definition set_header :: "string \<Rightarrow> string \<Rightarrow> headers \<Rightarrow> headers" where
  "set_header name v hs = AList.update (str_lower name) v hs"

definition request_id_headers :: "string \<Rightarrow> headers \<Rightarrow> headers \<Rightarrow> headers" where
  "request_id_headers fresh_id req resp =
     (let request_id = (case map_of req (str_lower ''X-Request-ID'') of None \<Rightarrow> fresh_id | Some x \<Rightarrow> x) in
      set_header ''X-Request-ID'' request_id resp)"

definition docs_paths :: "string list" where
  "docs_paths = [''/docs'', ''/redoc'', ''/openapi.json'']"

definition security_headers :: "settings \<Rightarrow> string \<Rightarrow> headers \<Rightarrow> headers" where
  "security_headers cfg path resp =
     (let h1 = set_header ''X-Content-Type-Options'' ''nosniff'' resp;
          h2 = set_header ''X-Frame-Options'' ''DENY'' h1;
          h3 = set_header ''X-XSS-Protection'' ''1; mode=block'' h2;
          h4 = set_header ''Referrer-Policy'' ''strict-origin-when-cross-origin'' h3;
          h5 = (if path \<notin> set docs_paths then set_header ''Content-Security-Policy'' (''default-src '' @ [CHR 0x27] @ ''none'' @ [CHR 0x27]) h4
                else h4) in
      if app_env cfg = ''production''
      then set_header ''Strict-Transport-Security'' ''max-age=31536000; includeSubDomains; preload'' h5 else h5)"

text \<open>The middleware added last is the outermost. The answer to an unhandled exception is made outside of both.\<close>

definition middleware :: "settings \<Rightarrow> string \<Rightarrow> string \<Rightarrow> headers \<Rightarrow> headers \<Rightarrow> headers" where
  "middleware cfg fresh_id path req resp = request_id_headers fresh_id req (security_headers cfg path resp)"

lemma header_set: "map_of (set_header name v hs) k = (if str_lower name = k then Some v else map_of hs k)"
  by (simp add: set_header_def update_conv')

lemma header_names:
  "str_lower ''X-Request-ID'' = ''x-request-id''" "str_lower ''X-Content-Type-Options'' = ''x-content-type-options''"
  "str_lower ''X-Frame-Options'' = ''x-frame-options''" "str_lower ''X-XSS-Protection'' = ''x-xss-protection''"
  "str_lower ''Referrer-Policy'' = ''referrer-policy''" "str_lower ''Content-Security-Policy'' = ''content-security-policy''"
  "str_lower ''Strict-Transport-Security'' = ''strict-transport-security''"
  by code_simp+

text \<open>Whatever an endpoint answers: it is not sniffed or framed, a page other than the documentation loads nothing, in production
  the browser is told to insist on HTTPS, and the request id of the client comes back.\<close>

lemma response_hardened:
  "map_of (middleware cfg i path req resp) ''x-content-type-options'' = Some ''nosniff''"
  "map_of (middleware cfg i path req resp) ''x-frame-options'' = Some ''DENY''"
  "path \<notin> set docs_paths \<Longrightarrow>
     map_of (middleware cfg i path req resp) ''content-security-policy'' = Some (''default-src '' @ [CHR 0x27] @ ''none'' @ [CHR 0x27])"
  "app_env cfg = ''production'' \<Longrightarrow> map_of (middleware cfg i path req resp) ''strict-transport-security'' =
     Some ''max-age=31536000; includeSubDomains; preload''"
  "map_of (middleware cfg i path req resp) ''x-request-id'' =
     Some (case map_of req ''x-request-id'' of None \<Rightarrow> i | Some x \<Rightarrow> x)"
  by (simp_all add: middleware_def request_id_headers_def security_headers_def Let_def header_set header_names)

section \<open>The synchronisation from the command line\<close>

datatype script_mode = mode_upcoming | mode_results | mode_live | mode_all

text \<open>One service, one session: it may have been lost by a job before (\<open>None\<close>).\<close>

definition sync_stage ::
  "(nat \<Rightarrow> uuid \<times> datetime) \<Rightarrow> match_payload list option \<Rightarrow> sync_result \<Rightarrow> db option \<Rightarrow> sync_result \<times> db option" where
  "sync_stage clock fetched r session = (case fetched of
     None \<Rightarrow> (r\<lparr>sync_errors := sync_errors r @ [fetch_failed]\<rparr>, session)
   | Some ps \<Rightarrow> process_payloads clock 0 ps (r\<lparr>fixtures_fetched := length ps\<rparr>) session)"

definition stage_if ::
  "bool \<Rightarrow> (nat \<Rightarrow> uuid \<times> datetime) \<Rightarrow> match_payload list option \<Rightarrow> sync_result \<Rightarrow>
   sync_result list \<times> db option \<Rightarrow> sync_result list \<times> db option" where
  "stage_if wanted clock fetched r st =
     (if wanted then (case sync_stage clock fetched r (snd st) of (q, session) \<Rightarrow> (fst st @ [q], session)) else st)"

text \<open>\<open>days or settings...\<close>: a zero counts as missing.\<close>

definition script_days :: "int option \<Rightarrow> int \<Rightarrow> int" where
  "script_days d dflt = (case d of None \<Rightarrow> dflt | Some k \<Rightarrow> if k = 0 then dflt else k)"

definition script_stages ::
  "settings \<Rightarrow> provider \<Rightarrow> (script_mode \<Rightarrow> nat \<Rightarrow> uuid \<times> datetime) \<Rightarrow> datetime \<Rightarrow> script_mode \<Rightarrow> int option \<Rightarrow>
   sync_result list \<times> db option \<Rightarrow> sync_result list \<times> db option" where
  "script_stages cfg api_football clock now mode days st =
     stage_if (mode = mode_live \<or> mode = mode_all) (clock mode_live) (fetch_live_fixtures api_football None)
       (new_result api_football now)
    (stage_if (mode = mode_results \<or> mode = mode_all) (clock mode_results)
       (fetch_results api_football (script_days days (sports_provider_sync_days_back cfg)) None) (new_result api_football now)
    (stage_if (mode = mode_upcoming \<or> mode = mode_all) (clock mode_upcoming)
       (fetch_upcoming_fixtures api_football (script_days days (sports_provider_sync_days_ahead cfg)) None)
       (new_result api_football now) st))"

text \<open>The results that are printed, the exit code and the database. The provider is API-Football whatever the settings say.\<close>

definition sync_script ::
  "settings \<Rightarrow> provider \<Rightarrow> (script_mode \<Rightarrow> nat \<Rightarrow> uuid \<times> datetime) \<Rightarrow> datetime \<Rightarrow> script_mode \<Rightarrow> int option \<Rightarrow> db \<Rightarrow>
   sync_result list \<times> int \<times> db" where
  "sync_script cfg api_football clock now mode days s =
     (if \<not> sports_provider_enabled cfg then ([], 1, s)
      else if sports_provider_api_key cfg = [] then ([], 1, s)
      else case script_stages cfg api_football clock now mode days ([], Some s) of
          (results, Some s') \<Rightarrow> (results, 0, s')
        | (results, None) \<Rightarrow> (results, 1, s))"

definition seed_script ::
  "auth_lib \<Rightarrow> settings \<Rightarrow> datetime \<Rightarrow> uuid \<Rightarrow> uuid \<Rightarrow> string \<Rightarrow> (match_fixture \<Rightarrow> uuid) \<Rightarrow> db \<Rightarrow> int \<times> db" where
  "seed_script lib cfg now new_user_id new_wallet_id salt new_match_id s =
     (case transact (seed_all lib cfg now new_user_id new_wallet_id salt new_match_id) s of
        (Inl e, s') \<Rightarrow> (1, s')
      | (Inr x, s') \<Rightarrow> (0, s'))"

text \<open>The script stores all it fetched and reports success, or nothing and reports failure.\<close>

lemma stage_kept:
  assumes "stage_if w clock fetched r (rs, session) = (rs', Some s')"
  shows "\<exists>s. session = Some s \<and> safe s s' \<and> (list_all (\<lambda>q. n_failed q = 0) rs \<longrightarrow> n_failed r = 0 \<longrightarrow> list_all (\<lambda>q. n_failed q = 0) rs')"
proof (cases "w \<and> fetched \<noteq> None")
  case False
  with assms show ?thesis by (auto simp: stage_if_def sync_stage_def safely.R_refl split: if_splits option.splits)
next
  case True
  then obtain ps where ps: "fetched = Some ps" by blast
  obtain q where q: "process_payloads clock 0 ps (r\<lparr>fixtures_fetched := length ps\<rparr>) session = (q, Some s')" "rs' = rs @ [q]"
    using assms True by (auto simp: stage_if_def sync_stage_def ps split: prod.splits)
  then obtain s where s: "session = Some s" using payloads_lost by (metis not_Some_eq option.distinct(1) snd_conv)
  have "safe s s'"
    by (rule process_payloads_rel [of safe, OF safely.R_refl safe_chain keepsD [OF upsert_safe] q(1) [unfolded s]])
  moreover have "n_failed q = n_failed r" using payloads_failures [OF q(1) [unfolded s]] by simp
  ultimately show ?thesis using s q(2) by auto
qed

lemma sync_script_all_or_nothing:
  assumes "sync_script cfg pr clock now mode days s = (rs, code, s')"
  shows "(code = 0 \<longrightarrow> safe s s' \<and> list_all (\<lambda>q. n_failed q = 0) rs) \<and> (code \<noteq> 0 \<longrightarrow> s' = s)"
proof -
  have "safe s s' \<and> list_all (\<lambda>q. n_failed q = 0) rs" if "code = 0"
  proof -
    let ?r = "new_result pr now"
    have run: "script_stages cfg pr clock now mode days ([], Some s) = (rs, Some s')"
      using assms that by (auto simp: sync_script_def split: if_splits option.splits prod.splits)
    obtain w1 a1 f1 w2 a2 f2 w3 a3 f3 where
      st: "stage_if w3 a3 f3 ?r (stage_if w2 a2 f2 ?r (stage_if w1 a1 f1 ?r ([], Some s))) = (rs, Some s')"
      using run unfolding script_stages_def by blast
    obtain rs1 ss1 where 1: "stage_if w1 a1 f1 ?r ([], Some s) = (rs1, ss1)" by force
    obtain rs2 ss2 where 2: "stage_if w2 a2 f2 ?r (rs1, ss1) = (rs2, ss2)" by force
    have 3: "stage_if w3 a3 f3 ?r (rs2, ss2) = (rs, Some s')" using st 1 2 by simp
    obtain s2 where s2: "ss2 = Some s2" using stage_kept [OF 3] by blast
    obtain s1 where s1: "ss1 = Some s1" using stage_kept [OF 2 [unfolded s2]] by blast
    have "n_failed ?r = 0" by (simp add: new_result_def)
    then show ?thesis
      using stage_kept [OF 1 [unfolded s1]] stage_kept [OF 2 [unfolded s2]] stage_kept [OF 3] s1 s2
      by (auto intro: safe_chain)
  qed
  then show ?thesis
    using assms by (auto simp: sync_script_def split: if_splits option.splits prod.splits)
qed

end
