(* ===== verification/Migrations.thy ===== *)
theory Migrations
  imports Models "HOL-Library.AList"
begin

text \<open>
  The migrations of \<^verbatim>\<open>alembic/versions\<close>: a catalogue of enumeration types, tables and indexes, the DDL statements the
  scripts issue with what PostgreSQL refuses (\<open>None\<close>), and the three scripts, up and down. Triggers, comments, CHECK constraints
  and the indexes behind primary keys are not in the catalogue.
\<close>

section \<open>The catalogue\<close>

datatype column_type =
    T_uuid | T_varchar nat | T_char nat | T_text | T_numeric nat nat | T_timestamptz | T_integer | T_jsonb | T_enum string

text \<open>A reference names a table, a column and whether deletes cascade.\<close>

record column =
  col_name :: string
  col_type :: column_type
  nullable :: bool
  server_default :: "string option"
  references :: "(string \<times> string \<times> bool) option"

record index =
  on_table :: string
  on_columns :: "string list"
  unique_index :: bool

record catalog =
  enum_types :: "(string \<times> string list) list"
  tables :: "(string \<times> column list) list"
  indexes :: "(string \<times> index) list"

definition column :: "string \<Rightarrow> column_type \<Rightarrow> bool \<Rightarrow> column" where
  "column n ty null = \<lparr>col_name = n, col_type = ty, nullable = null, server_default = None, references = None\<rparr>"

definition with_default :: "string \<Rightarrow> column \<Rightarrow> column" where
  "with_default d c = c\<lparr>server_default := Some d\<rparr>"

definition referring :: "string \<Rightarrow> string \<Rightarrow> bool \<Rightarrow> column \<Rightarrow> column" where
  "referring t k cascade c = c\<lparr>references := Some (t, k, cascade)\<rparr>"

definition column_names :: "column list \<Rightarrow> string list" where
  "column_names = map col_name"

definition has_column :: "catalog \<Rightarrow> string \<Rightarrow> string \<Rightarrow> bool" where
  "has_column s t k \<longleftrightarrow> (case map_of (tables s) t of None \<Rightarrow> False | Some cs \<Rightarrow> k \<in> set (column_names cs))"

section \<open>Statements\<close>

datatype ddl =
    Create_Enum string "string list"
  | Create_Enum_If_Missing string "string list"
  | Drop_Enum_If_Exists string
  | Add_Value_If_Not_Exists string string
  | Create_Table string "column list"
  | Drop_Table string
  | Add_Column string column
  | Drop_Column string string
  | Create_Index string string "string list"
  | Drop_Index string
  | Add_Unique string string "string list"

text \<open>A table makes a row type of its name; tables and indexes share one name space.\<close>

definition type_taken :: "catalog \<Rightarrow> string \<Rightarrow> bool" where
  "type_taken s n \<longleftrightarrow> n \<in> set (map fst (enum_types s)) \<or> n \<in> set (map fst (tables s))"

definition relation_taken :: "catalog \<Rightarrow> string \<Rightarrow> bool" where
  "relation_taken s n \<longleftrightarrow> n \<in> set (map fst (tables s)) \<or> n \<in> set (map fst (indexes s))"

definition column_fits :: "catalog \<Rightarrow> column \<Rightarrow> bool" where
  "column_fits s c \<longleftrightarrow>
     (case col_type c of T_enum e \<Rightarrow> e \<in> set (map fst (enum_types s)) | _ \<Rightarrow> True) \<and>
     (case references c of None \<Rightarrow> True | Some (t, k, cascade) \<Rightarrow> has_column s t k)"

definition refers_to :: "string \<Rightarrow> column \<Rightarrow> bool" where
  "refers_to t c \<longleftrightarrow> (case references c of None \<Rightarrow> False | Some (t', k, cascade) \<Rightarrow> t' = t)"

definition refers_to_column :: "string \<Rightarrow> string \<Rightarrow> column \<Rightarrow> bool" where
  "refers_to_column t k c \<longleftrightarrow> (case references c of None \<Rightarrow> False | Some (t', k', cascade) \<Rightarrow> t' = t \<and> k' = k)"

definition create_index_on :: "string \<Rightarrow> string \<Rightarrow> string list \<Rightarrow> bool \<Rightarrow> catalog \<Rightarrow> catalog option" where
  "create_index_on n t ks u s =
     (if relation_taken s n \<or> \<not> list_all (has_column s t) ks \<or> ks = [] then None
      else Some (s\<lparr>indexes := indexes s @ [(n, \<lparr>on_table = t, on_columns = ks, unique_index = u\<rparr>)]\<rparr>))"

fun exec_ddl :: "ddl \<Rightarrow> catalog \<Rightarrow> catalog option" where
  "exec_ddl (Create_Enum n vs) s =
     (if type_taken s n \<or> \<not> distinct vs then None else Some (s\<lparr>enum_types := enum_types s @ [(n, vs)]\<rparr>))"
| "exec_ddl (Create_Enum_If_Missing n vs) s =
     (if type_taken s n then Some s
      else if \<not> distinct vs then None else Some (s\<lparr>enum_types := enum_types s @ [(n, vs)]\<rparr>))"
| "exec_ddl (Drop_Enum_If_Exists n) s =
     (if list_ex (list_ex (\<lambda>c. col_type c = T_enum n) \<circ> snd) (tables s) then None
      else Some (s\<lparr>enum_types := AList.delete n (enum_types s)\<rparr>))"
| "exec_ddl (Add_Value_If_Not_Exists n v) s = (case map_of (enum_types s) n of
     None \<Rightarrow> None
   | Some vs \<Rightarrow> if v \<in> set vs then Some s else Some (s\<lparr>enum_types := AList.update n (vs @ [v]) (enum_types s)\<rparr>))"
| "exec_ddl (Create_Table t cs) s =
     (if relation_taken s t \<or> type_taken s t \<or> \<not> distinct (column_names cs) \<or> \<not> list_all (column_fits s) cs then None
      else Some (s\<lparr>tables := tables s @ [(t, cs)]\<rparr>))"
| "exec_ddl (Drop_Table t) s =
     (if t \<notin> set (map fst (tables s)) \<or> list_ex (list_ex (refers_to t) \<circ> snd) (AList.delete t (tables s)) then None
      else Some (s\<lparr>tables := AList.delete t (tables s), indexes := filter (\<lambda>(n, i). on_table i \<noteq> t) (indexes s)\<rparr>))"
| "exec_ddl (Add_Column t c) s = (case map_of (tables s) t of
     None \<Rightarrow> None
   | Some cs \<Rightarrow> if col_name c \<in> set (column_names cs) \<or> \<not> column_fits s c \<or> (\<not> nullable c \<and> server_default c = None) then None
       else Some (s\<lparr>tables := AList.update t (cs @ [c]) (tables s)\<rparr>))"
| "exec_ddl (Drop_Column t k) s = (case map_of (tables s) t of
     None \<Rightarrow> None
   | Some cs \<Rightarrow> if k \<notin> set (column_names cs) \<or> list_ex (list_ex (refers_to_column t k) \<circ> snd) (tables s) then None
       else Some (s\<lparr>tables := AList.update t (filter (\<lambda>c. col_name c \<noteq> k) cs) (tables s),
          indexes := filter (\<lambda>(n, i). \<not> (on_table i = t \<and> k \<in> set (on_columns i))) (indexes s)\<rparr>))"
| "exec_ddl (Create_Index n t ks) s = create_index_on n t ks False s"
| "exec_ddl (Drop_Index n) s = (case map_of (indexes s) n of
     None \<Rightarrow> None
   | Some i \<Rightarrow> if unique_index i then None else Some (s\<lparr>indexes := AList.delete n (indexes s)\<rparr>))"
| "exec_ddl (Add_Unique n t ks) s = create_index_on n t ks True s"

fun run_ddl :: "ddl list \<Rightarrow> catalog \<Rightarrow> catalog option" where
  "run_ddl [] s = Some s"
| "run_ddl (d # ds) s = (case exec_ddl d s of None \<Rightarrow> None | Some s' \<Rightarrow> run_ddl ds s')"


section \<open>The scripts\<close>

text \<open>
  \<open>op.create_table\<close> also creates the types of its \<open>sa.Enum\<close> columns, without looking whether they exist. The scripts pass
  \<open>create_type=False\<close>, an option of the PostgreSQL \<open>ENUM\<close>: \<open>emits\<close> says that the library ignores it on \<open>sa.Enum\<close>.
\<close>

definition op_create_table :: "bool \<Rightarrow> string \<Rightarrow> (string \<times> string list) list \<Rightarrow> column list \<Rightarrow> ddl list" where
  "op_create_table emits t enums cs = (if emits then map (\<lambda>(n, vs). Create_Enum n vs) enums else []) @ [Create_Table t cs]"

definition upgrade_001 :: "ddl list" where
  "upgrade_001 =
     [Add_Column ''matches'' (column ''provider_name'' (T_varchar 50) True),
      Add_Column ''matches'' (column ''last_synced_at'' T_timestamptz True),
      Create_Index ''ix_matches_provider_name'' ''matches'' [''provider_name'']]"

definition downgrade_001 :: "ddl list" where
  "downgrade_001 =
     [Drop_Index ''ix_matches_provider_name'',
      Drop_Column ''matches'' ''last_synced_at'',
      Drop_Column ''matches'' ''provider_name'']"

definition deposit_labels :: "string list" where
  "deposit_labels = [''pending'', ''processing'', ''completed'', ''failed'', ''cancelled'']"

definition withdrawal_labels :: "string list" where
  "withdrawal_labels = [''pending'', ''approved'', ''processing'', ''completed'', ''failed'', ''rejected'']"

definition deposit_columns :: "column list" where
  "deposit_columns =
     [column ''id'' T_uuid False,
      referring ''users'' ''id'' True (column ''user_id'' T_uuid False),
      referring ''wallets'' ''id'' True (column ''wallet_id'' T_uuid False),
      column ''amount'' (T_numeric 15 2) False,
      with_default ''ZAR'' (column ''currency'' (T_varchar 3) False),
      with_default ''pending'' (column ''status'' (T_enum ''deposit_status'') False),
      column ''payment_provider'' (T_varchar 50) True,
      column ''provider_reference'' (T_varchar 200) True,
      column ''client_reference'' (T_varchar 200) True,
      column ''notes'' T_text True,
      with_default ''now()'' (column ''requested_at'' T_timestamptz False),
      column ''completed_at'' T_timestamptz True,
      column ''failed_at'' T_timestamptz True]"

definition withdrawal_columns :: "column list" where
  "withdrawal_columns =
     [column ''id'' T_uuid False,
      referring ''users'' ''id'' True (column ''user_id'' T_uuid False),
      referring ''wallets'' ''id'' True (column ''wallet_id'' T_uuid False),
      column ''amount'' (T_numeric 15 2) False,
      with_default ''ZAR'' (column ''currency'' (T_varchar 3) False),
      with_default ''pending'' (column ''status'' (T_enum ''withdrawal_status'') False),
      column ''destination_account'' (T_varchar 200) True,
      column ''destination_type'' (T_varchar 50) True,
      column ''provider_reference'' (T_varchar 200) True,
      column ''rejection_reason'' T_text True,
      with_default ''now()'' (column ''requested_at'' T_timestamptz False),
      column ''approved_at'' T_timestamptz True,
      column ''completed_at'' T_timestamptz True,
      column ''failed_at'' T_timestamptz True]"

definition hold_label_statements :: "ddl list" where
  "hold_label_statements =
     [Add_Value_If_Not_Exists ''ledger_entry_type'' ''WITHDRAWAL_HOLD'',
      Add_Value_If_Not_Exists ''ledger_entry_type'' ''WITHDRAWAL_RELEASE'']"

definition status_type_statements :: "ddl list" where
  "status_type_statements =
     [Create_Enum_If_Missing ''deposit_status'' deposit_labels,
      Create_Enum_If_Missing ''withdrawal_status'' withdrawal_labels]"

definition deposit_indexes :: "ddl list" where
  "deposit_indexes =
     [Create_Index ''ix_deposit_requests_user_id'' ''deposit_requests'' [''user_id''],
      Create_Index ''ix_deposit_requests_wallet_id'' ''deposit_requests'' [''wallet_id''],
      Create_Index ''ix_deposit_requests_status'' ''deposit_requests'' [''status''],
      Create_Index ''ix_deposit_requests_user_status'' ''deposit_requests'' [''user_id'', ''status''],
      Create_Index ''ix_deposit_requests_requested_at'' ''deposit_requests'' [''requested_at''],
      Add_Unique ''uq_deposit_requests_provider_reference'' ''deposit_requests'' [''provider_reference''],
      Add_Unique ''uq_deposit_requests_client_reference'' ''deposit_requests'' [''client_reference'']]"

definition withdrawal_indexes :: "ddl list" where
  "withdrawal_indexes =
     [Create_Index ''ix_withdrawal_requests_user_id'' ''withdrawal_requests'' [''user_id''],
      Create_Index ''ix_withdrawal_requests_wallet_id'' ''withdrawal_requests'' [''wallet_id''],
      Create_Index ''ix_withdrawal_requests_status'' ''withdrawal_requests'' [''status''],
      Create_Index ''ix_withdrawal_requests_user_status'' ''withdrawal_requests'' [''user_id'', ''status''],
      Create_Index ''ix_withdrawal_requests_requested_at'' ''withdrawal_requests'' [''requested_at''],
      Add_Unique ''uq_withdrawal_requests_provider_reference'' ''withdrawal_requests'' [''provider_reference'']]"

definition upgrade_002 :: "bool \<Rightarrow> ddl list" where
  "upgrade_002 emits = hold_label_statements @ status_type_statements @
     op_create_table emits ''deposit_requests'' [(''deposit_status'', deposit_labels)] deposit_columns @ deposit_indexes @
     op_create_table emits ''withdrawal_requests'' [(''withdrawal_status'', withdrawal_labels)] withdrawal_columns @
     withdrawal_indexes"

definition downgrade_002 :: "ddl list" where
  "downgrade_002 =
     [Drop_Table ''withdrawal_requests'', Drop_Table ''deposit_requests'',
      Drop_Enum_If_Exists ''withdrawal_status'', Drop_Enum_If_Exists ''deposit_status'']"

definition upgrade_003 :: "ddl list" where
  "upgrade_003 = [Add_Column ''deposit_requests'' (column ''checkout_url'' T_text True)]"

definition downgrade_003 :: "ddl list" where
  "downgrade_003 = [Drop_Column ''deposit_requests'' ''checkout_url'']"

section \<open>Upgrade and downgrade\<close>

text \<open>
  Alembic follows \<open>down_revision\<close> from the revision the database is at. \<^verbatim>\<open>env.py\<close> runs all of it in one transaction: a
  refused statement leaves catalogue and revision as they were.
\<close>

record migration =
  revision :: string
  down_revision :: "string option"
  upgrade :: "ddl list"
  downgrade :: "ddl list"

definition versions :: "bool \<Rightarrow> migration list" where
  "versions emits =
     [\<lparr>revision = ''001'', down_revision = None, upgrade = upgrade_001, downgrade = downgrade_001\<rparr>,
      \<lparr>revision = ''002'', down_revision = Some ''001'', upgrade = upgrade_002 emits, downgrade = downgrade_002\<rparr>,
      \<lparr>revision = ''003'', down_revision = Some ''002'', upgrade = upgrade_003, downgrade = downgrade_003\<rparr>]"

type_synonym database = "string option \<times> catalog"

fun upgrade_steps :: "migration list \<Rightarrow> nat \<Rightarrow> string option \<Rightarrow> migration list" where
  "upgrade_steps ms 0 cur = []"
| "upgrade_steps ms (Suc n) cur = (case find (\<lambda>m. down_revision m = cur) ms of
     None \<Rightarrow> []
   | Some m \<Rightarrow> m # upgrade_steps ms n (Some (revision m)))"

fun downgrade_steps :: "migration list \<Rightarrow> nat \<Rightarrow> string option \<Rightarrow> migration list" where
  "downgrade_steps ms 0 cur = []"
| "downgrade_steps ms (Suc n) None = []"
| "downgrade_steps ms (Suc n) (Some r) = (case find (\<lambda>m. revision m = r) ms of
     None \<Rightarrow> []
   | Some m \<Rightarrow> m # downgrade_steps ms n (down_revision m))"

definition run_migrations :: "ddl list \<Rightarrow> string option \<Rightarrow> database \<Rightarrow> bool \<times> database" where
  "run_migrations ds target db = (case run_ddl ds (snd db) of
     None \<Rightarrow> (False, db)
   | Some s' \<Rightarrow> (True, target, s'))"

definition alembic_upgrade_head :: "migration list \<Rightarrow> database \<Rightarrow> bool \<times> database" where
  "alembic_upgrade_head ms db =
     (let steps = upgrade_steps ms (length ms) (fst db) in
      if \<not> (case fst db of None \<Rightarrow> True | Some r \<Rightarrow> r \<in> set (map revision ms)) then (False, db)
      else run_migrations (concat (map upgrade steps)) (if steps = [] then fst db else Some (revision (last steps))) db)"

text \<open>\<open>alembic downgrade -n\<close>; fewer than \<open>n\<close> revisions below is an error.\<close>

definition alembic_downgrade :: "migration list \<Rightarrow> nat \<Rightarrow> database \<Rightarrow> bool \<times> database" where
  "alembic_downgrade ms n db =
     (let steps = downgrade_steps ms n (fst db) in
      if length steps < n then (False, db)
      else run_migrations (concat (map downgrade steps)) (if steps = [] then fst db else down_revision (last steps)) db)"

end
