(* ===== verification/Schema.thy ===== *)
theory Schema
  imports Migrations Bets Settlement Auth
begin

text \<open>
  Two descriptions of the database: the catalogue \<^verbatim>\<open>schema.sql\<close> creates (of its indexes the tables and columns, not
  order and predicate), and the columns and enumeration values the classes of \<^verbatim>\<open>app/models\<close> expect.
\<close>

section \<open>The reference schema\<close>

definition base_enum_types :: "(string \<times> string list) list" where
  "base_enum_types =
     [(''user_status'', [''active'', ''suspended'', ''banned'']),
      (''user_role'', [''user'', ''admin'']),
      (''football_outcome'', [''home_win'', ''away_win'', ''draw'']),
      (''match_status'', [''scheduled'', ''live'', ''completed'', ''postponed'', ''cancelled'', ''abandoned'']),
      (''bet_status'', [''OPEN'', ''MATCHED'', ''PENDING_SETTLEMENT'', ''SETTLED'', ''CANCELLED'', ''VOIDED'',
         ''UNDER_REVIEW'']),
      (''settlement_outcome'', [''creator_wins'', ''opponent_wins'', ''no_winner'', ''voided'']),
      (''ledger_entry_type'', [''STAKE_LOCK'', ''STAKE_UNLOCK'', ''VOID_REFUND'', ''SETTLEMENT_DEDUCT'', ''PAYOUT_CREDIT'',
         ''REFUND_CREDIT'', ''FEE_DEDUCT'', ''DEPOSIT'', ''WITHDRAWAL'']),
      (''balance_field'', [''available'', ''locked'']),
      (''ledger_direction'', [''credit'', ''debit'']),
      (''ledger_reference_type'', [''bet'', ''settlement'', ''void'', ''cancellation'', ''deposit'', ''withdrawal'']),
      (''platform_entry_type'', [''FEE_COLLECTION'', ''FEE_COLLECTION_NO_WINNER'']),
      (''settlement_path_type'', [''winner'', ''no_winner'']),
      (''fee_type'', [''WINNER_FEE'', ''NO_WINNER_FEE'']),
      (''bet_event_type'', [''CREATED'', ''MATCHED'', ''PENDING_SETTLEMENT'', ''SETTLED'', ''CANCELLED'', ''VOIDED'',
         ''UNDER_REVIEW'', ''ADMIN_OVERRIDE''])]"

definition base_users :: "column list" where
  "base_users =
     [with_default ''gen_random_uuid()'' (column ''id'' T_uuid False),
      column ''email'' (T_varchar 320) False,
      column ''phone_number'' (T_varchar 30) True,
      column ''display_name'' (T_varchar 100) False,
      column ''password_hash'' T_text False,
      with_default ''user'' (column ''role'' (T_enum ''user_role'') False),
      with_default ''active'' (column ''status'' (T_enum ''user_status'') False),
      with_default ''now()'' (column ''created_at'' T_timestamptz False),
      with_default ''now()'' (column ''updated_at'' T_timestamptz False)]"

definition base_wallets :: "column list" where
  "base_wallets =
     [with_default ''gen_random_uuid()'' (column ''id'' T_uuid False),
      referring ''users'' ''id'' False (column ''user_id'' T_uuid False),
      with_default ''0.00'' (column ''available_balance'' (T_numeric 15 2) False),
      with_default ''0.00'' (column ''locked_balance'' (T_numeric 15 2) False),
      with_default ''ZAR'' (column ''currency'' (T_char 3) False),
      with_default ''now()'' (column ''updated_at'' T_timestamptz False),
      with_default ''0'' (column ''version'' T_integer False)]"

definition base_platform_accounts :: "column list" where
  "base_platform_accounts =
     [with_default ''gen_random_uuid()'' (column ''id'' T_uuid False),
      column ''account_code'' (T_varchar 100) False,
      column ''name'' (T_varchar 200) False,
      column ''currency'' (T_char 3) False,
      with_default ''0.00'' (column ''balance'' (T_numeric 15 2) False),
      with_default ''now()'' (column ''updated_at'' T_timestamptz False),
      with_default ''0'' (column ''version'' T_integer False)]"

definition base_matches :: "column list" where
  "base_matches =
     [with_default ''gen_random_uuid()'' (column ''id'' T_uuid False),
      column ''external_id'' (T_varchar 200) False,
      column ''home_team'' (T_varchar 200) False,
      column ''away_team'' (T_varchar 200) False,
      column ''competition'' (T_varchar 200) False,
      column ''kickoff_at'' T_timestamptz False,
      with_default ''scheduled'' (column ''status'' (T_enum ''match_status'') False),
      column ''result_home_score'' T_integer True,
      column ''result_away_score'' T_integer True,
      column ''outcome'' (T_enum ''football_outcome'') True,
      column ''result_confirmed_at'' T_timestamptz True,
      with_default ''now()'' (column ''created_at'' T_timestamptz False),
      with_default ''now()'' (column ''updated_at'' T_timestamptz False)]"

definition base_fee_config :: "column list" where
  "base_fee_config =
     [with_default ''gen_random_uuid()'' (column ''id'' T_uuid False),
      column ''fee_type'' (T_enum ''fee_type'') False,
      column ''rate'' (T_numeric 5 4) False,
      column ''currency'' (T_char 3) False,
      column ''effective_from'' T_timestamptz False,
      referring ''users'' ''id'' False (column ''created_by'' T_uuid True),
      with_default ''now()'' (column ''created_at'' T_timestamptz False)]"

definition base_bets :: "column list" where
  "base_bets =
     [with_default ''gen_random_uuid()'' (column ''id'' T_uuid False),
      referring ''matches'' ''id'' False (column ''match_id'' T_uuid False),
      referring ''users'' ''id'' False (column ''creator_id'' T_uuid False),
      referring ''users'' ''id'' False (column ''opponent_id'' T_uuid True),
      column ''creator_prediction'' (T_enum ''football_outcome'') False,
      column ''opponent_prediction'' (T_enum ''football_outcome'') True,
      column ''stake_amount'' (T_numeric 15 2) False,
      with_default ''ZAR'' (column ''currency'' (T_char 3) False),
      with_default ''OPEN'' (column ''status'' (T_enum ''bet_status'') False),
      column ''settlement_outcome'' (T_enum ''settlement_outcome'') True,
      referring ''users'' ''id'' False (column ''winner_id'' T_uuid True),
      column ''platform_fee'' (T_numeric 15 2) True,
      column ''payout_amount'' (T_numeric 15 2) True,
      column ''applied_winner_fee_rate'' (T_numeric 5 4) True,
      column ''applied_no_winner_fee_rate'' (T_numeric 5 4) True,
      column ''expires_at'' T_timestamptz False,
      column ''settled_at'' T_timestamptz True,
      with_default ''now()'' (column ''created_at'' T_timestamptz False),
      with_default ''now()'' (column ''updated_at'' T_timestamptz False)]"

definition base_ledger_entries :: "column list" where
  "base_ledger_entries =
     [with_default ''gen_random_uuid()'' (column ''id'' T_uuid False),
      referring ''users'' ''id'' False (column ''user_id'' T_uuid False),
      referring ''wallets'' ''id'' False (column ''wallet_id'' T_uuid False),
      column ''entry_type'' (T_enum ''ledger_entry_type'') False,
      column ''balance_field'' (T_enum ''balance_field'') False,
      column ''direction'' (T_enum ''ledger_direction'') False,
      column ''amount'' (T_numeric 15 2) False,
      column ''reference_type'' (T_enum ''ledger_reference_type'') False,
      column ''reference_id'' T_uuid False,
      column ''available_balance_after'' (T_numeric 15 2) False,
      column ''locked_balance_after'' (T_numeric 15 2) False,
      with_default ''now()'' (column ''created_at'' T_timestamptz False),
      column ''notes'' T_text True]"

definition base_platform_ledger_entries :: "column list" where
  "base_platform_ledger_entries =
     [with_default ''gen_random_uuid()'' (column ''id'' T_uuid False),
      referring ''platform_accounts'' ''id'' False (column ''platform_account_id'' T_uuid False),
      column ''entry_type'' (T_enum ''platform_entry_type'') False,
      with_default ''credit'' (column ''direction'' (T_enum ''ledger_direction'') False),
      column ''amount'' (T_numeric 15 2) False,
      with_default ''settlement'' (column ''reference_type'' (T_enum ''ledger_reference_type'') False),
      referring ''bets'' ''id'' False (column ''reference_id'' T_uuid False),
      column ''balance_after'' (T_numeric 15 2) False,
      column ''settlement_path'' (T_enum ''settlement_path_type'') False,
      with_default ''now()'' (column ''created_at'' T_timestamptz False)]"

definition base_bet_events :: "column list" where
  "base_bet_events =
     [with_default ''gen_random_uuid()'' (column ''id'' T_uuid False),
      referring ''bets'' ''id'' False (column ''bet_id'' T_uuid False),
      column ''event_type'' (T_enum ''bet_event_type'') False,
      referring ''users'' ''id'' False (column ''actor_id'' T_uuid True),
      column ''actor_label'' (T_varchar 100) False,
      column ''payload'' T_jsonb True,
      with_default ''now()'' (column ''created_at'' T_timestamptz False)]"

definition base_processed_events :: "column list" where
  "base_processed_events =
     [with_default ''gen_random_uuid()'' (column ''id'' T_uuid False),
      column ''event_source'' (T_varchar 100) False,
      column ''external_event_id'' (T_varchar 500) False,
      with_default ''now()'' (column ''processed_at'' T_timestamptz False)]"

definition base_tables :: "(string \<times> column list) list" where
  "base_tables =
     [(''users'', base_users),
      (''wallets'', base_wallets),
      (''platform_accounts'', base_platform_accounts),
      (''matches'', base_matches),
      (''fee_config'', base_fee_config),
      (''bets'', base_bets),
      (''ledger_entries'', base_ledger_entries),
      (''platform_ledger_entries'', base_platform_ledger_entries),
      (''bet_events'', base_bet_events),
      (''processed_events'', base_processed_events)]"

definition base_indexes :: "(string \<times> string \<times> string list \<times> bool) list" where
  "base_indexes =
     [(''uq_users_email'', ''users'', [''email''], True),
      (''uq_wallets_user'', ''wallets'', [''user_id''], True),
      (''uq_platform_accounts_code'', ''platform_accounts'', [''account_code''], True),
      (''uq_platform_accounts_currency'', ''platform_accounts'', [''currency''], True),
      (''uq_matches_external_id'', ''matches'', [''external_id''], True),
      (''uq_processed_events_source_event'', ''processed_events'', [''event_source'', ''external_event_id''], True),
      (''idx_users_status'', ''users'', [''status''], False),
      (''idx_matches_status'', ''matches'', [''status''], False),
      (''idx_matches_kickoff_at'', ''matches'', [''kickoff_at''], False),
      (''idx_fee_config_lookup'', ''fee_config'', [''fee_type'', ''currency'', ''effective_from''], False),
      (''idx_bets_open_feed'', ''bets'', [''created_at''], False),
      (''idx_bets_match_open'', ''bets'', [''match_id'', ''created_at''], False),
      (''idx_bets_pending_settlement'', ''bets'', [''match_id''], False),
      (''idx_bets_expiry_job'', ''bets'', [''expires_at''], False),
      (''idx_bets_creator_history'', ''bets'', [''creator_id'', ''created_at''], False),
      (''idx_bets_opponent_history'', ''bets'', [''opponent_id'', ''created_at''], False),
      (''idx_bets_status'', ''bets'', [''status''], False),
      (''idx_bets_winner_id'', ''bets'', [''winner_id''], False),
      (''idx_ledger_user_history'', ''ledger_entries'', [''user_id'', ''created_at''], False),
      (''idx_ledger_wallet_history'', ''ledger_entries'', [''wallet_id'', ''created_at''], False),
      (''idx_ledger_reference'', ''ledger_entries'', [''reference_id'', ''reference_type''], False),
      (''idx_platform_ledger_account_id'', ''platform_ledger_entries'', [''platform_account_id'', ''created_at''], False),
      (''idx_platform_ledger_reference_id'', ''platform_ledger_entries'', [''reference_id''], False),
      (''idx_bet_events_bet_id'', ''bet_events'', [''bet_id'', ''created_at''], False),
      (''idx_bet_events_created_at'', ''bet_events'', [''created_at''], False)]"

definition base_catalog :: catalog where
  "base_catalog = \<lparr>enum_types = base_enum_types, tables = base_tables,
     indexes = map (\<lambda>(n, t, ks, u). (n, \<lparr>on_table = t, on_columns = ks, unique_index = u\<rparr>)) base_indexes\<rparr>"

definition empty_catalog :: catalog where
  "empty_catalog = \<lparr>enum_types = [], tables = [], indexes = []\<rparr>"

section \<open>The values of the enumerations\<close>

text \<open>SQLAlchemy stores the name of a member.\<close>

definition user_status_label :: "user_status \<Rightarrow> string" where
  "user_status_label x = (case x of
     US_active \<Rightarrow> ''active''
   | US_suspended \<Rightarrow> ''suspended''
   | US_banned \<Rightarrow> ''banned'')"

definition match_status_label :: "match_status \<Rightarrow> string" where
  "match_status_label x = (case x of
     MS_scheduled \<Rightarrow> ''scheduled''
   | MS_live \<Rightarrow> ''live''
   | MS_completed \<Rightarrow> ''completed''
   | MS_postponed \<Rightarrow> ''postponed''
   | MS_cancelled \<Rightarrow> ''cancelled''
   | MS_abandoned \<Rightarrow> ''abandoned'')"

definition bet_status_label :: "bet_status \<Rightarrow> string" where
  "bet_status_label x = (case x of
     OPEN \<Rightarrow> ''OPEN''
   | MATCHED \<Rightarrow> ''MATCHED''
   | PENDING_SETTLEMENT \<Rightarrow> ''PENDING_SETTLEMENT''
   | SETTLED \<Rightarrow> ''SETTLED''
   | CANCELLED \<Rightarrow> ''CANCELLED''
   | VOIDED \<Rightarrow> ''VOIDED''
   | UNDER_REVIEW \<Rightarrow> ''UNDER_REVIEW'')"

definition ledger_entry_type_label :: "ledger_entry_type \<Rightarrow> string" where
  "ledger_entry_type_label x = (case x of
     STAKE_LOCK \<Rightarrow> ''STAKE_LOCK''
   | STAKE_UNLOCK \<Rightarrow> ''STAKE_UNLOCK''
   | VOID_REFUND \<Rightarrow> ''VOID_REFUND''
   | SETTLEMENT_DEDUCT \<Rightarrow> ''SETTLEMENT_DEDUCT''
   | PAYOUT_CREDIT \<Rightarrow> ''PAYOUT_CREDIT''
   | REFUND_CREDIT \<Rightarrow> ''REFUND_CREDIT''
   | FEE_DEDUCT \<Rightarrow> ''FEE_DEDUCT''
   | DEPOSIT \<Rightarrow> ''DEPOSIT''
   | WITHDRAWAL \<Rightarrow> ''WITHDRAWAL''
   | WITHDRAWAL_HOLD \<Rightarrow> ''WITHDRAWAL_HOLD''
   | WITHDRAWAL_RELEASE \<Rightarrow> ''WITHDRAWAL_RELEASE'')"

definition balance_field_label :: "balance_field \<Rightarrow> string" where
  "balance_field_label x = (case x of
     available \<Rightarrow> ''available''
   | locked \<Rightarrow> ''locked'')"

definition ledger_direction_label :: "ledger_direction \<Rightarrow> string" where
  "ledger_direction_label x = (case x of
     credit \<Rightarrow> ''credit''
   | debit \<Rightarrow> ''debit'')"

definition ledger_reference_type_label :: "ledger_reference_type \<Rightarrow> string" where
  "ledger_reference_type_label x = (case x of
     ref_bet \<Rightarrow> ''bet''
   | ref_settlement \<Rightarrow> ''settlement''
   | ref_void \<Rightarrow> ''void''
   | ref_cancellation \<Rightarrow> ''cancellation''
   | ref_deposit \<Rightarrow> ''deposit''
   | ref_withdrawal \<Rightarrow> ''withdrawal'')"

definition platform_entry_type_label :: "platform_entry_type \<Rightarrow> string" where
  "platform_entry_type_label x = (case x of
     FEE_COLLECTION \<Rightarrow> ''FEE_COLLECTION''
   | FEE_COLLECTION_NO_WINNER \<Rightarrow> ''FEE_COLLECTION_NO_WINNER'')"

definition settlement_path_type_label :: "settlement_path_type \<Rightarrow> string" where
  "settlement_path_type_label x = (case x of
     path_winner \<Rightarrow> ''winner''
   | path_no_winner \<Rightarrow> ''no_winner'')"

definition fee_type_label :: "fee_type \<Rightarrow> string" where
  "fee_type_label x = (case x of
     WINNER_FEE \<Rightarrow> ''WINNER_FEE''
   | NO_WINNER_FEE \<Rightarrow> ''NO_WINNER_FEE'')"

definition deposit_status_label :: "deposit_status \<Rightarrow> string" where
  "deposit_status_label x = (case x of
     DS_pending \<Rightarrow> ''pending''
   | DS_processing \<Rightarrow> ''processing''
   | DS_completed \<Rightarrow> ''completed''
   | DS_failed \<Rightarrow> ''failed''
   | DS_cancelled \<Rightarrow> ''cancelled'')"

definition withdrawal_status_label :: "withdrawal_status \<Rightarrow> string" where
  "withdrawal_status_label x = (case x of
     WS_pending \<Rightarrow> ''pending''
   | WS_approved \<Rightarrow> ''approved''
   | WS_processing \<Rightarrow> ''processing''
   | WS_completed \<Rightarrow> ''completed''
   | WS_failed \<Rightarrow> ''failed''
   | WS_rejected \<Rightarrow> ''rejected'')"

definition bet_event_type_label :: "bet_event_type \<Rightarrow> string" where
  "bet_event_type_label x = (case x of
     EV_CREATED \<Rightarrow> ''CREATED''
   | EV_MATCHED \<Rightarrow> ''MATCHED''
   | EV_PENDING_SETTLEMENT \<Rightarrow> ''PENDING_SETTLEMENT''
   | EV_SETTLED \<Rightarrow> ''SETTLED''
   | EV_CANCELLED \<Rightarrow> ''CANCELLED''
   | EV_VOIDED \<Rightarrow> ''VOIDED''
   | EV_UNDER_REVIEW \<Rightarrow> ''UNDER_REVIEW''
   | EV_ADMIN_OVERRIDE \<Rightarrow> ''ADMIN_OVERRIDE'')"

definition python_enums :: "(string \<times> string list) list" where
  "python_enums =
     [(''user_status'', map user_status_label [US_active, US_suspended, US_banned]),
      (''user_role'', map role_value [role_user, role_admin]),
      (''football_outcome'', map outcome_value [home_win, away_win, draw]),
      (''match_status'', map match_status_label [MS_scheduled, MS_live, MS_completed, MS_postponed, MS_cancelled, MS_abandoned]),
      (''bet_status'', map bet_status_label [OPEN, MATCHED, PENDING_SETTLEMENT, SETTLED, CANCELLED, VOIDED, UNDER_REVIEW]),
      (''settlement_outcome'', map settlement_value [creator_wins, opponent_wins, no_winner, voided]),
      (''ledger_entry_type'', map ledger_entry_type_label [STAKE_LOCK, STAKE_UNLOCK, VOID_REFUND, SETTLEMENT_DEDUCT, PAYOUT_CREDIT, REFUND_CREDIT, FEE_DEDUCT, DEPOSIT, WITHDRAWAL, WITHDRAWAL_HOLD, WITHDRAWAL_RELEASE]),
      (''balance_field'', map balance_field_label [available, locked]),
      (''ledger_direction'', map ledger_direction_label [credit, debit]),
      (''ledger_reference_type'', map ledger_reference_type_label [ref_bet, ref_settlement, ref_void, ref_cancellation, ref_deposit, ref_withdrawal]),
      (''platform_entry_type'', map platform_entry_type_label [FEE_COLLECTION, FEE_COLLECTION_NO_WINNER]),
      (''settlement_path_type'', map settlement_path_type_label [path_winner, path_no_winner]),
      (''fee_type'', map fee_type_label [WINNER_FEE, NO_WINNER_FEE]),
      (''deposit_status'', map deposit_status_label [DS_pending, DS_processing, DS_completed, DS_failed, DS_cancelled]),
      (''withdrawal_status'', map withdrawal_status_label [WS_pending, WS_approved, WS_processing, WS_completed, WS_failed, WS_rejected]),
      (''bet_event_type'', map bet_event_type_label [EV_CREATED, EV_MATCHED, EV_PENDING_SETTLEMENT, EV_SETTLED, EV_CANCELLED, EV_VOIDED, EV_UNDER_REVIEW, EV_ADMIN_OVERRIDE])]"

text \<open>No member is missing.\<close>

lemma labels_complete:
  "(x0 :: user_status) \<in> set [US_active, US_suspended, US_banned]"
  "(x1 :: user_role) \<in> set [role_user, role_admin]"
  "(x2 :: football_outcome) \<in> set [home_win, away_win, draw]"
  "(x3 :: match_status) \<in> set [MS_scheduled, MS_live, MS_completed, MS_postponed, MS_cancelled, MS_abandoned]"
  "(x4 :: bet_status) \<in> set [OPEN, MATCHED, PENDING_SETTLEMENT, SETTLED, CANCELLED, VOIDED, UNDER_REVIEW]"
  "(x5 :: settlement_outcome) \<in> set [creator_wins, opponent_wins, no_winner, voided]"
  "(x6 :: ledger_entry_type) \<in> set [STAKE_LOCK, STAKE_UNLOCK, VOID_REFUND, SETTLEMENT_DEDUCT, PAYOUT_CREDIT, REFUND_CREDIT, FEE_DEDUCT, DEPOSIT, WITHDRAWAL, WITHDRAWAL_HOLD, WITHDRAWAL_RELEASE]"
  "(x7 :: balance_field) \<in> set [available, locked]"
  "(x8 :: ledger_direction) \<in> set [credit, debit]"
  "(x9 :: ledger_reference_type) \<in> set [ref_bet, ref_settlement, ref_void, ref_cancellation, ref_deposit, ref_withdrawal]"
  "(x10 :: platform_entry_type) \<in> set [FEE_COLLECTION, FEE_COLLECTION_NO_WINNER]"
  "(x11 :: settlement_path_type) \<in> set [path_winner, path_no_winner]"
  "(x12 :: fee_type) \<in> set [WINNER_FEE, NO_WINNER_FEE]"
  "(x13 :: deposit_status) \<in> set [DS_pending, DS_processing, DS_completed, DS_failed, DS_cancelled]"
  "(x14 :: withdrawal_status) \<in> set [WS_pending, WS_approved, WS_processing, WS_completed, WS_failed, WS_rejected]"
  "(x15 :: bet_event_type) \<in> set [EV_CREATED, EV_MATCHED, EV_PENDING_SETTLEMENT, EV_SETTLED, EV_CANCELLED, EV_VOIDED, EV_UNDER_REVIEW, EV_ADMIN_OVERRIDE]"
  subgoal by (cases x0) simp_all
  subgoal by (cases x1) simp_all
  subgoal by (cases x2) simp_all
  subgoal by (cases x3) simp_all
  subgoal by (cases x4) simp_all
  subgoal by (cases x5) simp_all
  subgoal by (cases x6) simp_all
  subgoal by (cases x7) simp_all
  subgoal by (cases x8) simp_all
  subgoal by (cases x9) simp_all
  subgoal by (cases x10) simp_all
  subgoal by (cases x11) simp_all
  subgoal by (cases x12) simp_all
  subgoal by (cases x13) simp_all
  subgoal by (cases x14) simp_all
  subgoal by (cases x15) simp_all
  done

section \<open>The mapped classes\<close>

definition orm_users :: "column list" where
  "orm_users =
     [with_default ''gen_random_uuid()'' (column ''id'' T_uuid False),
      column ''email'' (T_varchar 320) False,
      column ''phone_number'' (T_varchar 30) True,
      column ''display_name'' (T_varchar 100) False,
      column ''password_hash'' T_text False,
      with_default ''user'' (column ''role'' (T_enum ''user_role'') False),
      with_default ''active'' (column ''status'' (T_enum ''user_status'') False),
      with_default ''now()'' (column ''created_at'' T_timestamptz False),
      with_default ''now()'' (column ''updated_at'' T_timestamptz False)]"

definition orm_wallets :: "column list" where
  "orm_wallets =
     [with_default ''gen_random_uuid()'' (column ''id'' T_uuid False),
      referring ''users'' ''id'' False (column ''user_id'' T_uuid False),
      with_default ''0.00'' (column ''available_balance'' (T_numeric 15 2) False),
      with_default ''0.00'' (column ''locked_balance'' (T_numeric 15 2) False),
      with_default ''ZAR'' (column ''currency'' (T_varchar 3) False),
      with_default ''now()'' (column ''updated_at'' T_timestamptz False),
      with_default ''0'' (column ''version'' T_integer False)]"

definition orm_platform_accounts :: "column list" where
  "orm_platform_accounts =
     [with_default ''gen_random_uuid()'' (column ''id'' T_uuid False),
      column ''account_code'' (T_varchar 100) False,
      column ''name'' (T_varchar 200) False,
      column ''currency'' (T_varchar 3) False,
      with_default ''0.00'' (column ''balance'' (T_numeric 15 2) False),
      with_default ''now()'' (column ''updated_at'' T_timestamptz False),
      with_default ''0'' (column ''version'' T_integer False)]"

definition orm_platform_ledger_entries :: "column list" where
  "orm_platform_ledger_entries =
     [with_default ''gen_random_uuid()'' (column ''id'' T_uuid False),
      referring ''platform_accounts'' ''id'' False (column ''platform_account_id'' T_uuid False),
      column ''entry_type'' (T_enum ''platform_entry_type'') False,
      with_default ''credit'' (column ''direction'' (T_enum ''ledger_direction'') False),
      column ''amount'' (T_numeric 15 2) False,
      with_default ''settlement'' (column ''reference_type'' (T_enum ''ledger_reference_type'') False),
      referring ''bets'' ''id'' False (column ''reference_id'' T_uuid False),
      column ''balance_after'' (T_numeric 15 2) False,
      column ''settlement_path'' (T_enum ''settlement_path_type'') False,
      with_default ''now()'' (column ''created_at'' T_timestamptz False)]"

definition orm_matches :: "column list" where
  "orm_matches =
     [with_default ''gen_random_uuid()'' (column ''id'' T_uuid False),
      column ''external_id'' (T_varchar 200) False,
      column ''provider_name'' (T_varchar 50) True,
      column ''home_team'' (T_varchar 200) False,
      column ''away_team'' (T_varchar 200) False,
      column ''competition'' (T_varchar 200) False,
      column ''kickoff_at'' T_timestamptz False,
      with_default ''scheduled'' (column ''status'' (T_enum ''match_status'') False),
      column ''result_home_score'' T_integer True,
      column ''result_away_score'' T_integer True,
      column ''outcome'' (T_enum ''football_outcome'') True,
      column ''result_confirmed_at'' T_timestamptz True,
      column ''last_synced_at'' T_timestamptz True,
      with_default ''now()'' (column ''created_at'' T_timestamptz False),
      with_default ''now()'' (column ''updated_at'' T_timestamptz False)]"

definition orm_fee_config :: "column list" where
  "orm_fee_config =
     [with_default ''gen_random_uuid()'' (column ''id'' T_uuid False),
      column ''fee_type'' (T_enum ''fee_type'') False,
      column ''rate'' (T_numeric 5 4) False,
      column ''currency'' (T_varchar 3) False,
      column ''effective_from'' T_timestamptz False,
      referring ''users'' ''id'' False (column ''created_by'' T_uuid True),
      with_default ''now()'' (column ''created_at'' T_timestamptz False)]"

definition orm_bets :: "column list" where
  "orm_bets =
     [with_default ''gen_random_uuid()'' (column ''id'' T_uuid False),
      referring ''matches'' ''id'' False (column ''match_id'' T_uuid False),
      referring ''users'' ''id'' False (column ''creator_id'' T_uuid False),
      referring ''users'' ''id'' False (column ''opponent_id'' T_uuid True),
      column ''creator_prediction'' (T_enum ''football_outcome'') False,
      column ''opponent_prediction'' (T_enum ''football_outcome'') True,
      column ''stake_amount'' (T_numeric 15 2) False,
      with_default ''ZAR'' (column ''currency'' (T_varchar 3) False),
      with_default ''OPEN'' (column ''status'' (T_enum ''bet_status'') False),
      column ''settlement_outcome'' (T_enum ''settlement_outcome'') True,
      referring ''users'' ''id'' False (column ''winner_id'' T_uuid True),
      column ''platform_fee'' (T_numeric 15 2) True,
      column ''payout_amount'' (T_numeric 15 2) True,
      column ''applied_winner_fee_rate'' (T_numeric 5 4) True,
      column ''applied_no_winner_fee_rate'' (T_numeric 5 4) True,
      column ''expires_at'' T_timestamptz False,
      column ''settled_at'' T_timestamptz True,
      with_default ''now()'' (column ''created_at'' T_timestamptz False),
      with_default ''now()'' (column ''updated_at'' T_timestamptz False)]"

definition orm_ledger_entries :: "column list" where
  "orm_ledger_entries =
     [with_default ''gen_random_uuid()'' (column ''id'' T_uuid False),
      referring ''users'' ''id'' False (column ''user_id'' T_uuid False),
      referring ''wallets'' ''id'' False (column ''wallet_id'' T_uuid False),
      column ''entry_type'' (T_enum ''ledger_entry_type'') False,
      column ''balance_field'' (T_enum ''balance_field'') False,
      column ''direction'' (T_enum ''ledger_direction'') False,
      column ''amount'' (T_numeric 15 2) False,
      column ''reference_type'' (T_enum ''ledger_reference_type'') False,
      column ''reference_id'' T_uuid False,
      column ''available_balance_after'' (T_numeric 15 2) False,
      column ''locked_balance_after'' (T_numeric 15 2) False,
      with_default ''now()'' (column ''created_at'' T_timestamptz False),
      column ''notes'' T_text True]"

definition orm_bet_events :: "column list" where
  "orm_bet_events =
     [with_default ''gen_random_uuid()'' (column ''id'' T_uuid False),
      referring ''bets'' ''id'' False (column ''bet_id'' T_uuid False),
      column ''event_type'' (T_enum ''bet_event_type'') False,
      referring ''users'' ''id'' False (column ''actor_id'' T_uuid True),
      column ''actor_label'' (T_varchar 100) False,
      column ''payload'' T_jsonb True,
      with_default ''now()'' (column ''created_at'' T_timestamptz False)]"

definition orm_processed_events :: "column list" where
  "orm_processed_events =
     [with_default ''gen_random_uuid()'' (column ''id'' T_uuid False),
      column ''event_source'' (T_varchar 100) False,
      column ''external_event_id'' (T_varchar 500) False,
      with_default ''now()'' (column ''processed_at'' T_timestamptz False)]"

definition orm_deposit_requests :: "column list" where
  "orm_deposit_requests =
     [column ''id'' T_uuid False,
      referring ''users'' ''id'' True (column ''user_id'' T_uuid False),
      referring ''wallets'' ''id'' True (column ''wallet_id'' T_uuid False),
      column ''amount'' (T_numeric 15 2) False,
      column ''currency'' (T_varchar 3) False,
      column ''status'' (T_enum ''deposit_status'') False,
      column ''payment_provider'' (T_varchar 50) True,
      column ''provider_reference'' (T_varchar 200) True,
      column ''client_reference'' (T_varchar 200) True,
      column ''notes'' T_text True,
      column ''checkout_url'' T_text True,
      with_default ''now()'' (column ''requested_at'' T_timestamptz False),
      column ''completed_at'' T_timestamptz True,
      column ''failed_at'' T_timestamptz True]"

definition orm_withdrawal_requests :: "column list" where
  "orm_withdrawal_requests =
     [column ''id'' T_uuid False,
      referring ''users'' ''id'' True (column ''user_id'' T_uuid False),
      referring ''wallets'' ''id'' True (column ''wallet_id'' T_uuid False),
      column ''amount'' (T_numeric 15 2) False,
      column ''currency'' (T_varchar 3) False,
      column ''status'' (T_enum ''withdrawal_status'') False,
      column ''destination_account'' (T_varchar 200) True,
      column ''destination_type'' (T_varchar 50) True,
      column ''provider_reference'' (T_varchar 200) True,
      column ''rejection_reason'' T_text True,
      with_default ''now()'' (column ''requested_at'' T_timestamptz False),
      column ''approved_at'' T_timestamptz True,
      column ''completed_at'' T_timestamptz True,
      column ''failed_at'' T_timestamptz True]"

definition orm_tables :: "(string \<times> column list) list" where
  "orm_tables =
     [(''users'', orm_users),
      (''wallets'', orm_wallets),
      (''platform_accounts'', orm_platform_accounts),
      (''platform_ledger_entries'', orm_platform_ledger_entries),
      (''matches'', orm_matches),
      (''fee_config'', orm_fee_config),
      (''bets'', orm_bets),
      (''ledger_entries'', orm_ledger_entries),
      (''bet_events'', orm_bet_events),
      (''processed_events'', orm_processed_events),
      (''deposit_requests'', orm_deposit_requests),
      (''withdrawal_requests'', orm_withdrawal_requests)]"

definition orm_unique_columns :: "(string \<times> string list) list" where
  "orm_unique_columns =
     [(''users'', [''email'']),
      (''wallets'', [''user_id'']),
      (''platform_accounts'', [''account_code'']),
      (''platform_accounts'', [''currency'']),
      (''matches'', [''external_id'']),
      (''processed_events'', [''event_source'', ''external_event_id'']),
      (''deposit_requests'', [''provider_reference'']),
      (''deposit_requests'', [''client_reference'']),
      (''withdrawal_requests'', [''provider_reference''])]"

section \<open>Agreement\<close>

text \<open>A column of the database can serve a mapped one: same name, references and nullability, the default the class leaves to the
  database, and a type that takes the same values (\<open>CHAR\<close> for a string of that length).\<close>

definition type_serves :: "column_type \<Rightarrow> column_type \<Rightarrow> bool" where
  "type_serves d c \<longleftrightarrow> d = c \<or> (case (d, c) of (T_char n, T_varchar k) \<Rightarrow> n = k | _ \<Rightarrow> False)"

definition column_serves :: "column \<Rightarrow> column \<Rightarrow> bool" where
  "column_serves d c \<longleftrightarrow> col_name d = col_name c \<and> type_serves (col_type d) (col_type c) \<and> nullable d = nullable c \<and>
     references d = references c \<and> (server_default c = None \<or> server_default d = server_default c)"

definition table_serves :: "column list \<Rightarrow> column list \<Rightarrow> bool" where
  "table_serves ds cs \<longleftrightarrow> list_all (\<lambda>c. list_ex (\<lambda>d. column_serves d c) ds) cs \<and>
     list_all (\<lambda>d. col_name d \<in> set (column_names cs)) ds"

definition tables_serve :: "catalog \<Rightarrow> bool" where
  "tables_serve s \<longleftrightarrow> list_all (\<lambda>(t, cs). case map_of (tables s) t of None \<Rightarrow> False | Some ds \<Rightarrow> table_serves ds cs) orm_tables"

definition uniques_serve :: "catalog \<Rightarrow> bool" where
  "uniques_serve s \<longleftrightarrow> list_all (\<lambda>(t, ks). list_ex (\<lambda>(n, i). on_table i = t \<and> on_columns i = ks \<and> unique_index i) (indexes s))
     orm_unique_columns"

definition enums_serve :: "catalog \<Rightarrow> bool" where
  "enums_serve s \<longleftrightarrow> list_all (\<lambda>(n, ls). case map_of (enum_types s) n of None \<Rightarrow> False
     | Some vs \<Rightarrow> list_all (\<lambda>v. v \<in> set ls) vs \<and> list_all (\<lambda>l. l \<in> set vs) ls) python_enums"

end
