(* ===== verification/Migration_Properties.thy ===== *)
theory Migration_Properties
  imports Schema
begin

text \<open>
  The migrations: every statement that adds keeps a catalogue consistent, each downgrade undoes its upgrade, and why the upgrade
  of a database fails at the second script.
\<close>

section \<open>Association lists\<close>

lemma update_lookup: "map_of al k = Some v \<Longrightarrow> AList.update k v al = al"
  by (induction al) (auto split: if_splits)

lemma update_twice: "AList.update k v (AList.update k w al) = AList.update k v al"
  by (induction al) auto

lemma update_new: "k \<notin> set (map fst al) \<Longrightarrow> AList.update k v al = al @ [(k, v)]"
  by (induction al) auto

lemma update_keys: "map fst (AList.update k v al) = (if k \<in> set (map fst al) then map fst al else map fst al @ [k])"
  by (induction al) auto

lemma delete_new: "k \<notin> set (map fst al) \<Longrightarrow> AList.delete k al = al"
  by (induction al) auto

lemma delete_append: "AList.delete k (al @ bl) = AList.delete k al @ AList.delete k bl"
  by (induction al) auto

lemma lookup_keys: "map_of al k = Some v \<Longrightarrow> k \<in> set (map fst al)"
  by (metis domI dom_map_of_conv_image_fst set_map)

lemma lookup_none: "map_of al k = None \<longleftrightarrow> k \<notin> set (map fst al)"
  by (simp add: map_of_eq_None_iff)

lemma lookup_update: "map_of (AList.update k v al) = (map_of al)(k \<mapsto> v)"
  by (rule update_conv')

lemma update_values: "snd ` set (AList.update k v al) \<subseteq> insert v (snd ` set al)"
  by (induction al) auto

lemma delete_values: "x \<in> snd ` set (AList.delete k al) \<Longrightarrow> x \<in> snd ` set al"
  by (auto simp: AList.delete_eq)

lemma delete_keys: "map fst (AList.delete k al) = filter (\<lambda>j. j \<noteq> k) (map fst al)"
  by (induction al) auto

section \<open>A consistent catalogue\<close>

text \<open>No name twice, and every type, reference and indexed column exists.\<close>

definition columns_ok :: "catalog \<Rightarrow> bool" where
  "columns_ok s \<longleftrightarrow> (\<forall>cs \<in> snd ` set (tables s). distinct (column_names cs) \<and> (\<forall>c \<in> set cs. column_fits s c))"

definition index_ok :: "catalog \<Rightarrow> index \<Rightarrow> bool" where
  "index_ok s i \<longleftrightarrow> on_columns i \<noteq> [] \<and> (\<forall>k \<in> set (on_columns i). has_column s (on_table i) k)"

definition names_ok :: "catalog \<Rightarrow> bool" where
  "names_ok s \<longleftrightarrow> distinct (map fst (enum_types s) @ map fst (tables s)) \<and> distinct (map fst (tables s) @ map fst (indexes s))"

definition catalog_ok :: "catalog \<Rightarrow> bool" where
  "catalog_ok s \<longleftrightarrow> names_ok s \<and> columns_ok s \<and> (\<forall>i \<in> snd ` set (indexes s). index_ok s i)"

lemma okI:
  assumes "names_ok s" and "columns_ok s" and "\<And>i. i \<in> snd ` set (indexes s) \<Longrightarrow> index_ok s i"
  shows "catalog_ok s"
  using assms by (simp add: catalog_ok_def)

lemma okD:
  assumes "catalog_ok s"
  shows "names_ok s" "columns_ok s" "i \<in> snd ` set (indexes s) \<Longrightarrow> index_ok s i"
    "cs \<in> snd ` set (tables s) \<Longrightarrow> distinct (column_names cs)" "cs \<in> snd ` set (tables s) \<Longrightarrow> c \<in> set cs \<Longrightarrow> column_fits s c"
  using assms by (auto simp: catalog_ok_def columns_ok_def)

lemma projections [simp]:
  "has_column (s\<lparr>enum_types := es\<rparr>) = has_column s" "has_column (s\<lparr>indexes := ixs\<rparr>) = has_column s"
  "column_fits (s\<lparr>indexes := ixs\<rparr>) = column_fits s" "index_ok (s\<lparr>enum_types := es\<rparr>) = index_ok s"
  "index_ok (s\<lparr>indexes := ixs\<rparr>) = index_ok s"
  by (intro ext; simp add: has_column_def column_fits_def index_ok_def cong: column_type.case_cong option.case_cong)+

lemma has_column_table: "has_column s t k \<Longrightarrow> t \<in> set (map fst (tables s))"
  by (auto simp: has_column_def dest: lookup_keys split: option.splits)

lemma fitsD:
  "column_fits s c \<Longrightarrow> col_type c = T_enum e \<Longrightarrow> e \<in> set (map fst (enum_types s))"
  "column_fits s c \<Longrightarrow> references c = Some (t, k, cascade) \<Longrightarrow> has_column s t k"
  by (auto simp: column_fits_def)

lemma fitsI:
  assumes "\<And>e. col_type c = T_enum e \<Longrightarrow> e \<in> set (map fst (enum_types s))"
    and "\<And>t k cascade. references c = Some (t, k, cascade) \<Longrightarrow> has_column s t k"
  shows "column_fits s c"
  using assms unfolding column_fits_def by (auto split: column_type.splits option.splits)

lemma unused_type:
  assumes "catalog_ok s" and "n \<notin> set (map fst (enum_types s))"
  shows "\<not> list_ex (list_ex (\<lambda>c. col_type c = T_enum n) \<circ> snd) (tables s)"
  using assms okD(5) [OF assms(1)] fitsD(1) unfolding list_ex_iff comp_apply by blast

lemma unused_column:
  assumes "catalog_ok s" and "\<not> has_column s t k"
  shows "\<not> list_ex (list_ex (refers_to_column t k) \<circ> snd) (tables s)"
proof -
  have "\<not> refers_to_column t k c" if "cs \<in> snd ` set (tables s)" "c \<in> set cs" for cs c
    using okD(5) [OF assms(1) that] fitsD(2) assms(2) by (fastforce simp: refers_to_column_def split: option.splits)
  then show ?thesis unfolding list_ex_iff comp_apply by blast
qed

lemma unused_table:
  assumes "catalog_ok s" and "t \<notin> set (map fst (tables s))"
  shows "\<not> list_ex (list_ex (refers_to t) \<circ> snd) (tables s)"
proof -
  have "\<not> refers_to t c" if "cs \<in> snd ` set (tables s)" "c \<in> set cs" for cs c
    using okD(5) [OF assms(1) that] fitsD(2) has_column_table assms(2) by (fastforce simp: refers_to_def split: option.splits)
  then show ?thesis unfolding list_ex_iff comp_apply by blast
qed

lemma unindexed_column:
  assumes "catalog_ok s" and "\<not> has_column s t k"
  shows "filter (\<lambda>(n, i). \<not> (on_table i = t \<and> k \<in> set (on_columns i))) (indexes s) = indexes s"
proof -
  have "\<not> (on_table i = t \<and> k \<in> set (on_columns i))" if "i \<in> snd ` set (indexes s)" for i
    using okD(3) [OF assms(1) that] assms(2) by (auto simp: index_ok_def)
  then show ?thesis by (force simp: filter_id_conv)
qed

lemma unindexed_table:
  assumes "catalog_ok s" and "t \<notin> set (map fst (tables s))"
  shows "filter (\<lambda>(n, i). on_table i \<noteq> t) (indexes s) = indexes s"
proof -
  have "on_table i \<noteq> t" if "i \<in> snd ` set (indexes s)" for i
    using okD(3) [OF assms(1) that] has_column_table assms(2) unfolding index_ok_def
    by (metis list.set_intros(1) neq_Nil_conv)
  then show ?thesis by (force simp: filter_id_conv)
qed

text \<open>Statements that add leave the catalogue consistent.\<close>

lemma fits_mono:
  assumes "column_fits s c" and "set (map fst (enum_types s)) \<subseteq> set (map fst (enum_types s'))"
    and "\<And>t k. has_column s t k \<Longrightarrow> has_column s' t k"
  shows "column_fits s' c"
  by (rule fitsI) (use fitsD [OF assms(1)] assms(2,3) in blast)+

lemma index_mono: "index_ok s i \<Longrightarrow> (\<And>t k. has_column s t k \<Longrightarrow> has_column s' t k) \<Longrightarrow> index_ok s' i"
  by (simp add: index_ok_def)

lemma ok_types:
  assumes "catalog_ok s" and "distinct (map fst es @ map fst (tables s))" and "set (map fst (enum_types s)) \<subseteq> set (map fst es)"
  shows "catalog_ok (s\<lparr>enum_types := es\<rparr>)"
proof (rule okI)
  show "names_ok (s\<lparr>enum_types := es\<rparr>)" using okD(1) [OF assms(1)] assms(2) by (simp add: names_ok_def)
  show "columns_ok (s\<lparr>enum_types := es\<rparr>)"
    using okD(4,5) [OF assms(1)] fits_mono [where s = s and s' = "s\<lparr>enum_types := es\<rparr>"] assms(3)
    by (simp add: columns_ok_def)
qed (use okD(3) [OF assms(1)] in simp)

lemma ok_create_table:
  assumes "catalog_ok s" and "\<not> relation_taken s t" "\<not> type_taken s t" "distinct (column_names cs)" "list_all (column_fits s) cs"
  shows "catalog_ok (s\<lparr>tables := tables s @ [(t, cs)]\<rparr>)"
proof (rule okI)
  let ?s = "s\<lparr>tables := tables s @ [(t, cs)]\<rparr>"
  have has: "has_column s t' k \<Longrightarrow> has_column ?s t' k" for t' k
    by (auto simp: has_column_def map_add_def split: option.splits)
  have fits: "column_fits s c \<Longrightarrow> column_fits ?s c" for c by (erule fits_mono) (simp_all add: has)
  show "names_ok ?s" using okD(1) [OF assms(1)] assms(2,3) by (auto simp: names_ok_def relation_taken_def type_taken_def)
  show "columns_ok ?s" using okD(4,5) [OF assms(1)] fits assms(4,5) by (auto simp: columns_ok_def list_all_iff)
  show "index_ok ?s i" if "i \<in> snd ` set (indexes ?s)" for i
    by (rule index_mono [OF okD(3) [OF assms(1)]]) (use that has in simp_all)
qed

lemma ok_index:
  assumes "catalog_ok s" and "create_index_on n t ks u s = Some s'"
  shows "catalog_ok s'"
proof (rule okI)
  let ?i = "\<lparr>on_table = t, on_columns = ks, unique_index = u\<rparr>"
  have s': "s' = s\<lparr>indexes := indexes s @ [(n, ?i)]\<rparr>" "\<not> relation_taken s n" "list_all (has_column s t) ks" "ks \<noteq> []"
    using assms(2) by (auto simp: create_index_on_def split: if_splits)
  show "names_ok s'" using okD(1) [OF assms(1)] s'(1,2) by (auto simp: names_ok_def relation_taken_def)
  show "columns_ok s'" using okD(4,5) [OF assms(1)] by (simp add: columns_ok_def s'(1))
  show "index_ok s' i" if "i \<in> snd ` set (indexes s')" for i
    using that okD(3) [OF assms(1)] s'(3,4) by (auto simp: s'(1) index_ok_def list_all_iff)
qed

lemma ok_add_column:
  assumes "catalog_ok s" and "map_of (tables s) t = Some cs" and "col_name c \<notin> set (column_names cs)" and "column_fits s c"
  shows "catalog_ok (s\<lparr>tables := AList.update t (cs @ [c]) (tables s)\<rparr>)"
proof (rule okI)
  let ?s = "s\<lparr>tables := AList.update t (cs @ [c]) (tables s)\<rparr>"
  have cs: "cs \<in> snd ` set (tables s)" using assms(2) by (metis image_eqI map_of_SomeD snd_conv)
  have has: "has_column s t' k \<Longrightarrow> has_column ?s t' k" for t' k
    using assms(2) by (auto simp: has_column_def lookup_update column_names_def)
  have fits: "column_fits s d \<Longrightarrow> column_fits ?s d" for d by (erule fits_mono) (simp_all add: has)
  show "names_ok ?s"
    using okD(1) [OF assms(1)] lookup_keys [OF assms(2)] by (simp add: names_ok_def update_keys)
  have "distinct (column_names ds) \<and> (\<forall>d \<in> set ds. column_fits ?s d)" if "ds \<in> snd ` set (tables ?s)" for ds
  proof (cases "ds = cs @ [c]")
    case True
    with okD(4) [OF assms(1) cs] okD(5) [OF assms(1) cs] assms(3,4) fits show ?thesis by (auto simp: column_names_def)
  next
    case False
    with that have "ds \<in> snd ` set (tables s)" using update_values [of t "cs @ [c]" "tables s"] by auto
    with okD(4,5) [OF assms(1)] fits show ?thesis by blast
  qed
  then show "columns_ok ?s" unfolding columns_ok_def by blast
  show "index_ok ?s i" if "i \<in> snd ` set (indexes ?s)" for i
    by (rule index_mono [OF okD(3) [OF assms(1)]]) (use that has in simp_all)
qed


lemma ok_add_value:
  assumes "catalog_ok s" and "map_of (enum_types s) n = Some vs"
  shows "catalog_ok (s\<lparr>enum_types := AList.update n ws (enum_types s)\<rparr>)"
  using okD(1) [OF assms(1)] lookup_keys [OF assms(2)]
  by (intro ok_types [OF assms(1)]) (simp_all add: names_ok_def update_keys)

text \<open>The statements that only add, and what their acceptance says.\<close>

fun additive :: "ddl \<Rightarrow> bool" where
  "additive (Drop_Enum_If_Exists n) = False"
| "additive (Drop_Table t) = False"
| "additive (Drop_Column t k) = False"
| "additive (Drop_Index n) = False"
| "additive d = True"

lemma exec_additive_ok: "exec_ddl d s = Some s' \<Longrightarrow> additive d \<Longrightarrow> catalog_ok s \<Longrightarrow> catalog_ok s'"
proof (cases d)
  case (Create_Enum n vs)
  then show "exec_ddl d s = Some s' \<Longrightarrow> additive d \<Longrightarrow> catalog_ok s \<Longrightarrow> catalog_ok s'"
    using okD(1) [of s] by (auto simp: type_taken_def names_ok_def split: if_splits intro!: ok_types)
next
  case (Create_Enum_If_Missing n vs)
  then show "exec_ddl d s = Some s' \<Longrightarrow> additive d \<Longrightarrow> catalog_ok s \<Longrightarrow> catalog_ok s'"
    using okD(1) [of s] by (auto simp: type_taken_def names_ok_def split: if_splits intro!: ok_types)
qed (auto split: if_splits option.splits intro: ok_create_table ok_add_column ok_index ok_add_value)

lemma run_additive_ok: "run_ddl ds s = Some s' \<Longrightarrow> list_all additive ds \<Longrightarrow> catalog_ok s \<Longrightarrow> catalog_ok s'"
  by (induction ds arbitrary: s) (auto split: option.splits dest: exec_additive_ok)

lemma run_append: "run_ddl (ds @ es) s = (case run_ddl ds s of None \<Rightarrow> None | Some s' \<Rightarrow> run_ddl es s')"
  by (induction ds arbitrary: s) (auto split: option.splits)


section \<open>Undoing statements\<close>

lemma undo_add_column:
  assumes "catalog_ok s" and "exec_ddl (Add_Column t c) s = Some s'"
  shows "exec_ddl (Drop_Column t (col_name c)) s' = Some s"
proof -
  obtain cs where cs: "map_of (tables s) t = Some cs" "col_name c \<notin> set (column_names cs)" "column_fits s c"
    and s': "s' = s\<lparr>tables := AList.update t (cs @ [c]) (tables s)\<rparr>"
    using assms(2) by (auto split: option.splits if_splits)
  have new: "\<not> has_column s t (col_name c)" using cs(1,2) by (simp add: has_column_def)
  have "\<not> refers_to_column t (col_name c) c"
    using fitsD(2) [OF cs(3)] new by (fastforce simp: refers_to_column_def split: option.splits)
  then have unused: "\<not> list_ex (refers_to_column t (col_name c)) ds" if "ds \<in> insert (cs @ [c]) (snd ` set (tables s))" for ds
  proof -
    have "cs \<in> snd ` set (tables s)" using cs(1) by (metis image_eqI map_of_SomeD snd_conv)
    with \<open>\<not> refers_to_column t (col_name c) c\<close> that unused_column [OF assms(1) new] show ?thesis
      unfolding list_ex_iff comp_apply by auto
  qed
  have "\<not> list_ex (refers_to_column t (col_name c)) ds" if "ds \<in> snd ` set (tables s')" for ds
  proof (rule unused)
    show "ds \<in> insert (cs @ [c]) (snd ` set (tables s))"
      using subsetD [OF update_values, of ds t "cs @ [c]" "tables s"] that unfolding s' by simp
  qed
  then have "\<not> list_ex (list_ex (refers_to_column t (col_name c)) \<circ> snd) (tables s')" by (auto simp: list_ex_iff)
  moreover have "filter (\<lambda>d. col_name d \<noteq> col_name c) cs = cs"
    using cs(2) by (simp add: column_names_def filter_id_conv) (metis image_eqI)
  ultimately show ?thesis
    using cs(1) unindexed_column [OF assms(1) new]
    by (simp add: s' lookup_update update_twice update_lookup column_names_def)
qed

lemma undo_create_index:
  assumes "exec_ddl (Create_Index n t ks) s = Some s'"
  shows "exec_ddl (Drop_Index n) s' = Some s"
proof -
  have "n \<notin> set (map fst (indexes s))"
    and s': "s' = s\<lparr>indexes := indexes s @ [(n, \<lparr>on_table = t, on_columns = ks, unique_index = False\<rparr>)]\<rparr>"
    using assms by (auto simp: create_index_on_def relation_taken_def split: if_splits)
  then show ?thesis using lookup_none [of "indexes s" n]
    by (simp add: s' delete_append delete_new map_add_def)
qed

fun index_on :: "string \<Rightarrow> ddl \<Rightarrow> bool" where
  "index_on t (Create_Index n t' ks) = (t' = t)"
| "index_on t (Add_Unique n t' ks) = (t' = t)"
| "index_on t d = False"

lemma run_indexes_on:
  "run_ddl ds s = Some s' \<Longrightarrow> list_all (index_on t) ds \<Longrightarrow>
     \<exists>ixs. s' = s\<lparr>indexes := indexes s @ ixs\<rparr> \<and> list_all (\<lambda>(n, i). on_table i = t) ixs"
proof (induction ds arbitrary: s)
  case Nil
  then show ?case by (auto intro: exI [of _ "[]"])
next
  case (Cons d ds)
  obtain s1 where s1: "exec_ddl d s = Some s1" "run_ddl ds s1 = Some s'" using Cons.prems(1) by (auto split: option.splits)
  obtain n i where i: "s1 = s\<lparr>indexes := indexes s @ [(n, i)]\<rparr>" "on_table i = t"
    using s1(1) Cons.prems(2) by (cases d) (auto simp: create_index_on_def split: if_splits)
  obtain ixs where "s' = s1\<lparr>indexes := indexes s1 @ ixs\<rparr>" "list_all (\<lambda>(n, i). on_table i = t) ixs"
    using Cons.IH [OF s1(2)] Cons.prems(2) by auto
  with i show ?case by (intro exI [of _ "(n, i) # ixs"]) simp
qed

lemma undo_create_table:
  assumes "catalog_ok s" and "exec_ddl (Create_Table t cs) s = Some s1" and "run_ddl ds s1 = Some s2" and "list_all (index_on t) ds"
  shows "exec_ddl (Drop_Table t) s2 = Some s"
proof -
  have new: "t \<notin> set (map fst (tables s))" and s1: "s1 = s\<lparr>tables := tables s @ [(t, cs)]\<rparr>"
    using assms(2) by (auto simp: relation_taken_def split: if_splits)
  obtain ixs where s2: "s2 = s1\<lparr>indexes := indexes s1 @ ixs\<rparr>" "list_all (\<lambda>(n, i). on_table i = t) ixs"
    using run_indexes_on [OF assms(3,4)] by blast
  have "filter (\<lambda>(n, i). on_table i \<noteq> t) ixs = []" using s2(2) by (auto simp: list_all_iff filter_empty_conv)
  then show ?thesis
    using new unused_table [OF assms(1) new] unindexed_table [OF assms(1) new]
    by (simp add: s1 s2(1) delete_append delete_new)
qed


section \<open>Upgrading and downgrading\<close>

lemma undo_001:
  assumes "catalog_ok s" and "run_ddl upgrade_001 s = Some s'"
  shows "run_ddl downgrade_001 s' = Some s"
proof -
  let ?p = "column ''provider_name'' (T_varchar 50) True" and ?l = "column ''last_synced_at'' T_timestamptz True"
  obtain s1 s2 where step: "exec_ddl (Add_Column ''matches'' ?p) s = Some s1" "exec_ddl (Add_Column ''matches'' ?l) s1 = Some s2"
    "exec_ddl (Create_Index ''ix_matches_provider_name'' ''matches'' [''provider_name'']) s2 = Some s'"
    using assms(2) by (auto simp: upgrade_001_def simp del: exec_ddl.simps split: option.splits)
  have ok: "catalog_ok s1" using exec_additive_ok [OF step(1) _ assms(1)] by simp
  have "col_name ?p = ''provider_name''" "col_name ?l = ''last_synced_at''" by (simp_all add: column_def)
  then show ?thesis
    using undo_add_column [OF assms(1) step(1)] undo_add_column [OF ok step(2)] undo_create_index [OF step(3)]
    by (simp add: downgrade_001_def del: exec_ddl.simps)
qed

lemma undo_003: "catalog_ok s \<Longrightarrow> run_ddl upgrade_003 s = Some s' \<Longrightarrow> run_ddl downgrade_003 s' = Some s"
  using undo_add_column [of s "''deposit_requests''" "column ''checkout_url'' T_text True" s']
  by (auto simp: upgrade_003_def downgrade_003_def column_def simp del: exec_ddl.simps split: option.splits)

text \<open>What a downgrade leaves behind: the two values of \<open>ledger_entry_type\<close>.\<close>

definition with_hold_labels :: "catalog \<Rightarrow> catalog" where
  "with_hold_labels s = s\<lparr>enum_types := map (\<lambda>(n, vs). (n,
     if n = ''ledger_entry_type'' then vs @ filter (\<lambda>v. v \<notin> set vs) [''WITHDRAWAL_HOLD'', ''WITHDRAWAL_RELEASE''] else vs))
     (enum_types s)\<rparr>"

lemma update_map:
  "distinct (map fst al) \<Longrightarrow> map_of al k = Some v \<Longrightarrow> AList.update k w al = map (\<lambda>(n, vs). (n, if n = k then w else vs)) al"
proof (induction al)
  case (Cons x al)
  from Cons.prems(1) have "\<forall>y \<in> set al. fst y \<noteq> fst x" by (metis distinct.simps(2) image_eqI list.map(2) set_map)
  then have "map (\<lambda>(n, vs). (n, if n = fst x then w else vs)) al = al" by (intro map_idI) auto
  with Cons show ?case by (cases x) auto
qed simp

lemma add_hold_labels:
  assumes "names_ok s"
    and "run_ddl hold_label_statements s = Some s'"
  shows "s' = with_hold_labels s"
proof -
  obtain vs where vs: "map_of (enum_types s) ''ledger_entry_type'' = Some vs"
    using assms(2) by (auto simp: hold_label_statements_def split: option.splits)
  let ?ws = "vs @ filter (\<lambda>v. v \<notin> set vs) [''WITHDRAWAL_HOLD'', ''WITHDRAWAL_RELEASE'']"
  have d: "distinct (map fst (enum_types s))" using assms(1) by (simp add: names_ok_def)
  have "s' = s\<lparr>enum_types := AList.update ''ledger_entry_type'' ?ws (enum_types s)\<rparr>"
    using assms(2) vs by (auto simp: hold_label_statements_def lookup_update update_twice update_lookup split: if_splits option.splits)
  also have "AList.update ''ledger_entry_type'' ?ws (enum_types s) = enum_types (with_hold_labels s)"
    using map_of_is_SomeI [OF d] vs by (auto simp: update_map [OF d vs] with_hold_labels_def)
  finally show ?thesis by (simp add: with_hold_labels_def)
qed

lemma labels_keep [simp]: "map fst (enum_types (with_hold_labels s)) = map fst (enum_types s)"
  "tables (with_hold_labels s) = tables s" "indexes (with_hold_labels s) = indexes s"
  by (auto simp: with_hold_labels_def)


text \<open>A type that exists stays, and creating it again is refused.\<close>

lemma run_split:
  assumes "run_ddl (ds @ es) s = Some s'"
  obtains s1 where "run_ddl ds s = Some s1" "run_ddl es s1 = Some s'"
  using assms by (auto simp: run_append split: option.splits)

lemma status_types_taken: "run_ddl status_type_statements s = Some s' \<Longrightarrow> type_taken s' ''deposit_status''"
  by (auto simp: status_type_statements_def type_taken_def split: if_splits)

lemma status_types_added:
  assumes "run_ddl status_type_statements s = Some s'"
  shows "tables s' = tables s \<and> indexes s' = indexes s \<and> (\<exists>es. enum_types s' = enum_types s @ es \<and>
     set (map fst es) \<subseteq> {''deposit_status'', ''withdrawal_status''})"
  using assms(1) by (auto simp: status_type_statements_def split: if_splits)


text \<open>The downgrade drops the two types whether or not the upgrade created them.\<close>

definition status_types_unused :: "catalog \<Rightarrow> bool" where
  "status_types_unused s \<longleftrightarrow>
     \<not> list_ex (list_ex (\<lambda>c. col_type c \<in> {T_enum ''deposit_status'', T_enum ''withdrawal_status''}) \<circ> snd) (tables s)"

definition without_status_types :: "catalog \<Rightarrow> catalog" where
  "without_status_types s =
     s\<lparr>enum_types := AList.delete ''deposit_status'' (AList.delete ''withdrawal_status'' (enum_types s))\<rparr>"

lemma status_types_dropped:
  assumes "status_types_unused s" and "run_ddl status_type_statements s = Some s'"
  shows "run_ddl [Drop_Enum_If_Exists ''withdrawal_status'', Drop_Enum_If_Exists ''deposit_status''] s' = Some (without_status_types s)"
proof -
  obtain es where s': "tables s' = tables s" "indexes s' = indexes s" "enum_types s' = enum_types s @ es"
    "set (map fst es) \<subseteq> {''deposit_status'', ''withdrawal_status''}"
    using status_types_added [OF assms(2)] by blast
  have "AList.delete ''deposit_status'' (AList.delete ''withdrawal_status'' es) = []"
    using s'(4) by (fastforce simp: AList.delete_eq filter_empty_conv)
  then have "AList.delete ''deposit_status'' (AList.delete ''withdrawal_status'' (enum_types s')) = enum_types (without_status_types s)"
    by (simp add: s'(3) delete_append without_status_types_def)
  moreover have "\<not> list_ex (list_ex (\<lambda>c. col_type c = T_enum n) \<circ> snd) (tables s')" if "n \<in> {''deposit_status'', ''withdrawal_status''}" for n
    using assms(1) that unfolding status_types_unused_def s'(1) list_ex_iff comp_apply by blast
  ultimately show ?thesis
    using s'(1,2) by (simp add: without_status_types_def)
qed

lemma status_type_refused:
  "type_taken s n \<Longrightarrow> run_ddl (Create_Enum n vs # ds) s = None"
  by simp

lemma undo_002:
  assumes "catalog_ok s" and "status_types_unused s" and "run_ddl (upgrade_002 emits) s = Some s'"
  shows "run_ddl downgrade_002 s' = Some (without_status_types (with_hold_labels s))"
proof -
  obtain s2 where s2: "run_ddl hold_label_statements s = Some s2" and r2: "run_ddl (status_type_statements @
     op_create_table emits ''deposit_requests'' [(''deposit_status'', deposit_labels)] deposit_columns @ deposit_indexes @
     op_create_table emits ''withdrawal_requests'' [(''withdrawal_status'', withdrawal_labels)] withdrawal_columns @
     withdrawal_indexes) s2 = Some s'"
    using assms(3) unfolding upgrade_002_def by (rule run_split)
  obtain s4 where s4: "run_ddl status_type_statements s2 = Some s4" and r4: "run_ddl (
     op_create_table emits ''deposit_requests'' [(''deposit_status'', deposit_labels)] deposit_columns @ deposit_indexes @
     op_create_table emits ''withdrawal_requests'' [(''withdrawal_status'', withdrawal_labels)] withdrawal_columns @
     withdrawal_indexes) s4 = Some s'"
    using r2 by (rule run_split)
  have "\<not> emits"
    using r4 status_type_refused [OF status_types_taken [OF s4]] by (auto simp: op_create_table_def)
  then have r5: "run_ddl (Create_Table ''deposit_requests'' deposit_columns # deposit_indexes @
     (Create_Table ''withdrawal_requests'' withdrawal_columns # withdrawal_indexes)) s4 = Some s'"
    using r4 by (simp add: op_create_table_def)
  then obtain a1 where a1: "exec_ddl (Create_Table ''deposit_requests'' deposit_columns) s4 = Some a1" and
     q1: "run_ddl (deposit_indexes @ (Create_Table ''withdrawal_requests'' withdrawal_columns # withdrawal_indexes)) a1 = Some s'"
    unfolding run_ddl.simps(2) by (cases "exec_ddl (Create_Table ''deposit_requests'' deposit_columns) s4") auto
  obtain a2 where a2: "run_ddl deposit_indexes a1 = Some a2" and
     q2: "run_ddl (Create_Table ''withdrawal_requests'' withdrawal_columns # withdrawal_indexes) a2 = Some s'"
    using q1 by (rule run_split)
  obtain b1 where b1: "exec_ddl (Create_Table ''withdrawal_requests'' withdrawal_columns) a2 = Some b1" and
     q3: "run_ddl withdrawal_indexes b1 = Some s'"
    using q2 unfolding run_ddl.simps(2) by (cases "exec_ddl (Create_Table ''withdrawal_requests'' withdrawal_columns) a2") auto
  have ok2: "catalog_ok s2" by (rule run_additive_ok [OF s2 _ assms(1)]) (simp add: hold_label_statements_def)
  have ok4: "catalog_ok s4" by (rule run_additive_ok [OF s4 _ ok2]) (simp add: status_type_statements_def)
  have okA1: "catalog_ok a1" by (rule exec_additive_ok [OF a1 _ ok4]) simp
  have okA: "catalog_ok a2" by (rule run_additive_ok [OF a2 _ okA1]) (simp add: deposit_indexes_def)
  have "exec_ddl (Drop_Table ''withdrawal_requests'') s' = Some a2"
    by (rule undo_create_table [OF okA b1 q3]) (simp add: withdrawal_indexes_def)
  moreover have "exec_ddl (Drop_Table ''deposit_requests'') a2 = Some s4"
    by (rule undo_create_table [OF ok4 a1 a2]) (simp add: deposit_indexes_def)
  moreover have "s2 = with_hold_labels s" by (rule add_hold_labels [OF okD(1) [OF assms(1)] s2])
  moreover have "run_ddl [Drop_Enum_If_Exists ''withdrawal_status'', Drop_Enum_If_Exists ''deposit_status''] s4 =
      Some (without_status_types s2)"
    by (rule status_types_dropped [OF _ s4]) (use assms(2) in \<open>simp add: \<open>s2 = with_hold_labels s\<close> status_types_unused_def\<close>)
  ultimately show ?thesis by (simp add: downgrade_002_def del: exec_ddl.simps)
qed

text \<open>C38: each script undoes itself. If the upgrade of a script succeeds on a consistent catalogue, its downgrade succeeds on what it
  left and restores the catalogue. Only \<open>002\<close> leaves two traces: the two values it adds to \<open>ledger_entry_type\<close> stay, as the script
  says, and the two status types are gone also where they were there before, provided no column used them then.
  (The upgrade of \<open>002\<close> succeeds only where the library heeds \<open>create_type=False\<close>.)\<close>

theorem migrations_reversible:
  assumes "m \<in> set (versions emits)" and "catalog_ok s" and "revision m = ''002'' \<longrightarrow> status_types_unused s"
    and "run_ddl (upgrade m) s = Some s'"
  shows "run_ddl (downgrade m) s' =
    Some (if revision m = ''002'' then without_status_types (with_hold_labels s) else s)"
  using assms(1,3,4) undo_001 [OF assms(2)] undo_002 [OF assms(2)] undo_003 [OF assms(2)]
  by (auto simp: versions_def)

theorem migrations_reversible_witness:
  "\<exists>s'. run_ddl upgrade_001 base_catalog = Some s' \<and> run_ddl downgrade_001 s' = Some base_catalog"
proof -
  have ok: "catalog_ok base_catalog" by code_simp
  have "run_ddl upgrade_001 base_catalog \<noteq> None" by code_simp
  then obtain s' where s': "run_ddl upgrade_001 base_catalog = Some s'" by blast
  let ?m = "\<lparr>revision = ''001'', down_revision = None, upgrade = upgrade_001, downgrade = downgrade_001\<rparr>"
  have "?m \<in> set (versions True)" by (simp add: versions_def)
  from migrations_reversible [OF this ok, of s'] s' show ?thesis by simp
qed

text \<open>The upgrade of the reference schema.\<close>

lemma base_upgrade:
  "case alembic_upgrade_head (versions False) (None, base_catalog) of (done, r, s) \<Rightarrow>
     done \<and> r = Some ''003'' \<and> tables_serve s \<and> uniques_serve s \<and> enums_serve s"
  by code_simp

section \<open>The migrated database\<close>

text \<open>Were \<open>create_type=False\<close> heeded, \<open>alembic upgrade head\<close> would give the reference schema the columns, references, unique
  constraints and enumeration values the mapped classes expect, which it lacks without the migrations.\<close>

theorem migrated_schema_fits:
  "case alembic_upgrade_head (versions False) (None, base_catalog) of (done, r, s) \<Rightarrow>
     done \<and> r = Some ''003'' \<and> tables_serve s \<and> uniques_serve s \<and> enums_serve s \<and>
     \<not> tables_serve base_catalog \<and> \<not> enums_serve base_catalog"
proof -
  have "\<not> tables_serve base_catalog" "\<not> enums_serve base_catalog" by code_simp+
  with base_upgrade show ?thesis by (simp split: prod.splits)
qed

text \<open>As it is, the second script stops every upgrade.\<close>

lemma upgrade_002_refused: "run_ddl (upgrade_002 True) s = None"
proof (cases "run_ddl (hold_label_statements @ status_type_statements) s")
  case (Some s')
  then have "type_taken s' ''deposit_status''" by (elim run_split) (rule status_types_taken)
  with Some show ?thesis by (simp add: upgrade_002_def op_create_table_def run_append del: append_assoc flip: append_assoc)
qed (simp add: upgrade_002_def run_append del: append_assoc flip: append_assoc)

text \<open>C37: \<open>alembic upgrade head\<close> fails on every database that is not yet past the second script, whatever it contains, and leaves
  catalogue and revision as they were, where \<open>op.create_table\<close> creates the types of its \<open>sa.Enum\<close> columns, which have no option
  \<open>create_type\<close>: the script has created the types just before. On a database without the table \<open>matches\<close> the first script
  fails already, and so do the migrations on an empty database, however the option is read.\<close>

theorem migrations_refused:
  assumes "r \<in> {None, Some ''001''}"
  shows "alembic_upgrade_head (versions True) (r, s) = (False, r, s) \<and>
    (map_of (tables s) ''matches'' = None \<longrightarrow> alembic_upgrade_head (versions emits) (None, s) = (False, None, s))"
proof -
  have steps: "upgrade_steps (versions e) (length (versions e)) None = versions e"
    "upgrade_steps (versions e) (length (versions e)) (Some ''001'') = tl (versions e)" for e
    by (simp_all add: versions_def)
  have none: "run_ddl (upgrade_001 @ upgrade_002 True @ upgrade_003) s = None" "run_ddl (upgrade_002 True @ upgrade_003) s = None"
    by (simp_all add: run_append upgrade_002_refused split: option.split)
  have "alembic_upgrade_head (versions True) (r, s) = (False, r, s)"
    using assms none by (auto simp: alembic_upgrade_head_def steps) (simp_all add: versions_def run_migrations_def)
  moreover have "alembic_upgrade_head (versions emits) (None, s) = (False, None, s)" if "map_of (tables s) ''matches'' = None"
  proof -
    have "run_ddl (upgrade_001 @ ds) s = None" for ds using that by (simp add: upgrade_001_def)
    then show ?thesis by (simp add: alembic_upgrade_head_def steps run_migrations_def) (simp add: versions_def)
  qed
  ultimately show ?thesis by blast
qed

theorem migrations_refused_witness:
  "alembic_upgrade_head (versions True) (None, base_catalog) = (False, None, base_catalog) \<and>
   alembic_upgrade_head (versions False) (None, empty_catalog) = (False, None, empty_catalog)"
  using migrations_refused [of None base_catalog True] migrations_refused [of None empty_catalog False]
  by (simp add: empty_catalog_def)

end
