(* ===== verification/Progress.thy ===== *)
theory Progress
  imports System Scenario
begin

text \<open>
  Lifecycles end: a measure on the statuses that every edge decreases, and what it says of the number of requests that
  can still move a row.
\<close>

fun changes :: "('r \<Rightarrow> 's \<Rightarrow> 's) \<Rightarrow> ('s \<Rightarrow> 'v) \<Rightarrow> 'r list \<Rightarrow> 's \<Rightarrow> nat" where
  "changes step view [] s = 0"
| "changes step view (r # rs) s = (if view (step r s) \<noteq> view s then 1 else 0) + changes step view rs (step r s)"

definition bet_rank :: "bet_status \<Rightarrow> nat" where
  "bet_rank st = (case st of OPEN \<Rightarrow> 3 | MATCHED \<Rightarrow> 2 | PENDING_SETTLEMENT \<Rightarrow> 1 | _ \<Rightarrow> 0)"

definition deposit_rank :: "deposit_status \<Rightarrow> nat" where
  "deposit_rank st = (if st \<in> {DS_pending, DS_processing} then 1 else 0)"

definition withdrawal_rank :: "withdrawal_status \<Rightarrow> nat" where
  "withdrawal_rank st = (case st of WS_pending \<Rightarrow> 2 | WS_approved \<Rightarrow> 1 | WS_processing \<Rightarrow> 1 | _ \<Rightarrow> 0)"

locale measured_lifecycle = lifecycle key rows status edge step
  for key :: "'r \<Rightarrow> 'k" and rows :: "'s \<Rightarrow> 'r list" and status :: "'r \<Rightarrow> 'st" and edge and step +
  fixes rank :: "'st \<Rightarrow> nat"
  assumes edge_rank: "edge a b \<Longrightarrow> rank b < rank a"
begin

lemma path_rank: "edge\<^sup>*\<^sup>* a b \<Longrightarrow> rank b + (if b \<noteq> a then 1 else 0) \<le> rank a"
proof (induction rule: rtranclp_induct)
  case (step b c)
  then show ?case using edge_rank [of b c] by (auto split: if_splits)
qed simp

text \<open>Along steps the changes of a row and the rank it is left with add up to at most the rank it had.\<close>

lemma changes_rank:
  assumes steps: "\<And>r s. ok s \<Longrightarrow> good r \<Longrightarrow> step s (ex r s)" "\<And>r s. ok s \<Longrightarrow> good r \<Longrightarrow> ok (ex r s)"
  shows "ok s \<Longrightarrow> list_all good rs \<Longrightarrow> row_get key k (rows s) = Some x \<Longrightarrow>
    \<exists>y. row_get key k (rows (fold ex rs s)) = Some y \<and>
      changes ex (\<lambda>s. map_option status (row_get key k (rows s))) rs s + rank (status y) \<le> rank (status x)"
proof (induction rs arbitrary: s x)
  case (Cons r rs)
  obtain x1 where x1: "row_get key k (rows (ex r s)) = Some x1" "edge\<^sup>*\<^sup>* (status x) (status x1)"
    using status_path [of s "ex r s"] steps(1) Cons.prems by (auto simp: rows_follow_def)
  obtain y where "row_get key k (rows (fold ex rs (ex r s))) = Some y"
    "changes ex (\<lambda>s. map_option status (row_get key k (rows s))) rs (ex r s) + rank (status y) \<le> rank (status x1)"
    using Cons.IH [OF _ _ x1(1)] steps(2) Cons.prems by auto
  with path_rank [OF x1(2)] x1(1) Cons.prems(3) show ?case by auto
qed simp

end

interpretation bet_ends: measured_lifecycle bet_id bets bstatus bet_edge "serves std cfg" bet_rank for std cfg
  by unfold_locales (auto simp: bet_edge_def bet_rank_def)

interpretation deposit_ends: measured_lifecycle dep_id deposits dstatus deposit_edge "serves std cfg" deposit_rank for std cfg
  by unfold_locales (auto simp: deposit_edge_def deposit_rank_def)

interpretation withdrawal_ends: measured_lifecycle wd_id withdrawals wstatus withdrawal_edge "serves std cfg" withdrawal_rank
  for std cfg
  by unfold_locales (auto simp: withdrawal_edge_def withdrawal_rank_def)

text \<open>C12: every bet comes to rest. In any sequence of requests a bet changes its status at most as often as the rank of its status
  says (three times when open, twice when matched, once when pending, never when final), and what is left is the rank it
  ends with; so among any requests only that many can move it.\<close>

theorem bets_come_to_rest:
  assumes "books s" and "list_all admissible rs" and "find_bet s k = Some b"
  shows "\<exists>b'. find_bet (run std cfg rs s) k = Some b' \<and>
    changes (exec std cfg) (\<lambda>s. map_option bstatus (find_bet s k)) rs s + bet_rank (bstatus b') \<le> bet_rank (bstatus b)"
  using bet_ends.changes_rank [where ok = books and good = admissible and ex = "exec std cfg" and std = std and cfg = cfg,
      OF serves.intros exec_books, of s rs k b] assms
  by (simp add: find_bet_def run_def)

theorem bets_come_to_rest_witness:
  "changes (exec demo_std demo_settings) (\<lambda>s. map_option bstatus (find_bet s 31))
     [CancelBet alice 31, SettleBet 7 31, CancelBet alice 31, SettleBet 7 31] demo_open \<le> 3"
proof -
  have "find_bet demo_open 31 = Some (demo_bet OPEN None None)"
    by (simp add: find_bet_def demo_open_def demo_bet_def)
  moreover have "list_all admissible [CancelBet alice 31, SettleBet 7 31, CancelBet alice 31, SettleBet 7 31]" by simp
  ultimately obtain n where "changes (exec demo_std demo_settings) (\<lambda>s. map_option bstatus (find_bet s 31))
     [CancelBet alice 31, SettleBet 7 31, CancelBet alice 31, SettleBet 7 31] demo_open + n \<le> bet_rank (bstatus (demo_bet OPEN None None))"
    using bets_come_to_rest [OF demo_books(2)] by blast
  moreover have "bet_rank (bstatus (demo_bet OPEN None None)) = 3" by (simp add: demo_bet_def bet_rank_def)
  ultimately show ?thesis by linarith
qed

text \<open>Deposits move once more at most, withdrawals twice.\<close>

lemma deposits_come_to_rest:
  assumes "books s" and "list_all admissible rs" and "find_deposit s k = Some d"
  shows "\<exists>d'. find_deposit (run std cfg rs s) k = Some d' \<and>
    changes (exec std cfg) (\<lambda>s. map_option dstatus (find_deposit s k)) rs s + deposit_rank (dstatus d') \<le> deposit_rank (dstatus d)"
  using deposit_ends.changes_rank [where ok = books and good = admissible and ex = "exec std cfg" and std = std and cfg = cfg,
      OF serves.intros exec_books, of s rs k d] assms
  by (simp add: find_deposit_def run_def)

lemma withdrawals_come_to_rest:
  assumes "books s" and "list_all admissible rs" and "find_withdrawal s k = Some w"
  shows "\<exists>w'. find_withdrawal (run std cfg rs s) k = Some w' \<and>
    changes (exec std cfg) (\<lambda>s. map_option wstatus (find_withdrawal s k)) rs s + withdrawal_rank (wstatus w') \<le>
      withdrawal_rank (wstatus w)"
  using withdrawal_ends.changes_rank [where ok = books and good = admissible and ex = "exec std cfg" and std = std and cfg = cfg,
      OF serves.intros exec_books, of s rs k w] assms
  by (simp add: find_withdrawal_def run_def)

end
