(* ===== verification/Clients.thy ===== *)
theory Clients
  imports Provider_Properties Startup_Properties
begin

text \<open>
  The provider clients as the settings configure them: the HTTP client each opens (\<open>transport\<close> sends a query with it),
  the leagues it asks for by default, and the choice between the two.
\<close>

record http_client =
  base_url :: string
  client_headers :: "(string \<times> string) list"
  client_timeout :: int

definition rstrip_char :: "char \<Rightarrow> string \<Rightarrow> string" where
  "rstrip_char c t = rev (dropWhile (\<lambda>x. x = c) (rev t))"

definition api_football_client :: "settings \<Rightarrow> http_client" where
  "api_football_client cfg = \<lparr>base_url = rstrip_char (CHR ''/'') (sports_provider_base_url cfg),
     client_headers = [(''x-apisports-key'', sports_provider_api_key cfg), (''Accept'', ''application/json'')],
     client_timeout = sports_provider_timeout_seconds cfg\<rparr>"

definition football_data_org_client :: "settings \<Rightarrow> http_client" where
  "football_data_org_client cfg = \<lparr>base_url = ''https://api.football-data.org/v4'',
     client_headers = [(''X-Auth-Token'', sports_provider_api_key cfg), (''Accept'', ''application/json'')],
     client_timeout = sports_provider_timeout_seconds cfg\<rparr>"

text \<open>\<open>None\<close>: the league ids of the settings do not parse.\<close>

definition configured_provider ::
  "loaders \<Rightarrow> calendar \<Rightarrow> py_text \<Rightarrow> (int list \<Rightarrow> int list) \<Rightarrow> (http_client \<Rightarrow> query \<Rightarrow> http_reply) \<Rightarrow>
   (http_client \<Rightarrow> int \<Rightarrow> query \<Rightarrow> http_reply) \<Rightarrow> int \<Rightarrow> settings \<Rightarrow> provider option" where
  "configured_provider ld cal py set_order transport fd_transport today cfg =
     (case sports_provider_league_ids ld cfg of
        None \<Rightarrow> None
      | Some ids \<Rightarrow> Some
         (if sports_provider cfg = ''football_data_org''
          then football_data_org_provider set_order cal py (fd_transport (football_data_org_client cfg)) ids today
          else api_football_provider cal py (transport (api_football_client cfg)) ids today))"

lemma base_url_slash: "api_football_client (cfg\<lparr>sports_provider_base_url := u @ ''/''\<rparr>) = api_football_client (cfg\<lparr>sports_provider_base_url := u\<rparr>)"
  by (simp add: api_football_client_def rstrip_char_def)

text \<open>The league ids the class declares. With them a live synchronisation through API-Football changes nothing, whatever
  is on the wire; and the competitions of Football-Data.org are asked for by these ids, not by its own.\<close>

lemma default_league_ids:
  assumes "\<forall>k \<in> set [39, 140, 78, 135, 61, 2]. int_of_text ld (int_text k) = Some k"
    and "league_ids_raw cfg = league_ids_raw default_settings"
  shows "sports_provider_league_ids ld cfg = Some [39, 140, 78, 135, 61, 2]"
proof (rule league_ids_round_trip [OF _ assms(1)])
  have "join_with '','' (map int_text [39, 140, 78, 135, 61, 2]) = ''39,140,78,135,61,2''" by code_simp
  then show "league_ids_raw cfg = join_with '','' (map int_text [39, 140, 78, 135, 61, 2])"
    by (simp add: assms(2) default_settings_def)
qed

lemma default_live_sync_idle:
  assumes "\<forall>k \<in> set [39, 140, 78, 135, 61, 2]. int_of_text ld (int_text k) = Some k"
  shows "\<exists>pr. configured_provider ld cal py set_order transport fd_transport today default_settings = Some pr \<and>
    snd (sync_request pr clock now (Live None) s) = s"
proof -
  let ?pr = "api_football_provider cal py (transport (api_football_client default_settings)) [39, 140, 78, 135, 61, 2] today"
  have "configured_provider ld cal py set_order transport fd_transport today default_settings = Some ?pr"
    using default_league_ids [OF assms refl] by (simp add: configured_provider_def) (simp add: default_settings_def)
  moreover have "snd (sync_request ?pr clock now (Live None) s) = s"
    using live_sync_finds_nothing [of None "[39, 140, 78, 135, 61, 2]"] by (simp add: ids_or_default_def)
  ultimately show ?thesis by blast
qed

lemma foreign_competitions:
  assumes "\<forall>k \<in> set [39, 140, 78, 135, 61, 2]. int_of_text ld (int_text k) = Some k"
  shows "configured_provider ld cal py set_order transport fd_transport today
      (default_settings\<lparr>sports_provider := ''football_data_org''\<rparr>) =
    Some (football_data_org_provider set_order cal py
      (fd_transport (football_data_org_client default_settings)) [39, 140, 78, 135, 61, 2] today)"
proof -
  have "sports_provider_league_ids ld (default_settings\<lparr>sports_provider := ''football_data_org''\<rparr>) = Some [39, 140, 78, 135, 61, 2]"
    using assms by (rule default_league_ids) simp
  then show ?thesis by (simp add: configured_provider_def football_data_org_client_def)
qed

end
