(* ===== verification/Spec2Isabelle.thy ===== *)
theory Spec2Isabelle
  imports Wallet_Properties Bet_Properties Payfast_Properties Auth_Properties Provider_Properties Consistency
    Startup_Properties Endpoint_Properties Secrecy Application Migration_Properties Progress Clients
begin

text \<open>
  Buddy Bet is a peer-to-peer football betting service (FastAPI, SQLAlchemy, PostgreSQL). A user deposits money,
  offers a bet on a match, another user accepts it with a different prediction, an administrator confirms the
  result and the stakes are settled: a winner takes the pool less a fee. Every movement of a wallet
  is written to an append-only ledger. This development models the services of \<^verbatim>\<open>app/\<close> as functions on the
  rows of the database and proves that they keep the money, the audit trails and the lifecycles right,
  what each of them does exactly, and where the code departs from what it means to do.

  Parts and how they interact. An endpoint opens a database session, resolves the user from the bearer token
  and calls one service; the session commits when the service returns and rolls back when it raises
  (\<^verbatim>\<open>app/core/dependencies.py\<close>); with the pinned FastAPI the commit comes after the response. Services call the wallet service for balances, which calls the ledger
  service for the entries, and all of them go through the repositories.

  \<^item> \<open>Prelude\<close>: the transaction monad \<open>dbtx\<close> (state in, \<open>Inl\<close> error or \<open>Inr\<close> result and state out),
    \<open>transact\<close> (commit or roll back), tables as lists of rows, and the library's contracts: \<open>tx_rel\<close>
    (a relation every step of a handler keeps), \<open>row_store\<close> (get and update of a keyed table) and
    \<open>lifecycle\<close> (a status that moves along edges). The collections \<open>tx_inv\<close> and \<open>tx_run\<close> hold what a
    successful step says and how a step runs.
  \<^item> \<open>Decimals\<close> (\<^verbatim>\<open>utils/decimal_utils.py\<close>), \<open>Texts\<close> (the string methods the code calls).
  \<^item> \<open>Models\<close> (\<^verbatim>\<open>models/*.py\<close>, \<^verbatim>\<open>core/exceptions.py\<close>): enumerations, one record per table, the state \<open>db\<close> and
    the \<open>CHECK\<close> constraints of \<^verbatim>\<open>schema.sql\<close> a flush can violate (\<open>enforce_checks\<close> says whether
    the database has them: PostgreSQL does, a database created from the ORM metadata does not). The limits of the columns of a
    match (lengths, 32-bit integers) hold on every database.
  \<^item> \<open>Repositories\<close> (\<^verbatim>\<open>repositories/*.py\<close>, \<^verbatim>\<open>utils/pagination.py\<close>): queries, inserts, updates, row locks and pages.
  \<^item> \<open>Ledger\<close> (\<^verbatim>\<open>services/ledger_service.py\<close>) and \<open>Wallets\<close> (\<^verbatim>\<open>services/wallet_service.py\<close>): the entries and the
    balance operations. The locale \<open>wallet_mover\<close> is the contract of an operation: on success the balances change
    by a given amount, the ledger by entries of the same net effect, nothing else; nine operations interpret it.
  \<^item> \<open>Bets\<close> (\<^verbatim>\<open>services/bet_service.py\<close>), \<open>Settlement\<close> (\<^verbatim>\<open>services/settlement_service.py\<close>), \<open>Match_Settlement\<close>
    (\<^verbatim>\<open>services/match_settlement_service.py\<close>, \<^verbatim>\<open>services/admin_service.py\<close>): creating, accepting, cancelling,
    settling and voiding bets, confirming results.
  \<^item> \<open>Funding\<close> (\<^verbatim>\<open>services/deposit_service.py\<close>, \<^verbatim>\<open>services/withdrawal_service.py\<close>), \<open>PayFast\<close> (\<^verbatim>\<open>payments/payfast.py\<close>)
    and \<open>Webhooks\<close> (\<^verbatim>\<open>api/v1/endpoints/webhooks.py\<close>): money in and out, signatures, payment notifications.
  \<^item> \<open>Auth\<close> (\<^verbatim>\<open>core/security.py\<close>, \<^verbatim>\<open>services/auth_service.py\<close>, \<^verbatim>\<open>core/dependencies.py\<close>): accounts, tokens, lockout.
  \<^item> \<open>Sync\<close> (\<^verbatim>\<open>integrations/sync_service.py\<close>, \<^verbatim>\<open>status_mapper.py\<close>), \<open>Providers\<close> (\<^verbatim>\<open>integrations/providers/*.py\<close>)
    and \<open>Match_Listing\<close> (\<^verbatim>\<open>services/match_service.py\<close>, \<^verbatim>\<open>schemas/match.py\<close>): matches.
  \<^item> \<open>Json\<close> (JSON values), \<open>Config\<close> (\<^verbatim>\<open>core/config.py\<close>, \<^verbatim>\<open>db/session.py\<close>, \<^verbatim>\<open>alembic/env.py\<close>: lists in the
    environment, start-up guards, database addresses, the engine of the application and that of the migrations), \<open>Seed\<close>
    (\<^verbatim>\<open>db/seed.py\<close> and the lifespan of \<^verbatim>\<open>main.py\<close>).
  \<^item> \<open>Schemas\<close> (\<^verbatim>\<open>schemas/*.py\<close>): a request class is a function from the JSON body to the fields a service is called
    with, \<open>None\<close> for a validation error; a response class is a record where it differs from the row. \<open>Endpoints\<close>
    (\<^verbatim>\<open>api/v1/endpoints/*.py\<close>, \<^verbatim>\<open>api/v1/router.py\<close>, the exception handlers of \<^verbatim>\<open>main.py\<close>): one definition per path operation,
    put together by \<open>handle\<close> (a route, the caller's credentials and the database to a response and the database) and
    \<open>serve\<close> (with the login, which also has the attempts tracker). \<open>env\<close> holds what a call reads besides.
  \<^item> \<open>Application\<close> (\<open>create_app\<close> and the middleware of \<^verbatim>\<open>main.py\<close>, \<^verbatim>\<open>scripts/*.py\<close>): the options of the application, response
    headers, the synchronisation and the seed from the command line.
  \<^item> \<open>Clients\<close>: the HTTP clients and default leagues of the providers as the settings configure them.
  \<^item> \<open>Migrations\<close> (\<^verbatim>\<open>alembic/versions/*.py\<close>): a catalogue of types, tables and indexes, the statements on it with what
    PostgreSQL refuses, the three scripts up and down. \<open>Schema\<close>: the catalogue of \<^verbatim>\<open>schema.sql\<close>, the columns the classes of
    \<^verbatim>\<open>models/*.py\<close> declare and the values of the enumerations. \<open>Migration_Properties\<close> shows that accepted statements that add keep
    a catalogue consistent, that each downgrade undoes its upgrade, and that no upgrade passes the second script.

  What the lemmas show. Each service has a step lemma (\<open>create_bet_step\<close>, \<open>settle_bet_settles\<close>, ...) that says what a
  successful run has done to every table. \<open>Books\<close> builds on them the invariant \<open>books\<close>: locked balances are the
  stakes and holds outstanding, the ledger replays every balance, money is conserved, platform accounts hold
  the fees collected, rows are well formed; every service keeps it. \<open>System\<close> runs sequences of requests (\<open>exec\<close>, \<open>run\<close>)
  and shows the lifecycles by interpreting \<open>lifecycle\<close> for bets, deposits, withdrawals and results over the transition relation
  \<open>serves\<close>; \<open>Progress\<close> extends the contract
  by a measure the edges decrease (\<open>measured_lifecycle\<close>), so every bet, deposit and withdrawal comes to rest. \<open>Safety\<close> holds what needs no assumption on the state or the amounts.
  \<open>Consistency\<close> shows that the services by themselves, whether or not the CHECK constraints are there, keep what the columns of bets
  and matches say about each other. \<open>Endpoint_Properties\<close> shows that a call of the API is one of the
  requests of \<open>System\<close>, made with the rights of its caller, so what holds of sequences of requests holds of sequences of calls;
  \<open>Secrecy\<close> shows that the answers do not depend on password hashes. \<open>Scenario\<close> is a concrete system
  the theorems are applied to. The properties stand in this theory and in the \<open>_Properties\<close> theories
  (\<open>Settlement_Progress\<close>, \<open>Consistency\<close>, \<open>Progress\<close> and \<open>Secrecy\<close> included), each after a text that names it.

  Correspondence and bounds.
  \<^item> A table is a list of rows; a keyed table keeps its keys distinct (the unique constraints the code relies on fail the
    flush). Ids are natural numbers, compared as PostgreSQL and Python compare UUIDs, in one order. Ids that the
    database or \<open>uuid4\<close> chooses, clocks, and random salts are arguments of the operation.
  \<^item> Decimals are rationals; \<open>round_half_up\<close> is \<open>quantize\<close> to the cent with ties away from zero. A \<open>NUMERIC(15, 2)\<close>
    column rounds what is written and refuses what does not fit (\<open>store_money\<close>). The 28 digits of the decimal context are not modelled.
  \<^item> \<open>admissible\<close> restricts requests to amounts that are not half way between two cents (and a stake that does
    not round to zero): for the others the code creates a cent, as \<open>half_cent_creates_money\<close> shows.
  \<^item> Loops run over lists and are structural recursions, or recursions on a shorter text or a smaller number, so every operation is a
    total function. The one bound is in \<open>Migrations\<close>:
    the chain of revisions is followed for as many steps as there are scripts, each of which occurs once in it.
  \<^item> One request runs at a time. Where the code reads a row without a lock, the operation is split after the read
    (\<open>cancel_with\<close>, \<open>complete_with\<close>), so a stale read can be stated: \<open>cancel_after_stale_read\<close> and \<open>deposit_double_credit\<close>;
    \<open>concurrent_guesses\<close> does it for the login. Row locks are recorded in
    the order they are taken (\<open>row_locks\<close>), for C35.
  \<^item> Whether the database library creates the type of an enumeration column when it creates a table is an argument of the migrations
    (\<open>emits\<close>); \<open>sa.Enum\<close> documents no option to prevent it, so the second script is refused (C37).
  \<^item> A flush the database refuses leaves the session unusable until it is rolled back: \<open>Sync\<close> models it, since
    the synchronisation catches the exception and goes on. Names of a fixture are passed on to the flush whatever their JSON type, which
    refuses what is no string, null or too long.
  \<^item> The order in which a query comes across rows that its ORDER BY does not separate, and the case folding of \<open>ILIKE\<close>, are
    arguments of the match listing (\<open>query_plan\<close>), another one for each page. The other listings are sorted by the time a row was
    inserted; rows of one instant come in the order they were inserted.
  \<^item> What is not in the repository is an argument: MD5 and the parsers of the standard library (\<open>stdlib\<close>), bcrypt and
    the JWT library (\<open>auth_lib\<close>), the HTTP client and the calendar (\<open>Providers\<close>). What a property needs of them is a named
    hypothesis, and its witness has a concrete instance.

  Not modelled. What the CORS middleware does with its options; how slowapi counts (its verdict is an argument); what Pydantic itself does to a UUID, an integer or an e-mail address
  (the fields of \<open>pydantic\<close>); the texts of messages and log entries, \<open>updated_at\<close> and, but for bets,
  \<open>created_at\<close> in the rows (some responses show them) and columns no code reads; the lengths of string columns other than those of a match (\<open>Schema\<close> has
  them as types); final scores of a fixture that are neither integers nor null; triggers, CHECK constraints and partial indexes in
  the catalogue (the CHECK constraints are in \<open>Models\<close>); concurrent requests, except for the operations
  split above; the frontend. An em
  dash in a note is written as two hyphens.
\<close>

section \<open>Money\<close>

text \<open>C1: no request creates or destroys money. From an empty system, after any sequence of requests with
  admissible amounts, what the users and the platform hold is what was deposited less what was paid out.\<close>

theorem money_conserved:
  assumes "fresh_system s0" and "list_all admissible rs"
  shows "total_money (wallets (run std cfg rs s0)) + platform_total (platform_accounts (run std cfg rs s0)) =
    deposited (deposits (run std cfg rs s0)) - withdrawn (withdrawals (run std cfg rs s0))"
  using booksD(9) [OF run_books [OF fresh_system_books [OF assms(1)] assms(2)]]
  by (simp add: conserved_def)

theorem money_conserved_witness:
  "let s = run demo_std demo_settings demo_requests demo_db in
     total_money (wallets s) + platform_total (platform_accounts s) =
     deposited (deposits s) - withdrawn (withdrawals s)"
  using money_conserved [OF demo_fresh demo_admissible] by (simp add: Let_def)

text \<open>C2: a user's locked balance is exactly the stakes of their unsettled bets and their pending withdrawals.\<close>

theorem locked_balance_explained:
  assumes "fresh_system s0" and "list_all admissible rs"
  shows "balance_in (wallets (run std cfg rs s0)) u locked =
    stakes u (bets (run std cfg rs s0)) + withdrawal_holds u (withdrawals (run std cfg rs s0))"
  using booksD(7) [OF run_books [OF fresh_system_books [OF assms(1)] assms(2)]]
  by (simp add: locked_explained_def)

theorem locked_balance_explained_witness:
  "let s = run demo_std demo_settings demo_requests demo_db in
     balance_in (wallets s) 1 locked = stakes 1 (bets s) + withdrawal_holds 1 (withdrawals s)"
  using locked_balance_explained [OF demo_fresh demo_admissible] by (simp add: Let_def)

text \<open>C3: replaying the ledger gives every balance, the credits less the debits of a user and a field, along every sequence of
  requests from a fresh system whose amounts are admissible: none half way between two cents, and no stake that rounds to nothing.
  (A stake of 10.005 takes 10.00 from the balance and posts 10.01.)\<close>

theorem ledger_replays_balances:
  assumes "fresh_system s0" and "list_all admissible rs"
  shows "net (ledger (run std cfg rs s0)) u f = balance_in (wallets (run std cfg rs s0)) u f"
  using booksD(8) [OF run_books [OF fresh_system_books [OF assms(1)] assms(2)]]
  by (simp add: ledger_explains_def)

theorem ledger_replays_balances_witness:
  "let s = run demo_std demo_settings demo_requests demo_db in
     net (ledger s) 2 available = balance_in (wallets s) 2 available"
  using ledger_replays_balances [OF demo_fresh demo_admissible] by (simp add: Let_def)

text \<open>C7: no balance ever becomes negative, in any state the schema allows, whatever the requests and however
  precise their amounts.\<close>

theorem balances_never_negative:
  assumes "no_debt s"
  shows "0 \<le> balance_in (wallets (run std cfg rs s)) u f"
proof -
  have "no_debt (run std cfg rs s)" using run_safe assms by (simp add: safe_def)
  then show ?thesis
    by (cases f) (auto simp: no_debt_def balance_in_def field_of_def wallet_row_ok_def
        dest!: row_get_SomeD split: option.splits)
qed

theorem balances_never_negative_witness:
  "no_debt demo_funded \<and>
   0 \<le> balance_in (wallets (run demo_std demo_settings [CreateBet 1 31 alice 7 home_win (10005 / 1000)]
         demo_funded)) 1 available"
proof -
  have d: "no_debt demo_funded"
    by (simp add: no_debt_def demo_funded_def demo_wallet_def wallet_row_ok_def)
  show ?thesis using d balances_never_negative [OF d] by blast
qed

text \<open>C8: the three audit trails only grow: no request changes or removes an entry of the ledger, of the
  platform's ledger or of the bets' event log.\<close>

theorem audit_trails_append_only:
  "prefix (ledger s) (ledger (run std cfg rs s)) \<and>
   prefix (platform_ledger s) (platform_ledger (run std cfg rs s)) \<and>
   prefix (bet_events s) (bet_events (run std cfg rs s))"
  using run_safe [of s std cfg rs] by (simp add: safe_def)

text \<open>Each platform account holds the sum of the fees its ledger records.\<close>

theorem platform_balance_explained:
  assumes "fresh_system s0" and "list_all admissible rs"
    and "row_get pa_currency cur (platform_accounts (run std cfg rs s0)) = Some a"
  shows "pa_balance a = fees_of (pa_id a) (platform_ledger (run std cfg rs s0))"
  using booksD(10) [OF run_books [OF fresh_system_books [OF assms(1)] assms(2)]] row_get_SomeD [OF assms(3)]
  by (auto simp: platform_explained_def)

theorem platform_balance_explained_witness:
  "\<exists>a. row_get pa_currency ''ZAR'' (platform_accounts (run demo_std demo_settings [] demo_db)) = Some a \<and>
     pa_balance a = fees_of (pa_id a) (platform_ledger (run demo_std demo_settings [] demo_db))"
proof -
  obtain a where a: "row_get pa_currency ''ZAR'' (platform_accounts (run demo_std demo_settings [] demo_db)) = Some a"
    by (simp add: run_def demo_db_def)
  show ?thesis using a platform_balance_explained [OF demo_fresh _ a] by simp
qed

section \<open>Lifecycles\<close>

text \<open>C10: a bet never disappears, its status only moves along the edges of the lifecycle
  (open, matched, pending settlement, settled; cancelled from open; voided from open or matched),
  and a settled, cancelled or voided bet stays as it is for ever.\<close>

theorem bet_lifecycle:
  assumes "books s" and "list_all admissible rs" and "find_bet s k = Some b"
  shows "\<exists>b'. find_bet (run std cfg rs s) k = Some b' \<and> bet_edge\<^sup>*\<^sup>* (bstatus b) (bstatus b') \<and>
    (bstatus b \<in> {SETTLED, CANCELLED, VOIDED} \<longrightarrow> bstatus b' = bstatus b)"
proof -
  note st = run_serves [OF assms(1,2), where std = std and cfg = cfg]
  obtain b' where b': "find_bet (run std cfg rs s) k = Some b'" "bet_edge\<^sup>*\<^sup>* (bstatus b) (bstatus b')"
    using bet_life.status_path [OF st] assms(3) by (auto simp: rows_follow_def find_bet_def)
  moreover have "bstatus b' = bstatus b" if "bstatus b \<in> {SETTLED, CANCELLED, VOIDED}"
    using bet_life.final_status [OF st] assms(3) b'(1) that by (fastforce simp: find_bet_def bet_edge_def)
  ultimately show ?thesis by blast
qed

theorem bet_lifecycle_witness:
  "\<exists>b'. find_bet (run demo_std demo_settings [CancelBet alice 31] demo_open) 31 = Some b' \<and>
     bet_edge\<^sup>*\<^sup>* OPEN (bstatus b')"
proof -
  have "find_bet demo_open 31 = Some (demo_bet OPEN None None)"
    by (simp add: find_bet_def demo_open_def demo_bet_def)
  from bet_lifecycle [OF demo_books(2) _ this, of "[CancelBet alice 31]" demo_std demo_settings]
  show ?thesis by (auto simp: demo_bet_def)
qed

text \<open>A deposit leaves \<open>pending\<close> or \<open>processing\<close> once, to \<open>completed\<close> or \<open>failed\<close>, and stays there.\<close>

theorem deposit_lifecycle:
  assumes "books s" and "list_all admissible rs" and "find_deposit s k = Some d"
  shows "\<exists>d'. find_deposit (run std cfg rs s) k = Some d' \<and> deposit_edge\<^sup>*\<^sup>* (dstatus d) (dstatus d') \<and>
    (deposit_terminal (dstatus d) \<longrightarrow> dstatus d' = dstatus d)"
proof -
  note st = run_serves [OF assms(1,2), where std = std and cfg = cfg]
  obtain d' where d': "find_deposit (run std cfg rs s) k = Some d'" "deposit_edge\<^sup>*\<^sup>* (dstatus d) (dstatus d')"
    using deposit_life.status_path [OF st] assms(3) by (auto simp: rows_follow_def find_deposit_def)
  moreover have "dstatus d' = dstatus d" if "deposit_terminal (dstatus d)"
    using deposit_life.final_status [OF st] assms(3) d'(1) that
    by (fastforce simp: find_deposit_def deposit_edge_def deposit_terminal_def)
  ultimately show ?thesis by blast
qed

theorem deposit_lifecycle_witness:
  "\<exists>d'. find_deposit (run demo_std demo_settings [FailDeposit 9 21 None] demo_funded) 21 = Some d' \<and>
     dstatus d' = DS_completed"
proof -
  have "find_deposit demo_funded 21 = Some (demo_deposit 21 1 100 DS_completed)"
    by (simp add: find_deposit_def demo_funded_def demo_deposit_def)
  from deposit_lifecycle [OF demo_books(1) _ this, of "[FailDeposit 9 21 None]" demo_std demo_settings]
  show ?thesis by (auto simp: demo_deposit_def deposit_terminal_def)
qed

text \<open>C11: a withdrawal moves from \<open>pending\<close> to \<open>approved\<close> and to one of \<open>completed\<close>, \<open>rejected\<close> and
  \<open>failed\<close>, along the edges of its lifecycle only, and a terminal withdrawal stays as it is.\<close>

theorem withdrawal_lifecycle:
  assumes "books s" and "list_all admissible rs" and "find_withdrawal s k = Some w"
  shows "\<exists>w'. find_withdrawal (run std cfg rs s) k = Some w' \<and> withdrawal_edge\<^sup>*\<^sup>* (wstatus w) (wstatus w') \<and>
    (withdrawal_terminal (wstatus w) \<longrightarrow> wstatus w' = wstatus w)"
proof -
  note st = run_serves [OF assms(1,2), where std = std and cfg = cfg]
  obtain w' where w': "find_withdrawal (run std cfg rs s) k = Some w'" "withdrawal_edge\<^sup>*\<^sup>* (wstatus w) (wstatus w')"
    using withdrawal_life.status_path [OF st] assms(3) by (auto simp: rows_follow_def find_withdrawal_def)
  moreover have "wstatus w' = wstatus w" if "withdrawal_terminal (wstatus w)"
    using withdrawal_life.final_status [OF st] assms(3) w'(1) that
    by (fastforce simp: find_withdrawal_def withdrawal_edge_def withdrawal_terminal_def)
  ultimately show ?thesis by blast
qed

theorem withdrawal_lifecycle_witness:
  "\<exists>w'. find_withdrawal (run demo_std demo_settings [CompleteWithdrawal 9 41] (demo_held WS_pending)) 41 = Some w' \<and>
     withdrawal_edge\<^sup>*\<^sup>* WS_pending (wstatus w')"
proof -
  have "find_withdrawal (demo_held WS_pending) 41 = Some (demo_withdrawal WS_pending)"
    by (simp add: find_withdrawal_def demo_held_def demo_withdrawal_def)
  from withdrawal_lifecycle [OF demo_books(5) _ this, of "[CompleteWithdrawal 9 41]" demo_std demo_settings]
  show ?thesis by (auto simp: demo_withdrawal_def)
qed

end
